(* ===== verification/Mcs_Prelude.thy ===== *)
theory Mcs_Prelude
  imports Main "HOL-Library.Word"
begin

text \<open>
  Shared material of the development: the fixed-width integer types of the C sources, the
  \<open>errno\<close> numbers they return, bounds-checked reads and writes of a byte region
  (\<open>memcpy\<close>), C strings in fixed-size buffers (\<open>strlcpy\<close>, \<open>strncmp\<close>), page
  alignment on machine words, and the interface every FIFO of the program promises
  (locale \<open>fifo_lts\<close>).
\<close>

unbundle bit_operations_syntax

named_theorems mem_simps \<open>bounds-checked memory accesses inside the region\<close>
named_theorems align_simps \<open>page alignment on words, read as natural numbers\<close>


section \<open>Types and error numbers\<close>

type_synonym u8 = "8 word"
type_synonym u16 = "16 word"
type_synonym u32 = "32 word"
type_synonym u64 = "64 word"

text \<open>A C \<open>int\<close> result is an \<open>int\<close>; the negated error numbers are written out.\<close>

abbreviation EPERM :: int where "EPERM \<equiv> 1"
abbreviation ENXIO :: int where "ENXIO \<equiv> 6"
abbreviation EAGAIN :: int where "EAGAIN \<equiv> 11"
abbreviation ENOMEM :: int where "ENOMEM \<equiv> 12"
abbreviation EFAULT :: int where "EFAULT \<equiv> 14"
abbreviation EBUSY :: int where "EBUSY \<equiv> 16"
abbreviation ENODEV :: int where "ENODEV \<equiv> 19"
abbreviation EINVAL :: int where "EINVAL \<equiv> 22"
abbreviation ENOSPC :: int where "ENOSPC \<equiv> 28"

text \<open>
  What a routine that touches raw memory or loops on another processor's progress does: it
  returns, it accesses memory outside its region (undefined behaviour in C), or it is still
  looping when the schedule it was given ends.
\<close>

datatype 'a outcome = Ret 'a | Fault | Spinning


lemma unat_of_nat_small: "n < 2 ^ LENGTH('a) \<Longrightarrow> unat (of_nat n :: 'a::len word) = n"
  by (simp add: unsigned_of_nat take_bit_nat_eq_self)

lemma sint_u32_small: "unat (w :: u32) < 2 ^ 31 \<Longrightarrow> sint w = int (unat w)"
proof -
  assume a: "unat w < 2 ^ 31"
  then have "int (unat w) < int (2 ^ 31)" by (simp only: of_nat_less_iff)
  then have "uint w < 2 ^ 31" by simp
  then have "signed_take_bit 31 (uint w) = uint w" 
    using uint_ge_0 [of w] by (intro signed_take_bit_int_eq_self) linarith+
  then show ?thesis by (simp add: sint_uint)
qed

lemma unat_of_int_u32: "0 \<le> i \<Longrightarrow> i < 2 ^ 32 \<Longrightarrow> unat (word_of_int i :: u32) = nat i"
  by (simp add: unsigned_of_int take_bit_int_eq_self)

lemma unat_u32_lt: "unat (w :: u32) < 2 ^ 32"
  using unsigned_less [of w] by simp


section \<open>Positions on a ring\<close>

lemma mod_add_inj_le:
  assumes "i \<le> j" "j < m" "(a + i) mod m = (a + j) mod (m :: nat)"
  shows "i = j"
proof -
  have "m dvd (a + j) - (a + i)"
    using assms(1,3) by (metis add_le_cancel_left mod_eq_dvd_iff_nat)
  then have "m dvd j - i" by simp
  then show ?thesis using assms(1,2)
    by (metis diff_is_0_eq dvd_imp_le less_imp_diff_less not_gr_zero not_le order_antisym)
qed

lemma mod_add_inj:
  "i < m \<Longrightarrow> j < m \<Longrightarrow> (a + i) mod m = (a + j) mod (m :: nat) \<Longrightarrow> i = j"
  using mod_add_inj_le [of i j m a] mod_add_inj_le [of j i m a] by (metis nat_le_linear)

lemma mod_shift: "(a + u) mod m = b mod m \<Longrightarrow> (a + (u + j)) mod m = (b + j) mod (m :: nat)"
  using mod_add_cong [of "a + u" m b j j] by (simp add: add.assoc)

lemma mod_wrap_add:
  assumes "off < m" "j < (m :: nat)"
  shows "(off + j) mod m = (if off + j < m then off + j else off + j - m)"
proof -
  have "off + j < 2 * m" using assms by simp
  then show ?thesis by (simp add: mod_if)
qed


section \<open>Bounds-checked memory\<close>

definition mem_write :: "'a list \<Rightarrow> nat \<Rightarrow> 'a list \<Rightarrow> 'a list option" where
  "mem_write m off bs =
     (if off + length bs \<le> length m
      then Some (take off m @ bs @ drop (off + length bs) m) else None)"

definition mem_read :: "'a list \<Rightarrow> nat \<Rightarrow> nat \<Rightarrow> 'a list option" where
  "mem_read m off n = (if off + n \<le> length m then Some (take n (drop off m)) else None)"

lemma mem_write_Some_iff [mem_simps]:
  "(\<exists>m'. mem_write m off bs = Some m') \<longleftrightarrow> off + length bs \<le> length m"
  by (simp add: mem_write_def)

lemma mem_write_length [mem_simps]: "mem_write m off bs = Some m' \<Longrightarrow> length m' = length m"
  by (auto simp: mem_write_def split: if_splits)

lemma mem_write_nth [mem_simps]:
  "mem_write m off bs = Some m' \<Longrightarrow> i < length m \<Longrightarrow>
   m' ! i = (if off \<le> i \<and> i < off + length bs then bs ! (i - off) else m ! i)"
  by (auto simp: mem_write_def nth_append min_def split: if_splits)

lemma mem_read_nth [mem_simps]:
  "mem_read m off n = Some bs \<Longrightarrow> i < n \<Longrightarrow> bs ! i = m ! (off + i)"
  by (auto simp: mem_read_def split: if_splits)

lemma mem_read_length [mem_simps]: "mem_read m off n = Some bs \<Longrightarrow> length bs = n"
  by (auto simp: mem_read_def split: if_splits)

lemma mem_read_write_same [mem_simps]:
  "mem_write m off bs = Some m' \<Longrightarrow> mem_read m' off (length bs) = Some bs"
  by (auto simp: mem_write_def mem_read_def split: if_splits)


section \<open>C strings in fixed-size buffers\<close>

text \<open>
  A character array is a list of characters. \<open>cstr\<close> is the string it holds, the
  characters before the first NUL. \<open>strlcpy_buf n src\<close> is the string that
  \<open>strlcpy(dst, src, n)\<close> leaves in \<open>dst\<close>; \<open>strncmp_eq n a b\<close> is
  \<open>strncmp(a, b, n) == 0\<close> and \<open>strcmp_eq\<close> is \<open>strcmp(a, b) == 0\<close>.
\<close>

abbreviation NUL :: char where "NUL \<equiv> CHR 0x00"

definition cstr :: "string \<Rightarrow> string" where
  "cstr buf = takeWhile (\<lambda>c. c \<noteq> NUL) buf"

definition strlcpy_buf :: "nat \<Rightarrow> string \<Rightarrow> string" where
  "strlcpy_buf n src = take (n - 1) (cstr src)"

definition strncmp_eq :: "nat \<Rightarrow> string \<Rightarrow> string \<Rightarrow> bool" where
  "strncmp_eq n a b \<longleftrightarrow> take n (cstr a) = take n (cstr b)"

definition strcmp_eq :: "string \<Rightarrow> string \<Rightarrow> bool" where
  "strcmp_eq a b \<longleftrightarrow> cstr a = cstr b"

lemma cstr_no_NUL: "NUL \<notin> set (cstr s)"
  unfolding cstr_def using set_takeWhileD by fastforce

lemma cstr_id: "NUL \<notin> set s \<Longrightarrow> cstr s = s"
  by (auto simp: cstr_def intro!: takeWhile_eq_all_conv [THEN iffD2])

lemma cstr_cstr [simp]: "cstr (cstr s) = cstr s"
  by (rule cstr_id) (rule cstr_no_NUL)

lemma cstr_strlcpy_buf [simp]: "cstr (strlcpy_buf n s) = strlcpy_buf n s"
  using cstr_no_NUL [of s] by (auto simp: strlcpy_buf_def intro!: cstr_id dest: in_set_takeD)

lemma length_strlcpy_buf: "0 < n \<Longrightarrow> length (strlcpy_buf n s) < n"
  by (auto simp: strlcpy_buf_def)

lemma strlcpy_buf_id: "length s < n \<Longrightarrow> NUL \<notin> set s \<Longrightarrow> strlcpy_buf n s = s"
  by (simp add: strlcpy_buf_def cstr_id)

lemma strlcpy_buf_idem [simp]: "strlcpy_buf n (strlcpy_buf n s) = strlcpy_buf n s"
proof -
  have "strlcpy_buf n (strlcpy_buf n s) = take (n - 1) (strlcpy_buf n s)"
    using strlcpy_buf_def [of n "strlcpy_buf n s"] by simp
  then show ?thesis by (simp add: strlcpy_buf_def)
qed


section \<open>Alignment to a power of two\<close>

text \<open>
  \<open>x & ~(p - 1)\<close> and \<open>(x + p - 1) & ~(p - 1)\<close>, as the sources align addresses and
  sizes to the page size, on 64-bit words.
\<close>

definition align_down :: "u64 \<Rightarrow> u64 \<Rightarrow> u64" where
  "align_down x p = x AND NOT (p - 1)"

definition align_up :: "u64 \<Rightarrow> u64 \<Rightarrow> u64" where
  "align_up x p = (x + p - 1) AND NOT (p - 1)"

lemma unat_align_down [align_simps]:
  "unat (align_down x (2 ^ k)) = unat x - unat x mod 2 ^ k"
proof -
  have "align_down x (2 ^ k) = x AND NOT (mask k)"
    by (simp add: align_down_def mask_eq_exp_minus_1)
  also have "\<dots> = x AND NOT (x AND mask k)"
    by (rule bit_word_eqI) (auto simp: bit_simps)
  also have "\<dots> = x - (x AND mask k)"
    by (rule disjunctive_diff_eq_and_not [symmetric]) (rule bit_word_eqI, auto simp: bit_simps)
  finally have e: "align_down x (2 ^ k) = x - (x AND mask k)" .
  have m: "unat (x AND mask k) = unat x mod 2 ^ k"
    by (simp only: unsigned_take_bit_eq flip: take_bit_eq_mask take_bit_eq_mod)
  show ?thesis unfolding e
    by (metis m mod_less_eq_dividend unat_sub word_le_nat_alt)
qed

lemma align_down_le: "unat (align_down x (2 ^ k)) \<le> unat x"
  by (simp add: align_simps)

lemma align_down_gt: "unat x < unat (align_down x (2 ^ k)) + 2 ^ k"
proof -
  have "unat x mod 2 ^ k < 2 ^ k" and "unat x mod 2 ^ k \<le> unat x" by simp_all
  then show ?thesis unfolding unat_align_down by linarith
qed

lemma align_down_dvd: "2 ^ k dvd unat (align_down x (2 ^ k))"
  by (simp add: align_simps minus_mod_eq_mult_div)

lemma align_up_eq: "align_up x p = align_down (x + p - 1) p"
  by (simp add: align_up_def align_down_def)

lemma align_up_bounds:
  assumes "k < 64" and "unat x + 2 ^ k \<le> 2 ^ 64"
  shows "unat x \<le> unat (align_up x (2 ^ k))" and "unat (align_up x (2 ^ k)) < unat x + 2 ^ k"
    and "2 ^ k dvd unat (align_up x (2 ^ k))"
proof -
  let ?y = "x + 2 ^ k - 1"
  have e: "?y = x + mask k" by (simp add: mask_eq_exp_minus_1)
  have m: "unat (mask k :: u64) = 2 ^ k - 1"
  proof -
    have "(mask k :: u64) = of_nat (2 ^ k - 1)"
      by (simp add: mask_eq_exp_minus_1 of_nat_diff)
    moreover have "unat (of_nat (2 ^ k - 1) :: u64) = 2 ^ k - 1"
      using power_strict_increasing [OF assms(1), of "2 :: nat"]
      by (intro unat_of_nat_small) simp
    ultimately show ?thesis by (simp only:)
  qed
  have pos: "0 < (2 :: nat) ^ k" by simp
  have "unat (x + mask k) = (unat x + (2 ^ k - 1)) mod 2 ^ 64"
    by (simp add: unat_word_ariths m)
  also have "\<dots> = unat x + (2 ^ k - 1)"
    by (rule mod_less) (use assms(2) pos in linarith)
  finally have y: "unat ?y = unat x + 2 ^ k - 1"
    unfolding e using pos by linarith
  show "unat x \<le> unat (align_up x (2 ^ k))"
    using align_down_gt [of ?y k] y by (simp add: align_up_eq)
  show "unat (align_up x (2 ^ k)) < unat x + 2 ^ k"
    using align_down_le [of ?y k] y  by (simp add: align_up_eq le_less_trans)
  show "2 ^ k dvd unat (align_up x (2 ^ k))"
    using align_down_dvd [of k ?y] by (simp add: align_up_eq)
qed


section \<open>FIFO interfaces\<close>

text \<open>
  A FIFO is described by its atomic steps: \<open>step q xs ys q'\<close> takes the elements
  \<open>xs\<close> in and hands the elements \<open>ys\<close> out. \<open>fifo_run\<close> is a sequence of
  steps. The locale states what a provider promises of one step; its lemmas say what a
  client may conclude of any run: nothing is lost, duplicated or reordered, and no more than
  the capacity is ever in flight.
\<close>

inductive fifo_run :: "('q \<Rightarrow> 'a list \<Rightarrow> 'a list \<Rightarrow> 'q \<Rightarrow> bool) \<Rightarrow> 'q \<Rightarrow> 'a list \<Rightarrow> 'a list \<Rightarrow> 'q \<Rightarrow> bool"
  for step where
  fifo_stop: "fifo_run step q [] [] q"
| fifo_more: "step q xs ys q' \<Longrightarrow> fifo_run step q' xs' ys' q'' \<Longrightarrow>
    fifo_run step q (xs @ xs') (ys @ ys') q''"

locale fifo_lts =
  fixes ok :: "'q \<Rightarrow> bool"
    and contents :: "'q \<Rightarrow> 'a list"
    and capacity :: "'q \<Rightarrow> nat"
    and step :: "'q \<Rightarrow> 'a list \<Rightarrow> 'a list \<Rightarrow> 'q \<Rightarrow> bool"
  assumes step_ok: "ok q \<Longrightarrow> step q xs ys q' \<Longrightarrow> ok q'"
    and step_conserves: "ok q \<Longrightarrow> step q xs ys q' \<Longrightarrow> ys @ contents q' = contents q @ xs"
    and step_capacity: "ok q \<Longrightarrow> step q xs ys q' \<Longrightarrow> capacity q' = capacity q"
    and contents_bounded: "ok q \<Longrightarrow> length (contents q) \<le> capacity q"
begin

lemma run_conserves:
  "fifo_run step q xs ys q' \<Longrightarrow> ok q \<Longrightarrow>
   ok q' \<and> capacity q' = capacity q \<and> ys @ contents q' = contents q @ xs"
proof (induction rule: fifo_run.induct)
  case (fifo_stop q)
  then show ?case by simp
next
  case (fifo_more q xs ys q' xs' ys' q'')
  note s = step_ok [OF fifo_more.prems fifo_more.hyps(1)]
    step_conserves [OF fifo_more.prems fifo_more.hyps(1)]
    step_capacity [OF fifo_more.prems fifo_more.hyps(1)]
  from fifo_more.IH [OF s(1)] s(2,3) show ?case
    by (metis append.assoc)
qed

lemma run_in_order:
  assumes "fifo_run step q xs ys q'" and "ok q"
  shows "ys = take (length ys) (contents q @ xs)"
  using run_conserves [OF assms] by (metis append_eq_conv_conj)

lemma run_in_flight:
  assumes "fifo_run step q xs ys q'" and "ok q"
  shows "length (contents q) + length xs \<le> length ys + capacity q"
proof -
  from run_conserves [OF assms] have "ok q'" and c: "capacity q' = capacity q"
    and e: "ys @ contents q' = contents q @ xs" by auto
  then have "length (contents q') \<le> capacity q" using contents_bounded by metis
  moreover from e have "length ys + length (contents q') = length (contents q) + length xs"
    by (metis length_append)
  ultimately show ?thesis by linarith
qed

end

end
