(* ===== verification/Ring_Buffer.thy ===== *)
theory Ring_Buffer
  imports Mcs_Prelude "HOL-Library.Monad_Syntax"
begin

text \<open>
  The byte ring buffer between micad and the client OS
  (\<open>library/rbuf_device/ring_buffer.c\<close>), a copy of the Linux kfifo over 32-bit free
  running indices.
\<close>

section \<open>The model\<close>

record ring_buffer =
  rb_in :: u32
  rb_out :: u32
  rb_len :: u32
  rb_esize :: u32
  rb_data :: "u8 list"

definition sizeof_ring_buffer_t :: u64 where
  "sizeof_ring_buffer_t = 16"

definition ring_buffer_init :: "ring_buffer \<Rightarrow> u32 \<Rightarrow> ring_buffer" where
  "ring_buffer_init addr len = addr\<lparr>rb_in := 0, rb_out := 0, rb_len := len\<rparr>"

definition ring_buffer_pair_init ::
  "ring_buffer option \<Rightarrow> ring_buffer option \<Rightarrow> u32 \<Rightarrow> int \<times> ring_buffer option \<times> ring_buffer option" where
  "ring_buffer_pair_init rxaddr txaddr len =
     (if rxaddr = None \<or> txaddr = None \<or> (scast len :: u64) \<le> sizeof_ring_buffer_t
      then (- 1, rxaddr, txaddr)
      else let n = ucast ((scast len :: u64) - sizeof_ring_buffer_t) :: u32
        in (0, map_option (\<lambda>rb. ring_buffer_init rb n) rxaddr,
               map_option (\<lambda>rb. ring_buffer_init rb n) txaddr))"

definition kfifo_unused :: "ring_buffer \<Rightarrow> u32" where
  "kfifo_unused fifo = rb_len fifo - (rb_in fifo - rb_out fifo)"

definition kfifo_copy_in :: "ring_buffer \<Rightarrow> u8 list \<Rightarrow> u32 \<Rightarrow> u32 \<Rightarrow> ring_buffer option" where
  "kfifo_copy_in fifo src len off =
     (let sz = rb_len fifo in
      if sz = 0 then None
      else let off = off mod sz; l = min len (sz - off) in do {
        s1 \<leftarrow> mem_read src 0 (unat l);
        d1 \<leftarrow> mem_write (rb_data fifo) (unat off) s1;
        s2 \<leftarrow> mem_read src (unat l) (unat (len - l));
        d2 \<leftarrow> mem_write d1 0 s2;
        Some (fifo\<lparr>rb_data := d2\<rparr>)
      })"

definition kfifo_in :: "ring_buffer \<Rightarrow> u8 list \<Rightarrow> u32 \<Rightarrow> (ring_buffer \<times> u32) option" where
  "kfifo_in fifo buf len =
     (let l = kfifo_unused fifo; len = (if len > l then l else len) in do {
        fifo \<leftarrow> kfifo_copy_in fifo buf len (rb_in fifo);
        Some (fifo\<lparr>rb_in := rb_in fifo + len\<rparr>, len)
      })"

definition kfifo_copy_out :: "ring_buffer \<Rightarrow> u32 \<Rightarrow> u32 \<Rightarrow> u8 list option" where
  "kfifo_copy_out fifo len off =
     (let sz = rb_len fifo in
      if sz = 0 then None
      else let off = off mod sz; l = min len (sz - off) in do {
        d1 \<leftarrow> mem_read (rb_data fifo) (unat off) (unat l);
        d2 \<leftarrow> mem_read (rb_data fifo) 0 (unat (len - l));
        Some (d1 @ d2)
      })"

definition kfifo_out_peek :: "ring_buffer \<Rightarrow> u32 \<Rightarrow> (u8 list \<times> u32) option" where
  "kfifo_out_peek fifo len =
     (let l = rb_in fifo - rb_out fifo; len = (if len > l then l else len) in do {
        bs \<leftarrow> kfifo_copy_out fifo len (rb_out fifo);
        Some (bs, len)
      })"

definition kfifo_out :: "ring_buffer \<Rightarrow> u32 \<Rightarrow> (ring_buffer \<times> u8 list \<times> u32) option" where
  "kfifo_out fifo len = do {
     (bs, len) \<leftarrow> kfifo_out_peek fifo len;
     Some (fifo\<lparr>rb_out := rb_out fifo + len\<rparr>, bs, len)
   }"

definition ring_buffer_read :: "ring_buffer \<Rightarrow> u32 \<Rightarrow> (ring_buffer \<times> u8 list \<times> u32) option" where
  "ring_buffer_read fifo len = kfifo_out fifo len"

text \<open>
  \<open>ring_buffer_write\<close> spins until the other side has made room. Its schedule lists how
  many bytes the other side asks for before each iteration; the third result is what the other
  side got meanwhile.
\<close>

fun ring_buffer_write ::
  "u32 list \<Rightarrow> ring_buffer \<Rightarrow> u8 list \<Rightarrow> int \<Rightarrow> int \<Rightarrow> u8 list \<Rightarrow> (ring_buffer \<times> int \<times> u8 list) outcome" where
  "ring_buffer_write sched rb buf len cnt got =
     (if cnt < len then
        (case sched of
           [] \<Rightarrow> Spinning
         | r # sched' \<Rightarrow>
             (case ring_buffer_read rb r of
                None \<Rightarrow> Fault
              | Some (rb1, bs, _) \<Rightarrow>
                  (case kfifo_in rb1 (drop (nat cnt) buf) (word_of_int (len - cnt)) of
                     None \<Rightarrow> Fault
                   | Some (rb2, n) \<Rightarrow>
                       ring_buffer_write sched' rb2 buf len (cnt + sint n) (got @ bs))))
      else Ret (rb, cnt, got))"

declare ring_buffer_write.simps [simp del]

section \<open>Circular copies\<close>

text \<open>The two \<open>memcpy\<close> calls of a copy starting at \<open>off\<close>, as one circular access.\<close>

lemma circular_write:
  assumes "off < m" "m \<le> length d" "n \<le> m" "n \<le> length src"
  shows "\<exists>d1 d2. mem_write d off (take (min n (m - off)) src) = Some d1
    \<and> mem_write d1 0 (take (n - min n (m - off)) (drop (min n (m - off)) src)) = Some d2
    \<and> length d2 = length d
    \<and> (\<forall>j<n. d2 ! ((off + j) mod m) = src ! j)
    \<and> (\<forall>p<length d. (\<forall>j<n. p \<noteq> (off + j) mod m) \<longrightarrow> d2 ! p = d ! p)"
proof -
  define l where "l = min n (m - off)"
  have l: "l \<le> n" "off + l \<le> m" "n - l \<le> m" "n - l > 0 \<longrightarrow> off + l = m" "l \<le> length src"
    using assms by (auto simp: l_def)
  obtain d1 where d1: "mem_write d off (take l src) = Some d1"
    using l assms by (simp add: mem_write_def)
  have len1: "length d1 = length d" using mem_write_length [OF d1] .
  obtain d2 where d2: "mem_write d1 0 (take (n - l) (drop l src)) = Some d2"
    using l assms len1 by (simp add: mem_write_def)
  have len2: "length d2 = length d" using mem_write_length [OF d2] len1 by simp
  have k: "length (take l src) = l" "length (take (n - l) (drop l src)) = n - l"
    using l assms by auto
  have n1: "d1 ! p = (if off \<le> p \<and> p < off + l then src ! (p - off) else d ! p)"
    if "p < length d" for p
    using mem_write_nth [OF d1 that] k that by auto
  have n2: "d2 ! p = (if p < n - l then src ! (l + p) else d1 ! p)" if "p < length d" for p
    using mem_write_nth [OF d2] k that len1 l assms by auto
  have w: "(off + j) mod m = (if off + j < m then off + j else off + j - m)" if "j < n" for j
    using mod_wrap_add [of off m j] assms that by simp
  have "d2 ! ((off + j) mod m) = src ! j" if "j < n" for j
  proof (cases "j < l")
    case True
    then have "(off + j) mod m = off + j" using w [OF that] l by simp
    moreover have "\<not> off + j < n - l" using l True assms by (auto simp: l_def)
    ultimately show ?thesis using n1 [of "off + j"] n2 [of "off + j"] True l assms by simp
  next
    case False
    then have "off + l = m" using l that by auto
    then have "(off + j) mod m = j - l" using w [OF that] False l by auto
    moreover have "j - l < n - l" "l + (j - l) = j" "j - l < length d"
      using False that l assms by auto
    ultimately show ?thesis using n2 [of "j - l"] by simp
  qed
  moreover have "d2 ! p = d ! p" if "p < length d" and out: "\<forall>j<n. p \<noteq> (off + j) mod m" for p
  proof -
    have "\<not> p < n - l"
    proof
      assume a: "p < n - l"
      then have "off + l = m" using l by auto
      then have "(off + (l + p)) mod m = p" using w [of "l + p"] a l by auto
      then show False using out a by (metis less_diff_conv add.commute)
    qed
    moreover have "\<not> (off \<le> p \<and> p < off + l)"
    proof
      assume a: "off \<le> p \<and> p < off + l"
      then have "(off + (p - off)) mod m = p" using w [of "p - off"] l by auto
      moreover have "p - off < n" using a l by auto
      ultimately show False using out by metis
    qed
    ultimately show ?thesis using n1 [OF that(1)] n2 [OF that(1)] by auto
  qed
  ultimately show ?thesis using d1 d2 len2 unfolding l_def by blast
qed

lemma circular_read:
  assumes "off < m" "m \<le> length d" "n \<le> m"
  shows "mem_read d off (min n (m - off)) = Some (take (min n (m - off)) (drop off d))
    \<and> mem_read d 0 (n - min n (m - off)) = Some (take (n - min n (m - off)) d)
    \<and> take (min n (m - off)) (drop off d) @ take (n - min n (m - off)) d
      = map (\<lambda>j. d ! ((off + j) mod m)) [0..<n]"
proof -
  define l where "l = min n (m - off)"
  have l: "l \<le> n" "off + l \<le> m" "n - l \<le> m" "n - l > 0 \<longrightarrow> off + l = m" "off + l \<le> length d"
    using assms by (auto simp: l_def)
  have "take l (drop off d) @ take (n - l) d = map (\<lambda>j. d ! ((off + j) mod m)) [0..<n]"
  proof (rule nth_equalityI)
    show "length (take l (drop off d) @ take (n - l) d) =
      length (map (\<lambda>j. d ! ((off + j) mod m)) [0..<n])"
      using l assms by simp
  next
    fix i assume "i < length (take l (drop off d) @ take (n - l) d)"
    then have i: "i < n" using l assms by auto
    have w: "(off + i) mod m = (if off + i < m then off + i else off + i - m)"
      using mod_wrap_add [of off m i] assms i by simp
    show "(take l (drop off d) @ take (n - l) d) ! i = map (\<lambda>j. d ! ((off + j) mod m)) [0..<n] ! i"
    proof (cases "i < l")
      case True
      then show ?thesis using w l i assms by (simp add: nth_append)
    next
      case False
      then have "off + l = m" using l i by auto
      then have "(off + i) mod m = i - l" using w False l by auto
      then show ?thesis using False i l assms by (simp add: nth_append)
    qed
  qed
  then show ?thesis using l assms by (simp add: mem_read_def l_def)
qed

section \<open>Invariant and contents\<close>

definition rb_used :: "ring_buffer \<Rightarrow> nat" where
  "rb_used rb = unat (rb_in rb - rb_out rb)"

definition rb_contents :: "ring_buffer \<Rightarrow> u8 list" where
  "rb_contents rb =
     map (\<lambda>j. rb_data rb ! ((unat (rb_out rb) + j) mod unat (rb_len rb))) [0..<rb_used rb]"

definition rb_wf :: "ring_buffer \<Rightarrow> bool" where
  "rb_wf rb \<longleftrightarrow> 0 < unat (rb_len rb) \<and> unat (rb_len rb) \<le> length (rb_data rb)
     \<and> rb_used rb \<le> unat (rb_len rb)
     \<and> (unat (rb_out rb) + rb_used rb) mod unat (rb_len rb) = unat (rb_in rb) mod unat (rb_len rb)"

text \<open>
  The free running indices are reduced modulo \<open>len\<close>, which is harmless across the
  32-bit wrap-around only when \<open>len\<close> divides \<open>2 ^ 32\<close>; otherwise the next
  \<open>n\<close> bytes must not carry \<open>in\<close> past \<open>2 ^ 32\<close>.
\<close>

definition index_ok :: "ring_buffer \<Rightarrow> nat \<Rightarrow> bool" where
  "index_ok rb n \<longleftrightarrow> unat (rb_len rb) dvd 2 ^ 32
     \<or> unat (rb_out rb) \<le> unat (rb_in rb) \<and> unat (rb_in rb) + n < 2 ^ 32"

lemma length_rb_contents [simp]: "length (rb_contents rb) = rb_used rb"
  by (simp add: rb_contents_def)

lemma rb_contents_nth:
  "j < rb_used rb \<Longrightarrow>
   rb_contents rb ! j = rb_data rb ! ((unat (rb_out rb) + j) mod unat (rb_len rb))"
  by (simp add: rb_contents_def)

lemma unat_add_mod_dvd:
  assumes "m dvd 2 ^ 32 \<or> unat i + unat k < 2 ^ 32"
  shows "unat (i + k :: u32) mod m = (unat i + unat k) mod m"
  using assms by (auto simp: unat_word_ariths mod_mod_cancel)

lemma rb_unused: "rb_wf rb \<Longrightarrow> unat (kfifo_unused rb) = unat (rb_len rb) - rb_used rb"
  unfolding kfifo_unused_def rb_used_def rb_wf_def
  by (simp add: unat_sub word_le_nat_alt)

lemma rb_used_le: "rb_used rb \<le> unat (rb_in rb)" if "unat (rb_out rb) \<le> unat (rb_in rb)"
  using that unfolding rb_used_def by (simp add: unat_sub word_le_nat_alt)

lemma rb_used_diff:
  "unat (rb_out rb) \<le> unat (rb_in rb) \<Longrightarrow> rb_used rb = unat (rb_in rb) - unat (rb_out rb)"
  unfolding rb_used_def by (simp add: unat_sub word_le_nat_alt)

lemma unat_if_min: "unat (if n > l then l else (n :: 'a::len word)) = min (unat n) (unat l)"
  by (auto simp: word_less_nat_alt min_def)

lemma unat_min: "unat (min a (b :: 'a::len word)) = min (unat a) (unat b)"
  by (auto simp: min_def word_le_nat_alt)

lemma kfifo_copy_in_ok:
  assumes "rb_wf rb" "unat n \<le> unat (rb_len rb)" "unat n \<le> length src"
  shows "\<exists>d. kfifo_copy_in rb src n off = Some (rb\<lparr>rb_data := d\<rparr>)
    \<and> length d = length (rb_data rb)
    \<and> (\<forall>j<unat n. d ! ((unat off + j) mod unat (rb_len rb)) = src ! j)
    \<and> (\<forall>p<length (rb_data rb). (\<forall>j<unat n. p \<noteq> (unat off + j) mod unat (rb_len rb))
          \<longrightarrow> d ! p = rb_data rb ! p)"
proof -
  let ?m = "unat (rb_len rb)" and ?o = "unat (off mod rb_len rb)"
  let ?l = "min n (rb_len rb - off mod rb_len rb)"
  have m: "0 < ?m" "?m \<le> length (rb_data rb)" "rb_len rb \<noteq> 0"
    using assms(1) by (auto simp: rb_wf_def)
  have o: "?o = unat off mod ?m" by (simp add: unat_mod)
  then have lt: "?o < ?m" using m by simp
  then have sub: "unat (rb_len rb - off mod rb_len rb) = ?m - ?o"
    by (simp add: unat_sub word_le_nat_alt)
  have l: "unat ?l = min (unat n) (?m - ?o)" by (simp only: unat_min sub)
  have nl: "unat (n - ?l) = unat n - unat ?l" by (simp add: unat_sub)
  have p: "(?o + j) mod ?m = (unat off + j) mod ?m" for j by (simp add: o mod_add_left_eq)
  from circular_write [OF lt m(2) assms(2,3)] obtain d1 d2 where
    w: "mem_write (rb_data rb) ?o (take (unat ?l) src) = Some d1"
    "mem_write d1 0 (take (unat n - unat ?l) (drop (unat ?l) src)) = Some d2"
    and d: "length d2 = length (rb_data rb)" "\<forall>j<unat n. d2 ! ((unat off + j) mod ?m) = src ! j"
    "\<forall>p<length (rb_data rb). (\<forall>j<unat n. p \<noteq> (unat off + j) mod ?m) \<longrightarrow> d2 ! p = rb_data rb ! p"
    unfolding l p by blast
  have r: "mem_read src 0 (unat ?l) = Some (take (unat ?l) src)"
    "mem_read src (unat ?l) (unat n - unat ?l) = Some (take (unat n - unat ?l) (drop (unat ?l) src))"
    using assms(3) by (auto simp: mem_read_def l)
  have "kfifo_copy_in rb src n off = Some (rb\<lparr>rb_data := d2\<rparr>)"
    unfolding kfifo_copy_in_def Let_def nl using m(3) w r by simp
  then show ?thesis using d by blast
qed

lemma kfifo_copy_out_ok:
  assumes "rb_wf rb" "unat n \<le> unat (rb_len rb)"
  shows "kfifo_copy_out rb n off =
    Some (map (\<lambda>j. rb_data rb ! ((unat off + j) mod unat (rb_len rb))) [0..<unat n])"
proof -
  let ?m = "unat (rb_len rb)" and ?o = "unat (off mod rb_len rb)"
  let ?l = "min n (rb_len rb - off mod rb_len rb)"
  have m: "0 < ?m" "?m \<le> length (rb_data rb)" "rb_len rb \<noteq> 0"
    using assms(1) by (auto simp: rb_wf_def)
  have o: "?o = unat off mod ?m" by (simp add: unat_mod)
  then have lt: "?o < ?m" using m by simp
  then have sub: "unat (rb_len rb - off mod rb_len rb) = ?m - ?o"
    by (simp add: unat_sub word_le_nat_alt)
  have l: "unat ?l = min (unat n) (?m - ?o)" by (simp only: unat_min sub)
  have nl: "unat (n - ?l) = unat n - unat ?l" by (simp add: unat_sub)
  have p: "(?o + j) mod ?m = (unat off + j) mod ?m" for j by (simp add: o mod_add_left_eq)
  from circular_read [OF lt m(2) assms(2)] show ?thesis
    unfolding kfifo_copy_out_def Let_def nl l p using m(3) by (simp del: min.absorb1)
qed

lemma copy_in_at_in:
  assumes "rb_wf rb" "unat n \<le> unat (rb_len rb) - rb_used rb" "unat n \<le> length src"
  shows "\<exists>d. kfifo_copy_in rb src n (rb_in rb) = Some (rb\<lparr>rb_data := d\<rparr>)
    \<and> length d = length (rb_data rb)
    \<and> rb_contents (rb\<lparr>rb_data := d\<rparr>) = rb_contents rb
    \<and> map (\<lambda>j. d ! ((unat (rb_in rb) + j) mod unat (rb_len rb))) [0..<unat n] = take (unat n) src"
proof -
  let ?m = "unat (rb_len rb)"
  have m: "0 < ?m" "?m \<le> length (rb_data rb)" "rb_used rb \<le> ?m"
    and e: "(unat (rb_out rb) + rb_used rb) mod ?m = unat (rb_in rb) mod ?m"
    using assms(1) by (auto simp: rb_wf_def)
  have "unat n \<le> ?m" using assms(2) by simp
  from kfifo_copy_in_ok [OF assms(1) this assms(3), of "rb_in rb"] obtain d where
    d: "kfifo_copy_in rb src n (rb_in rb) = Some (rb\<lparr>rb_data := d\<rparr>)" "length d = length (rb_data rb)"
    "\<forall>j<unat n. d ! ((unat (rb_in rb) + j) mod ?m) = src ! j"
    "\<forall>p<length (rb_data rb). (\<forall>j<unat n. p \<noteq> (unat (rb_in rb) + j) mod ?m) \<longrightarrow> d ! p = rb_data rb ! p"
    by blast
  have "d ! ((unat (rb_out rb) + j) mod ?m) = rb_data rb ! ((unat (rb_out rb) + j) mod ?m)"
    if "j < rb_used rb" for j
  proof -
    have "(unat (rb_out rb) + j) mod ?m \<noteq> (unat (rb_in rb) + i) mod ?m" if i: "i < unat n" for i
    proof
      assume a: "(unat (rb_out rb) + j) mod ?m = (unat (rb_in rb) + i) mod ?m"
      have "(unat (rb_in rb) + i) mod ?m = (unat (rb_out rb) + (rb_used rb + i)) mod ?m"
        using mod_shift [OF e] by simp
      then have "(unat (rb_out rb) + j) mod ?m = (unat (rb_out rb) + (rb_used rb + i)) mod ?m"
        using a by (rule trans [rotated])
      moreover have "j < ?m" "rb_used rb + i < ?m" using i assms(2) m \<open>j < rb_used rb\<close> by linarith+
      ultimately have "j = rb_used rb + i"
        using mod_add_inj [of j ?m "rb_used rb + i" "unat (rb_out rb)"] by blast
      then show False using \<open>j < rb_used rb\<close> by simp
    qed
    moreover have "(unat (rb_out rb) + j) mod ?m < length (rb_data rb)"
      using m by (meson less_le_trans mod_less_divisor)
    ultimately show ?thesis using d(4) by blast
  qed
  then have "rb_contents (rb\<lparr>rb_data := d\<rparr>) = rb_contents rb"
    by (simp add: rb_contents_def rb_used_def)
  moreover have "map (\<lambda>j. d ! ((unat (rb_in rb) + j) mod ?m)) [0..<unat n] = take (unat n) src"
    using d(3) assms(3) by (intro nth_equalityI) auto
  ultimately show ?thesis using d(1,2) by blast
qed

lemma publish_in:
  assumes wf: "rb_wf rb" and k: "unat k \<le> unat (rb_len rb) - rb_used rb" and i: "index_ok rb (unat k)"
  defines "rb' \<equiv> rb\<lparr>rb_in := rb_in rb + k\<rparr>"
  shows "rb_wf rb'" and "rb_used rb' = rb_used rb + unat k"
    and "rb_contents rb' = rb_contents rb @
      map (\<lambda>j. rb_data rb ! ((unat (rb_in rb) + j) mod unat (rb_len rb))) [0..<unat k]"
proof -
  let ?m = "unat (rb_len rb)"
  have m: "0 < ?m" "?m \<le> length (rb_data rb)" "rb_used rb \<le> ?m"
    and e: "(unat (rb_out rb) + rb_used rb) mod ?m = unat (rb_in rb) mod ?m"
    using wf by (auto simp: rb_wf_def)
  have lt: "rb_used rb + unat k < 2 ^ 32"
    using k m unat_u32_lt [of "rb_len rb"] by linarith
  have "rb_used rb' = unat ((rb_in rb - rb_out rb) + k)"
    by (simp add: rb_used_def rb'_def algebra_simps)
  also have "\<dots> = rb_used rb + unat k"
    using lt by (simp add: unat_word_ariths rb_used_def)
  finally show u: "rb_used rb' = rb_used rb + unat k" .
  have n: "unat (rb_in rb + k) mod ?m = (unat (rb_in rb) + unat k) mod ?m"
    using i by (intro unat_add_mod_dvd) (auto simp: index_ok_def)
  have s: "(unat (rb_out rb) + (rb_used rb + j)) mod ?m = (unat (rb_in rb) + j) mod ?m" for j
    by (rule mod_shift [OF e])
  show "rb_wf rb'" unfolding rb_wf_def u using m k n s by (simp add: rb'_def)
  show "rb_contents rb' = rb_contents rb @
      map (\<lambda>j. rb_data rb ! ((unat (rb_in rb) + j) mod ?m)) [0..<unat k]"
  proof (rule nth_equalityI)
    fix i assume "i < length (rb_contents rb')"
    then have i: "i < rb_used rb + unat k" using u by simp
    have f: "rb_contents rb' ! i = rb_data rb ! ((unat (rb_out rb) + i) mod ?m)"
      using i u by (simp add: rb_contents_def) (simp add: rb'_def)
    show "rb_contents rb' ! i = (rb_contents rb @
      map (\<lambda>j. rb_data rb ! ((unat (rb_in rb) + j) mod ?m)) [0..<unat k]) ! i"
    proof (cases "i < rb_used rb")
      case True
      then show ?thesis unfolding f by (simp add: nth_append) (simp add: rb_contents_def)
    next
      case False
      then have "i = rb_used rb + (i - rb_used rb)" "i - rb_used rb < unat k" using i by auto
      then show ?thesis unfolding f using s [of "i - rb_used rb"] False
        by (simp add: nth_append)
    qed
  qed (simp add: u)
qed

lemma publish_out:
  assumes wf: "rb_wf rb" and k: "unat k \<le> rb_used rb" and i: "index_ok rb n"
  defines "rb' \<equiv> rb\<lparr>rb_out := rb_out rb + k\<rparr>"
  shows "rb_wf rb'" and "rb_used rb' = rb_used rb - unat k"
    and "rb_contents rb' = drop (unat k) (rb_contents rb)" and "index_ok rb' n"
proof -
  let ?m = "unat (rb_len rb)"
  have m: "0 < ?m" "?m \<le> length (rb_data rb)" "rb_used rb \<le> ?m"
    and e: "(unat (rb_out rb) + rb_used rb) mod ?m = unat (rb_in rb) mod ?m"
    using wf by (auto simp: rb_wf_def)
  have "rb_used rb' = unat ((rb_in rb - rb_out rb) - k)"
    by (simp add: rb_used_def rb'_def algebra_simps)
  also have "\<dots> = rb_used rb - unat k"
    using k by (simp add: unat_sub word_le_nat_alt rb_used_def)
  finally show u: "rb_used rb' = rb_used rb - unat k" .
  have o: "unat (rb_out rb + k) = unat (rb_out rb) + unat k"
    if "unat (rb_out rb) \<le> unat (rb_in rb)"
  proof -
    have "unat (rb_out rb) + unat k < 2 ^ 32"
      using rb_used_diff [OF that] k that unat_u32_lt [of "rb_in rb"] by linarith
    then show ?thesis by (simp add: unat_word_ariths)
  qed
  have "?m dvd 2 ^ 32 \<or> unat (rb_out rb) + unat k < 2 ^ 32"
    using i rb_used_diff [of rb] k unat_u32_lt [of "rb_in rb"] unfolding index_ok_def by linarith
  then have n: "unat (rb_out rb + k) mod ?m = (unat (rb_out rb) + unat k) mod ?m"
    by (rule unat_add_mod_dvd)
  have s: "(unat (rb_out rb + k) + j) mod ?m = (unat (rb_out rb) + (unat k + j)) mod ?m" for j
    using mod_shift [OF n [symmetric]] by simp
  show "rb_wf rb'" unfolding rb_wf_def u using m k s [of "rb_used rb - unat k"] e
    by (simp add: rb'_def)
  show "rb_contents rb' = drop (unat k) (rb_contents rb)"
  proof (rule nth_equalityI)
    fix j assume "j < length (rb_contents rb')"
    then have j: "j < rb_used rb - unat k" using u by simp
    then have "rb_contents rb' ! j = rb_data rb ! ((unat (rb_out rb + k) + j) mod ?m)"
      using u by (simp add: rb_contents_def) (simp add: rb'_def)
    also have "\<dots> = rb_contents rb ! (unat k + j)"
      using s [of j] j rb_contents_nth [of "unat k + j" rb] by simp
    also have "\<dots> = drop (unat k) (rb_contents rb) ! j"
      using k by simp
    finally show "rb_contents rb' ! j = drop (unat k) (rb_contents rb) ! j" .
  qed (simp add: u)
  show "index_ok rb' n"
  proof (cases "?m dvd 2 ^ 32")
    case False
    then have b: "unat (rb_out rb) \<le> unat (rb_in rb)" "unat (rb_in rb) + n < 2 ^ 32"
      using i by (auto simp: index_ok_def)
    then have "unat (rb_out rb + k) \<le> unat (rb_in rb)"
      using o [OF b(1)] rb_used_diff [OF b(1)] k by linarith
    then show ?thesis using b by (simp add: index_ok_def rb'_def)
  qed (simp add: index_ok_def rb'_def)
qed

section \<open>One put and one get\<close>

lemma kfifo_in_ok:
  assumes wf: "rb_wf rb" and n: "unat n \<le> length buf"
    and i: "index_ok rb (min (unat n) (unat (rb_len rb) - rb_used rb))"
  shows "\<exists>rb' k. kfifo_in rb buf n = Some (rb', k)
    \<and> unat k = min (unat n) (unat (rb_len rb) - rb_used rb)
    \<and> rb_wf rb' \<and> rb_contents rb' = rb_contents rb @ take (unat k) buf
    \<and> rb_in rb' = rb_in rb + k \<and> rb_out rb' = rb_out rb \<and> rb_len rb' = rb_len rb"
proof -
  define k where "k = (if n > kfifo_unused rb then kfifo_unused rb else n)"
  have k: "unat k = min (unat n) (unat (rb_len rb) - rb_used rb)"
    unfolding k_def by (simp only: unat_if_min rb_unused [OF wf])
  have kn: "unat k \<le> unat (rb_len rb) - rb_used rb" "unat k \<le> length buf" using k n by auto
  from copy_in_at_in [OF wf kn] obtain d where
    d: "kfifo_copy_in rb buf k (rb_in rb) = Some (rb\<lparr>rb_data := d\<rparr>)" "length d = length (rb_data rb)"
    "rb_contents (rb\<lparr>rb_data := d\<rparr>) = rb_contents rb"
    "map (\<lambda>j. d ! ((unat (rb_in rb) + j) mod unat (rb_len rb))) [0..<unat k] = take (unat k) buf"
    by blast
  let ?r = "rb\<lparr>rb_data := d\<rparr>"
  have r: "rb_wf ?r" "index_ok ?r (unat k)" "unat k \<le> unat (rb_len ?r) - rb_used ?r"
    using wf i k kn(1) d(2) by (simp_all add: rb_wf_def rb_used_def index_ok_def)
  have "kfifo_in rb buf n = Some (?r\<lparr>rb_in := rb_in ?r + k\<rparr>, k)"
    unfolding kfifo_in_def Let_def k_def [symmetric] by (simp add: d(1))
  then show ?thesis
    using publish_in [OF r(1,3,2)] k d(3,4) by auto
qed

lemma kfifo_out_ok:
  assumes wf: "rb_wf rb" and i: "index_ok rb m"
  shows "\<exists>rb' k. ring_buffer_read rb n = Some (rb', take (unat k) (rb_contents rb), k)
    \<and> unat k = min (unat n) (rb_used rb)
    \<and> rb_wf rb' \<and> rb_contents rb' = drop (unat k) (rb_contents rb)
    \<and> rb_in rb' = rb_in rb \<and> rb_len rb' = rb_len rb \<and> index_ok rb' m"
proof -
  define k where "k = (if n > rb_in rb - rb_out rb then rb_in rb - rb_out rb else n)"
  have k: "unat k = min (unat n) (rb_used rb)"
    unfolding k_def rb_used_def by (rule unat_if_min)
  then have ku: "unat k \<le> rb_used rb" "unat k \<le> unat (rb_len rb)"
    using wf by (auto simp: rb_wf_def)
  have "take (unat k) (rb_contents rb) =
    map (\<lambda>j. rb_data rb ! ((unat (rb_out rb) + j) mod unat (rb_len rb))) [0..<unat k]"
    using ku(1) by (simp add: rb_contents_def take_map)
  then have "ring_buffer_read rb n =
    Some (rb\<lparr>rb_out := rb_out rb + k\<rparr>, take (unat k) (rb_contents rb), k)"
    unfolding ring_buffer_read_def kfifo_out_def kfifo_out_peek_def Let_def k_def [symmetric]
    by (simp add: kfifo_copy_out_ok [OF wf ku(2)])
  then show ?thesis using publish_out [OF wf ku(1) i] k by auto
qed

section \<open>Sequences of operations\<close>

text \<open>
  \<open>Put\<close> is one call of \<open>__kfifo_in\<close> and \<open>Get\<close> one of \<open>ring_buffer_read\<close>.
  \<open>rb_exec\<close> runs a sequence of them and collects the bytes accepted and handed out.
\<close>

datatype rb_op = Put "u8 list" | Get u32

fun rb_exec :: "ring_buffer \<Rightarrow> rb_op list \<Rightarrow> (ring_buffer \<times> u8 list \<times> u8 list) option" where
  "rb_exec rb [] = Some (rb, [], [])"
| "rb_exec rb (Put bs # ops) = do {
     (rb1, k) \<leftarrow> kfifo_in rb bs (of_nat (length bs));
     (rb2, ins, outs) \<leftarrow> rb_exec rb1 ops;
     Some (rb2, take (unat k) bs @ ins, outs)
   }"
| "rb_exec rb (Get n # ops) = do {
     (rb1, bs, k) \<leftarrow> ring_buffer_read rb n;
     (rb2, ins, outs) \<leftarrow> rb_exec rb1 ops;
     Some (rb2, ins, bs @ outs)
   }"

fun op_bytes :: "rb_op \<Rightarrow> nat" where
  "op_bytes (Put bs) = length bs"
| "op_bytes (Get n) = 0"

text \<open>
  The steps of the FIFO interface: a ring together with the number of bytes it may still
  accept before its indices wrap (relevant only when \<open>len\<close> does not divide \<open>2 ^ 32\<close>).
\<close>

inductive rb_step :: "ring_buffer \<times> nat \<Rightarrow> u8 list \<Rightarrow> u8 list \<Rightarrow> ring_buffer \<times> nat \<Rightarrow> bool" where
  step_put: "kfifo_in rb bs (of_nat (length bs)) = Some (rb', k) \<Longrightarrow> length bs < 2 ^ 32 \<Longrightarrow>
    length bs \<le> b \<Longrightarrow> rb_step (rb, b) (take (unat k) bs) [] (rb', b - length bs)"
| step_get: "ring_buffer_read rb n = Some (rb', bs, k) \<Longrightarrow> rb_step (rb, b) [] bs (rb', b)"

definition rb_ok :: "ring_buffer \<times> nat \<Rightarrow> bool" where
  "rb_ok q \<longleftrightarrow> rb_wf (fst q) \<and> index_ok (fst q) (snd q)"

lemma index_ok_mono: "index_ok rb n \<Longrightarrow> m \<le> n \<Longrightarrow> index_ok rb m"
  by (auto simp: index_ok_def)

lemma index_ok_put:
  assumes "index_ok rb b" "unat k \<le> n" "n \<le> b"
    and "rb_in rb' = rb_in rb + k" "rb_out rb' = rb_out rb" "rb_len rb' = rb_len rb"
  shows "index_ok rb' (b - n)"
proof (cases "unat (rb_len rb) dvd 2 ^ 32")
  case False
  then have b: "unat (rb_out rb) \<le> unat (rb_in rb)" "unat (rb_in rb) + b < 2 ^ 32"
    using assms(1) by (auto simp: index_ok_def)
  then have "unat (rb_in rb) + unat k < 2 ^ 32" using assms(2,3) by linarith
  then have "unat (rb_in rb') = unat (rb_in rb) + unat k"
    by (simp add: assms(4) unat_word_ariths)
  moreover have "unat (rb_in rb) + unat k + (b - n) < 2 ^ 32" using b assms(2,3) by linarith
  ultimately show ?thesis using b assms by (simp add: index_ok_def)
qed (simp add: index_ok_def assms)

lemma put_ok:
  assumes "rb_ok (rb, b)" "length bs < 2 ^ 32" "length bs \<le> b"
  shows "\<exists>rb' k. kfifo_in rb bs (of_nat (length bs)) = Some (rb', k)
    \<and> rb_ok (rb', b - length bs) \<and> rb_contents rb' = rb_contents rb @ take (unat k) bs
    \<and> rb_len rb' = rb_len rb"
proof -
  have n: "unat (of_nat (length bs) :: u32) = length bs"
    using assms(2) by (intro unat_of_nat_small) simp
  have wf: "rb_wf rb" and i: "index_ok rb b" using assms(1) by (simp_all add: rb_ok_def)
  have "index_ok rb (min (unat (of_nat (length bs) :: u32)) (unat (rb_len rb) - rb_used rb))"
    unfolding n by (rule index_ok_mono [OF i]) (use assms(3) in simp)
  from kfifo_in_ok [of rb "of_nat (length bs)" bs, OF wf _ this] n obtain rb' k where
    r: "kfifo_in rb bs (of_nat (length bs)) = Some (rb', k)" "rb_wf rb'"
      "unat k = min (length bs) (unat (rb_len rb) - rb_used rb)"
      "rb_contents rb' = rb_contents rb @ take (unat k) bs"
      "rb_in rb' = rb_in rb + k" "rb_out rb' = rb_out rb" "rb_len rb' = rb_len rb" by fastforce
  have "index_ok rb' (b - length bs)"
    by (rule index_ok_put [OF i _ assms(3) r(5-7)]) (simp add: r(3))
  then show ?thesis using r by (auto simp: rb_ok_def)
qed

lemma get_ok:
  assumes "rb_ok (rb, b)"
  shows "\<exists>rb' bs k. ring_buffer_read rb n = Some (rb', bs, k)
    \<and> rb_ok (rb', b) \<and> bs @ rb_contents rb' = rb_contents rb \<and> rb_len rb' = rb_len rb"
  using kfifo_out_ok [of rb b n] assms by (auto simp: rb_ok_def)

lemma rb_step_law:
  assumes "rb_step q xs ys q'" "rb_ok q"
  shows "rb_ok q' \<and> ys @ rb_contents (fst q') = rb_contents (fst q) @ xs
    \<and> rb_len (fst q') = rb_len (fst q)"
  using assms
proof (cases rule: rb_step.cases)
  case (step_put rb bs rb' k b)
  then show ?thesis using put_ok [of rb b bs] assms(2) by auto
next
  case (step_get rb n rb' k b)
  then show ?thesis using get_ok [of rb b n] assms(2) by auto
qed

interpretation kf: fifo_lts rb_ok "\<lambda>q. rb_contents (fst q)" "\<lambda>q. unat (rb_len (fst q))" rb_step
proof (unfold_locales, goal_cases)
  case (4 q)
  then show ?case by (simp add: rb_ok_def rb_wf_def)
qed (use rb_step_law in \<open>simp_all\<close>)

lemma rb_exec_run:
  assumes "rb_ok (rb, b)" "\<forall>op \<in> set ops. op_bytes op < 2 ^ 32" "sum_list (map op_bytes ops) \<le> b"
  shows "\<exists>rb' ins outs b'. rb_exec rb ops = Some (rb', ins, outs)
    \<and> fifo_run rb_step (rb, b) ins outs (rb', b')"
  using assms
proof (induction ops arbitrary: rb b)
  case Nil
  then show ?case by (auto intro: fifo_stop)
next
  case (Cons op ops)
  show ?case
  proof (cases op)
    case (Put bs)
    from put_ok [of rb b bs] Cons.prems Put obtain rb1 k where
      1: "kfifo_in rb bs (of_nat (length bs)) = Some (rb1, k)" "rb_ok (rb1, b - length bs)" by auto
    have "\<forall>op \<in> set ops. op_bytes op < 2 ^ 32" "sum_list (map op_bytes ops) \<le> b - length bs"
      using Cons.prems Put by auto
    from Cons.IH [OF 1(2) this] obtain rb' ins outs b' where
      2: "rb_exec rb1 ops = Some (rb', ins, outs)" "fifo_run rb_step (rb1, b - length bs) ins outs (rb', b')"
      by auto
    have "rb_step (rb, b) (take (unat k) bs) [] (rb1, b - length bs)"
      using step_put [OF 1(1)] Cons.prems Put by simp
    from fifo_more [OF this 2(2)] show ?thesis using Put 1(1) 2(1) by auto
  next
    case (Get n)
    from get_ok [OF Cons.prems(1), of n] obtain rb1 bs k where
      1: "ring_buffer_read rb n = Some (rb1, bs, k)" "rb_ok (rb1, b)" by auto
    from Cons.IH [OF 1(2)] Cons.prems Get obtain rb' ins outs b' where
      2: "rb_exec rb1 ops = Some (rb', ins, outs)" "fifo_run rb_step (rb1, b) ins outs (rb', b')"
      by auto
    from fifo_more [OF step_get [OF 1(1)] 2(2)] show ?thesis using Get 1(1) 2(1) by auto
  qed
qed

section \<open>The writer's spin loop\<close>

lemma ring_buffer_write_done:
  "\<not> cnt < len \<Longrightarrow> ring_buffer_write sched rb buf len cnt got = Ret (rb, cnt, got)"
  by (simp add: ring_buffer_write.simps)

text \<open>One iteration, after the other side has asked for at least one byte: some bytes go in.\<close>

lemma write_iteration:
  assumes ok: "rb_ok (rb, nat (len - cnt))" and c: "0 \<le> cnt" "cnt < len" "len < 2 ^ 31"
    and b: "nat len \<le> length buf" and r: "0 < unat r"
  shows "\<exists>rb1 bs k1 rb2 n. ring_buffer_read rb r = Some (rb1, bs, k1)
    \<and> kfifo_in rb1 (drop (nat cnt) buf) (word_of_int (len - cnt)) = Some (rb2, n)
    \<and> 0 < sint n \<and> cnt + sint n \<le> len \<and> rb_ok (rb2, nat (len - (cnt + sint n)))
    \<and> bs @ rb_contents rb2 = rb_contents rb @ take (nat (sint n)) (drop (nat cnt) buf)"
proof -
  let ?b = "nat (len - cnt)"
  have wf: "rb_wf rb" "index_ok rb ?b" using ok by (simp_all add: rb_ok_def)
  from kfifo_out_ok [OF wf, of r] obtain rb1 k1 where
    1: "ring_buffer_read rb r = Some (rb1, take (unat k1) (rb_contents rb), k1)"
      "unat k1 = min (unat r) (rb_used rb)" "rb_wf rb1"
      "rb_contents rb1 = drop (unat k1) (rb_contents rb)" "rb_len rb1 = rb_len rb" "index_ok rb1 ?b"
    by blast
  have "rb_used rb1 = rb_used rb - unat k1"
    using arg_cong [OF 1(4), of length] by simp
  moreover have "0 < unat (rb_len rb)" "rb_used rb \<le> unat (rb_len rb)"
    using wf(1) by (auto simp: rb_wf_def)
  ultimately have room: "0 < unat (rb_len rb1) - rb_used rb1"
    using 1(2,5) r by auto
  have u: "unat (word_of_int (len - cnt) :: u32) = ?b"
    using c by (intro unat_of_int_u32) simp_all
  have b': "?b \<le> length (drop (nat cnt) buf)" using b c by (simp add: nat_diff_distrib)
  have i: "index_ok rb1 (min (unat (word_of_int (len - cnt) :: u32)) (unat (rb_len rb1) - rb_used rb1))"
    unfolding u by (rule index_ok_mono [OF 1(6)]) simp
  from kfifo_in_ok [OF 1(3) _ i, of "drop (nat cnt) buf"] u b' obtain rb2 n where
    2: "kfifo_in rb1 (drop (nat cnt) buf) (word_of_int (len - cnt)) = Some (rb2, n)"
      "unat n = min ?b (unat (rb_len rb1) - rb_used rb1)" "rb_wf rb2"
      "rb_contents rb2 = rb_contents rb1 @ take (unat n) (drop (nat cnt) buf)"
      "rb_in rb2 = rb_in rb1 + n" "rb_out rb2 = rb_out rb1" "rb_len rb2 = rb_len rb1" by auto
  have n: "0 < unat n" "unat n \<le> ?b" using 2(2) room c by auto
  have "?b < 2 ^ 31" using c by simp
  then have "unat n < 2 ^ 31" using n(2) by linarith
  then have s: "sint n = int (unat n)" by (rule sint_u32_small)
  have e: "nat (len - (cnt + sint n)) = ?b - unat n" unfolding s by arith
  have "index_ok rb2 (?b - unat n)"
    by (rule index_ok_put [OF 1(6) _ n(2) 2(5-7)]) simp
  then have "rb_ok (rb2, nat (len - (cnt + sint n)))" using 2(3) e by (simp add: rb_ok_def)
  moreover have "0 < sint n" "cnt + sint n \<le> len" "nat (sint n) = unat n"
    unfolding s using n by arith+
  ultimately show ?thesis using 1(1,4) 2(1,4) by auto
qed

lemma ring_buffer_write_loop:
  assumes "rb_ok (rb, nat (len - cnt))" "0 \<le> cnt" "cnt \<le> len" "len < 2 ^ 31"
    and "nat len \<le> length buf" "\<forall>r \<in> set sched. 0 < unat r" "nat (len - cnt) \<le> length sched"
  shows "\<exists>rb' g. ring_buffer_write sched rb buf len cnt got = Ret (rb', len, got @ g)
    \<and> rb_wf rb' \<and> g @ rb_contents rb' = rb_contents rb @ take (nat (len - cnt)) (drop (nat cnt) buf)"
  using assms
proof (induction sched arbitrary: rb cnt got)
  case Nil
  then show ?case by (auto simp: ring_buffer_write_done rb_ok_def)
next
  case (Cons r sched)
  show ?case
  proof (cases "cnt < len")
    case False
    then show ?thesis using Cons.prems by (auto simp: ring_buffer_write_done rb_ok_def)
  next
    case True
    from write_iteration [OF Cons.prems(1,2) True Cons.prems(4,5), of r] Cons.prems(6)
    obtain rb1 bs k1 rb2 n where
      1: "ring_buffer_read rb r = Some (rb1, bs, k1)"
        "kfifo_in rb1 (drop (nat cnt) buf) (word_of_int (len - cnt)) = Some (rb2, n)"
        "0 < sint n" "cnt + sint n \<le> len" "rb_ok (rb2, nat (len - (cnt + sint n)))"
      and c: "bs @ rb_contents rb2 = rb_contents rb @ take (nat (sint n)) (drop (nat cnt) buf)"
      by auto
    have p: "0 \<le> cnt + sint n" "nat (len - (cnt + sint n)) \<le> length sched"
      using 1(3,4) Cons.prems by auto
    from Cons.IH [OF 1(5) p(1) 1(4) Cons.prems(4,5) _ p(2)] Cons.prems(6) obtain rb' g where
      2: "ring_buffer_write sched rb2 buf len (cnt + sint n) (got @ bs) = Ret (rb', len, (got @ bs) @ g)"
        "rb_wf rb'" "g @ rb_contents rb' =
          rb_contents rb2 @ take (nat (len - (cnt + sint n))) (drop (nat (cnt + sint n)) buf)"
      by (metis list.set_intros(2))
    have split: "nat (len - cnt) = nat (sint n) + nat (len - (cnt + sint n))"
      "nat (cnt + sint n) = nat (sint n) + nat cnt"
      using 1(3,4) Cons.prems(2) by auto
    have "take (nat (len - cnt)) (drop (nat cnt) buf) =
      take (nat (sint n)) (drop (nat cnt) buf)
      @ take (nat (len - (cnt + sint n))) (drop (nat (cnt + sint n)) buf)"
      unfolding split take_add drop_drop by simp
    then have "(bs @ g) @ rb_contents rb' =
      rb_contents rb @ take (nat (len - cnt)) (drop (nat cnt) buf)"
      using c 2(3) by (metis append.assoc)
    moreover have "ring_buffer_write (r # sched) rb buf len cnt got = Ret (rb', len, got @ (bs @ g))"
      using True 1(1,2) 2(1) by (subst ring_buffer_write.simps) simp
    ultimately show ?thesis using 2(2) by blast
  qed
qed

section \<open>Properties\<close>

lemma scast_u32_u64_small: "unat (w :: u32) < 2 ^ 31 \<Longrightarrow> (scast w :: u64) = of_nat (unat w)"
  by (simp only: scast_eq sint_u32_small of_int_of_nat_eq)

lemma unat_ucast_u64_u32: "unat (w :: u64) < 2 ^ 32 \<Longrightarrow> unat (ucast w :: u32) = unat w"
  by (simp add: unsigned_ucast_eq take_bit_nat_eq_self)

lemma pair_init_len:
  assumes "16 < unat (len :: u32)" "unat len < 2 ^ 31"
  shows "\<not> (scast len :: u64) \<le> sizeof_ring_buffer_t"
    and "unat (ucast ((scast len :: u64) - sizeof_ring_buffer_t) :: u32) = unat len - 16"
proof -
  have s: "unat (scast len :: u64) = unat len"
    unfolding scast_u32_u64_small [OF assms(2)] using assms(2) by (intro unat_of_nat_small) simp
  then show n: "\<not> (scast len :: u64) \<le> sizeof_ring_buffer_t"
    using assms(1) by (simp add: word_le_nat_alt sizeof_ring_buffer_t_def)
  have "unat ((scast len :: u64) - sizeof_ring_buffer_t) = unat len - 16"
    using n s by (subst unat_sub) (simp_all add: sizeof_ring_buffer_t_def)
  then show "unat (ucast ((scast len :: u64) - sizeof_ring_buffer_t) :: u32) = unat len - 16"
    using assms(2) by (subst unat_ucast_u64_u32) simp_all
qed

lemma ring_buffer_init_wf:
  assumes "0 < unat n" "unat n \<le> length (rb_data rb)"
  shows "rb_wf (ring_buffer_init rb n)" "rb_contents (ring_buffer_init rb n) = []"
  using assms by (simp_all add: rb_wf_def rb_used_def rb_contents_def ring_buffer_init_def)

lemma pair_init_spec:
  assumes "16 < unat len" "unat len < 2 ^ 31"
    and "unat len - 16 \<le> length (rb_data rx)" "unat len - 16 \<le> length (rb_data tx)"
  shows "\<exists>rx' tx'. ring_buffer_pair_init (Some rx) (Some tx) len = (0, Some rx', Some tx')
    \<and> (\<forall>rb \<in> {rx', tx'}. rb_wf rb \<and> rb_contents rb = [] \<and> rb_in rb = 0 \<and> rb_out rb = 0
          \<and> unat (rb_len rb) = unat len - 16)"
proof -
  let ?n = "ucast ((scast len :: u64) - sizeof_ring_buffer_t) :: u32"
  note l = pair_init_len [OF assms(1,2)]
  have "rb_wf (ring_buffer_init rb ?n) \<and> rb_contents (ring_buffer_init rb ?n) = []"
    if "unat len - 16 \<le> length (rb_data rb)" for rb
    using ring_buffer_init_wf [of ?n rb] that l(2) assms(1) by simp
  then show ?thesis using assms(3,4) l
    by (auto simp: ring_buffer_pair_init_def Let_def ring_buffer_init_def)
qed


definition demo_ring :: ring_buffer where
  "demo_ring = \<lparr>rb_in = 0, rb_out = 0, rb_len = 4, rb_esize = 0, rb_data = replicate 4 0\<rparr>"


text \<open>
  C2: Any sequence of puts and gets on a well-formed ring runs without an access outside the
  data area, keeps the ring well-formed, and is a FIFO: what was handed out, followed by
  what the ring holds, is what it held before followed by what it accepted. This needs
  that the length divides \<open>2 ^ 32\<close>, or that the sequence does not carry the
  indices past \<open>2 ^ 32\<close>.
\<close>

theorem ring_exec_fifo:
  assumes "rb_wf rb" "index_ok rb (sum_list (map op_bytes ops))"
    and "\<forall>op \<in> set ops. op_bytes op < 2 ^ 32"
  shows "\<exists>rb' ins outs. rb_exec rb ops = Some (rb', ins, outs) \<and> rb_wf rb'
    \<and> outs @ rb_contents rb' = rb_contents rb @ ins
    \<and> length (rb_contents rb) + length ins \<le> length outs + unat (rb_len rb)"
proof -
  have ok: "rb_ok (rb, sum_list (map op_bytes ops))" using assms(1,2) by (simp add: rb_ok_def)
  from rb_exec_run [OF this assms(3) order.refl] obtain rb' ins outs b' where
    r: "rb_exec rb ops = Some (rb', ins, outs)"
      "fifo_run rb_step (rb, sum_list (map op_bytes ops)) ins outs (rb', b')" by blast
  from kf.run_conserves [OF r(2) ok] kf.run_in_flight [OF r(2) ok] r(1) show ?thesis
    by (auto simp: rb_ok_def)
qed

theorem ring_exec_fifo_witness:
  "\<exists>rb' ins outs. rb_exec demo_ring [Put [1, 2, 3], Get 2, Put [4, 5, 6]] = Some (rb', ins, outs)
    \<and> rb_wf rb' \<and> outs @ rb_contents rb' = rb_contents demo_ring @ ins
    \<and> length (rb_contents demo_ring) + length ins \<le> length outs + unat (rb_len demo_ring)"
  by (rule ring_exec_fifo) (simp_all add: demo_ring_def rb_wf_def rb_used_def index_ok_def)

text \<open>
  C9: \<open>ring_buffer_write\<close> returns the full length once the other side keeps asking for
  at least one byte per iteration, after at most as many iterations as there are bytes;
  every byte goes in, in order, behind what the ring held. The ring length divides \<open>2 ^ 32\<close>
  or the indices do not pass \<open>2 ^ 32\<close>.
\<close>

theorem ring_buffer_write_completes:
  assumes "rb_wf rb" "index_ok rb (nat len)" "0 \<le> len" "len < 2 ^ 31" "nat len \<le> length buf"
    and "\<forall>r \<in> set sched. 0 < unat r" "nat len \<le> length sched"
  shows "\<exists>rb' got. ring_buffer_write sched rb buf len 0 [] = Ret (rb', len, got) \<and> rb_wf rb'
    \<and> got @ rb_contents rb' = rb_contents rb @ take (nat len) buf"
  using ring_buffer_write_loop [of rb len 0 buf sched "[]"] assms by (simp add: rb_ok_def)

theorem ring_buffer_write_completes_witness:
  "\<exists>rb' got. ring_buffer_write [1, 1, 1, 1, 1, 1] demo_ring [1, 2, 3, 4, 5, 6] 6 0 [] = Ret (rb', 6, got)
    \<and> rb_wf rb' \<and> got @ rb_contents rb' = rb_contents demo_ring @ take (nat 6) [1, 2, 3, 4, 5, 6]"
  by (rule ring_buffer_write_completes) (simp_all add: demo_ring_def rb_wf_def rb_used_def index_ok_def)

text \<open>
  When the length does not divide \<open>2 ^ 32\<close> the index wrap-around breaks the FIFO: on an
  empty well-formed ring of 12 bytes whose indices are about to wrap, the second byte read back is
  not the second byte written.
\<close>

definition wrap_ring :: ring_buffer where
  "wrap_ring = \<lparr>rb_in = 4294967295, rb_out = 4294967295, rb_len = 12, rb_esize = 0,
     rb_data = replicate 12 0\<rparr>"

lemmas rb_eval = kfifo_in_def kfifo_unused_def kfifo_copy_in_def ring_buffer_read_def kfifo_out_def
  kfifo_out_peek_def kfifo_copy_out_def mem_read_def mem_write_def Let_def

lemma ring_wrap_breaks_fifo:
  "rb_wf wrap_ring \<and> rb_contents wrap_ring = []
   \<and> map_option snd (rb_exec wrap_ring [Put [1, 2], Get 1, Get 1]) = Some ([1, 2], [1, 0])"
proof (intro conjI)
  show "rb_wf wrap_ring" "rb_contents wrap_ring = []"
    by (simp_all add: rb_wf_def wrap_ring_def rb_used_def rb_contents_def)
  show "map_option snd (rb_exec wrap_ring [Put [1, 2], Get 1, Get 1]) = Some ([1, 2], [1, 0])"
    by (simp add: wrap_ring_def rb_eval)
qed

text \<open>A negative length passes the size check, which compares it as a \<open>size_t\<close>.\<close>

lemma pair_init_accepts_negative:
  "fst (ring_buffer_pair_init (Some demo_ring) (Some demo_ring) (- 1)) = 0"
  by (simp add: ring_buffer_pair_init_def sizeof_ring_buffer_t_def Let_def) code_simp

end
