(* ===== verification/Ring_Spsc.thy ===== *)
theory Ring_Spsc
  imports Ring_Buffer
begin

text \<open>
  The ring buffer shared by two processors: the steps of \<open>__kfifo_in\<close> and
  \<open>__kfifo_out\<close> (\<open>library/rbuf_device/ring_buffer.c\<close>) taken one memory
  access at a time, in every interleaving.
\<close>

section \<open>One writer and one reader, interleaved\<close>

text \<open>
  The writer (\<open>__kfifo_in\<close>) reads the indices, copies, and only then advances \<open>in\<close>;
  the reader (\<open>__kfifo_out\<close>) reads the indices, copies, and only then advances
  \<open>out\<close>. The two run on different processors, so their steps interleave freely;
  the write barrier keeps each side's copy before its index update.
\<close>

datatype writer = W_Idle | W_Checked "u8 list" u32 | W_Copied "u8 list" u32

datatype reader = R_Idle | R_Checked u32 | R_Copied "u8 list" u32

record spsc =
  sp_rb :: ring_buffer
  sp_w :: writer
  sp_r :: reader
  sp_sent :: "u8 list"
  sp_rcvd :: "u8 list"

definition spsc_init :: "ring_buffer \<Rightarrow> spsc" where
  "spsc_init rb = \<lparr>sp_rb = rb, sp_w = W_Idle, sp_r = R_Idle, sp_sent = [], sp_rcvd = []\<rparr>"

inductive spsc_step :: "spsc \<Rightarrow> spsc \<Rightarrow> bool" where
  w_check: "sp_w s = W_Idle \<Longrightarrow> unat n \<le> length buf \<Longrightarrow> l = kfifo_unused (sp_rb s) \<Longrightarrow>
    spsc_step s (s\<lparr>sp_w := W_Checked buf (if n > l then l else n)\<rparr>)"
| w_copy: "sp_w s = W_Checked buf k \<Longrightarrow>
    kfifo_copy_in (sp_rb s) buf k (rb_in (sp_rb s)) = Some rb \<Longrightarrow>
    spsc_step s (s\<lparr>sp_rb := rb, sp_w := W_Copied buf k\<rparr>)"
| w_publish: "sp_w s = W_Copied buf k \<Longrightarrow>
    spsc_step s (s\<lparr>sp_rb := (sp_rb s)\<lparr>rb_in := rb_in (sp_rb s) + k\<rparr>, sp_w := W_Idle,
      sp_sent := sp_sent s @ take (unat k) buf\<rparr>)"
| r_check: "sp_r s = R_Idle \<Longrightarrow> l = rb_in (sp_rb s) - rb_out (sp_rb s) \<Longrightarrow>
    spsc_step s (s\<lparr>sp_r := R_Checked (if n > l then l else n)\<rparr>)"
| r_copy: "sp_r s = R_Checked k \<Longrightarrow>
    kfifo_copy_out (sp_rb s) k (rb_out (sp_rb s)) = Some bs \<Longrightarrow>
    spsc_step s (s\<lparr>sp_r := R_Copied bs k\<rparr>)"
| r_publish: "sp_r s = R_Copied bs k \<Longrightarrow>
    spsc_step s (s\<lparr>sp_rb := (sp_rb s)\<lparr>rb_out := rb_out (sp_rb s) + k\<rparr>, sp_r := R_Idle,
      sp_rcvd := sp_rcvd s @ bs\<rparr>)"

definition rb_room :: "ring_buffer \<Rightarrow> nat" where
  "rb_room rb = unat (rb_len rb) - rb_used rb"

definition rb_beyond :: "ring_buffer \<Rightarrow> nat \<Rightarrow> u8 list" where
  "rb_beyond rb k = map (\<lambda>j. rb_data rb ! ((unat (rb_in rb) + j) mod unat (rb_len rb))) [0..<k]"

fun writer_ok :: "ring_buffer \<Rightarrow> writer \<Rightarrow> bool" where
  "writer_ok rb W_Idle = True"
| "writer_ok rb (W_Checked buf k) = (unat k \<le> rb_room rb \<and> unat k \<le> length buf)"
| "writer_ok rb (W_Copied buf k) =
     (unat k \<le> rb_room rb \<and> unat k \<le> length buf \<and> rb_beyond rb (unat k) = take (unat k) buf)"

fun reader_ok :: "ring_buffer \<Rightarrow> reader \<Rightarrow> bool" where
  "reader_ok rb R_Idle = True"
| "reader_ok rb (R_Checked k) = (unat k \<le> rb_used rb)"
| "reader_ok rb (R_Copied bs k) = (unat k \<le> rb_used rb \<and> bs = take (unat k) (rb_contents rb))"

definition index_inv :: "spsc \<Rightarrow> bool" where
  "index_inv s \<longleftrightarrow> unat (rb_len (sp_rb s)) dvd 2 ^ 32
     \<or> unat (rb_out (sp_rb s)) \<le> unat (rb_in (sp_rb s)) \<and> unat (rb_in (sp_rb s)) = length (sp_sent s)"

definition spsc_inv :: "spsc \<Rightarrow> bool" where
  "spsc_inv s \<longleftrightarrow> rb_wf (sp_rb s) \<and> index_inv s \<and> sp_rcvd s @ rb_contents (sp_rb s) = sp_sent s
     \<and> writer_ok (sp_rb s) (sp_w s) \<and> reader_ok (sp_rb s) (sp_r s)"

definition traffic_ok :: "spsc \<Rightarrow> bool" where
  "traffic_ok s \<longleftrightarrow> unat (rb_len (sp_rb s)) dvd 2 ^ 32 \<or> length (sp_sent s) < 2 ^ 32"

lemma kfifo_copy_in_len: "kfifo_copy_in rb buf k off = Some rb' \<Longrightarrow> rb_len rb' = rb_len rb"
  by (auto simp: kfifo_copy_in_def Let_def split: if_splits Option.bind_splits)

lemma traffic_ok_back:
  assumes "spsc_step s s'" "traffic_ok s'"
  shows "traffic_ok s"
  using assms by (cases rule: spsc_step.cases) (auto simp: traffic_ok_def dest: kfifo_copy_in_len)

lemma reader_ok_grow:
  assumes "reader_ok rb r" "rb_contents rb' = rb_contents rb @ bs"
  shows "reader_ok rb' r"
proof -
  have "rb_used rb' = rb_used rb + length bs" using arg_cong [OF assms(2), of length] by simp
  then show ?thesis using assms by (cases r) auto
qed

lemma spsc_w_copy:
  assumes "spsc_inv s" "sp_w s = W_Checked buf k"
  shows "\<exists>rb. kfifo_copy_in (sp_rb s) buf k (rb_in (sp_rb s)) = Some rb
    \<and> spsc_inv (s\<lparr>sp_rb := rb, sp_w := W_Copied buf k\<rparr>)"
proof -
  have wf: "rb_wf (sp_rb s)" and k: "unat k \<le> unat (rb_len (sp_rb s)) - rb_used (sp_rb s)"
    "unat k \<le> length buf"
    using assms by (auto simp: spsc_inv_def rb_room_def)
  from copy_in_at_in [OF wf k] obtain d where
    d: "kfifo_copy_in (sp_rb s) buf k (rb_in (sp_rb s)) = Some ((sp_rb s)\<lparr>rb_data := d\<rparr>)"
      "length d = length (rb_data (sp_rb s))"
      "rb_contents ((sp_rb s)\<lparr>rb_data := d\<rparr>) = rb_contents (sp_rb s)"
      "map (\<lambda>j. d ! ((unat (rb_in (sp_rb s)) + j) mod unat (rb_len (sp_rb s)))) [0..<unat k] = take (unat k) buf"
    by blast
  let ?rb = "(sp_rb s)\<lparr>rb_data := d\<rparr>"
  have u: "rb_used ?rb = rb_used (sp_rb s)" by (simp add: rb_used_def)
  have "rb_wf ?rb" "index_inv (s\<lparr>sp_rb := ?rb, sp_w := W_Copied buf k\<rparr>)"
    using wf u d(2) assms by (simp_all add: rb_wf_def index_inv_def spsc_inv_def)
  moreover have "writer_ok ?rb (W_Copied buf k)"
    using k u d(4) by (simp add: rb_room_def rb_beyond_def)
  moreover have "reader_ok ?rb (sp_r s)"
    using assms(1) d(3) by (intro reader_ok_grow [of "sp_rb s" _ ?rb "[]"]) (simp_all add: spsc_inv_def)
  ultimately show ?thesis using d(1,3) assms(1) by (auto simp: spsc_inv_def)
qed

lemma spsc_r_copy:
  assumes "spsc_inv s" "sp_r s = R_Checked k"
  shows "kfifo_copy_out (sp_rb s) k (rb_out (sp_rb s)) = Some (take (unat k) (rb_contents (sp_rb s)))"
proof -
  have "rb_wf (sp_rb s)" "unat k \<le> rb_used (sp_rb s)" using assms by (auto simp: spsc_inv_def)
  then show ?thesis
    by (subst kfifo_copy_out_ok) (auto simp: rb_wf_def rb_contents_def take_map)
qed

lemma spsc_w_publish:
  assumes inv: "spsc_inv s" and w: "sp_w s = W_Copied buf k"
    and t: "unat (rb_len (sp_rb s)) dvd 2 ^ 32 \<or> length (sp_sent s) + unat k < 2 ^ 32"
  shows "spsc_inv (s\<lparr>sp_rb := (sp_rb s)\<lparr>rb_in := rb_in (sp_rb s) + k\<rparr>, sp_w := W_Idle,
      sp_sent := sp_sent s @ take (unat k) buf\<rparr>)"
proof -
  let ?rb = "(sp_rb s)\<lparr>rb_in := rb_in (sp_rb s) + k\<rparr>"
  have wf: "rb_wf (sp_rb s)" and k: "unat k \<le> unat (rb_len (sp_rb s)) - rb_used (sp_rb s)"
    and l: "unat k \<le> length buf"
    and y: "rb_beyond (sp_rb s) (unat k) = take (unat k) buf"
    using inv w by (auto simp: spsc_inv_def rb_room_def)
  have i: "index_ok (sp_rb s) (unat k)"
    using inv t by (auto simp: spsc_inv_def index_inv_def index_ok_def)
  note p = publish_in [OF wf k i]
  have c: "rb_contents ?rb = rb_contents (sp_rb s) @ take (unat k) buf"
    using p(3) y by (simp add: rb_beyond_def)
  have ix: "index_inv (s\<lparr>sp_rb := ?rb, sp_w := W_Idle, sp_sent := sp_sent s @ take (unat k) buf\<rparr>)"
  proof (cases "unat (rb_len (sp_rb s)) dvd 2 ^ 32")
    case False
    then have b: "unat (rb_out (sp_rb s)) \<le> unat (rb_in (sp_rb s))"
      "unat (rb_in (sp_rb s)) = length (sp_sent s)" "length (sp_sent s) + unat k < 2 ^ 32"
      using inv t by (auto simp: spsc_inv_def index_inv_def)
    then have "unat (rb_in (sp_rb s)) + unat k < 2 ^ 32" by simp
    then have "unat (rb_in (sp_rb s) + k) = unat (rb_in (sp_rb s)) + unat k"
      by (simp add: unat_word_ariths)
    then show ?thesis using b l by (simp add: index_inv_def)
  qed (simp add: index_inv_def)
  show ?thesis
    using p(1) c ix reader_ok_grow [OF _ c] inv by (simp add: spsc_inv_def)
qed

lemma writer_ok_drain:
  assumes "writer_ok rb w" "rb_used rb' \<le> rb_used rb"
    and "rb_in rb' = rb_in rb" "rb_len rb' = rb_len rb" "rb_data rb' = rb_data rb"
  shows "writer_ok rb' w"
proof -
  have "rb_room rb \<le> rb_room rb'" using assms(2,4) by (simp add: rb_room_def)
  then show ?thesis using assms by (cases w) (simp_all add: rb_beyond_def)
qed

lemma spsc_r_publish:
  assumes inv: "spsc_inv s" and r: "sp_r s = R_Copied bs k" and t: "traffic_ok s"
  shows "spsc_inv (s\<lparr>sp_rb := (sp_rb s)\<lparr>rb_out := rb_out (sp_rb s) + k\<rparr>, sp_r := R_Idle,
      sp_rcvd := sp_rcvd s @ bs\<rparr>)"
proof -
  let ?rb = "(sp_rb s)\<lparr>rb_out := rb_out (sp_rb s) + k\<rparr>"
  have wf: "rb_wf (sp_rb s)" and k: "unat k \<le> rb_used (sp_rb s)"
    and b: "bs = take (unat k) (rb_contents (sp_rb s))"
    using inv r by (auto simp: spsc_inv_def)
  have i: "index_ok (sp_rb s) 0"
    using inv t by (auto simp: spsc_inv_def index_inv_def index_ok_def traffic_ok_def)
  note p = publish_out [OF wf k i]
  have ix: "index_inv (s\<lparr>sp_rb := ?rb, sp_r := R_Idle, sp_rcvd := sp_rcvd s @ bs\<rparr>)"
  proof (cases "unat (rb_len (sp_rb s)) dvd 2 ^ 32")
    case False
    then have "unat (rb_out ?rb) \<le> unat (rb_in ?rb)" using p(4) by (simp add: index_ok_def)
    moreover have "unat (rb_in (sp_rb s)) = length (sp_sent s)"
      using inv False by (simp add: spsc_inv_def index_inv_def)
    ultimately show ?thesis by (simp add: index_inv_def)
  qed (simp add: index_inv_def)
  have w: "writer_ok (sp_rb s) (sp_w s)" using inv by (simp add: spsc_inv_def)
  have "writer_ok ?rb (sp_w s)"
    by (rule writer_ok_drain [OF w]) (simp_all add: p(2))
  moreover have "bs @ rb_contents ?rb = rb_contents (sp_rb s)"
    unfolding b p(3) by (rule append_take_drop_id)
  ultimately show ?thesis using p(1) ix inv by (simp add: spsc_inv_def)
qed

lemma spsc_inv_step:
  assumes "spsc_step s s'" "spsc_inv s" "traffic_ok s'"
  shows "spsc_inv s'"
  using assms(1)
proof (cases rule: spsc_step.cases)
  case (w_check n buf l)
  have "unat (if n > l then l else n) \<le> rb_room (sp_rb s)"
    unfolding unat_if_min using rb_unused [of "sp_rb s"] assms(2) w_check(4)
    by (simp add: rb_room_def spsc_inv_def)
  moreover have "unat (if n > l then l else n) \<le> length buf"
    unfolding unat_if_min using w_check(3) by simp
  ultimately show ?thesis using assms(2) w_check(1) by (simp add: spsc_inv_def index_inv_def)
next
  case (w_copy buf k rb)
  then show ?thesis using spsc_w_copy [OF assms(2)] by auto
next
  case (w_publish buf k)
  have "unat k \<le> length buf" using assms(2) w_publish by (auto simp: spsc_inv_def)
  then show ?thesis
    using spsc_w_publish [OF assms(2)] assms(3) w_publish by (auto simp: traffic_ok_def)
next
  case (r_check l n)
  have "unat (if n > l then l else n) \<le> rb_used (sp_rb s)"
    unfolding unat_if_min using r_check(3) by (simp add: rb_used_def)
  then show ?thesis using assms(2) r_check(1) by (simp add: spsc_inv_def index_inv_def)
next
  case (r_copy k bs)
  then show ?thesis using assms(2) spsc_r_copy [OF assms(2)]
    by (simp add: spsc_inv_def index_inv_def)
next
  case (r_publish bs k)
  then show ?thesis
    using spsc_r_publish [OF assms(2)] traffic_ok_back [OF assms(1,3)] by simp
qed

lemma spsc_inv_reach:
  assumes "spsc_step\<^sup>*\<^sup>* s0 s" "spsc_inv s0" "traffic_ok s"
  shows "spsc_inv s"
  using assms by (induction rule: rtranclp_induct) (auto intro: spsc_inv_step traffic_ok_back)

lemma spsc_inv_init:
  assumes "rb_wf rb" "rb_in rb = 0" "rb_out rb = 0"
  shows "spsc_inv (spsc_init rb)"
  using assms by (simp add: spsc_inv_def spsc_init_def index_inv_def rb_contents_def rb_used_def)

section \<open>Properties\<close>

text \<open>
  C1: Whatever the interleaving of one writer and one reader on a freshly initialised ring, at
  every moment the bytes received are a prefix of the bytes sent and the rest is what the ring
  holds, at most \<open>len\<close> bytes; neither side's copy ever leaves the data area. The
  length divides \<open>2 ^ 32\<close> or fewer than \<open>2 ^ 32\<close> bytes were sent.
\<close>

theorem spsc_fifo:
  assumes "spsc_step\<^sup>*\<^sup>* (spsc_init rb) s" "rb_wf rb" "rb_in rb = 0" "rb_out rb = 0" "traffic_ok s"
  shows "sp_rcvd s @ rb_contents (sp_rb s) = sp_sent s
    \<and> length (sp_sent s) \<le> length (sp_rcvd s) + unat (rb_len (sp_rb s))
    \<and> (\<forall>buf k. sp_w s = W_Checked buf k \<longrightarrow> kfifo_copy_in (sp_rb s) buf k (rb_in (sp_rb s)) \<noteq> None)
    \<and> (\<forall>k. sp_r s = R_Checked k \<longrightarrow> kfifo_copy_out (sp_rb s) k (rb_out (sp_rb s)) \<noteq> None)"
proof -
  have inv: "spsc_inv s"
    using spsc_inv_reach [OF assms(1) spsc_inv_init [OF assms(2-4)] assms(5)] .
  then have c: "sp_rcvd s @ rb_contents (sp_rb s) = sp_sent s"
    and u: "rb_used (sp_rb s) \<le> unat (rb_len (sp_rb s))"
    by (simp_all add: spsc_inv_def rb_wf_def)
  have "length (sp_sent s) = length (sp_rcvd s) + rb_used (sp_rb s)"
    using arg_cong [OF c, of length] by simp
  then show ?thesis
    using c u spsc_w_copy [OF inv] spsc_r_copy [OF inv] by fastforce
qed

lemma demo_spsc_reach:
  "\<exists>s. spsc_step\<^sup>*\<^sup>* (spsc_init demo_ring) s \<and> sp_sent s = [7] \<and> rb_len (sp_rb s) = 4"
proof -
  define s0 where "s0 = spsc_init demo_ring"
  define s1 where "s1 = s0\<lparr>sp_w := W_Checked [7] (if (1 :: u32) > kfifo_unused (sp_rb s0)
    then kfifo_unused (sp_rb s0) else 1)\<rparr>"
  have 1: "spsc_step s0 s1"
    unfolding s1_def by (rule w_check) (simp_all add: s0_def spsc_init_def)
  have w1: "sp_w s1 = W_Checked [7] 1" "sp_rb s1 = demo_ring" "sp_sent s1 = []"
    by (simp_all add: s1_def s0_def spsc_init_def demo_ring_def kfifo_unused_def)
  obtain rb where rb: "kfifo_copy_in (sp_rb s1) [7] 1 (rb_in (sp_rb s1)) = Some rb" "rb_len rb = 4"
    by (simp add: w1 demo_ring_def rb_eval)
  from w_copy [OF w1(1) rb(1)] have 2: "spsc_step s1 (s1\<lparr>sp_rb := rb, sp_w := W_Copied [7] 1\<rparr>)" .
  let ?s2 = "s1\<lparr>sp_rb := rb, sp_w := W_Copied [7] 1\<rparr>"
  have 3: "spsc_step ?s2 (?s2\<lparr>sp_rb := (sp_rb ?s2)\<lparr>rb_in := rb_in (sp_rb ?s2) + 1\<rparr>, sp_w := W_Idle,
      sp_sent := sp_sent ?s2 @ take (unat (1 :: u32)) [7]\<rparr>)"
    by (rule w_publish) simp
  have "spsc_step\<^sup>*\<^sup>* s0 (?s2\<lparr>sp_rb := (sp_rb ?s2)\<lparr>rb_in := rb_in (sp_rb ?s2) + 1\<rparr>, sp_w := W_Idle,
      sp_sent := sp_sent ?s2 @ take (unat (1 :: u32)) [7]\<rparr>)"
    using 1 2 3 by (meson converse_rtranclp_into_rtranclp rtranclp.rtrancl_refl)
  then show ?thesis using w1(3) rb(2) unfolding s0_def by force
qed

theorem spsc_fifo_witness:
  "\<exists>s. spsc_step\<^sup>*\<^sup>* (spsc_init demo_ring) s \<and> sp_sent s = [7] \<and> sp_rcvd s @ rb_contents (sp_rb s) = [7]"
proof -
  obtain s where s: "spsc_step\<^sup>*\<^sup>* (spsc_init demo_ring) s" "sp_sent s = [7]" "rb_len (sp_rb s) = 4"
    using demo_spsc_reach by blast
  have "traffic_ok s" using s(2) by (simp add: traffic_ok_def)
  moreover have "rb_wf demo_ring" "rb_in demo_ring = 0" "rb_out demo_ring = 0"
    by (simp_all add: demo_ring_def rb_wf_def rb_used_def)
  ultimately have "sp_rcvd s @ rb_contents (sp_rb s) = sp_sent s"
    using spsc_fifo [OF s(1)] by blast
  then show ?thesis using s(1,2) by auto
qed

end
