(* ===== verification/Mica_Client.thy ===== *)
theory Mica_Client
  imports Mcs_Prelude
begin

text \<open>
  The data the mica library passes around (\<open>library/include/mica/mica_client.h\<close>,
  \<open>library/include/remoteproc/mica_rsc.h\<close>, \<open>library/include/rbuf_device/rbuf_dev.h\<close>):
  the client, the vendor entries of the resource table, and the fields of OpenAMP's
  \<open>struct remoteproc\<close> that the library reads and writes. A resource table is a record with
  the first entry of each type, which is what \<open>find_rsc\<close> with index 0 locates;
  \<open>None\<close> is the offset 0 it returns when there is no such entry.
\<close>

section \<open>Resource table\<close>

abbreviation RPMSG_NAME_SIZE :: nat where "RPMSG_NAME_SIZE \<equiv> 32"
abbreviation RPMSG_ADDR_ANY :: u32 where "RPMSG_ADDR_ANY \<equiv> 0xFFFFFFFF"
abbreviation METAL_BAD_PHYS :: u64 where "METAL_BAD_PHYS \<equiv> 0xFFFFFFFFFFFFFFFF"
abbreviation FW_RSC_U32_ADDR_ANY :: u32 where "FW_RSC_U32_ADDR_ANY \<equiv> 0xFFFFFFFF"

datatype mica_resource_type = RSC_VENDOR_EPT_TABLE | RSC_VENDOR_RBUF_PAIR | RSC_OTHER u32

fun rsc_type_of :: "u32 \<Rightarrow> mica_resource_type" where
  "rsc_type_of t =
     (if t = 128 then RSC_VENDOR_EPT_TABLE else if t = 129 then RSC_VENDOR_RBUF_PAIR else RSC_OTHER t)"

record ept_info =
  ei_name :: string
  ei_addr :: u32
  ei_dest_addr :: u32

definition MAX_NUM_OF_EPTS :: nat where
  "MAX_NUM_OF_EPTS = 64"

record fw_rsc_ept =
  er_type :: u32
  er_num_of_epts :: u32
  er_endpoints :: "ept_info list"

record fw_rsc_rbuf_pair =
  rr_type :: u32
  rr_flags :: u32
  rr_da :: u64
  rr_pa :: u64
  rr_len :: u64
  rr_state :: u8

definition RBUF_STATE_UNINIT :: u8 where "RBUF_STATE_UNINIT = 0"
definition RBUF_STATE_INIT :: u8 where "RBUF_STATE_INIT = 1"
definition RBUF_STATE_ORDINARY_DATA :: u8 where "RBUF_STATE_ORDINARY_DATA = 2"
definition RBUF_STATE_CTRL_C :: u8 where "RBUF_STATE_CTRL_C = 3"
definition RBUF_STATE_CPU_STOP :: u8 where "RBUF_STATE_CPU_STOP = 4"

text \<open>OpenAMP's vring and vdev entries, with the fields \<open>setup_vdev\<close> uses.\<close>

record fw_rsc_vdev_vring =
  vr_da :: u32
  vr_align :: u32
  vr_num :: u32

record resource_table =
  rt_reserved0 :: u32
  rt_ept :: "fw_rsc_ept option"
  rt_rbuf :: "fw_rsc_rbuf_pair option"
  rt_vdev :: "fw_rsc_vdev_vring list option"

section \<open>Remote processor and client\<close>

datatype pedestal_type = BARE_METAL | JAILHOUSE | PED_OTHER

datatype rproc_state = RPROC_OFFLINE | RPROC_CONFIGURED | RPROC_READY | RPROC_RUNNING
  | RPROC_SUSPENDED | RPROC_ERROR | RPROC_STOPPED | RPROC_LAST

text \<open>A registered memory: its physical and device address and its I/O region.\<close>

record remoteproc_mem =
  rm_pa :: u64
  rm_da :: u64
  rm_size :: u64
  rm_io_virt :: u64
  rm_io_size :: u64

record remoteproc =
  rp_state :: rproc_state
  rp_rsc_table :: "resource_table option"
  rp_rsc_len :: u64
  rp_bitmap :: u64
  rp_bootaddr :: u64
  rp_mems :: "remoteproc_mem list"

record rbuf_device =
  rd_tx_va :: u64
  rd_rx_va :: u64
  rd_rbuf_len :: u32

record 's mica_client =
  mc_debug :: bool
  mc_gdb_server_thread :: bool
  mc_path :: string
  mc_ped_cfg :: string
  mc_cpu_id :: u32
  mc_ped :: pedestal_type
  mc_rproc :: remoteproc
  mc_phys_shmem_start :: u64
  mc_shmem_size :: u32
  mc_virt_shmem_start :: u64
  mc_virt_shmem_end :: u64
  mc_unused_shmem_start :: u64
  mc_vdev_shpool :: "(u64 \<times> u64) option"
  mc_rdev :: "u64 option"
  mc_rbuf_dev :: "rbuf_device option"
  mc_services :: "'s list"

end
