(* ===== verification/Shm_Pool.thy ===== *)
theory Shm_Pool
  imports Mica_Client
begin

text \<open>
  The shared memory pool of a client (\<open>library/memory/shm_pool.c\<close>): a bump allocator over
  one mapped region. Addresses are 64-bit words and 0 is the null pointer. libmetal's address
  translation and OpenAMP's \<open>remoteproc_mmap\<close> are parameters.
\<close>

section \<open>The model\<close>

definition shm_pool_phys_to_virt :: "(u64 \<Rightarrow> u64) \<Rightarrow> u64 \<Rightarrow> u64" where
  "shm_pool_phys_to_virt metal_io_phys_to_virt phys = metal_io_phys_to_virt phys"

definition shm_pool_virt_to_phys :: "(u64 \<Rightarrow> u64) \<Rightarrow> u64 \<Rightarrow> u64" where
  "shm_pool_virt_to_phys metal_io_virt_to_phys va = metal_io_virt_to_phys va"

text \<open>\<open>rproc_mmap pa sz\<close> is the address \<open>remoteproc_mmap\<close> gives and the updated \<open>pa\<close>.\<close>

definition init_shmem_pool ::
  "(u64 \<Rightarrow> u64 \<Rightarrow> u64 \<times> u64) \<Rightarrow> 's mica_client \<Rightarrow> u64 \<Rightarrow> u64 \<Rightarrow> int \<times> 's mica_client" where
  "init_shmem_pool rproc_mmap client pa sz =
     (case rproc_mmap pa sz of (va, pa) \<Rightarrow>
        if va = 0 then (- EPERM, client)
        else (0, client\<lparr>mc_phys_shmem_start := pa, mc_shmem_size := ucast sz,
          mc_virt_shmem_start := va, mc_virt_shmem_end := va + sz, mc_unused_shmem_start := va\<rparr>))"

definition alloc_shmem_region ::
  "(u64 \<Rightarrow> u64) \<Rightarrow> 's mica_client \<Rightarrow> u64 \<Rightarrow> u64 \<Rightarrow> u64 \<times> 's mica_client" where
  "alloc_shmem_region p2v client phys sz =
     (let va = (if phys = 0 then mc_unused_shmem_start client else shm_pool_phys_to_virt p2v phys) in
      if phys \<noteq> 0 \<and> (va = 0 \<or> va < mc_unused_shmem_start client) then (0, client)
      else if va + sz > mc_virt_shmem_end client then (0, client)
      else (va, client\<lparr>mc_unused_shmem_start := va + sz\<rparr>))"

section \<open>Invariant and allocation sequences\<close>

definition pool_inv :: "'s mica_client \<Rightarrow> bool" where
  "pool_inv c \<longleftrightarrow> mc_virt_shmem_start c \<le> mc_unused_shmem_start c
     \<and> mc_unused_shmem_start c \<le> mc_virt_shmem_end c \<and> 0 < mc_virt_shmem_start c"

text \<open>
  \<open>alloc_seq\<close> serves a list of requests (physical address and size) and records the regions
  handed out, as start and size. \<open>fits\<close> says that no request is so large that the
  address arithmetic wraps.
\<close>

fun alloc_seq ::
  "(u64 \<Rightarrow> u64) \<Rightarrow> 's mica_client \<Rightarrow> (u64 \<times> u64) list \<Rightarrow> (nat \<times> nat) list \<times> 's mica_client" where
  "alloc_seq p2v c [] = ([], c)"
| "alloc_seq p2v c ((phys, sz) # reqs) =
     (case alloc_shmem_region p2v c phys sz of (va, c') \<Rightarrow>
        (case alloc_seq p2v c' reqs of (rs, c'') \<Rightarrow>
           (if va = 0 then rs else (unat va, unat sz) # rs, c'')))"

definition p2v_in_pool :: "(u64 \<Rightarrow> u64) \<Rightarrow> 's mica_client \<Rightarrow> bool" where
  "p2v_in_pool p2v c \<longleftrightarrow> (\<forall>phys. p2v phys = 0
     \<or> mc_virt_shmem_start c \<le> p2v phys \<and> p2v phys \<le> mc_virt_shmem_end c)"

definition fits :: "'s mica_client \<Rightarrow> u64 \<Rightarrow> bool" where
  "fits c sz \<longleftrightarrow> unat (mc_virt_shmem_end c) + unat sz < 2 ^ 64"

fun regions_within :: "nat \<Rightarrow> nat \<Rightarrow> (nat \<times> nat) list \<Rightarrow> bool" where
  "regions_within lo hi [] = (lo \<le> hi)"
| "regions_within lo hi ((a, n) # rs) = (lo \<le> a \<and> regions_within (a + n) hi rs)"

lemma regions_within_mono: "regions_within lo hi rs \<Longrightarrow> lo' \<le> lo \<Longrightarrow> regions_within lo' hi rs"
  by (cases "(lo, hi, rs)" rule: regions_within.cases) auto

lemma regions_within_le: "regions_within lo hi rs \<Longrightarrow> lo \<le> hi"
  by (induction lo hi rs rule: regions_within.induct) auto

lemma regions_within_nth:
  "regions_within lo hi rs \<Longrightarrow> i < length rs \<Longrightarrow> lo \<le> fst (rs ! i) \<and> fst (rs ! i) + snd (rs ! i) \<le> hi"
proof (induction lo hi rs arbitrary: i rule: regions_within.induct)
  case (2 lo hi a n rs)
  then show ?case using regions_within_le [of "a + n" hi rs] by (cases i) force+
qed simp

lemma regions_within_disjoint:
  "regions_within lo hi rs \<Longrightarrow> i < j \<Longrightarrow> j < length rs \<Longrightarrow>
   fst (rs ! i) + snd (rs ! i) \<le> fst (rs ! j)"
proof (induction lo hi rs arbitrary: i j rule: regions_within.induct)
  case (2 lo hi a n rs)
  then show ?case
  proof (cases i)
    case 0
    then show ?thesis using 2 regions_within_nth [of "a + n" hi rs "j - 1"] by (cases j) auto
  next
    case (Suc i')
    then show ?thesis using 2 by (cases j) auto
  qed
qed simp

lemma alloc_shmem_region_ok:
  assumes "pool_inv c" "p2v_in_pool p2v c" "fits c sz" "alloc_shmem_region p2v c phys sz = (va, c')"
  shows "va = 0 \<and> c' = c \<or>
    va \<noteq> 0 \<and> c' = c\<lparr>mc_unused_shmem_start := va + sz\<rparr>
      \<and> mc_unused_shmem_start c \<le> va \<and> unat (va + sz) = unat va + unat sz
      \<and> va + sz \<le> mc_virt_shmem_end c \<and> pool_inv c'"
proof (cases "va = 0")
  case True
  then show ?thesis using assms by (auto simp: alloc_shmem_region_def Let_def pool_inv_def split: if_splits)
next
  case False
  then have va: "c' = c\<lparr>mc_unused_shmem_start := va + sz\<rparr>" "mc_unused_shmem_start c \<le> va"
    "va + sz \<le> mc_virt_shmem_end c"
    and src: "va = mc_unused_shmem_start c \<or> va = p2v phys"
    using assms(4) by (auto simp: alloc_shmem_region_def shm_pool_phys_to_virt_def Let_def split: if_splits)
  have "va \<le> mc_virt_shmem_end c"
    using src False assms(1,2) by (auto simp: pool_inv_def p2v_in_pool_def)
  then have "unat va + unat sz < 2 ^ 64" using assms(3) by (simp add: fits_def word_le_nat_alt)
  then have u: "unat (va + sz) = unat va + unat sz" by (simp add: unat_word_ariths)
  then have "va \<le> va + sz" by (simp add: word_le_nat_alt)
  then show ?thesis using False va u assms(1) by (auto simp: pool_inv_def)
qed

lemma alloc_seq_within:
  assumes "pool_inv c" "p2v_in_pool p2v c" "\<forall>r \<in> set reqs. fits c (snd r)" "alloc_seq p2v c reqs = (rs, c')"
  shows "pool_inv c' \<and> regions_within (unat (mc_unused_shmem_start c)) (unat (mc_virt_shmem_end c)) rs"
  using assms
proof (induction reqs arbitrary: c rs)
  case Nil
  then show ?case by (auto simp: pool_inv_def word_le_nat_alt)
next
  case (Cons r reqs)
  obtain phys sz where r: "r = (phys, sz)" by force
  obtain va c1 where a: "alloc_shmem_region p2v c phys sz = (va, c1)" by force
  obtain rs1 where s: "alloc_seq p2v c1 reqs = (rs1, c')" using Cons.prems(4) r a by (auto split: prod.splits)
  have "fits c sz" using Cons.prems(3) r by simp
  from alloc_shmem_region_ok [OF Cons.prems(1,2) this a] consider
    (fail) "va = 0" "c1 = c" |
    (ok) "va \<noteq> 0" "c1 = c\<lparr>mc_unused_shmem_start := va + sz\<rparr>" "mc_unused_shmem_start c \<le> va"
      "unat (va + sz) = unat va + unat sz" "pool_inv c1" by blast
  then show ?case
  proof cases
    case fail
    then show ?thesis using Cons a r s by simp
  next
    case ok
    have "p2v_in_pool p2v c1" "\<forall>r \<in> set reqs. fits c1 (snd r)"
      using Cons.prems(2,3) ok(2) by (simp_all add: p2v_in_pool_def fits_def)
    from Cons.IH [OF ok(5) this s] show ?thesis
      using ok a r s Cons.prems(4) by (auto simp: word_le_nat_alt)
  qed
qed

section \<open>Properties\<close>


definition demo_client :: "unit mica_client" where
  "demo_client = \<lparr>mc_debug = False, mc_gdb_server_thread = False, mc_path = '''', mc_ped_cfg = '''',
     mc_cpu_id = 3, mc_ped = BARE_METAL,
     mc_rproc = \<lparr>rp_state = RPROC_OFFLINE, rp_rsc_table = None, rp_rsc_len = 0, rp_bitmap = 0,
       rp_bootaddr = 0, rp_mems = []\<rparr>,
     mc_phys_shmem_start = 0x100, mc_shmem_size = 0x100, mc_virt_shmem_start = 0x1000,
     mc_virt_shmem_end = 0x1100, mc_unused_shmem_start = 0x1000, mc_vdev_shpool = None, mc_rdev = None,
     mc_rbuf_dev = None, mc_services = []\<rparr>"

definition demo_p2v :: "u64 \<Rightarrow> u64" where
  "demo_p2v phys = (if 0x100 \<le> phys \<and> phys < 0x200 then phys + 0xF00 else 0)"


lemma alloc_unused_spec:
  assumes "pool_inv c" "fits c sz"
  shows "alloc_shmem_region p2v c 0 sz =
    (if unat sz \<le> unat (mc_virt_shmem_end c) - unat (mc_unused_shmem_start c)
     then (mc_unused_shmem_start c, c\<lparr>mc_unused_shmem_start := mc_unused_shmem_start c + sz\<rparr>)
     else (0, c))"
proof -
  have le: "unat (mc_unused_shmem_start c) \<le> unat (mc_virt_shmem_end c)"
    using assms(1) by (simp add: pool_inv_def word_le_nat_alt)
  then have "unat (mc_unused_shmem_start c) + unat sz < 2 ^ 64"
    using assms(2) unfolding fits_def by linarith
  then have "unat (mc_unused_shmem_start c + sz) = unat (mc_unused_shmem_start c) + unat sz"
    by (simp add: unat_word_ariths)
  then have "mc_unused_shmem_start c + sz > mc_virt_shmem_end c \<longleftrightarrow>
    \<not> unat sz \<le> unat (mc_virt_shmem_end c) - unat (mc_unused_shmem_start c)"
    unfolding word_less_nat_alt using le by linarith
  then show ?thesis by (simp add: alloc_shmem_region_def Let_def)
qed

text \<open>
  \<open>alloc_shmem_region\<close> on a request without a physical address succeeds exactly when the
  rest of the pool holds the size, and then hands out the first unused byte; a request it refuses
  leaves the client unchanged.
\<close>

theorem alloc_shmem_next_fit:
  assumes "pool_inv c" "fits c sz"
  shows "alloc_shmem_region p2v c 0 sz =
    (if unat sz \<le> unat (mc_virt_shmem_end c) - unat (mc_unused_shmem_start c)
     then (mc_unused_shmem_start c, c\<lparr>mc_unused_shmem_start := mc_unused_shmem_start c + sz\<rparr>)
     else (0, c))"
  by (rule alloc_unused_spec [OF assms])

theorem alloc_shmem_next_fit_witness:
  "alloc_shmem_region demo_p2v demo_client 0 0x100 =
     (0x1000, demo_client\<lparr>mc_unused_shmem_start := 0x1000 + 0x100\<rparr>)"
  using alloc_shmem_next_fit [of demo_client "0x100" demo_p2v]
  by (simp add: pool_inv_def fits_def demo_client_def)

text \<open>
  Without the bound on the size, \<open>va + size\<close> wraps and the range check passes: the
  allocator hands out a region reaching past the pool and moves the unused mark below it.
\<close>

lemma alloc_shmem_wraps:
  "alloc_shmem_region demo_p2v demo_client 0 0xFFFFFFFFFFFFFFF0 =
     (0x1000, demo_client\<lparr>mc_unused_shmem_start := 0xFF0\<rparr>)"
  by (simp add: alloc_shmem_region_def Let_def demo_client_def)

end
