(* ===== verification/Rsc_Table.thy ===== *)
theory Rsc_Table
  imports Mica_Client
begin

text \<open>
  The endpoint table that lets rpmsg communication survive a restart of the host
  (\<open>library/remoteproc/mica_rsc_table.c\<close>): \<open>rsc_update_ept_table\<close> records the bound
  endpoints in the resource table, \<open>handle_mica_rsc\<close> reads them back as remote endpoints
  waiting for a service (\<open>register_remote_ept\<close> of \<open>rpmsg_service.c\<close>).
\<close>

section \<open>The model\<close>

text \<open>The fields of OpenAMP's \<open>struct rpmsg_endpoint\<close> that the table records.\<close>

record rpmsg_endpoint =
  re_name :: string
  re_addr :: u32
  re_dest_addr :: u32

record remote_ept =
  rem_name :: string
  rem_addr :: u32
  rem_dest_addr :: u32

text \<open>\<open>mem_ok e\<close> tells whether the node for endpoint \<open>e\<close> can be allocated.\<close>

definition register_remote_ept ::
  "(remote_ept \<Rightarrow> bool) \<Rightarrow> string \<Rightarrow> u32 \<Rightarrow> u32 \<Rightarrow> remote_ept list \<Rightarrow> remote_ept list" where
  "register_remote_ept mem_ok name addr dest_addr remote_ept_list =
     (let e = \<lparr>rem_name = strlcpy_buf RPMSG_NAME_SIZE name, rem_addr = addr, rem_dest_addr = dest_addr\<rparr>
      in if mem_ok e then remote_ept_list @ [e] else remote_ept_list)"

text \<open>The loop over \<open>endpoints[i]\<close>; \<open>k\<close> iterations remain.\<close>

fun restore_epts ::
  "(remote_ept \<Rightarrow> bool) \<Rightarrow> ept_info list \<Rightarrow> nat \<Rightarrow> nat \<Rightarrow> remote_ept list \<Rightarrow> remote_ept list outcome" where
  "restore_epts mem_ok endpoints i 0 rel = Ret rel"
| "restore_epts mem_ok endpoints i (Suc k) rel =
     (if i < length endpoints then
        let ept = endpoints ! i;
            rel' = (if ei_addr ept \<noteq> 0
                    then register_remote_ept mem_ok (ei_name ept) (ei_addr ept) (ei_dest_addr ept) rel
                    else rel)
        in restore_epts mem_ok endpoints (Suc i) k rel'
      else Fault)"

definition handle_mica_rsc ::
  "(remote_ept \<Rightarrow> bool) \<Rightarrow> fw_rsc_ept \<Rightarrow> remote_ept list \<Rightarrow> (int \<times> remote_ept list) outcome" where
  "handle_mica_rsc mem_ok rsc rel =
     (case rsc_type_of (er_type rsc) of
        RSC_VENDOR_EPT_TABLE \<Rightarrow>
          (case restore_epts mem_ok (er_endpoints rsc) 0 (unat (er_num_of_epts rsc)) rel of
             Ret rel' \<Rightarrow> Ret (0, rel') | Fault \<Rightarrow> Fault | Spinning \<Rightarrow> Spinning)
      | _ \<Rightarrow> Ret (0, rel))"

definition zero_ept :: ept_info where
  "zero_ept = \<lparr>ei_name = '''', ei_addr = 0, ei_dest_addr = 0\<rparr>"

definition empty_ept_table :: fw_rsc_ept where
  "empty_ept_table = \<lparr>er_type = 128, er_num_of_epts = 0, er_endpoints = replicate MAX_NUM_OF_EPTS zero_ept\<rparr>"

definition is_bound :: "rpmsg_endpoint \<Rightarrow> bool" where
  "is_bound ept \<longleftrightarrow> \<not> (re_addr ept = RPMSG_ADDR_ANY \<or> re_dest_addr ept = RPMSG_ADDR_ANY)"

definition remote_view :: "rpmsg_endpoint \<Rightarrow> ept_info" where
  "remote_view ept = \<lparr>ei_name = strlcpy_buf RPMSG_NAME_SIZE (re_name ept),
     ei_addr = re_dest_addr ept, ei_dest_addr = re_addr ept\<rparr>"

fun fill_ept_table :: "rpmsg_endpoint list \<Rightarrow> fw_rsc_ept \<Rightarrow> int \<times> fw_rsc_ept" where
  "fill_ept_table [] t = (0, t)"
| "fill_ept_table (ept # epts) t =
     (if \<not> is_bound ept then fill_ept_table epts t
      else let i = er_num_of_epts t in
        if unat i \<ge> MAX_NUM_OF_EPTS then (- ENOSPC, t)
        else fill_ept_table epts (t\<lparr>er_endpoints := (er_endpoints t)[unat i := remote_view ept],
               er_num_of_epts := i + 1\<rparr>))"

definition rsc_update_ept_table ::
  "resource_table \<Rightarrow> rpmsg_endpoint list \<Rightarrow> int \<times> resource_table" where
  "rsc_update_ept_table rsc_table endpoints =
     (case rt_ept rsc_table of
        None \<Rightarrow> (0, rsc_table)
      | Some _ \<Rightarrow>
          (case fill_ept_table endpoints empty_ept_table of
             (ret, t) \<Rightarrow> (ret, rsc_table\<lparr>rt_ept := Some t\<rparr>)))"

section \<open>Lemmas\<close>

definition table_holds :: "fw_rsc_ept \<Rightarrow> ept_info list \<Rightarrow> bool" where
  "table_holds t es \<longleftrightarrow> er_type t = 128 \<and> length es \<le> MAX_NUM_OF_EPTS
     \<and> unat (er_num_of_epts t) = length es \<and> length (er_endpoints t) = MAX_NUM_OF_EPTS
     \<and> take (length es) (er_endpoints t) = es"

lemma table_holds_empty: "table_holds empty_ept_table []"
  by (simp add: table_holds_def empty_ept_table_def)

lemma table_holds_snoc:
  assumes "table_holds t es" "length es < MAX_NUM_OF_EPTS"
  shows "table_holds (t\<lparr>er_endpoints := (er_endpoints t)[unat (er_num_of_epts t) := e],
    er_num_of_epts := er_num_of_epts t + 1\<rparr>) (es @ [e])"
proof -
  have n: "unat (er_num_of_epts t) = length es" using assms(1) by (simp add: table_holds_def)
  have "unat (er_num_of_epts t) + 1 < 2 ^ 32" using assms(2) n by (simp add: MAX_NUM_OF_EPTS_def)
  then have "unat (er_num_of_epts t + 1) = length es + 1"
    by (simp add: unat_word_ariths n)
  then show ?thesis using assms by (auto simp: table_holds_def n take_Suc_conv_app_nth)
qed

lemma fill_ept_table_holds:
  assumes "table_holds t es" "fill_ept_table epts t = (ret, t')"
  shows "table_holds t' (es @ take (MAX_NUM_OF_EPTS - length es) (map remote_view (filter is_bound epts)))
    \<and> ret = (if length es + length (filter is_bound epts) \<le> MAX_NUM_OF_EPTS then 0 else - ENOSPC)"
  using assms
proof (induction epts arbitrary: t es)
  case Nil
  then show ?case by (simp add: table_holds_def)
next
  case (Cons ept epts)
  show ?case
  proof (cases "is_bound ept")
    case False
    then show ?thesis using Cons by simp
  next
    case True
    have n: "unat (er_num_of_epts t) = length es" using Cons.prems(1) by (simp add: table_holds_def)
    show ?thesis
    proof (cases "length es < MAX_NUM_OF_EPTS")
      case True
      note s = table_holds_snoc [OF Cons.prems(1) True, of "remote_view ept"]
      have "fill_ept_table epts (t\<lparr>er_endpoints := (er_endpoints t)[unat (er_num_of_epts t) := remote_view ept],
        er_num_of_epts := er_num_of_epts t + 1\<rparr>) = (ret, t')"
        using Cons.prems(2) \<open>is_bound ept\<close> True n by simp
      from Cons.IH [OF s this] show ?thesis
        using \<open>is_bound ept\<close> True by (simp add: take_Cons')
    next
      case False
      then show ?thesis using Cons.prems \<open>is_bound ept\<close> n by (auto simp: table_holds_def)
    qed
  qed
qed

definition restored :: "ept_info \<Rightarrow> remote_ept" where
  "restored e = \<lparr>rem_name = strlcpy_buf RPMSG_NAME_SIZE (ei_name e), rem_addr = ei_addr e,
     rem_dest_addr = ei_dest_addr e\<rparr>"

lemma restore_epts_eq:
  assumes "i + k \<le> length es"
  shows "restore_epts mem_ok es i k rel =
    Ret (rel @ filter mem_ok (map restored (filter (\<lambda>e. ei_addr e \<noteq> 0) (take k (drop i es)))))"
  using assms
proof (induction k arbitrary: i rel)
  case (Suc k)
  then have "take (Suc k) (drop i es) = es ! i # take k (drop (Suc i) es)"
    by (metis Cons_nth_drop_Suc add_Suc_right less_le_trans not_add_less1 not_less take_Suc_Cons zero_less_Suc less_add_Suc1)
  then show ?case using Suc by (simp add: register_remote_ept_def restored_def Let_def)
qed simp

lemma handle_mica_rsc_holds:
  assumes "table_holds t es"
  shows "handle_mica_rsc mem_ok t rel =
    Ret (0, rel @ filter mem_ok (map restored (filter (\<lambda>e. ei_addr e \<noteq> 0) es)))"
  using assms by (simp add: table_holds_def handle_mica_rsc_def restore_epts_eq)

section \<open>Properties\<close>


definition demo_epts :: "rpmsg_endpoint list" where
  "demo_epts = [\<lparr>re_name = ''rpmsg-tty'', re_addr = 1024, re_dest_addr = 7\<rparr>,
     \<lparr>re_name = ''ns'', re_addr = 53, re_dest_addr = 0xFFFFFFFF\<rparr>]"

definition demo_rt :: resource_table where
  "demo_rt = \<lparr>rt_reserved0 = 0, rt_ept = Some empty_ept_table, rt_rbuf = None, rt_vdev = None\<rparr>"


text \<open>
  With more than 64 bound endpoints \<open>rsc_update_ept_table\<close> returns \<open>-ENOSPC\<close>
  and the table then holds the first 64 of them, still readable without leaving the table.
\<close>

theorem ept_table_full:
  assumes "rt_ept rt = Some old" "64 < length (filter is_bound epts)"
  shows "\<exists>t. rsc_update_ept_table rt epts = (- ENOSPC, rt\<lparr>rt_ept := Some t\<rparr>)
    \<and> er_num_of_epts t = 64 \<and> er_endpoints t = map remote_view (take 64 (filter is_bound epts))
    \<and> (\<exists>rel'. handle_mica_rsc mem_ok t rel = Ret (0, rel'))"
proof -
  obtain ret t where f: "fill_ept_table epts empty_ept_table = (ret, t)" by force
  from fill_ept_table_holds [OF table_holds_empty f] assms(2)
  have t: "table_holds t (take 64 (map remote_view (filter is_bound epts)))" "ret = - ENOSPC"
    by (simp_all add: MAX_NUM_OF_EPTS_def)
  then have "unat (er_num_of_epts t) = 64" "er_endpoints t = map remote_view (take 64 (filter is_bound epts))"
    using assms(2) by (auto simp: table_holds_def MAX_NUM_OF_EPTS_def take_map)
  then have "er_num_of_epts t = 64" by (simp add: word_unat_eq_iff)
  then show ?thesis
    using handle_mica_rsc_holds [OF t(1), of mem_ok rel] f t(2) assms(1) \<open>er_endpoints t = _\<close>
    by (intro exI [of _ t]) (simp add: rsc_update_ept_table_def)
qed

theorem ept_table_full_witness:
  "\<exists>t. rsc_update_ept_table demo_rt (replicate 65 (hd demo_epts)) = (- ENOSPC, demo_rt\<lparr>rt_ept := Some t\<rparr>)
    \<and> er_num_of_epts t = 64"
  using ept_table_full [of demo_rt empty_ept_table "replicate 65 (hd demo_epts)"]
  by (auto simp: demo_rt_def demo_epts_def is_bound_def)

text \<open>
  \<open>handle_mica_rsc\<close> trusts the count it reads: a table written by the client OS with a
  count above 64 is read past its end.
\<close>

lemma handle_mica_rsc_trusts_count:
  "handle_mica_rsc (\<lambda>_. True) (empty_ept_table\<lparr>er_num_of_epts := 65\<rparr>) [] = Fault"
proof -
  have "restore_epts m es i (Suc (length es - i)) rel = Fault" if "i \<le> length es" for m es i rel
    using that
  proof (induction "length es - i" arbitrary: i rel)
    case (Suc x)
    then have "i < length es" "x = length es - Suc i" "length es - i = Suc (length es - Suc i)" by auto
    then show ?case using Suc.hyps(1) [of "Suc i"] by (simp add: Let_def)
  qed simp
  from this [of 0 "replicate 64 zero_ept" "\<lambda>_. True" "[]"] show ?thesis
    by (simp add: handle_mica_rsc_def empty_ept_table_def MAX_NUM_OF_EPTS_def del: restore_epts.simps)
qed

end
