(* ===== verification/Rpmsg_Service.thy ===== *)
theory Rpmsg_Service
  imports Rsc_Table
begin

text \<open>
  The service registry (\<open>library/rpmsg_device/rpmsg_service.c\<close>): services register with a
  client, remote endpoints announce themselves, and each announced endpoint is bound to the
  first service that matches its name or waits in \<open>remote_ept_list\<close> until such a service
  registers. The callbacks of a service act on a world \<open>'w\<close> (the rpmsg device and the state
  of the services); \<open>endpoints\<close> reads the endpoints of the rpmsg device in that world. A
  running client has a resource table; without one there is no endpoint table to update.
\<close>

section \<open>The model\<close>

record 'w mica_service =
  ms_name :: string
  ms_init :: "('w \<Rightarrow> 'w) option"
  ms_remove :: "('w \<Rightarrow> 'w) option"
  ms_rpmsg_ns_match :: "(string \<Rightarrow> u32 \<Rightarrow> u32 \<Rightarrow> bool) option"
  ms_rpmsg_ns_bind_cb :: "(string \<Rightarrow> u32 \<Rightarrow> u32 \<Rightarrow> 'w \<Rightarrow> 'w) option"
  ms_get_match_device :: "('w \<Rightarrow> nat \<Rightarrow> string) option"

record 'w svc_state =
  ss_client :: "'w mica_service mica_client"
  ss_remote_ept_list :: "remote_ept list"
  ss_world :: 'w

definition client_rsc_update :: "('w \<Rightarrow> rpmsg_endpoint list) \<Rightarrow> 'w svc_state \<Rightarrow> 'w svc_state" where
  "client_rsc_update endpoints st =
     (case rp_rsc_table (mc_rproc (ss_client st)) of
        None \<Rightarrow> st
      | Some rt \<Rightarrow> st\<lparr>ss_client := (ss_client st)\<lparr>mc_rproc := (mc_rproc (ss_client st))\<lparr>rp_rsc_table :=
          Some (snd (rsc_update_ept_table rt (endpoints (ss_world st))))\<rparr>\<rparr>\<rparr>)"

text \<open>
  \<open>snprintf(str + strlen(str), size - strlen(str), \<dots>)\<close>: the size argument is a
  \<open>size_t\<close> and one byte of it is for the terminating NUL.
\<close>

definition snprintf_append :: "nat \<Rightarrow> string \<Rightarrow> string \<Rightarrow> string" where
  "snprintf_append sz str s = str @ take (unat (of_nat sz - of_nat (length str) :: u64) - 1) s"

fun print_services :: "'w \<Rightarrow> 'w mica_service list \<Rightarrow> nat \<Rightarrow> string \<Rightarrow> string" where
  "print_services w [] sz str = str"
| "print_services w (svc # svcs) sz str =
     print_services w svcs sz
       (case ms_get_match_device svc of
          Some f \<Rightarrow> str @ f w (unat (of_nat sz - of_nat (length str) :: u64))
        | None \<Rightarrow> snprintf_append sz str (ms_name svc @ '' ''))"

definition print_device_of_service :: "'w svc_state \<Rightarrow> nat \<Rightarrow> string \<Rightarrow> string" where
  "print_device_of_service st sz str = print_services (ss_world st) (mc_services (ss_client st)) sz str"

text \<open>The walk over \<open>remote_ept_list\<close>: matching nodes are bound and unlinked.\<close>

fun bind_pending ::
  "('w \<Rightarrow> rpmsg_endpoint list) \<Rightarrow> (string \<Rightarrow> u32 \<Rightarrow> u32 \<Rightarrow> bool) \<Rightarrow> (string \<Rightarrow> u32 \<Rightarrow> u32 \<Rightarrow> 'w \<Rightarrow> 'w) \<Rightarrow>
   remote_ept list \<Rightarrow> 'w svc_state \<Rightarrow> remote_ept list \<times> 'w svc_state" where
  "bind_pending endpoints match bind [] st = ([], st)"
| "bind_pending endpoints match bind (r # rs) st =
     (if match (rem_name r) (rem_addr r) (rem_dest_addr r) then
        bind_pending endpoints match bind rs (client_rsc_update endpoints
          (st\<lparr>ss_world := bind (rem_name r) (rem_addr r) (rem_dest_addr r) (ss_world st)\<rparr>))
      else case bind_pending endpoints match bind rs st of (rs', st') \<Rightarrow> (r # rs', st'))"

definition mica_register_service ::
  "('w \<Rightarrow> rpmsg_endpoint list) \<Rightarrow> bool \<Rightarrow> 'w svc_state \<Rightarrow> 'w mica_service \<Rightarrow> int \<times> 'w svc_state" where
  "mica_register_service endpoints malloc_ok st svc =
     (if rp_state (mc_rproc (ss_client st)) \<noteq> RPROC_RUNNING then (- EPERM, st)
      else if \<not> malloc_ok then (- ENOMEM, st)
      else
        let st = (case ms_init svc of None \<Rightarrow> st | Some f \<Rightarrow> st\<lparr>ss_world := f (ss_world st)\<rparr>);
            add = (\<lambda>st. st\<lparr>ss_client := (ss_client st)\<lparr>mc_services := mc_services (ss_client st) @ [svc]\<rparr>\<rparr>)
        in case ms_rpmsg_ns_match svc of
             None \<Rightarrow> (0, add st)
           | Some match \<Rightarrow>
               (case ms_rpmsg_ns_bind_cb svc of
                  None \<Rightarrow> (- EINVAL,
                    case ms_remove svc of None \<Rightarrow> st | Some f \<Rightarrow> st\<lparr>ss_world := f (ss_world st)\<rparr>)
                | Some bind \<Rightarrow>
                    (case bind_pending endpoints match bind (ss_remote_ept_list st) st of (rs, st') \<Rightarrow>
                       (0, add (st'\<lparr>ss_remote_ept_list := rs\<rparr>)))))"

fun remove_services :: "'w mica_service list \<Rightarrow> 'w \<Rightarrow> 'w" where
  "remove_services [] w = w"
| "remove_services (svc # svcs) w =
     remove_services svcs (case ms_remove svc of None \<Rightarrow> w | Some f \<Rightarrow> f w)"

definition mica_unregister_all_services :: "'w svc_state \<Rightarrow> 'w svc_state" where
  "mica_unregister_all_services st =
     st\<lparr>ss_world := remove_services (mc_services (ss_client st)) (ss_world st),
        ss_client := (ss_client st)\<lparr>mc_services := []\<rparr>\<rparr>"

text \<open>
  The walk over the services for a new name: \<open>Some (Some bind)\<close> is the first match,
  \<open>Some None\<close> the early return on a service that matches names but cannot bind, and
  \<open>None\<close> that no service matched.
\<close>

fun find_binder ::
  "'w mica_service list \<Rightarrow> string \<Rightarrow> u32 \<Rightarrow> (string \<Rightarrow> u32 \<Rightarrow> u32 \<Rightarrow> 'w \<Rightarrow> 'w) option option" where
  "find_binder [] name dest = None"
| "find_binder (svc # svcs) name dest =
     (case ms_rpmsg_ns_match svc of
        None \<Rightarrow> find_binder svcs name dest
      | Some match \<Rightarrow>
          (case ms_rpmsg_ns_bind_cb svc of
             None \<Rightarrow> Some None
           | Some bind \<Rightarrow> if match name dest RPMSG_ADDR_ANY then Some (Some bind)
                          else find_binder svcs name dest))"

definition mica_ns_bind_cb ::
  "('w \<Rightarrow> rpmsg_endpoint list) \<Rightarrow> (remote_ept \<Rightarrow> bool) \<Rightarrow> 'w svc_state \<Rightarrow> string \<Rightarrow> u32 \<Rightarrow> 'w svc_state" where
  "mica_ns_bind_cb endpoints mem_ok st name dest =
     (case find_binder (mc_services (ss_client st)) name dest of
        Some None \<Rightarrow> st
      | Some (Some bind) \<Rightarrow>
          client_rsc_update endpoints (st\<lparr>ss_world := bind name dest RPMSG_ADDR_ANY (ss_world st)\<rparr>)
      | None \<Rightarrow>
          let r = \<lparr>rem_name = strlcpy_buf RPMSG_NAME_SIZE name, rem_addr = dest, rem_dest_addr = RPMSG_ADDR_ANY\<rparr>
          in if mem_ok r then st\<lparr>ss_remote_ept_list := ss_remote_ept_list st @ [r]\<rparr> else st)"

section \<open>Lemmas\<close>

lemma client_rsc_update_simps [simp]:
  "ss_world (client_rsc_update endpoints st) = ss_world st"
  "ss_remote_ept_list (client_rsc_update endpoints st) = ss_remote_ept_list st"
  "mc_services (ss_client (client_rsc_update endpoints st)) = mc_services (ss_client st)"
  "rp_state (mc_rproc (ss_client (client_rsc_update endpoints st))) = rp_state (mc_rproc (ss_client st))"
  by (simp_all add: client_rsc_update_def split: option.splits)

definition ept_matches :: "(string \<Rightarrow> u32 \<Rightarrow> u32 \<Rightarrow> bool) \<Rightarrow> remote_ept \<Rightarrow> bool" where
  "ept_matches match r \<longleftrightarrow> match (rem_name r) (rem_addr r) (rem_dest_addr r)"

lemma bind_pending_eq:
  assumes "bind_pending endpoints match bind rs st = (rs', st')"
  shows "rs' = filter (\<lambda>r. \<not> ept_matches match r) rs
    \<and> ss_world st' = fold (\<lambda>r. bind (rem_name r) (rem_addr r) (rem_dest_addr r))
        (filter (ept_matches match) rs) (ss_world st)
    \<and> mc_services (ss_client st') = mc_services (ss_client st)
    \<and> rp_state (mc_rproc (ss_client st')) = rp_state (mc_rproc (ss_client st))
    \<and> ss_remote_ept_list st' = ss_remote_ept_list st"
  using assms
  by (induction rs arbitrary: rs' st) (auto simp: ept_matches_def split: if_splits prod.splits)

text \<open>What a service can bind: it has both callbacks and its name test holds.\<close>

definition svc_wants :: "'w mica_service \<Rightarrow> remote_ept \<Rightarrow> bool" where
  "svc_wants svc r \<longleftrightarrow>
     (case ms_rpmsg_ns_match svc of None \<Rightarrow> False | Some match \<Rightarrow> ept_matches match r)"

definition svc_complete :: "'w mica_service \<Rightarrow> bool" where
  "svc_complete svc \<longleftrightarrow> ms_rpmsg_ns_match svc \<noteq> None \<longrightarrow> ms_rpmsg_ns_bind_cb svc \<noteq> None"

lemma find_binder_None:
  "find_binder svcs name dest = None \<Longrightarrow> svc \<in> set svcs \<Longrightarrow>
   \<not> svc_wants svc \<lparr>rem_name = name, rem_addr = dest, rem_dest_addr = RPMSG_ADDR_ANY\<rparr>"
  by (induction svcs) (auto simp: svc_wants_def ept_matches_def split: option.splits if_splits)

lemma find_binder_first:
  assumes "\<forall>svc \<in> set svcs. svc_complete svc"
  shows "find_binder svcs name dest =
    map_option ms_rpmsg_ns_bind_cb (find (\<lambda>svc. svc_wants svc
      \<lparr>rem_name = name, rem_addr = dest, rem_dest_addr = RPMSG_ADDR_ANY\<rparr>) svcs)"
  using assms
  by (induction svcs) (auto simp: svc_wants_def ept_matches_def svc_complete_def split: option.splits)

definition registry_inv :: "'w svc_state \<Rightarrow> bool" where
  "registry_inv st \<longleftrightarrow> (\<forall>svc \<in> set (mc_services (ss_client st)). svc_complete svc
     \<and> (\<forall>r \<in> set (ss_remote_ept_list st). \<not> svc_wants svc r))"

lemma register_keeps_inv:
  assumes "registry_inv st" "mica_register_service endpoints malloc_ok st svc = (ret, st')"
  shows "registry_inv st'"
proof -
  have init: "registry_inv (case ms_init svc of None \<Rightarrow> st | Some f \<Rightarrow> st\<lparr>ss_world := f (ss_world st)\<rparr>)"
    (is "registry_inv ?st")
    using assms(1) by (simp add: registry_inv_def split: option.splits)
  show ?thesis
  proof (cases "ms_rpmsg_ns_match svc")
    case None
    then show ?thesis using assms init
      by (auto simp: mica_register_service_def registry_inv_def svc_complete_def svc_wants_def Let_def
          split: if_splits)
  next
    case (Some match)
    show ?thesis
    proof (cases "ms_rpmsg_ns_bind_cb svc")
      case None
      then show ?thesis using assms init Some
        by (auto simp: mica_register_service_def registry_inv_def Let_def split: if_splits option.splits)
    next
      case (Some bind)
      obtain rs st1 where b: "bind_pending endpoints match bind (ss_remote_ept_list ?st) ?st = (rs, st1)"
        by force
      show ?thesis using assms init Some \<open>ms_rpmsg_ns_match svc = Some match\<close> b bind_pending_eq [OF b]
        by (auto simp: mica_register_service_def registry_inv_def svc_complete_def svc_wants_def Let_def
            split: if_splits)
    qed
  qed
qed

lemma announce_keeps_inv:
  assumes "registry_inv st" "length name < RPMSG_NAME_SIZE" "NUL \<notin> set name"
  shows "registry_inv (mica_ns_bind_cb endpoints mem_ok st name dest)"
proof (cases "find_binder (mc_services (ss_client st)) name dest")
  case None
  then show ?thesis using assms find_binder_None [OF None]
    by (auto simp: mica_ns_bind_cb_def registry_inv_def Let_def strlcpy_buf_id)
next
  case (Some b)
  then show ?thesis using assms(1)
    by (auto simp: mica_ns_bind_cb_def registry_inv_def split: option.splits)
qed

lemma remove_services_fold:
  "remove_services svcs w = fold (\<lambda>f. f) (List.map_filter ms_remove svcs) w"
  by (induction svcs arbitrary: w) (auto simp: List.map_filter_def split: option.splits)

section \<open>Properties\<close>

text \<open>
  Registrations and announcements in any order. An announced name comes from a name service
  message, whose name field is a terminated string of at most 31 characters.
\<close>

datatype 'w svc_op = Register "'w mica_service" bool | Announce string u32

fun svc_exec ::
  "('w \<Rightarrow> rpmsg_endpoint list) \<Rightarrow> (remote_ept \<Rightarrow> bool) \<Rightarrow> 'w svc_op list \<Rightarrow> 'w svc_state \<Rightarrow> 'w svc_state" where
  "svc_exec endpoints mem_ok [] st = st"
| "svc_exec endpoints mem_ok (Register svc m # ops) st =
     svc_exec endpoints mem_ok ops (snd (mica_register_service endpoints m st svc))"
| "svc_exec endpoints mem_ok (Announce name dest # ops) st =
     svc_exec endpoints mem_ok ops (mica_ns_bind_cb endpoints mem_ok st name dest)"

fun op_name_ok :: "'w svc_op \<Rightarrow> bool" where
  "op_name_ok (Register svc m) = True"
| "op_name_ok (Announce name dest) = (length name < RPMSG_NAME_SIZE \<and> NUL \<notin> set name)"

text \<open>
  C19: Starting without services and waiting endpoints, after any sequence of registrations and
  announcements no waiting endpoint is one that a registered service would have
  matched, and every registered service that tests names can also bind. Announced names are C strings that
  fit in the name field.
\<close>

theorem registry_no_missed_binding:
  assumes "mc_services (ss_client st) = []" "\<forall>op \<in> set ops. op_name_ok op"
  shows "registry_inv (svc_exec endpoints mem_ok ops st)"
proof -
  have "registry_inv st" using assms(1) by (simp add: registry_inv_def)
  then show ?thesis using assms(2)
  proof (induction ops arbitrary: st)
    case (Cons op ops)
    show ?case
    proof (cases op)
      case (Register svc m)
      then show ?thesis
        using Cons register_keeps_inv [of st endpoints m svc] by (simp add: prod_eq_iff)
    next
      case (Announce name dest)
      then show ?thesis using Cons announce_keeps_inv [of st name endpoints mem_ok dest] by simp
    qed
  qed simp
qed

definition demo_svc :: "nat mica_service" where
  "demo_svc = \<lparr>ms_name = ''tty'', ms_init = None, ms_remove = None,
     ms_rpmsg_ns_match = Some (\<lambda>n a d. n = ''tty''),
     ms_rpmsg_ns_bind_cb = Some (\<lambda>n a d w. Suc w), ms_get_match_device = None\<rparr>"

definition demo_svc_state :: "nat svc_state" where
  "demo_svc_state = \<lparr>ss_client = \<lparr>mc_debug = False, mc_gdb_server_thread = False, mc_path = '''',
     mc_ped_cfg = '''', mc_cpu_id = 3, mc_ped = BARE_METAL,
     mc_rproc = \<lparr>rp_state = RPROC_RUNNING, rp_rsc_table = Some demo_rt, rp_rsc_len = 0, rp_bitmap = 0,
       rp_bootaddr = 0, rp_mems = []\<rparr>,
     mc_phys_shmem_start = 0, mc_shmem_size = 0, mc_virt_shmem_start = 0,
     mc_virt_shmem_end = 0, mc_unused_shmem_start = 0, mc_vdev_shpool = None, mc_rdev = None,
     mc_rbuf_dev = None, mc_services = []\<rparr>, ss_remote_ept_list = [], ss_world = 0\<rparr>"

theorem registry_no_missed_binding_witness:
  "registry_inv (svc_exec (\<lambda>w. []) (\<lambda>e. True)
     [Announce ''tty'' 7, Announce ''other'' 8, Register demo_svc True, Announce ''tty'' 9] demo_svc_state)
   \<and> ss_world (svc_exec (\<lambda>w. []) (\<lambda>e. True)
     [Announce ''tty'' 7, Announce ''other'' 8, Register demo_svc True, Announce ''tty'' 9] demo_svc_state) = 2"
proof
  show "registry_inv (svc_exec (\<lambda>w. []) (\<lambda>e. True)
     [Announce ''tty'' 7, Announce ''other'' 8, Register demo_svc True, Announce ''tty'' 9] demo_svc_state)"
    by (rule registry_no_missed_binding) (simp_all add: demo_svc_state_def)
  show "ss_world (svc_exec (\<lambda>w. []) (\<lambda>e. True)
     [Announce ''tty'' 7, Announce ''other'' 8, Register demo_svc True, Announce ''tty'' 9] demo_svc_state) = 2"
    by (simp add: demo_svc_state_def demo_svc_def mica_register_service_def mica_ns_bind_cb_def
        strlcpy_buf_def cstr_def client_rsc_update_def)
qed

text \<open>
  Registering a service that tests and binds names, on a running client, binds it to every
  waiting endpoint it matches, in the order they were announced, takes exactly those off the list,
  and appends the service to the client.
\<close>

theorem register_binds_waiting:
  assumes "rp_state (mc_rproc (ss_client st)) = RPROC_RUNNING"
    and "ms_rpmsg_ns_match svc = Some match" "ms_rpmsg_ns_bind_cb svc = Some bind"
  shows "\<exists>st'. mica_register_service endpoints True st svc = (0, st')
    \<and> ss_remote_ept_list st' = filter (\<lambda>r. \<not> ept_matches match r) (ss_remote_ept_list st)
    \<and> ss_world st' = fold (\<lambda>r. bind (rem_name r) (rem_addr r) (rem_dest_addr r))
        (filter (ept_matches match) (ss_remote_ept_list st))
        (case ms_init svc of None \<Rightarrow> ss_world st | Some f \<Rightarrow> f (ss_world st))
    \<and> mc_services (ss_client st') = mc_services (ss_client st) @ [svc]"
proof -
  let ?st = "case ms_init svc of None \<Rightarrow> st | Some f \<Rightarrow> st\<lparr>ss_world := f (ss_world st)\<rparr>"
  have i: "ss_remote_ept_list ?st = ss_remote_ept_list st" "mc_services (ss_client ?st) = mc_services (ss_client st)"
    "ss_world ?st = (case ms_init svc of None \<Rightarrow> ss_world st | Some f \<Rightarrow> f (ss_world st))"
    by (simp_all split: option.splits)
  obtain rs st1 where b: "bind_pending endpoints match bind (ss_remote_ept_list ?st) ?st = (rs, st1)"
    by force
  show ?thesis
    using assms b bind_pending_eq [OF b] i by (simp add: mica_register_service_def Let_def)
qed

theorem register_binds_waiting_witness:
  "\<exists>st'. mica_register_service (\<lambda>w. []) True
       (demo_svc_state\<lparr>ss_remote_ept_list := [\<lparr>rem_name = ''tty'', rem_addr = 7, rem_dest_addr = 9\<rparr>]\<rparr>) demo_svc
     = (0, st') \<and> ss_remote_ept_list st' = [] \<and> ss_world st' = 1 \<and> mc_services (ss_client st') = [demo_svc]"
  using register_binds_waiting [of
      "demo_svc_state\<lparr>ss_remote_ept_list := [\<lparr>rem_name = ''tty'', rem_addr = 7, rem_dest_addr = 9\<rparr>]\<rparr>"
      demo_svc "\<lambda>n a d. n = ''tty''" "\<lambda>n a d w. Suc w" "\<lambda>w. []"]
  by (auto simp: demo_svc_state_def demo_svc_def ept_matches_def)

text \<open>
  A refused registration: on a client that is not running it returns \<open>-EPERM\<close>, without
  memory \<open>-ENOMEM\<close>, both without any effect; a service that tests names but cannot bind
  them is initialised, removed again and refused with \<open>-EINVAL\<close>, and neither the services nor
  the waiting endpoints change.
\<close>

theorem register_refused:
  "(rp_state (mc_rproc (ss_client st)) \<noteq> RPROC_RUNNING \<longrightarrow>
      mica_register_service endpoints m st svc = (- EPERM, st))
   \<and> (rp_state (mc_rproc (ss_client st)) = RPROC_RUNNING \<longrightarrow>
      mica_register_service endpoints False st svc = (- ENOMEM, st))
   \<and> (rp_state (mc_rproc (ss_client st)) = RPROC_RUNNING \<and> \<not> svc_complete svc \<longrightarrow>
      mica_register_service endpoints True st svc = (- EINVAL, st\<lparr>ss_world :=
        (case ms_remove svc of None \<Rightarrow> id | Some f \<Rightarrow> f)
          ((case ms_init svc of None \<Rightarrow> id | Some f \<Rightarrow> f) (ss_world st))\<rparr>))"
  by (auto simp: mica_register_service_def svc_complete_def Let_def split: option.splits)

theorem register_refused_witness:
  "mica_register_service (\<lambda>w. []) True demo_svc_state (demo_svc\<lparr>ms_rpmsg_ns_bind_cb := None, ms_init := Some Suc\<rparr>)
     = (- EINVAL, demo_svc_state\<lparr>ss_world := 1\<rparr>)"
  using register_refused [of demo_svc_state "\<lambda>w. []" True "demo_svc\<lparr>ms_rpmsg_ns_bind_cb := None, ms_init := Some Suc\<rparr>"]
  by (simp add: demo_svc_state_def demo_svc_def svc_complete_def)

text \<open>
  An announced endpoint is bound by the first registered service that matches its name; when
  none matches it joins the end of the waiting list, and the services' world does not change.
\<close>

theorem announce_first_match:
  assumes "\<forall>svc \<in> set (mc_services (ss_client st)). svc_complete svc"
    and "length name < RPMSG_NAME_SIZE" "NUL \<notin> set name"
  shows "let r = \<lparr>rem_name = name, rem_addr = dest, rem_dest_addr = RPMSG_ADDR_ANY\<rparr>;
             st' = mica_ns_bind_cb endpoints (\<lambda>_. True) st name dest
         in case find (\<lambda>svc. svc_wants svc r) (mc_services (ss_client st)) of
              Some svc \<Rightarrow> (\<exists>bind. ms_rpmsg_ns_bind_cb svc = Some bind
                \<and> ss_world st' = bind name dest RPMSG_ADDR_ANY (ss_world st)
                \<and> ss_remote_ept_list st' = ss_remote_ept_list st)
            | None \<Rightarrow> ss_remote_ept_list st' = ss_remote_ept_list st @ [r] \<and> ss_world st' = ss_world st"
proof -
  let ?r = "\<lparr>rem_name = name, rem_addr = dest, rem_dest_addr = RPMSG_ADDR_ANY\<rparr>"
  note f = find_binder_first [OF assms(1), of name dest]
  show ?thesis
  proof (cases "find (\<lambda>svc. svc_wants svc ?r) (mc_services (ss_client st))")
    case None
    then show ?thesis using f assms(2,3)
      by (simp add: mica_ns_bind_cb_def Let_def strlcpy_buf_id)
  next
    case (Some svc)
    then have "svc \<in> set (mc_services (ss_client st))" "svc_wants svc ?r"
      by (auto simp: find_Some_iff)
    then obtain bind where "ms_rpmsg_ns_bind_cb svc = Some bind"
      using assms(1) by (fastforce simp: svc_complete_def svc_wants_def split: option.splits)
    then show ?thesis using f Some by (simp add: mica_ns_bind_cb_def Let_def)
  qed
qed

theorem announce_first_match_witness:
  "ss_remote_ept_list (mica_ns_bind_cb (\<lambda>w. []) (\<lambda>_. True) demo_svc_state ''tty'' 7) =
     [\<lparr>rem_name = ''tty'', rem_addr = 7, rem_dest_addr = RPMSG_ADDR_ANY\<rparr>]"
  using announce_first_match [of demo_svc_state "''tty''" 7 "\<lambda>w. []"]
  by (simp add: demo_svc_state_def Let_def)

text \<open>
  \<open>mica_unregister_all_services\<close> calls the remove callback of every service once, in
  registration order, and leaves the client without services.
\<close>

theorem unregister_all_removes:
  "mica_unregister_all_services st =
     st\<lparr>ss_world := fold (\<lambda>f. f) (List.map_filter ms_remove (mc_services (ss_client st))) (ss_world st),
        ss_client := (ss_client st)\<lparr>mc_services := []\<rparr>\<rparr>"
  by (simp add: mica_unregister_all_services_def remove_services_fold)



end
