(* ===== verification/Rpc_Queue.thy ===== *)
theory Rpc_Queue
  imports Mcs_Prelude "HOL-Library.Multiset"
begin

text \<open>
  The request queue between the rpmsg callback and the RPC worker threads
  (\<open>mica/micad/services/rpc/rpc_workers.c\<close>). The indices are C ints that never
  leave \<open>0..size\<close>, so they are natural numbers here; the elements are request
  pointers, \<open>None\<close> the null pointer. \<open>__dequeue\<close> and \<open>__enqueue\<close> run under
  the queue lock, so each is one step.
\<close>

section \<open>The model\<close>

definition WORKERS :: nat where "WORKERS = 5"
definition MAX_QUEUE_SIZE :: nat where "MAX_QUEUE_SIZE = 256"

record 'r rpc_queue =
  rq_q :: "'r option list"
  rq_head :: nat
  rq_tail :: nat
  rq_size :: nat

definition rq_init :: "'r rpc_queue \<Rightarrow> nat \<Rightarrow> 'r rpc_queue" where
  "rq_init rq sz = rq\<lparr>rq_q := replicate sz None @ drop sz (rq_q rq), rq_head := 0, rq_tail := 0, rq_size := sz\<rparr>"

definition dequeue_nolock :: "'r rpc_queue \<Rightarrow> int \<times> 'r option \<times> 'r rpc_queue" where
  "dequeue_nolock rq =
     (if rq_head rq = rq_tail rq then (- 1, None, rq)
      else let r = rq_q rq ! rq_head rq; h = rq_head rq + 1
        in (0, r, rq\<lparr>rq_head := (if h = rq_size rq then 0 else h)\<rparr>))"

definition enqueue_nolock :: "'r rpc_queue \<Rightarrow> 'r option \<Rightarrow> int \<times> 'r rpc_queue" where
  "enqueue_nolock rq req =
     (if (rq_tail rq + 1) mod rq_size rq = rq_head rq then (- 1, rq)
      else let t = rq_tail rq + 1
        in (0, rq\<lparr>rq_q := (rq_q rq)[rq_tail rq := req],
                  rq_tail := (if t = rq_size rq then 0 else t)\<rparr>))"

text \<open>
  \<open>dequeue\<close> waits on the condition when the queue is empty and then returns without a
  request; \<open>enqueue\<close> signals the condition when it has stored one. The second component tells
  whether the caller waited, respectively whether it signalled.
\<close>

definition dequeue :: "'r rpc_queue \<Rightarrow> int \<times> bool \<times> 'r option \<times> 'r rpc_queue" where
  "dequeue rq = (case dequeue_nolock rq of (err, r, rq') \<Rightarrow> (err, err = - 1, r, rq'))"

definition enqueue :: "'r rpc_queue \<Rightarrow> 'r option \<Rightarrow> int \<times> bool \<times> 'r rpc_queue" where
  "enqueue rq req = (case enqueue_nolock rq req of (err, rq') \<Rightarrow> (err, err = 0, rq'))"

definition enqueue_req :: "'r rpc_queue \<Rightarrow> 'r option \<Rightarrow> 'r rpc_queue" where
  "enqueue_req rx_q req =
     (case req of None \<Rightarrow> rx_q | Some _ \<Rightarrow> (case enqueue rx_q req of (_, _, rq) \<Rightarrow> rq))"

text \<open>A request: its data, the service it is for and the endpoint to answer on.\<close>

record ('svc, 'inst) req_t =
  rq_data :: "u8 list"
  rq_service :: "'svc option"
  rq_inst :: 'inst
  rq_priv :: nat

definition build_req ::
  "bool \<Rightarrow> u8 list \<Rightarrow> 'svc option \<Rightarrow> 'inst \<Rightarrow> nat \<Rightarrow> ('svc, 'inst) req_t option" where
  "build_req malloc_ok data service inst priv =
     (if \<not> malloc_ok then None
      else Some \<lparr>rq_data = data, rq_service = service, rq_inst = inst, rq_priv = priv\<rparr>)"

text \<open>
  One turn of \<open>worker_thread\<close>, split where the lock is released: it takes a request, then runs
  its service. \<open>ws_hand\<close> is what each worker holds; \<open>ws_accepted\<close> and \<open>ws_served\<close>
  record the requests the queue took and the ones that were run.
\<close>

record 'r worker_state =
  ws_queue :: "'r rpc_queue"
  ws_hand :: "'r option list"
  ws_accepted :: "'r list"
  ws_taken :: "'r list"
  ws_served :: "'r list"

inductive worker_step :: "'r worker_state \<Rightarrow> 'r worker_state \<Rightarrow> bool" where
  ws_enqueue: "enqueue (ws_queue s) (Some r) = (0, sig, rq) \<Longrightarrow>
    worker_step s (s\<lparr>ws_queue := rq, ws_accepted := ws_accepted s @ [r]\<rparr>)"
| ws_full: "enqueue (ws_queue s) (Some r) = (- 1, sig, rq) \<Longrightarrow> worker_step s (s\<lparr>ws_queue := rq\<rparr>)"
| ws_take: "i < length (ws_hand s) \<Longrightarrow> ws_hand s ! i = None \<Longrightarrow>
    dequeue (ws_queue s) = (err, waited, Some r, rq) \<Longrightarrow>
    worker_step s (s\<lparr>ws_queue := rq, ws_hand := (ws_hand s)[i := Some r], ws_taken := ws_taken s @ [r]\<rparr>)"
| ws_idle: "i < length (ws_hand s) \<Longrightarrow> ws_hand s ! i = None \<Longrightarrow>
    dequeue (ws_queue s) = (err, waited, None, rq) \<Longrightarrow> worker_step s (s\<lparr>ws_queue := rq\<rparr>)"
| ws_serve: "i < length (ws_hand s) \<Longrightarrow> ws_hand s ! i = Some r \<Longrightarrow>
    worker_step s (s\<lparr>ws_hand := (ws_hand s)[i := None], ws_served := ws_served s @ [r]\<rparr>)"

definition workers_init :: "'r rpc_queue \<Rightarrow> 'r worker_state" where
  "workers_init rx_q = \<lparr>ws_queue = rq_init rx_q MAX_QUEUE_SIZE, ws_hand = replicate WORKERS None,
     ws_accepted = [], ws_taken = [], ws_served = []\<rparr>"

section \<open>Invariant and contents\<close>

definition rq_count :: "'r rpc_queue \<Rightarrow> nat" where
  "rq_count rq = (rq_tail rq + rq_size rq - rq_head rq) mod rq_size rq"

definition rq_contents :: "'r rpc_queue \<Rightarrow> 'r option list" where
  "rq_contents rq = map (\<lambda>j. rq_q rq ! ((rq_head rq + j) mod rq_size rq)) [0..<rq_count rq]"

definition rq_wf :: "'r rpc_queue \<Rightarrow> bool" where
  "rq_wf rq \<longleftrightarrow> 1 < rq_size rq \<and> rq_size rq \<le> length (rq_q rq)
     \<and> rq_head rq < rq_size rq \<and> rq_tail rq < rq_size rq"

lemma length_rq_contents [simp]: "length (rq_contents rq) = rq_count rq"
  by (simp add: rq_contents_def)

lemma rq_contents_nth:
  "j < rq_count rq \<Longrightarrow> rq_contents rq ! j = rq_q rq ! ((rq_head rq + j) mod rq_size rq)"
  by (simp add: rq_contents_def)

lemma rq_count_cases:
  assumes "rq_wf rq"
  shows "rq_count rq = (if rq_head rq \<le> rq_tail rq then rq_tail rq - rq_head rq
    else rq_tail rq + rq_size rq - rq_head rq)"
proof (cases "rq_head rq \<le> rq_tail rq")
  case True
  then have e: "rq_tail rq + rq_size rq - rq_head rq = (rq_tail rq - rq_head rq) + rq_size rq" by simp
  have "rq_tail rq - rq_head rq < rq_size rq" using assms by (auto simp: rq_wf_def)
  then have "(rq_tail rq - rq_head rq + rq_size rq) mod rq_size rq = rq_tail rq - rq_head rq"
    by (metis mod_add_self2 mod_less)
  then show ?thesis unfolding rq_count_def e using True by (simp only: if_True)
next
  case False
  then have "rq_tail rq + rq_size rq - rq_head rq < rq_size rq" using assms by (auto simp: rq_wf_def)
  then show ?thesis using False by (simp add: rq_count_def)
qed

lemma rq_count_lt: "rq_wf rq \<Longrightarrow> rq_count rq < rq_size rq"
  by (simp add: rq_count_def rq_wf_def)

lemma mod_succ: "h < n \<Longrightarrow> (if Suc h = n then 0 else Suc h) = Suc h mod (n :: nat)"
  by (auto simp: mod_if)

lemma rq_tail_pos: "rq_wf rq \<Longrightarrow> (rq_head rq + rq_count rq) mod rq_size rq = rq_tail rq"
  by (auto simp: rq_count_cases rq_wf_def)

lemma rq_full_iff:
  assumes "rq_wf rq"
  shows "(rq_tail rq + 1) mod rq_size rq = rq_head rq \<longleftrightarrow> rq_count rq + 1 = rq_size rq"
proof -
  have "(rq_tail rq + 1) mod rq_size rq = (if Suc (rq_tail rq) = rq_size rq then 0 else Suc (rq_tail rq))"
    using assms mod_succ [of "rq_tail rq" "rq_size rq"] by (simp add: rq_wf_def)
  then show ?thesis using assms by (auto simp: rq_count_cases [OF assms] rq_wf_def)
qed

lemma enqueue_nolock_ok:
  assumes wf: "rq_wf rq"
  shows "enqueue_nolock rq r = (err, rq') \<Longrightarrow>
    (if rq_count rq + 1 = rq_size rq then err = - 1 \<and> rq' = rq
     else err = 0 \<and> rq_wf rq' \<and> rq_size rq' = rq_size rq \<and> rq_contents rq' = rq_contents rq @ [r])"
proof (cases "rq_count rq + 1 = rq_size rq")
  case True
  then show "enqueue_nolock rq r = (err, rq') \<Longrightarrow> ?thesis"
    using rq_full_iff [OF wf] by (simp add: enqueue_nolock_def)
next
  case False
  assume e: "enqueue_nolock rq r = (err, rq')"
  have t: "rq_tail rq < rq_size rq" "rq_size rq \<le> length (rq_q rq)" "rq_head rq < rq_size rq"
    using wf by (simp_all add: rq_wf_def)
  have rq': "err = 0" "rq' = rq\<lparr>rq_q := (rq_q rq)[rq_tail rq := r], rq_tail := Suc (rq_tail rq) mod rq_size rq\<rparr>"
    using e False rq_full_iff [OF wf] mod_succ [OF t(1)] by (simp_all add: enqueue_nolock_def Let_def)
  have wf': "rq_wf rq'" "rq_size rq' = rq_size rq"
    using wf by (auto simp: rq' rq_wf_def)
  have c: "rq_count rq' = rq_count rq + 1"
  proof -
    have "rq_tail rq' = (if Suc (rq_tail rq) = rq_size rq then 0 else Suc (rq_tail rq))"
      using mod_succ [OF t(1)] by (simp add: rq')
    then show ?thesis using rq_count_cases [OF wf] rq_count_cases [OF wf'(1)] False t
      by (auto simp: rq' split: if_splits)
  qed
  have pos: "rq_q rq' ! ((rq_head rq + j) mod rq_size rq) =
    (if j = rq_count rq then r else rq_q rq ! ((rq_head rq + j) mod rq_size rq))"
    if "j \<le> rq_count rq" for j
  proof -
    have "(rq_head rq + j) mod rq_size rq = rq_tail rq \<longleftrightarrow> j = rq_count rq"
      using rq_tail_pos [OF wf] mod_add_inj [of j "rq_size rq" "rq_count rq" "rq_head rq"]
        rq_count_lt [OF wf] that by auto
    then show ?thesis using t by (auto simp: rq' nth_list_update)
  qed
  have "rq_contents rq' = rq_contents rq @ [r]"
  proof (rule nth_equalityI)
    fix j assume "j < length (rq_contents rq')"
    then have j: "j \<le> rq_count rq" using c by simp
    then have "rq_contents rq' ! j = rq_q rq' ! ((rq_head rq + j) mod rq_size rq)"
      using c rq_contents_nth [of j rq'] by (simp add: rq')
    then show "rq_contents rq' ! j = (rq_contents rq @ [r]) ! j"
      using pos [OF j] j rq_contents_nth [of j rq] by (cases "j = rq_count rq") (simp_all add: nth_append)
  qed (simp add: c)
  then show ?thesis using False rq'(1) wf' by simp
qed

lemma dequeue_nolock_ok:
  assumes wf: "rq_wf rq" and e: "dequeue_nolock rq = (err, r, rq')"
  shows "if rq_contents rq = [] then err = - 1 \<and> r = None \<and> rq' = rq
    else err = 0 \<and> rq_wf rq' \<and> rq_size rq' = rq_size rq \<and> rq_contents rq = r # rq_contents rq'"
proof (cases "rq_contents rq = []")
  case True
  then have "rq_count rq = 0" by (metis length_rq_contents list.size(3))
  then have "rq_head rq = rq_tail rq" using wf by (auto simp: rq_count_cases rq_wf_def split: if_splits)
  then show ?thesis using e True by (simp add: dequeue_nolock_def)
next
  case False
  then have pos: "0 < rq_count rq" by (metis length_rq_contents length_greater_0_conv)
  then have ne: "rq_head rq \<noteq> rq_tail rq" using wf by (auto simp: rq_count_cases rq_wf_def)
  have h: "rq_head rq < rq_size rq" using wf by (simp add: rq_wf_def)
  have rq': "err = 0" "r = rq_q rq ! rq_head rq" "rq' = rq\<lparr>rq_head := Suc (rq_head rq) mod rq_size rq\<rparr>"
    using e ne mod_succ [OF h] by (simp_all add: dequeue_nolock_def Let_def)
  have wf': "rq_wf rq'" "rq_size rq' = rq_size rq" using wf by (auto simp: rq' rq_wf_def)
  have hd': "rq_head rq' = (if Suc (rq_head rq) = rq_size rq then 0 else Suc (rq_head rq))"
    using mod_succ [OF h] by (simp add: rq')
  have c: "rq_count rq = rq_count rq' + 1"
    using rq_count_cases [OF wf] rq_count_cases [OF wf'(1)] pos h wf hd'
    by (auto simp: rq' rq_wf_def split: if_splits)
  have "rq_contents rq = r # rq_contents rq'"
  proof (rule nth_equalityI)
    fix j assume "j < length (rq_contents rq)"
    then have j: "j < rq_count rq" by simp
    then have "rq_contents rq ! j = rq_q rq ! ((rq_head rq + j) mod rq_size rq)"
      by (simp add: rq_contents_def)
    also have "\<dots> = (r # rq_contents rq') ! j"
    proof (cases j)
      case (Suc i)
      have "(Suc (rq_head rq) mod rq_size rq + i) mod rq_size rq = (rq_head rq + Suc i) mod rq_size rq"
        by (simp add: mod_add_left_eq)
      then show ?thesis using Suc j c rq_contents_nth [of i rq'] by (simp add: rq')
    qed (use h rq' in simp)
    finally show "rq_contents rq ! j = (r # rq_contents rq') ! j" .
  qed (simp add: c)
  then show ?thesis using False rq'(1) wf' by simp
qed

section \<open>The queue as a FIFO\<close>

inductive rq_step :: "'r rpc_queue \<Rightarrow> 'r option list \<Rightarrow> 'r option list \<Rightarrow> 'r rpc_queue \<Rightarrow> bool" where
  rq_enq: "enqueue rq r = (0, sig, rq') \<Longrightarrow> rq_step rq [r] [] rq'"
| rq_enq_full: "enqueue rq r = (- 1, sig, rq') \<Longrightarrow> rq_step rq [] [] rq'"
| rq_deq: "dequeue rq = (0, waited, r, rq') \<Longrightarrow> rq_step rq [] [r] rq'"
| rq_deq_empty: "dequeue rq = (- 1, waited, r, rq') \<Longrightarrow> rq_step rq [] [] rq'"

lemma enqueue_ok:
  assumes "rq_wf rq" "enqueue rq r = (err, sig, rq')"
  shows "if rq_count rq + 1 = rq_size rq then err = - 1 \<and> \<not> sig \<and> rq' = rq
    else err = 0 \<and> sig \<and> rq_wf rq' \<and> rq_size rq' = rq_size rq \<and> rq_contents rq' = rq_contents rq @ [r]"
  using assms enqueue_nolock_ok [OF assms(1)]
  by (fastforce simp: enqueue_def split: prod.splits)

lemma dequeue_ok:
  assumes "rq_wf rq" "dequeue rq = (err, waited, r, rq')"
  shows "if rq_contents rq = [] then err = - 1 \<and> waited \<and> r = None \<and> rq' = rq
    else err = 0 \<and> \<not> waited \<and> rq_wf rq' \<and> rq_size rq' = rq_size rq \<and> rq_contents rq = r # rq_contents rq'"
  using assms dequeue_nolock_ok [OF assms(1)]
  by (fastforce simp: dequeue_def split: prod.splits)

lemma rq_step_law:
  assumes "rq_step rq xs ys rq'" "rq_wf rq"
  shows "rq_wf rq' \<and> ys @ rq_contents rq' = rq_contents rq @ xs \<and> rq_size rq' = rq_size rq"
  using assms
proof (cases rule: rq_step.cases)
  case (rq_enq r sig)
  then show ?thesis using enqueue_ok [OF assms(2) rq_enq(3)] by (auto split: if_splits)
next
  case (rq_enq_full r sig)
  then show ?thesis using enqueue_ok [OF assms(2) rq_enq_full(3)] assms(2) by (auto split: if_splits)
next
  case (rq_deq waited r)
  then show ?thesis using dequeue_ok [OF assms(2) rq_deq(3)] by (auto split: if_splits)
next
  case (rq_deq_empty waited r)
  then show ?thesis using dequeue_ok [OF assms(2) rq_deq_empty(3)] assms(2) by (auto split: if_splits)
qed

interpretation rq: fifo_lts rq_wf rq_contents "\<lambda>q. rq_size q - 1" rq_step
proof (unfold_locales, goal_cases)
  case (4 q)
  then show ?case using rq_count_lt [of q] by simp
qed (auto dest: rq_step_law)

lemma rq_init_ok:
  assumes "1 < sz" "sz \<le> length (rq_q rq)"
  shows "rq_wf (rq_init rq sz)" "rq_contents (rq_init rq sz) = []" "rq_size (rq_init rq sz) = sz"
  using assms by (simp_all add: rq_init_def rq_wf_def rq_contents_def rq_count_def)

section \<open>Workers\<close>

definition held :: "'r option list \<Rightarrow> 'r multiset" where
  "held hs = mset (List.map_filter (\<lambda>h. h) hs)"

lemma held_take: "i < length hs \<Longrightarrow> hs ! i = None \<Longrightarrow> held (hs[i := Some r]) = held hs + {#r#}"
  by (induction hs arbitrary: i) (auto simp: held_def List.map_filter_def nth_Cons split: nat.splits)

lemma held_release: "i < length hs \<Longrightarrow> hs ! i = Some r \<Longrightarrow> held hs = held (hs[i := None]) + {#r#}"
  by (induction hs arbitrary: i) (auto simp: held_def List.map_filter_def nth_Cons split: nat.splits)

definition workers_inv :: "'r worker_state \<Rightarrow> bool" where
  "workers_inv s \<longleftrightarrow> rq_wf (ws_queue s)
     \<and> map Some (ws_taken s) @ rq_contents (ws_queue s) = map Some (ws_accepted s)
     \<and> mset (ws_served s) + held (ws_hand s) = mset (ws_taken s)"

lemma workers_inv_step:
  assumes "worker_step s s'" "workers_inv s"
  shows "workers_inv s' \<and> rq_size (ws_queue s') = rq_size (ws_queue s)"
  using assms(1)
proof (cases rule: worker_step.cases)
  case (ws_enqueue r sig rq)
  have wf: "rq_wf (ws_queue s)" using assms(2) by (simp add: workers_inv_def)
  show ?thesis using enqueue_ok [OF wf ws_enqueue(2)] assms(2) ws_enqueue(1)
    by (auto simp: workers_inv_def simp flip: append.assoc split: if_splits)
next
  case (ws_full r sig rq)
  have wf: "rq_wf (ws_queue s)" using assms(2) by (simp add: workers_inv_def)
  show ?thesis using enqueue_ok [OF wf ws_full(2)] assms(2) ws_full(1)
    by (auto simp: workers_inv_def split: if_splits)
next
  case (ws_take i err waited r rq)
  have wf: "rq_wf (ws_queue s)" using assms(2) by (simp add: workers_inv_def)
  show ?thesis using dequeue_ok [OF wf ws_take(4)] assms(2) ws_take(1) held_take [OF ws_take(2,3)]
    by (auto simp: workers_inv_def split: if_splits)
next
  case (ws_idle i err waited rq)
  have wf: "rq_wf (ws_queue s)" using assms(2) by (simp add: workers_inv_def)
  have "rq_contents (ws_queue s) = []"
  proof (rule ccontr)
    assume "rq_contents (ws_queue s) \<noteq> []"
    then have "None \<in> set (rq_contents (ws_queue s))"
      using dequeue_ok [OF wf ws_idle(4)] by (simp split: if_splits)
    moreover have "set (rq_contents (ws_queue s)) \<subseteq> set (map Some (ws_accepted s))"
      using assms(2) by (metis workers_inv_def set_append sup_ge2)
    ultimately show False by auto
  qed
  then show ?thesis using dequeue_ok [OF wf ws_idle(4)] assms(2) ws_idle(1)
    by (simp add: workers_inv_def)
next
  case (ws_serve i r)
  then show ?thesis using assms(2) held_release [OF ws_serve(2,3)]
    by (simp add: workers_inv_def)
qed

lemma workers_inv_reach:
  "worker_step\<^sup>*\<^sup>* s0 s \<Longrightarrow> workers_inv s0 \<Longrightarrow> workers_inv s \<and> rq_size (ws_queue s) = rq_size (ws_queue s0)"
  by (induction rule: rtranclp_induct) (auto dest: workers_inv_step)

lemma workers_inv_init:
  assumes "length (rq_q q) = MAX_QUEUE_SIZE"
  shows "workers_inv (workers_init q)" "rq_size (ws_queue (workers_init q)) = MAX_QUEUE_SIZE"
  using rq_init_ok [of MAX_QUEUE_SIZE q] assms
  by (simp_all add: workers_inv_def workers_init_def MAX_QUEUE_SIZE_def held_def List.map_filter_def)

section \<open>Properties\<close>

text \<open>
  C12: The request queue is a FIFO of capacity \<open>size - 1\<close>: in any run of enqueue and
  dequeue calls on a well-formed queue, what comes out followed by what is stored is what was
  stored followed by what was accepted, and no more than \<open>size - 1\<close> requests wait.
\<close>

theorem rpc_queue_fifo:
  assumes "fifo_run rq_step rq xs ys rq'" "rq_wf rq"
  shows "rq_wf rq' \<and> ys @ rq_contents rq' = rq_contents rq @ xs
    \<and> length (rq_contents rq) + length xs \<le> length ys + (rq_size rq - 1)"
  using rq.run_conserves [OF assms] rq.run_in_flight [OF assms] by blast

definition demo_queue :: "nat rpc_queue" where
  "demo_queue = \<lparr>rq_q = [None, None, None], rq_head = 2, rq_tail = 2, rq_size = 3\<rparr>"

lemma demo_queue_run:
  "fifo_run rq_step demo_queue [Some 7, Some 8] [Some 7] (demo_queue\<lparr>rq_q := [Some 8, None, Some 7],
     rq_head := 0, rq_tail := 1\<rparr>)"
proof -
  let ?q1 = "demo_queue\<lparr>rq_q := [None, None, Some 7], rq_tail := 0\<rparr>"
  let ?q2 = "demo_queue\<lparr>rq_q := [Some 8, None, Some 7], rq_tail := 1\<rparr>"
  let ?q3 = "demo_queue\<lparr>rq_q := [Some 8, None, Some 7], rq_head := 0, rq_tail := 1\<rparr>"
  have 1: "rq_step demo_queue [Some 7] [] ?q1"
    by (rule rq_enq [of _ _ True]) (simp add: enqueue_def enqueue_nolock_def demo_queue_def)
  have 2: "rq_step ?q1 [Some 8] [] ?q2"
    by (rule rq_enq [of _ _ True]) (simp add: enqueue_def enqueue_nolock_def demo_queue_def)
  have 3: "rq_step ?q2 [] [Some 7] ?q3"
    by (rule rq_deq [of _ False]) (simp add: dequeue_def dequeue_nolock_def demo_queue_def)
  from fifo_more [where step = rq_step, OF 1
    fifo_more [where step = rq_step, OF 2 fifo_more [where step = rq_step, OF 3 fifo_stop]]] show ?thesis by simp
qed

theorem rpc_queue_fifo_witness:
  "rq_contents (demo_queue\<lparr>rq_q := [Some 8, None, Some 7], rq_head := 0, rq_tail := 1\<rparr>) = [Some 8]"
  using rpc_queue_fifo [OF demo_queue_run]
  by (simp add: rq_wf_def demo_queue_def rq_contents_def rq_count_def)



text \<open>
  On a full queue \<open>enqueue_req\<close> drops the request: the queue does not change and, since the
  result of \<open>enqueue\<close> is ignored, the caller cannot tell.
\<close>

lemma enqueue_req_drops:
  assumes "rq_wf rq" "rq_count rq + 1 = rq_size rq"
  shows "enqueue_req rq (Some r) = rq"
  using enqueue_ok [OF assms(1), of "Some r"] assms(2)
  by (cases "enqueue rq (Some r)") (auto simp: enqueue_req_def)

end
