(* ===== verification/Mcs_Km.thy ===== *)
theory Mcs_Km
  imports Mcs_Prelude
begin

text \<open>
  The mcs kernel module (\<open>mcs_km/mcs_km.c\<close>): module initialisation and removal, the
  inter-processor interrupt and its poll, the ioctls that boot and signal the client OS, and the
  mapping of the reserved memory. What the kernel answers (device tree, interrupt, chrdev and
  memory region calls, PSCI firmware) is the record \<open>kernel_env\<close>; the module's static
  variables and the resources it holds are the record \<open>km\<close>.
\<close>

section \<open>State and environment\<close>

abbreviation CPU_ON_FUNCID :: u64 where "CPU_ON_FUNCID \<equiv> 0xC4000003"
abbreviation AFFINITY_INFO_FUNCID :: u64 where "AFFINITY_INFO_FUNCID \<equiv> 0xC4000004"
abbreviation INVALID_HWID :: u64 where "INVALID_HWID \<equiv> 0xFFFFFFFFFFFFFFFF"
abbreviation RPROC_MEM_MAX :: nat where "RPROC_MEM_MAX \<equiv> 4"
abbreviation IOC_MAXNR :: u32 where "IOC_MAXNR \<equiv> 4"
abbreviation INSTANCE_SIZE :: u32 where "INSTANCE_SIZE \<equiv> 0x2400000"
abbreviation OPENAMP_SHM_SIZE :: u64 where "OPENAMP_SHM_SIZE \<equiv> 0x1000000"
abbreviation OPENAMP_SHM_COPY_SIZE :: u64 where "OPENAMP_SHM_COPY_SIZE \<equiv> 0x100000"

text \<open>The ioctl encoding: direction, argument size, type and number.\<close>

definition ioc :: "u32 \<Rightarrow> u32 \<Rightarrow> u32 \<Rightarrow> u32 \<Rightarrow> u32" where
  "ioc dir typ nr sz = push_bit 30 dir OR push_bit 16 sz OR push_bit 8 typ OR nr"

definition ioc_type :: "u32 \<Rightarrow> u32" where "ioc_type cmd = drop_bit 8 cmd AND 0xFF"
definition ioc_nr :: "u32 \<Rightarrow> u32" where "ioc_nr cmd = cmd AND 0xFF"

definition MAGIC_NUMBER :: u32 where "MAGIC_NUMBER = 0x41"
definition IOC_SENDIPI :: u32 where "IOC_SENDIPI = ioc 1 MAGIC_NUMBER 0 4"
definition IOC_CPUON :: u32 where "IOC_CPUON = ioc 1 MAGIC_NUMBER 1 4"
definition IOC_AFFINITY_INFO :: u32 where "IOC_AFFINITY_INFO = ioc 1 MAGIC_NUMBER 2 4"
definition IOC_QUERY_MEM :: u32 where "IOC_QUERY_MEM = ioc 1 MAGIC_NUMBER 3 4"
definition IOC_GET_COPY_MSG_MEM :: u32 where "IOC_GET_COPY_MSG_MEM = ioc 3 MAGIC_NUMBER 4 40"

lemmas ioc_defs = ioc_def ioc_type_def ioc_nr_def MAGIC_NUMBER_def IOC_SENDIPI_def IOC_CPUON_def
  IOC_AFFINITY_INFO_def IOC_QUERY_MEM_def IOC_GET_COPY_MSG_MEM_def

record cpu_info =
  ci_cpu :: u32
  ci_boot_addr :: u64

record core_msg_mem_info =
  cm_instance_id :: u32
  cm_phy_addr :: u64
  cm_vir_addr :: u64
  cm_size :: u64
  cm_align_size :: u64

record mcs_rproc_mem =
  mm_phy_addr :: u64
  mm_size :: u64

datatype km_event = Psci bool u64 u64 u64 u64 | Ipi u32

record km =
  km_invoke_hvc :: bool
  km_mem :: "mcs_rproc_mem list"
  km_cpu_logical_map :: "(u32 \<Rightarrow> u64) option"
  km_irq_ack :: bool
  km_ipi :: bool
  km_percpu :: bool
  km_regions :: "(u64 \<times> u64) list"
  km_major :: "int option"
  km_class :: bool
  km_device :: bool
  km_events :: "km_event list"

record kernel_env =
  ke_rmem_base :: u64
  ke_rmem_size :: u64
  ke_acpi_disabled :: bool
  ke_psci_available :: bool
  ke_psci_method :: "string option"
  ke_kprobe :: "int \<times> (u32 \<Rightarrow> u64)"
  ke_mcs_node :: bool
  ke_memory_region :: "(int \<times> u64 \<times> u64) list"
  ke_request_mem_region :: "u64 \<Rightarrow> u64 \<Rightarrow> bool"
  ke_irq_in_use :: bool
  ke_alloc_percpu :: bool
  ke_request_percpu_irq :: int
  ke_register_chrdev :: int
  ke_class_create :: int
  ke_device_create :: int
  ke_NR_CPUS :: u32
  ke_psci :: "bool \<Rightarrow> u64 \<Rightarrow> u64 \<Rightarrow> u64 \<Rightarrow> u64 \<Rightarrow> u64"
  ke_page_shift :: nat
  ke_remap_pfn_range :: int

section \<open>Firmware, interrupt and poll\<close>

definition invoke_psci_fn :: "kernel_env \<Rightarrow> km \<Rightarrow> u64 \<Rightarrow> u64 \<Rightarrow> u64 \<Rightarrow> u64 \<Rightarrow> u64 \<times> km" where
  "invoke_psci_fn env s function_id arg0 arg1 arg2 =
     (ke_psci env (km_invoke_hvc s) function_id arg0 arg1 arg2,
      s\<lparr>km_events := km_events s @ [Psci (km_invoke_hvc s) function_id arg0 arg1 arg2]\<rparr>)"

definition get_cpu_logical_map :: "kernel_env \<Rightarrow> km \<Rightarrow> int \<times> km" where
  "get_cpu_logical_map env s =
     (case ke_kprobe env of (ret, addr) \<Rightarrow>
        if ret < 0 then (ret, s) else (0, s\<lparr>km_cpu_logical_map := Some addr\<rparr>))"

definition get_cpu_mpidr :: "kernel_env \<Rightarrow> km \<Rightarrow> u32 \<Rightarrow> u64" where
  "get_cpu_mpidr env s cpu =
     (if cpu \<ge> ke_NR_CPUS env then INVALID_HWID
      else case km_cpu_logical_map s of Some f \<Rightarrow> f cpu | None \<Rightarrow> INVALID_HWID)"

definition handle_clientos_ipi :: "km \<Rightarrow> km" where
  "handle_clientos_ipi s = s\<lparr>km_irq_ack := True\<rparr>"

text \<open>\<open>mcs_poll\<close>: whether \<open>POLLIN | POLLRDNORM\<close> is reported.\<close>

definition mcs_poll :: "km \<Rightarrow> bool \<times> km" where
  "mcs_poll s = (if km_irq_ack s then (True, s\<lparr>km_irq_ack := False\<rparr>) else (False, s))"

definition remove_mcs_ipi :: "km \<Rightarrow> km" where
  "remove_mcs_ipi s = s\<lparr>km_ipi := False, km_percpu := False\<rparr>"

definition init_mcs_ipi :: "kernel_env \<Rightarrow> km \<Rightarrow> int \<times> km" where
  "init_mcs_ipi env s =
     (if ke_irq_in_use env then (- EBUSY, s)
      else if \<not> ke_alloc_percpu env then (- ENOMEM, s)
      else
        let s = s\<lparr>km_percpu := True\<rparr>; err = ke_request_percpu_irq env in
        if err \<noteq> 0 then (err, s\<lparr>km_percpu := False\<rparr>)
        else (0, s\<lparr>km_ipi := True\<rparr>))"

definition send_clientos_ipi :: "km \<Rightarrow> u32 \<Rightarrow> km" where
  "send_clientos_ipi s target = s\<lparr>km_events := km_events s @ [Ipi target]\<rparr>"

section \<open>ioctl\<close>

text \<open>
  The user's buffer: what \<open>copy_from_user\<close> reads from it as each structure (\<open>None\<close> on a
  fault) and whether \<open>copy_to_user\<close> succeeds. The result carries what was copied out.
  \<open>cpumask_of\<close> of a CPU number that is not below \<open>NR_CPUS\<close> reads outside its
  table.
\<close>

record user_arg =
  ua_cpu_info :: "cpu_info option"
  ua_msg_mem :: "core_msg_mem_info option"
  ua_write_ok :: bool

datatype ioctl_out = Out_none | Out_mem mcs_rproc_mem | Out_msg core_msg_mem_info

definition copy_msg_phy_addr :: "mcs_rproc_mem \<Rightarrow> u32 \<Rightarrow> u64" where
  "copy_msg_phy_addr m instance_id =
     mm_phy_addr m + ucast (instance_id * INSTANCE_SIZE) + OPENAMP_SHM_SIZE - OPENAMP_SHM_COPY_SIZE * 3"

definition psci_ret :: "u64 \<Rightarrow> int" where
  "psci_ret r = sint (ucast r :: u32)"

definition ioctl_cpuon :: "kernel_env \<Rightarrow> km \<Rightarrow> cpu_info \<Rightarrow> int \<times> km" where
  "ioctl_cpuon env s info =
     (let mpidr = get_cpu_mpidr env s (ci_cpu info) in
      if mpidr = INVALID_HWID then (- EINVAL, s)
      else case invoke_psci_fn env s CPU_ON_FUNCID mpidr (ci_boot_addr info) 0 of (r, s') \<Rightarrow>
        (if psci_ret r \<noteq> 0 then - EINVAL else 0, s'))"

definition ioctl_affinity_info :: "kernel_env \<Rightarrow> km \<Rightarrow> cpu_info \<Rightarrow> int \<times> km" where
  "ioctl_affinity_info env s info =
     (let mpidr = get_cpu_mpidr env s (ci_cpu info) in
      if mpidr = INVALID_HWID then (- EINVAL, s)
      else case invoke_psci_fn env s AFFINITY_INFO_FUNCID mpidr 0 0 of (r, s') \<Rightarrow>
        (if psci_ret r \<noteq> 1 then - EFAULT else 0, s'))"

definition ioctl_get_copy_msg_mem :: "km \<Rightarrow> core_msg_mem_info \<Rightarrow> bool \<Rightarrow> int \<times> ioctl_out" where
  "ioctl_get_copy_msg_mem s info write_ok =
     (if cm_instance_id info > of_nat RPROC_MEM_MAX then (- EINVAL, Out_none)
      else
        let m = km_mem s ! 0; pa = copy_msg_phy_addr m (cm_instance_id info) in
        if pa > mm_phy_addr m + mm_size m then (- EINVAL, Out_none)
        else if \<not> write_ok then (- EFAULT, Out_none)
        else (0, Out_msg (info\<lparr>cm_phy_addr := pa, cm_size := OPENAMP_SHM_COPY_SIZE * 2\<rparr>)))"

definition mcs_ioctl ::
  "kernel_env \<Rightarrow> km \<Rightarrow> u32 \<Rightarrow> user_arg \<Rightarrow> (int \<times> km \<times> ioctl_out) outcome" where
  "mcs_ioctl env s cmd arg =
     (if ioc_type cmd \<noteq> MAGIC_NUMBER then Ret (- EINVAL, s, Out_none)
      else if ioc_nr cmd > IOC_MAXNR then Ret (- EINVAL, s, Out_none)
      else if cmd = IOC_GET_COPY_MSG_MEM then
        (case ua_msg_mem arg of
           None \<Rightarrow> Ret (- EFAULT, s, Out_none)
         | Some info \<Rightarrow>
             (case ioctl_get_copy_msg_mem s info (ua_write_ok arg) of (r, out) \<Rightarrow> Ret (r, s, out)))
      else if cmd = IOC_QUERY_MEM then
        (if \<not> ua_write_ok arg then Ret (- EFAULT, s, Out_none)
         else Ret (0, s, Out_mem (km_mem s ! 0)))
      else
        (case ua_cpu_info arg of
           None \<Rightarrow> Ret (- EFAULT, s, Out_none)
         | Some info \<Rightarrow>
             if cmd = IOC_SENDIPI then
               (if ci_cpu info < ke_NR_CPUS env
                then Ret (0, send_clientos_ipi s (ci_cpu info), Out_none) else Fault)
             else if cmd = IOC_CPUON then
               (case ioctl_cpuon env s info of (r, s') \<Rightarrow> Ret (r, s', Out_none))
             else if cmd = IOC_AFFINITY_INFO then
               (case ioctl_affinity_info env s info of (r, s') \<Rightarrow> Ret (r, s', Out_none))
             else Ret (- EINVAL, s, Out_none)))"

section \<open>mmap and open\<close>

record vm_area =
  vm_start :: u64
  vm_end :: u64
  vm_pgoff :: u64

fun find_mem :: "mcs_rproc_mem list \<Rightarrow> u64 \<Rightarrow> u64 \<Rightarrow> bool" where
  "find_mem [] offset sz = False"
| "find_mem (m # ms) offset sz =
     (if mm_phy_addr m = 0 then False
      else if offset \<ge> mm_phy_addr m \<and> sz \<le> mm_size m then True
      else find_mem ms offset sz)"

text \<open>The range that \<open>remap_pfn_range\<close> maps, as physical address and size, when it succeeds.\<close>

definition mcs_mmap :: "kernel_env \<Rightarrow> km \<Rightarrow> vm_area \<Rightarrow> int \<times> (u64 \<times> u64) option" where
  "mcs_mmap env s vma =
     (let sz = vm_end vma - vm_start vma;
          offset = push_bit (ke_page_shift env) (vm_pgoff vma) in
      if drop_bit (ke_page_shift env) offset \<noteq> vm_pgoff vma then (- EINVAL, None)
      else if offset + sz - 1 < offset then (- EINVAL, None)
      else if \<not> find_mem (take RPROC_MEM_MAX (km_mem s)) offset sz then (- EINVAL, None)
      else if ke_remap_pfn_range env < 0 then (- EAGAIN, None)
      else (0, Some (offset, sz)))"

definition mcs_open :: "bool \<Rightarrow> int" where
  "mcs_open capable_sys_rawio = (if \<not> capable_sys_rawio then - EPERM else 0)"

section \<open>Module initialisation and removal\<close>

definition get_psci_method :: "kernel_env \<Rightarrow> km \<Rightarrow> int \<times> km" where
  "get_psci_method env s =
     (if \<not> ke_acpi_disabled env then (0, s\<lparr>km_invoke_hvc := False\<rparr>)
      else if \<not> ke_psci_available env then (- ENODEV, s)
      else case ke_psci_method env of
          None \<Rightarrow> (- ENXIO, s)
        | Some method \<Rightarrow>
            if strcmp_eq ''hvc'' method then (0, s\<lparr>km_invoke_hvc := True\<rparr>)
            else if strcmp_eq ''smc'' method then (0, s\<lparr>km_invoke_hvc := False\<rparr>)
            else (- EINVAL, s))"

definition resource_size :: "u64 \<Rightarrow> u64 \<Rightarrow> u64" where
  "resource_size start res_end = res_end - start + 1"

fun request_regions ::
  "kernel_env \<Rightarrow> (int \<times> u64 \<times> u64) list \<Rightarrow> nat \<Rightarrow> km \<Rightarrow> int \<times> km" where
  "request_regions env [] n s = (0, s)"
| "request_regions env ((ret, start, res_end) # rs) n s =
     (if ret \<noteq> 0 then (ret, s)
      else if n \<ge> RPROC_MEM_MAX then (0, s)
      else if \<not> ke_request_mem_region env start (resource_size start res_end) then (- EINVAL, s)
      else request_regions env rs (n + 1)
        (s\<lparr>km_regions := km_regions s @ [(start, resource_size start res_end)],
           km_mem := (km_mem s)[n := \<lparr>mm_phy_addr = start, mm_size = resource_size start res_end\<rparr>]\<rparr>))"

definition init_reserved_mem :: "kernel_env \<Rightarrow> km \<Rightarrow> int \<times> km" where
  "init_reserved_mem env s =
     (if ke_rmem_base env \<noteq> 0 \<and> ke_rmem_size env \<noteq> 0 then
        (0, s\<lparr>km_mem := (km_mem s)[0 := \<lparr>mm_phy_addr = ke_rmem_base env, mm_size = ke_rmem_size env\<rparr>]\<rparr>)
      else if \<not> ke_mcs_node env then (- ENODEV, s)
      else if ke_memory_region env = [] then (- ENODEV, s)
      else request_regions env (ke_memory_region env) 0 s)"

fun release_regions :: "mcs_rproc_mem list \<Rightarrow> (u64 \<times> u64) list \<Rightarrow> (u64 \<times> u64) list" where
  "release_regions [] rs = rs"
| "release_regions (m # ms) rs =
     (if mm_phy_addr m = 0 then rs else release_regions ms (remove1 (mm_phy_addr m, mm_size m) rs))"

definition release_reserved_mem :: "kernel_env \<Rightarrow> km \<Rightarrow> km" where
  "release_reserved_mem env s =
     (if ke_rmem_base env \<noteq> 0 \<and> ke_rmem_size env \<noteq> 0 then s
      else s\<lparr>km_regions := release_regions (take RPROC_MEM_MAX (km_mem s)) (km_regions s)\<rparr>)"

definition register_mcs_dev :: "kernel_env \<Rightarrow> km \<Rightarrow> int \<times> km" where
  "register_mcs_dev env s =
     (let major = ke_register_chrdev env in
      if major < 0 then (major, s)
      else
        let s = s\<lparr>km_major := Some major\<rparr> in
        if ke_class_create env < 0 then (ke_class_create env, s\<lparr>km_major := None\<rparr>)
        else
          let s = s\<lparr>km_class := True\<rparr> in
          if ke_device_create env < 0 then
            (ke_device_create env, s\<lparr>km_class := False, km_major := None\<rparr>)
          else (0, s\<lparr>km_device := True\<rparr>))"

definition unregister_mcs_dev :: "km \<Rightarrow> km" where
  "unregister_mcs_dev s = s\<lparr>km_device := False, km_class := False, km_major := None\<rparr>"

definition mcs_dev_init :: "kernel_env \<Rightarrow> km \<Rightarrow> int \<times> km" where
  "mcs_dev_init env s =
     (case get_psci_method env s of (ret, s) \<Rightarrow>
      if ret \<noteq> 0 then (ret, s) else
      case get_cpu_logical_map env s of (ret, s) \<Rightarrow>
      if ret \<noteq> 0 then (ret, s) else
      case init_reserved_mem env s of (ret, s) \<Rightarrow>
      if ret \<noteq> 0 then (ret, s) else
      case init_mcs_ipi env s of (ret, s) \<Rightarrow>
      if ret \<noteq> 0 then (ret, release_reserved_mem env s) else
      case register_mcs_dev env s of (ret, s) \<Rightarrow>
      if ret \<noteq> 0 then (ret, release_reserved_mem env (remove_mcs_ipi s)) else (ret, s))"

definition mcs_dev_exit :: "kernel_env \<Rightarrow> km \<Rightarrow> km" where
  "mcs_dev_exit env s = release_reserved_mem env (unregister_mcs_dev (remove_mcs_ipi s))"

text \<open>The module before it is loaded.\<close>

definition km_zero :: km where
  "km_zero = \<lparr>km_invoke_hvc = True, km_mem = replicate RPROC_MEM_MAX \<lparr>mm_phy_addr = 0, mm_size = 0\<rparr>,
     km_cpu_logical_map = None, km_irq_ack = False, km_ipi = False, km_percpu = False, km_regions = [],
     km_major = None, km_class = False, km_device = False, km_events = []\<rparr>"

section \<open>Lemmas\<close>

lemma ioc_distinct [simp]:
  "IOC_SENDIPI = 0x40044100" "IOC_CPUON = 0x40044101" "IOC_AFFINITY_INFO = 0x40044102"
  "IOC_QUERY_MEM = 0x40044103" "IOC_GET_COPY_MSG_MEM = 0xC0284104"
  by (simp_all add: ioc_defs)

definition km_clean :: "km \<Rightarrow> bool" where
  "km_clean s \<longleftrightarrow> \<not> km_ipi s \<and> \<not> km_percpu s \<and> km_regions s = [] \<and> km_major s = None
     \<and> \<not> km_class s \<and> \<not> km_device s"

lemma km_clean_zero: "km_clean km_zero"
  by (simp add: km_clean_def km_zero_def)

text \<open>The regions requested so far are the first entries of the table; the others are zero.\<close>

definition zero_mem :: mcs_rproc_mem where
  "zero_mem = \<lparr>mm_phy_addr = 0, mm_size = 0\<rparr>"

definition region_of :: "mcs_rproc_mem \<Rightarrow> u64 \<times> u64" where
  "region_of m = (mm_phy_addr m, mm_size m)"

definition table_inv :: "km \<Rightarrow> nat \<Rightarrow> bool" where
  "table_inv s n \<longleftrightarrow> (\<exists>ms. length ms = n \<and> n \<le> RPROC_MEM_MAX \<and> km_regions s = map region_of ms
     \<and> km_mem s = ms @ replicate (RPROC_MEM_MAX - n) zero_mem \<and> (\<forall>m \<in> set ms. mm_phy_addr m \<noteq> 0))"

lemma table_inv_zero: "table_inv km_zero 0"
  by (simp add: table_inv_def km_zero_def zero_mem_def)

lemma table_inv_add:
  assumes "table_inv s n" "n < RPROC_MEM_MAX" "mm_phy_addr m \<noteq> 0"
  shows "table_inv (s\<lparr>km_regions := km_regions s @ [region_of m], km_mem := (km_mem s)[n := m]\<rparr>) (n + 1)"
proof -
  obtain ms where ms: "length ms = n" "km_regions s = map region_of ms"
    "km_mem s = ms @ replicate (RPROC_MEM_MAX - n) zero_mem" "\<forall>m \<in> set ms. mm_phy_addr m \<noteq> 0"
    using assms(1) by (auto simp: table_inv_def)
  have "replicate (RPROC_MEM_MAX - n) zero_mem = zero_mem # replicate (RPROC_MEM_MAX - (n + 1)) zero_mem"
    using assms(2) by (metis Suc_diff_Suc Suc_eq_plus1 replicate_Suc)
  then have "(km_mem s)[n := m] = (ms @ [m]) @ replicate (RPROC_MEM_MAX - (n + 1)) zero_mem"
    using ms(1,3) by (simp add: list_update_append)
  then show ?thesis using ms assms(2,3) by (auto simp: table_inv_def intro!: exI [of _ "ms @ [m]"])
qed

lemma request_regions_inv:
  assumes "table_inv s n" "request_regions env rs n s = (ret, s')"
    and "\<forall>(r, start, res_end) \<in> set rs. start \<noteq> 0"
  shows "\<exists>k. table_inv s' k"
  using assms
proof (induction env rs n s rule: request_regions.induct)
  case (2 env ret start res_end rs n s)
  show ?case
  proof (cases "ret = 0 \<and> n < RPROC_MEM_MAX \<and> ke_request_mem_region env start (resource_size start res_end)")
    case True
    have "start \<noteq> 0" using "2.prems"(3) by auto
    then have t: "table_inv (s\<lparr>km_regions := km_regions s @ [(start, resource_size start res_end)],
        km_mem := (km_mem s)[n := \<lparr>mm_phy_addr = start, mm_size = resource_size start res_end\<rparr>]\<rparr>) (n + 1)"
      using table_inv_add [OF "2.prems"(1), of "\<lparr>mm_phy_addr = start, mm_size = resource_size start res_end\<rparr>"] True
      by (simp add: region_of_def)
    show ?thesis by (rule "2.IH") (use t True "2.prems" in auto)
  next
    case False
    then show ?thesis using "2.prems"(1,2) by (auto split: if_splits)
  qed
qed auto

lemma request_regions_frame:
  "request_regions env rs n s = (ret, s') \<Longrightarrow> km_ipi s' = km_ipi s \<and> km_percpu s' = km_percpu s
     \<and> km_major s' = km_major s \<and> km_class s' = km_class s \<and> km_device s' = km_device s"
  by (induction env rs n s rule: request_regions.induct) (auto split: if_splits)

lemma release_regions_all:
  assumes "\<forall>m \<in> set ms. mm_phy_addr m \<noteq> 0"
  shows "release_regions (ms @ replicate k zero_mem) (map region_of ms) = []"
  using assms
proof (induction ms)
  case Nil
  then show ?case by (cases k) (simp_all add: zero_mem_def)
qed (simp add: region_of_def)

lemma release_table:
  assumes "table_inv s n"
  shows "release_regions (take RPROC_MEM_MAX (km_mem s)) (km_regions s) = []"
proof -
  obtain ms where ms: "length ms = n" "n \<le> RPROC_MEM_MAX" "km_regions s = map region_of ms"
    "km_mem s = ms @ replicate (RPROC_MEM_MAX - n) zero_mem" "\<forall>m \<in> set ms. mm_phy_addr m \<noteq> 0"
    using assms by (auto simp: table_inv_def)
  then show ?thesis using release_regions_all [OF ms(5), of "RPROC_MEM_MAX - n"] by simp
qed

text \<open>Reserved memory is consistent: either it comes from the module parameters, or the table tracks it.\<close>

definition mem_inv :: "kernel_env \<Rightarrow> km \<Rightarrow> bool" where
  "mem_inv env s \<longleftrightarrow> (if ke_rmem_base env \<noteq> 0 \<and> ke_rmem_size env \<noteq> 0 then km_regions s = []
     else \<exists>n. table_inv s n)"

lemma release_reserved_mem_regions: "mem_inv env s \<Longrightarrow> km_regions (release_reserved_mem env s) = []"
  using release_table [of s] by (auto simp: mem_inv_def release_reserved_mem_def)

lemma release_reserved_mem_frame:
  "km_ipi (release_reserved_mem env s) = km_ipi s" "km_percpu (release_reserved_mem env s) = km_percpu s"
  "km_major (release_reserved_mem env s) = km_major s" "km_class (release_reserved_mem env s) = km_class s"
  "km_device (release_reserved_mem env s) = km_device s"
  by (simp_all add: release_reserved_mem_def)

definition regions_nonzero :: "kernel_env \<Rightarrow> bool" where
  "regions_nonzero env \<longleftrightarrow> (\<forall>(r, start, res_end) \<in> set (ke_memory_region env). start \<noteq> 0)"

definition same_table :: "km \<Rightarrow> km \<Rightarrow> bool" where
  "same_table s s' \<longleftrightarrow> km_mem s' = km_mem s \<and> km_regions s' = km_regions s \<and> km_ipi s' = km_ipi s
     \<and> km_percpu s' = km_percpu s \<and> km_major s' = km_major s \<and> km_class s' = km_class s \<and> km_device s' = km_device s"

lemma table_inv_cong:
  "km_mem s' = km_mem s \<Longrightarrow> km_regions s' = km_regions s \<Longrightarrow> table_inv s' n = table_inv s n"
  unfolding table_inv_def by (simp only:)

lemma mem_inv_cong:
  assumes "km_mem s' = km_mem s" "km_regions s' = km_regions s"
  shows "mem_inv env s' = mem_inv env s"
  unfolding mem_inv_def table_inv_cong [OF assms] assms ..

lemma same_table_mem_inv: "same_table s s' \<Longrightarrow> mem_inv env s' = mem_inv env s"
  by (rule mem_inv_cong) (simp_all add: same_table_def)

lemma get_psci_method_same: "get_psci_method env s = (ret, s') \<Longrightarrow> same_table s s'"
  by (auto simp: get_psci_method_def same_table_def split: if_splits option.splits)

lemma get_cpu_logical_map_same: "get_cpu_logical_map env s = (ret, s') \<Longrightarrow> same_table s s'"
  by (auto simp: get_cpu_logical_map_def same_table_def split: if_splits prod.splits)

lemma same_table_trans: "same_table a b \<Longrightarrow> same_table b c \<Longrightarrow> same_table a c"
  by (simp add: same_table_def)

lemma init_reserved_mem_inv:
  assumes "same_table km_zero s" "regions_nonzero env" "init_reserved_mem env s = (ret, s')"
  shows "mem_inv env s' \<and> km_clean (s'\<lparr>km_regions := []\<rparr>)"
proof -
  have t: "table_inv s 0" 
    using assms(1) table_inv_zero table_inv_cong [of s km_zero] by (simp add: same_table_def)
  have c: "km_clean (s\<lparr>km_regions := []\<rparr>)" "km_regions s = []"
    using assms(1) by (simp_all add: same_table_def km_clean_def km_zero_def)
  show ?thesis
  proof (cases "ke_rmem_base env \<noteq> 0 \<and> ke_rmem_size env \<noteq> 0")
    case True
    then show ?thesis using assms(3) c by (auto simp: init_reserved_mem_def mem_inv_def km_clean_def)
  next
    case False
    then have "(ret \<noteq> 0 \<and> s' = s) \<or> request_regions env (ke_memory_region env) 0 s = (ret, s')"
      using assms(3) by (auto simp: init_reserved_mem_def split: if_splits)
    then show ?thesis
    proof
      assume "ret \<noteq> 0 \<and> s' = s"
      then show ?thesis using t c False by (auto simp: mem_inv_def)
    next
      assume r: "request_regions env (ke_memory_region env) 0 s = (ret, s')"
      then have "\<exists>k. table_inv s' k"
        using request_regions_inv [OF t r] assms(2) by (simp add: regions_nonzero_def)
      then show ?thesis using request_regions_frame [OF r] c False by (auto simp: mem_inv_def km_clean_def)
    qed
  qed
qed

lemma init_mcs_ipi_cases:
  assumes "init_mcs_ipi env s = (ret, s')" "\<not> km_percpu s" "\<not> km_ipi s"
  shows "(ret = 0 \<and> s' = s\<lparr>km_percpu := True, km_ipi := True\<rparr>) \<or> (ret \<noteq> 0 \<and> same_table s s')"
  using assms by (auto simp: init_mcs_ipi_def Let_def same_table_def split: if_splits)

lemma register_mcs_dev_cases:
  assumes "register_mcs_dev env s = (ret, s')" "km_major s = None" "\<not> km_class s" "\<not> km_device s"
  shows "(ret = 0 \<and> (\<exists>mj. s' = s\<lparr>km_major := Some mj, km_class := True, km_device := True\<rparr>))
    \<or> (ret \<noteq> 0 \<and> same_table s s')"
  using assms by (auto simp: register_mcs_dev_def Let_def same_table_def split: if_splits)

lemma release_clean:
  assumes "mem_inv env s" "km_clean (s\<lparr>km_regions := []\<rparr>)"
  shows "km_clean (release_reserved_mem env s)"
  using assms release_reserved_mem_regions [OF assms(1)]
  by (simp add: km_clean_def release_reserved_mem_frame)

text \<open>The two ways a load can end.\<close>

lemma mcs_dev_init_cases:
  assumes "mcs_dev_init env km_zero = (ret, s)" "regions_nonzero env"
  obtains
    (no_mem) "ret \<noteq> 0" "same_table km_zero s"
  | (mem_failed) sa where "ret \<noteq> 0" "same_table km_zero sa" "init_reserved_mem env sa = (ret, s)"
      "km_clean (s\<lparr>km_regions := []\<rparr>)"
  | (failed) "ret \<noteq> 0" "km_clean s"
  | (loaded) "ret = 0" "mem_inv env s" "km_ipi s" "km_percpu s" "km_device s" "km_class s" "km_major s \<noteq> None"
proof -
  obtain r1 s1 where 1: "get_psci_method env km_zero = (r1, s1)" by force
  obtain r2 s2 where 2: "get_cpu_logical_map env s1 = (r2, s2)" by force
  obtain r3 s3 where 3: "init_reserved_mem env s2 = (r3, s3)" by force
  obtain r4 s4 where 4: "init_mcs_ipi env s3 = (r4, s4)" by force
  obtain r5 s5 where 5: "register_mcs_dev env s4 = (r5, s5)" by force
  note t1 = get_psci_method_same [OF 1]
  note t2 = same_table_trans [OF t1 get_cpu_logical_map_same [OF 2]]
  note m3 = init_reserved_mem_inv [OF t2 assms(2) 3]
  have n3: "\<not> km_percpu s3" "\<not> km_ipi s3" "km_major s3 = None" "\<not> km_class s3" "\<not> km_device s3"
    using m3 by (simp_all add: km_clean_def)
  have init: "(ret, s) = (if r1 \<noteq> 0 then (r1, s1) else if r2 \<noteq> 0 then (r2, s2) else if r3 \<noteq> 0 then (r3, s3)
    else if r4 \<noteq> 0 then (r4, release_reserved_mem env s4)
    else if r5 \<noteq> 0 then (r5, release_reserved_mem env (remove_mcs_ipi s5)) else (r5, s5))"
    using assms(1) by (simp only: mcs_dev_init_def 1 2 3 4 5 prod.case)
  show ?thesis
  proof (cases "r1 = 0 \<and> r2 = 0")
    case False
    then have "ret \<noteq> 0 \<and> same_table km_zero s" using init t1 t2 by (cases "r1 = 0") simp_all
    then show ?thesis using no_mem by blast
  next
    case ok2: True
    show ?thesis
    proof (cases "r3 = 0")
      case False
      then have "ret = r3" "s = s3" using init ok2 by simp_all
      then show ?thesis using mem_failed [OF _ t2] 3 m3 False by blast
    next
      case ok3: True
      show ?thesis
      proof (cases "r4 = 0")
        case False
        then have t4: "same_table s3 s4" using init_mcs_ipi_cases [OF 4 n3(1,2)] by simp
        then have "mem_inv env s4" "km_clean (s4\<lparr>km_regions := []\<rparr>)"
          using m3 same_table_mem_inv [OF t4] by (simp_all add: km_clean_def same_table_def)
        then have "km_clean (release_reserved_mem env s4)" by (rule release_clean)
        then show ?thesis using init ok2 ok3 False failed by simp
      next
        case ok4: True
        then have s4: "s4 = s3\<lparr>km_percpu := True, km_ipi := True\<rparr>"
          using init_mcs_ipi_cases [OF 4 n3(1,2)] by simp
        have m4: "mem_inv env s4" using m3 mem_inv_cong [of s4 s3] by (simp add: s4)
        have n4: "km_major s4 = None" "\<not> km_class s4" "\<not> km_device s4" using n3 by (simp_all add: s4)
        show ?thesis
        proof (cases "r5 = 0")
          case True
          then obtain mj where s5: "s5 = s4\<lparr>km_major := Some mj, km_class := True, km_device := True\<rparr>"
            using register_mcs_dev_cases [OF 5 n4] by auto
          then have "mem_inv env s5" using m4 mem_inv_cong [of s5 s4] by simp
          moreover have "ret = 0" "s = s5" using init ok2 ok3 ok4 True by simp_all
          ultimately show ?thesis using s5 s4 loaded by simp
        next
          case False
          then have t5: "same_table s4 s5" using register_mcs_dev_cases [OF 5 n4] by simp
          have "mem_inv env (remove_mcs_ipi s5)"
            using m4 same_table_mem_inv [OF t5] mem_inv_cong [of "remove_mcs_ipi s5" s5]
            by (simp add: remove_mcs_ipi_def)
          moreover have "km_clean ((remove_mcs_ipi s5)\<lparr>km_regions := []\<rparr>)"
            using t5 n4 by (simp add: remove_mcs_ipi_def km_clean_def same_table_def)
          ultimately have "km_clean (release_reserved_mem env (remove_mcs_ipi s5))" by (rule release_clean)
          then show ?thesis using init ok2 ok3 ok4 False failed by simp
        qed
      qed
    qed
  qed
qed

section \<open>Operations of the loaded module\<close>

datatype km_op = Op_ioctl u32 user_arg | Op_poll | Op_irq

fun km_step :: "kernel_env \<Rightarrow> km_op \<Rightarrow> km \<Rightarrow> km" where
  "km_step env (Op_ioctl cmd arg) s = (case mcs_ioctl env s cmd arg of Ret (_, s', _) \<Rightarrow> s' | _ \<Rightarrow> s)"
| "km_step env Op_poll s = snd (mcs_poll s)"
| "km_step env Op_irq s = handle_clientos_ipi s"

lemma km_events_same: "\<exists>ev. s = s\<lparr>km_events := ev\<rparr>"
  by (rule exI [of _ "km_events s"]) simp

lemma km_events_new: "\<exists>ev. s\<lparr>km_events := x\<rparr> = s\<lparr>km_events := ev\<rparr>"
  by (rule exI [of _ x]) simp

lemma mcs_ioctl_frame:
  "mcs_ioctl env s cmd arg = Ret (r, s', out) \<Longrightarrow> \<exists>ev. s' = s\<lparr>km_events := ev\<rparr>"
  unfolding mcs_ioctl_def ioctl_cpuon_def ioctl_affinity_info_def invoke_psci_fn_def
    send_clientos_ipi_def Let_def
  by (auto split: if_splits option.splits prod.splits intro: km_events_same km_events_new)

lemma km_step_same: "same_table s (km_step env op s)"
proof (cases op)
  case (Op_ioctl cmd arg)
  then show ?thesis
    using mcs_ioctl_frame [of env s cmd arg]
    by (auto simp: same_table_def split: outcome.splits)
qed (auto simp: same_table_def mcs_poll_def handle_clientos_ipi_def)

lemma km_ops_same: "same_table s (fold (km_step env) ops s)"
proof (induction ops arbitrary: s)
  case (Cons op ops)
  then show ?case using same_table_trans [OF km_step_same Cons.IH] by simp
qed (simp add: same_table_def)

lemma km_step_ack:
  assumes "op \<noteq> Op_poll"
  shows "km_irq_ack (km_step env op s) = (op = Op_irq \<or> km_irq_ack s)"
proof (cases op)
  case (Op_ioctl cmd arg)
  show ?thesis
  proof (cases "mcs_ioctl env s cmd arg")
    case (Ret x)
    then obtain ev where "fst (snd x) = s\<lparr>km_events := ev\<rparr>"
      using mcs_ioctl_frame [of env s cmd arg "fst x" "fst (snd x)" "snd (snd x)"] by auto
    then show ?thesis using Op_ioctl Ret by (cases x) simp
  qed (simp_all add: Op_ioctl)
qed (use assms in \<open>simp_all add: handle_clientos_ipi_def\<close>)

lemma km_ops_ack:
  assumes "Op_poll \<notin> set ops"
  shows "km_irq_ack (fold (km_step env) ops s) = (Op_irq \<in> set ops \<or> km_irq_ack s)"
  using assms
proof (induction ops arbitrary: s)
  case (Cons op ops)
  then show ?case using km_step_ack [of op env s] by auto
qed simp

section \<open>Properties\<close>


definition demo_env :: kernel_env where
  "demo_env = \<lparr>ke_rmem_base = 0, ke_rmem_size = 0, ke_acpi_disabled = True, ke_psci_available = True,
     ke_psci_method = Some ''smc'', ke_kprobe = (0, \<lambda>cpu. ucast cpu), ke_mcs_node = True,
     ke_memory_region = [(0, 0x70000000, 0x70FFFFFF), (0, 0x80000000, 0x8000FFFF)],
     ke_request_mem_region = (\<lambda>a n. True), ke_irq_in_use = False, ke_alloc_percpu = True,
     ke_request_percpu_irq = 0, ke_register_chrdev = 240, ke_class_create = 0, ke_device_create = 0,
     ke_NR_CPUS = 8, ke_psci = (\<lambda>hvc f a b c. 0), ke_page_shift = 12, ke_remap_pfn_range = 0\<rparr>"

lemmas km_init_eval = mcs_dev_init_def get_psci_method_def get_cpu_logical_map_def init_reserved_mem_def
  init_mcs_ipi_def register_mcs_dev_def resource_size_def km_zero_def strcmp_eq_def cstr_def

definition demo_km :: km where
  "demo_km = snd (mcs_dev_init demo_env km_zero)"

lemma demo_loaded: "mcs_dev_init demo_env km_zero = (0, demo_km)"
  unfolding demo_km_def by (simp add: km_init_eval demo_env_def)

lemma demo_table: "replicate 4 x = [x, x, x, x]"
  by (simp add: numeral_eq_Suc)




text \<open>A region that cannot be requested: the earlier ones are not given back.\<close>

lemma mcs_load_leaks_regions:
  "map_prod id km_regions
     (mcs_dev_init (demo_env\<lparr>ke_request_mem_region := (\<lambda>a n. a = 0x70000000)\<rparr>) km_zero) =
   (- EINVAL, [(0x70000000, 0x1000000)])"
  by (simp add: km_init_eval demo_env_def)

text \<open>
  C16: No interrupt is lost and none is reported twice: a poll reports data exactly when at least
  one interrupt of the client OS arrived since the previous poll, whatever ioctls ran in between.
\<close>

theorem poll_reports_interrupts:
  assumes "Op_poll \<notin> set ops"
  shows "fst (mcs_poll (fold (km_step env) ops (snd (mcs_poll s)))) = (Op_irq \<in> set ops)"
proof -
  have "\<not> km_irq_ack (snd (mcs_poll s))" by (simp add: mcs_poll_def)
  then have "km_irq_ack (fold (km_step env) ops (snd (mcs_poll s))) = (Op_irq \<in> set ops)"
    using km_ops_ack [OF assms, of env "snd (mcs_poll s)"] by blast
  moreover have "fst (mcs_poll t) = km_irq_ack t" for t by (simp add: mcs_poll_def)
  ultimately show ?thesis by blast
qed

theorem poll_reports_interrupts_witness:
  "fst (mcs_poll (fold (km_step demo_env) [Op_irq, Op_irq] (snd (mcs_poll demo_km))))
   \<and> \<not> fst (mcs_poll (fold (km_step demo_env) [] (snd (mcs_poll demo_km))))"
  using poll_reports_interrupts [of "[Op_irq, Op_irq]" demo_env demo_km]
    poll_reports_interrupts [of "[]" demo_env demo_km] by simp

lemma no_wrap_range:
  assumes "0 < unat sz" "\<not> offset + sz - 1 < (offset :: u64)"
  shows "unat offset + unat sz \<le> 2 ^ 64"
proof (rule ccontr)
  assume a: "\<not> unat offset + unat sz \<le> 2 ^ 64"
  have "1 \<le> sz" using assms(1) by (simp add: word_le_nat_alt)
  then have s: "unat (sz - 1) = unat sz - 1" by (simp add: unat_sub)
  have b: "unat offset < 2 ^ 64" "unat sz < 2 ^ 64" using unsigned_less [of offset] unsigned_less [of sz] by simp_all
  have "unat (offset + (sz - 1)) = (unat offset + (unat sz - 1)) mod 2 ^ 64"
    by (simp add: unat_word_ariths s)
  also have "\<dots> = unat offset + (unat sz - 1) - 2 ^ 64"
    using a b assms(1) by (subst le_mod_geq) auto
  also have "\<dots> < unat offset" using b a by linarith
  finally show False using assms(2) by (simp add: word_less_nat_alt algebra_simps)
qed

lemma find_mem_iff:
  "find_mem ms offset sz \<longleftrightarrow> (\<exists>i<length ms. (\<forall>j\<le>i. mm_phy_addr (ms ! j) \<noteq> 0)
     \<and> mm_phy_addr (ms ! i) \<le> offset \<and> sz \<le> mm_size (ms ! i))"
proof (induction ms)
  case (Cons m ms)
  show ?case
  proof (cases "mm_phy_addr m = 0 \<or> (offset \<ge> mm_phy_addr m \<and> sz \<le> mm_size m)")
    case True
    then show ?thesis by (auto intro: exI [of _ 0]) 
  next
    case False
    then have "find_mem (m # ms) offset sz \<longleftrightarrow> find_mem ms offset sz" by auto
    also have "\<dots> \<longleftrightarrow> (\<exists>i<length ms. (\<forall>j\<le>Suc i. mm_phy_addr ((m # ms) ! j) \<noteq> 0)
     \<and> mm_phy_addr ((m # ms) ! Suc i) \<le> offset \<and> sz \<le> mm_size ((m # ms) ! Suc i))"
      unfolding Cons.IH using False by (auto simp: All_less_Suc2 less_Suc_eq_le [symmetric])
    also have "\<dots> \<longleftrightarrow> (\<exists>i<length (m # ms). (\<forall>j\<le>i. mm_phy_addr ((m # ms) ! j) \<noteq> 0)
     \<and> mm_phy_addr ((m # ms) ! i) \<le> offset \<and> sz \<le> mm_size ((m # ms) ! i))"
      using False by (auto simp: Ex_less_Suc2)
    finally show ?thesis .
  qed
qed simp

lemma no_wrap_iff:
  assumes "0 < unat sz"
  shows "\<not> offset + sz - 1 < (offset :: u64) \<longleftrightarrow> unat offset + unat sz \<le> 2 ^ 64"
proof
  assume a: "unat offset + unat sz \<le> 2 ^ 64"
  have s: "unat (sz - 1) = unat sz - 1" using assms by (simp add: unat_minus_one unat_gt_0)
  then have "unat (offset + (sz - 1)) = unat offset + unat (sz - 1)"
    using a assms by (simp add: unat_word_ariths)
  then show "\<not> offset + sz - 1 < offset" by (simp add: word_less_nat_alt add_diff_eq)
qed (rule no_wrap_range [OF assms])



text \<open>
  The end of the range is not compared with the end of the region: a range as large as the
  region can start anywhere above its base, and then lies outside every region.
\<close>

lemma mcs_mmap_past_region:
  "mcs_mmap demo_env demo_km \<lparr>vm_start = 0x1000, vm_end = 0x2000, vm_pgoff = 0xFFFFF\<rparr>
     = (0, Some (0xFFFFF000, 0x1000))"
  by (simp add: mcs_mmap_def demo_km_def km_init_eval demo_env_def demo_table)

text \<open>
  The boot ioctl succeeds exactly when the CPU number is below \<open>NR_CPUS\<close>, has a valid
  MPIDR, and the firmware accepts; it makes one firmware call, with the configured conduit, for
  that MPIDR and boot address, exactly when the MPIDR is valid, and changes nothing else.
\<close>

theorem ioctl_cpuon_spec:
  assumes "ua_cpu_info arg = Some info"
  shows "\<exists>r s'. mcs_ioctl env s IOC_CPUON arg = Ret (r, s', Out_none)
    \<and> (r = 0 \<longleftrightarrow> get_cpu_mpidr env s (ci_cpu info) \<noteq> INVALID_HWID
          \<and> psci_ret (ke_psci env (km_invoke_hvc s) CPU_ON_FUNCID (get_cpu_mpidr env s (ci_cpu info))
              (ci_boot_addr info) 0) = 0)
    \<and> s' = (if get_cpu_mpidr env s (ci_cpu info) = INVALID_HWID then s
        else s\<lparr>km_events := km_events s @ [Psci (km_invoke_hvc s) CPU_ON_FUNCID
          (get_cpu_mpidr env s (ci_cpu info)) (ci_boot_addr info) 0]\<rparr>)"
  using assms
  by (auto simp: mcs_ioctl_def ioc_defs ioctl_cpuon_def invoke_psci_fn_def Let_def)

theorem ioctl_cpuon_spec_witness:
  "\<exists>s'. mcs_ioctl demo_env demo_km IOC_CPUON
      \<lparr>ua_cpu_info = Some \<lparr>ci_cpu = 3, ci_boot_addr = 0x7A000000\<rparr>, ua_msg_mem = None, ua_write_ok = True\<rparr>
     = Ret (0, s', Out_none)
   \<and> km_events s' = [Psci False CPU_ON_FUNCID 3 0x7A000000 0]"
  using ioctl_cpuon_spec [of "\<lparr>ua_cpu_info = Some \<lparr>ci_cpu = 3, ci_boot_addr = 0x7A000000\<rparr>, ua_msg_mem = None,
      ua_write_ok = True\<rparr>" "\<lparr>ci_cpu = 3, ci_boot_addr = 0x7A000000\<rparr>" demo_env demo_km]
  by (auto simp: demo_km_def km_init_eval demo_env_def get_cpu_mpidr_def psci_ret_def)

text \<open>Instance number 4 passes the check although the table has four entries.\<close>

lemma ioctl_instance_off_by_one:
  "fst (ioctl_get_copy_msg_mem (demo_km\<lparr>km_mem := [\<lparr>mm_phy_addr = 0x70000000, mm_size = 0x20000000\<rparr>]\<rparr>)
     \<lparr>cm_instance_id = 4, cm_phy_addr = 0, cm_vir_addr = 0, cm_size = 0, cm_align_size = 0\<rparr> True) = 0"
  by (simp add: ioctl_get_copy_msg_mem_def copy_msg_phy_addr_def Let_def)

text \<open>Only the start of the copy area is compared with the reserved memory, not its end.\<close>

lemma ioctl_copy_area_past_end:
  "ioctl_get_copy_msg_mem (demo_km\<lparr>km_mem := [\<lparr>mm_phy_addr = 0x70000000, mm_size = 0xD00000\<rparr>]\<rparr>)
     \<lparr>cm_instance_id = 0, cm_phy_addr = 0, cm_vir_addr = 0, cm_size = 0, cm_align_size = 0\<rparr> True =
   (0, Out_msg \<lparr>cm_instance_id = 0, cm_phy_addr = 0x70D00000, cm_vir_addr = 0, cm_size = 0x200000,
      cm_align_size = 0\<rparr>)"
  by (simp add: ioctl_get_copy_msg_mem_def copy_msg_phy_addr_def Let_def)

text \<open>The CPU number of the interrupt ioctl is not checked.\<close>

lemma ioctl_sendipi_unchecked:
  "mcs_ioctl demo_env demo_km IOC_SENDIPI
     \<lparr>ua_cpu_info = Some \<lparr>ci_cpu = 8, ci_boot_addr = 0\<rparr>, ua_msg_mem = None, ua_write_ok = True\<rparr> = Fault"
  by (simp add: mcs_ioctl_def ioc_defs demo_env_def)

end
