(* ===== verification/Mica_State.thy ===== *)
theory Mica_State
  imports Rpmsg_Service Shm_Pool Ring_Buffer
begin

text \<open>
  The state that the life cycle of a client works on: the client with its services and the waiting
  endpoints, the ring buffers in shared memory by address, and which of the objects the library
  allocates are alive. A pointer field whose object is not alive dangles; freeing it is
  \<open>Fault\<close>.
\<close>

record 'w mica_state =
  mt_svc :: "'w svc_state"
  mt_rings :: "u64 \<Rightarrow> ring_buffer"
  mt_rbuf_live :: bool
  mt_rpmsg_vdev_live :: bool
  mt_virtio :: bool
  mt_listed :: bool
  mt_gdb_running :: bool

abbreviation mt_client :: "'w mica_state \<Rightarrow> 'w mica_service mica_client" where
  "mt_client st \<equiv> ss_client (mt_svc st)"

definition set_client :: "'w mica_state \<Rightarrow> 'w mica_service mica_client \<Rightarrow> 'w mica_state" where
  "set_client st c = st\<lparr>mt_svc := (mt_svc st)\<lparr>ss_client := c\<rparr>\<rparr>"

lemma set_client_simps [simp]:
  "mt_client (set_client st c) = c"
  "mt_rings (set_client st c) = mt_rings st"
  "mt_rbuf_live (set_client st c) = mt_rbuf_live st"
  "mt_rpmsg_vdev_live (set_client st c) = mt_rpmsg_vdev_live st"
  "mt_virtio (set_client st c) = mt_virtio st"
  "mt_listed (set_client st c) = mt_listed st"
  by (simp_all add: set_client_def)

definition client_table :: "'s mica_client \<Rightarrow> resource_table option" where
  "client_table c = rp_rsc_table (mc_rproc c)"

definition set_table :: "'s mica_client \<Rightarrow> resource_table \<Rightarrow> 's mica_client" where
  "set_table c rt = c\<lparr>mc_rproc := (mc_rproc c)\<lparr>rp_rsc_table := Some rt\<rparr>\<rparr>"

text \<open>A concrete state, used to evaluate the definitions.\<close>

definition demo_rbuf_rt :: resource_table where
  "demo_rbuf_rt = \<lparr>rt_reserved0 = 0, rt_ept = None,
     rt_rbuf = Some \<lparr>rr_type = 129, rr_flags = 0, rr_da = 0, rr_pa = 0, rr_len = 0x40, rr_state = 0\<rparr>,
     rt_vdev = Some [\<lparr>vr_da = 0xFFFFFFFF, vr_align = 16, vr_num = 1\<rparr>, \<lparr>vr_da = 0xFFFFFFFF, vr_align = 16, vr_num = 1\<rparr>]\<rparr>"

definition demo_mica :: "nat mica_state" where
  "demo_mica = \<lparr>mt_svc = \<lparr>ss_client = \<lparr>mc_debug = True, mc_gdb_server_thread = False, mc_path = ''fw.elf'',
       mc_ped_cfg = '''', mc_cpu_id = 3, mc_ped = BARE_METAL,
       mc_rproc = \<lparr>rp_state = RPROC_RUNNING, rp_rsc_table = Some demo_rbuf_rt, rp_rsc_len = 0, rp_bitmap = 0,
         rp_bootaddr = 0, rp_mems = []\<rparr>,
       mc_phys_shmem_start = 0x100, mc_shmem_size = 0x10000, mc_virt_shmem_start = 0x1000,
       mc_virt_shmem_end = 0x11000, mc_unused_shmem_start = 0x1000, mc_vdev_shpool = None, mc_rdev = None,
       mc_rbuf_dev = None, mc_services = []\<rparr>, ss_remote_ept_list = [], ss_world = 0\<rparr>,
     mt_rings = (\<lambda>va. \<lparr>rb_in = 7, rb_out = 9, rb_len = 5, rb_esize = 0, rb_data = replicate 16 0\<rparr>),
     mt_rbuf_live = False, mt_rpmsg_vdev_live = False, mt_virtio = False, mt_listed = True, mt_gdb_running = False\<rparr>"

end
