(* ===== verification/Rbuf_Dev.thy ===== *)
theory Rbuf_Dev
  imports Mica_State
begin

text \<open>
  The ring buffer device of a client that is debugged (\<open>library/rbuf_device/rbuf_dev.c\<close>):
  two rings in one region of the shared memory pool. The variant with a static address for tests
  is left out (it is compiled only with \<open>TEST_RING_BUFFER\<close>).
\<close>

section \<open>The model\<close>

text \<open>
  \<open>mt_rings st va\<close> is the memory at \<open>va\<close> read as a ring. The result of
  \<open>ring_buffer_pair_init\<close> is ignored, as in the source.
\<close>

definition setup_rbuf_dev ::
  "(u64 \<Rightarrow> u64) \<Rightarrow> (u64 \<Rightarrow> u64) \<Rightarrow> 'w mica_state \<Rightarrow> int \<times> 'w mica_state" where
  "setup_rbuf_dev p2v v2p st =
     (case client_table (mt_client st) of
        None \<Rightarrow> (- ENODEV, st)
      | Some rt \<Rightarrow>
          (case rt_rbuf rt of
             None \<Rightarrow> (- ENODEV, st)
           | Some rsc \<Rightarrow>
               (case alloc_shmem_region p2v (mt_client st) 0 (rr_len rsc) of (rb_va, c) \<Rightarrow>
                  if rb_va = 0 then (- ENOMEM, set_client st c)
                  else
                    let rbuf_len = ucast (rr_len rsc div 2) :: u32;
                        tx_va = rb_va + scast rbuf_len;
                        pa = shm_pool_virt_to_phys v2p rb_va;
                        rsc' = rsc\<lparr>rr_pa := pa, rr_da := pa, rr_state := RBUF_STATE_INIT\<rparr>;
                        c' = set_table (c\<lparr>mc_rbuf_dev :=
                          Some \<lparr>rd_tx_va = tx_va, rd_rx_va = rb_va, rd_rbuf_len = rbuf_len\<rparr>\<rparr>)
                          (rt\<lparr>rt_rbuf := Some rsc'\<rparr>)
                    in case ring_buffer_pair_init (Some (mt_rings st rb_va)) (Some (mt_rings st tx_va)) rbuf_len of
                         (_, Some rx, Some tx) \<Rightarrow>
                           (0, (set_client st c')\<lparr>mt_rings := (mt_rings st)(rb_va := rx, tx_va := tx)\<rparr>)
                       | _ \<Rightarrow> (0, set_client st c'))))"

definition create_rbuf_device ::
  "bool \<Rightarrow> (u64 \<Rightarrow> u64) \<Rightarrow> (u64 \<Rightarrow> u64) \<Rightarrow> 'w mica_state \<Rightarrow> int \<times> 'w mica_state" where
  "create_rbuf_device malloc_ok p2v v2p st =
     (if \<not> malloc_ok then (- ENOMEM, st)
      else
        let st1 = (set_client st ((mt_client st)\<lparr>mc_rbuf_dev :=
              Some \<lparr>rd_tx_va = 0, rd_rx_va = 0, rd_rbuf_len = 0\<rparr>\<rparr>))\<lparr>mt_rbuf_live := True\<rparr>
        in case setup_rbuf_dev p2v v2p st1 of (ret, st2) \<Rightarrow>
             if ret \<noteq> 0 then (ret, st2\<lparr>mt_rbuf_live := False\<rparr>) else (0, st2))"

text \<open>\<open>metal_free_memory\<close> of the pointer the client holds, which may be null or dangling.\<close>

definition destroy_rbuf_device :: "'w mica_state \<Rightarrow> 'w mica_state outcome" where
  "destroy_rbuf_device st =
     (case mc_rbuf_dev (mt_client st) of
        None \<Rightarrow> Ret st
      | Some _ \<Rightarrow> if mt_rbuf_live st then Ret (st\<lparr>mt_rbuf_live := False\<rparr>) else Fault)"

section \<open>Properties\<close>

text \<open>Halving the area: the two rings split it.\<close>

lemma rbuf_halves:
  assumes "unat (len :: u64) < 2 ^ 32"
  defines "half \<equiv> ucast (len div 2) :: u32"
  shows "unat half = unat len div 2" and "unat (scast half :: u64) = unat len div 2" and "unat half < 2 ^ 31"
proof -
  have d: "unat (len div 2) = unat len div 2" by (simp add: unat_div)
  then show u: "unat half = unat len div 2"
    unfolding half_def using assms(1) by (subst unat_ucast_u64_u32) simp_all
  then show l: "unat half < 2 ^ 31" using assms(1) by simp
  show "unat (scast half :: u64) = unat len div 2"
    unfolding scast_u32_u64_small [OF l] using u l by (subst unat_of_nat_small) simp_all
qed

text \<open>
  A debug client whose resource table asks for a ring area of more than 33 bytes that fits
  the pool gets a ring device: both rings are empty, well-formed and of capacity half the
  area minus the header, they occupy adjacent halves inside the pool, and the resource
  entry says where they are and that they are initialised.
\<close>

theorem create_rbuf_device_ok:
  assumes pool: "pool_inv (mt_client st)" "fits (mt_client st) (rr_len rsc)"
    and rsc: "client_table (mt_client st) = Some rt" "rt_rbuf rt = Some rsc"
    and len: "33 < unat (rr_len rsc)" "unat (rr_len rsc) < 2 ^ 32"
    and room: "unat (rr_len rsc) \<le> unat (mc_virt_shmem_end (mt_client st)) - unat (mc_unused_shmem_start (mt_client st))"
    and mem: "\<forall>va. unat (rr_len rsc) div 2 - 16 \<le> length (rb_data (mt_rings st va))"
  shows "\<exists>st' dev rx tx. create_rbuf_device True p2v v2p st = (0, st') \<and> mt_rbuf_live st'
    \<and> mc_rbuf_dev (mt_client st') = Some dev
    \<and> rx = mt_rings st' (rd_rx_va dev) \<and> tx = mt_rings st' (rd_tx_va dev)
    \<and> (\<forall>rb \<in> {rx, tx}. rb_wf rb \<and> rb_contents rb = [] \<and> unat (rb_len rb) = unat (rr_len rsc) div 2 - 16)
    \<and> unat (rd_tx_va dev) = unat (rd_rx_va dev) + unat (rr_len rsc) div 2
    \<and> mc_virt_shmem_start (mt_client st) \<le> rd_rx_va dev
    \<and> unat (rd_tx_va dev) + unat (rr_len rsc) div 2 \<le> unat (mc_virt_shmem_end (mt_client st))
    \<and> (\<exists>rt' rsc'. client_table (mt_client st') = Some rt' \<and> rt_rbuf rt' = Some rsc'
         \<and> rr_state rsc' = RBUF_STATE_INIT \<and> rr_pa rsc' = v2p (rd_rx_va dev) \<and> rr_da rsc' = rr_pa rsc')"
proof -
  let ?c = "mt_client st" and ?len = "rr_len rsc"
  let ?half = "ucast (?len div 2) :: u32" and ?va = "mc_unused_shmem_start (mt_client st)"
  let ?c1 = "?c\<lparr>mc_rbuf_dev := Some \<lparr>rd_tx_va = 0, rd_rx_va = 0, rd_rbuf_len = 0\<rparr>\<rparr>"
  note h = rbuf_halves [OF len(2)]
  have va: "?va \<noteq> 0" "mc_virt_shmem_start ?c \<le> ?va" using pool(1) by (auto simp: pool_inv_def)
  have "pool_inv ?c1" "fits ?c1 ?len" using pool by (simp_all add: pool_inv_def fits_def)
  from alloc_unused_spec [OF this, of p2v] room
  have alloc: "alloc_shmem_region p2v ?c1 0 ?len = (?va, ?c1\<lparr>mc_unused_shmem_start := ?va + ?len\<rparr>)" by simp
  let ?tx = "?va + scast ?half :: u64"
  have "unat ?va + unat ?len < 2 ^ 64"
    using pool room unfolding fits_def pool_inv_def word_le_nat_alt by linarith
  then have tx: "unat ?tx = unat ?va + unat ?len div 2"
    using h(2) by (simp add: unat_word_ariths)
  have "0 < unat ?len div 2" using len(1) by simp
  then have "unat ?tx \<noteq> unat ?va" using tx by linarith
  then have txva: "?tx \<noteq> ?va" by auto
  have half: "16 < unat ?half" using h(1) len(1) by linarith
  obtain rx tx where p: "ring_buffer_pair_init (Some (mt_rings st ?va)) (Some (mt_rings st ?tx)) ?half = (0, Some rx, Some tx)"
    and wf: "\<forall>rb \<in> {rx, tx}. rb_wf rb \<and> rb_contents rb = [] \<and> rb_in rb = 0 \<and> rb_out rb = 0 \<and> unat (rb_len rb) = unat ?half - 16"
    using pair_init_spec [OF half h(3), of "mt_rings st ?va" "mt_rings st ?tx"] mem h(1) by auto
  have e: "unat ?tx + unat ?len div 2 \<le> unat (mc_virt_shmem_end ?c)"
    using tx room pool(1) unfolding pool_inv_def word_le_nat_alt by linarith
  show ?thesis
    using rsc alloc p wf va tx txva e h(1)
    by (simp add: create_rbuf_device_def setup_rbuf_dev_def client_table_def set_table_def Let_def
        shm_pool_virt_to_phys_def)
qed

theorem create_rbuf_device_ok_witness:
  "\<exists>st' dev. create_rbuf_device True demo_p2v (\<lambda>va. va - 0xF00) demo_mica = (0, st')
    \<and> mc_rbuf_dev (mt_client st') = Some dev \<and> rb_wf (mt_rings st' (rd_rx_va dev))
    \<and> unat (rb_len (mt_rings st' (rd_tx_va dev))) = 16"
  using create_rbuf_device_ok [of demo_mica "the (rt_rbuf demo_rbuf_rt)" demo_rbuf_rt demo_p2v "\<lambda>va. va - 0xF00"]
  by (force simp: demo_mica_def demo_rbuf_rt_def client_table_def pool_inv_def fits_def)

text \<open>
  Each failure of \<open>create_rbuf_device\<close> after the allocation frees the device but leaves the
  client pointing to it, so stopping the client, which destroys the device of a debug client,
  frees it a second time.
\<close>

lemma create_rbuf_device_dangles:
  assumes "setup_rbuf_dev p2v v2p ((set_client st ((mt_client st)\<lparr>mc_rbuf_dev :=
      Some \<lparr>rd_tx_va = 0, rd_rx_va = 0, rd_rbuf_len = 0\<rparr>\<rparr>))\<lparr>mt_rbuf_live := True\<rparr>) = (ret, st')"
    and "ret \<noteq> 0" "mc_rbuf_dev (mt_client st') \<noteq> None"
  shows "create_rbuf_device True p2v v2p st = (ret, st'\<lparr>mt_rbuf_live := False\<rparr>)
    \<and> destroy_rbuf_device (st'\<lparr>mt_rbuf_live := False\<rparr>) = Fault"
  using assms by (auto simp: create_rbuf_device_def destroy_rbuf_device_def)

lemma rbuf_double_free:
  "\<exists>st'. create_rbuf_device True p2v v2p (set_client demo_mica ((mt_client demo_mica)\<lparr>mc_rproc :=
       (mc_rproc (mt_client demo_mica))\<lparr>rp_rsc_table := Some (demo_rbuf_rt\<lparr>rt_rbuf := None\<rparr>)\<rparr>\<rparr>)) = (- ENODEV, st')
    \<and> destroy_rbuf_device st' = Fault"
  by (simp add: create_rbuf_device_def setup_rbuf_dev_def destroy_rbuf_device_def client_table_def
      set_client_def demo_mica_def)

text \<open>
  The result of \<open>ring_buffer_pair_init\<close> is ignored: an area too small for the headers is
  announced as initialised although the rings are not.
\<close>

lemma rbuf_small_area_not_initialised:
  "\<exists>st' dev. create_rbuf_device True p2v v2p (set_client demo_mica (set_table (mt_client demo_mica)
       (demo_rbuf_rt\<lparr>rt_rbuf := Some ((the (rt_rbuf demo_rbuf_rt))\<lparr>rr_len := 0x20\<rparr>)\<rparr>))) = (0, st')
    \<and> mc_rbuf_dev (mt_client st') = Some dev \<and> mt_rings st' (rd_rx_va dev) = mt_rings demo_mica (rd_rx_va dev)"
  by (simp add: create_rbuf_device_def setup_rbuf_dev_def client_table_def set_table_def set_client_def
      demo_mica_def demo_rbuf_rt_def alloc_shmem_region_def ring_buffer_pair_init_def
      sizeof_ring_buffer_t_def Let_def)

end
