(* ===== verification/Rpmsg_Vdev.thy ===== *)
theory Rpmsg_Vdev
  imports Mica_State
begin

text \<open>
  The rpmsg device of a client (\<open>library/rpmsg_device/rpmsg_vdev.c\<close>): the vrings and the
  buffer pool are placed in shared memory, then OpenAMP creates the virtio and rpmsg devices.
  Parameters: libmetal's translations, OpenAMP's \<open>vring_size\<close> and \<open>remoteproc_mmap\<close> (only
  the device address it gives back is used), and whether the OpenAMP calls succeed. The contents of
  the pool are not modelled, so \<open>memset\<close> of the buffers has no counterpart.
\<close>

section \<open>The model\<close>

record vdev_env =
  ve_p2v :: "u64 \<Rightarrow> u64"
  ve_v2p :: "u64 \<Rightarrow> u64"
  ve_vring_size :: "u32 \<Rightarrow> u32 \<Rightarrow> u32"
  ve_map_da :: "u64 \<Rightarrow> u64"
  ve_malloc_ok :: bool
  ve_create_virtio :: bool
  ve_init_vdev :: int

text \<open>\<open>ALIGN_UP(vring_size(num, align), align)\<close>, in unsigned int arithmetic.\<close>

definition vring_bytes :: "vdev_env \<Rightarrow> fw_rsc_vdev_vring \<Rightarrow> u64" where
  "vring_bytes ve v =
     ucast ((ve_vring_size ve (vr_num v) (vr_align v) + (vr_align v - 1)) AND NOT (vr_align v - 1))"

definition vring_phys :: "fw_rsc_vdev_vring \<Rightarrow> u64" where
  "vring_phys v = (if vr_da v = FW_RSC_U32_ADDR_ANY then 0 else ucast (vr_da v))"

fun setup_vrings ::
  "vdev_env \<Rightarrow> fw_rsc_vdev_vring list \<Rightarrow> 's mica_client \<Rightarrow> int \<times> fw_rsc_vdev_vring list \<times> 's mica_client" where
  "setup_vrings ve [] client = (0, [], client)"
| "setup_vrings ve (v # vs) client =
     (if vr_da v = FW_RSC_U32_ADDR_ANY then
        (case alloc_shmem_region (ve_p2v ve) client 0 (vring_bytes ve v) of (buf, client') \<Rightarrow>
           if buf = 0 then (- ENOMEM, v # vs, client')
           else case setup_vrings ve vs client' of (ret, vs', client'') \<Rightarrow>
             (ret, v\<lparr>vr_da := ucast (ve_map_da ve (shm_pool_virt_to_phys (ve_v2p ve) buf))\<rparr> # vs', client''))
      else
        (case alloc_shmem_region (ve_p2v ve) client (ucast (vr_da v)) (vring_bytes ve v) of (buf, client') \<Rightarrow>
           if buf = 0 then (- ENOMEM, v # vs, client')
           else case setup_vrings ve vs client' of (ret, vs', client'') \<Rightarrow> (ret, v # vs', client'')))"

definition buffer_bytes :: "fw_rsc_vdev_vring \<Rightarrow> u64" where
  "buffer_bytes v = ucast (512 * vr_num v * 2)"

definition setup_vdev :: "vdev_env \<Rightarrow> 's mica_client \<Rightarrow> int \<times> 's mica_client" where
  "setup_vdev ve client =
     (case client_table client of
        None \<Rightarrow> (- ENODEV, client)
      | Some rt \<Rightarrow>
          (case rt_vdev rt of
             None \<Rightarrow> (- ENODEV, client)
           | Some vrings \<Rightarrow>
               (case setup_vrings ve vrings client of (ret, vrings', client1) \<Rightarrow>
                  let client2 = set_table client1 (rt\<lparr>rt_vdev := Some vrings'\<rparr>) in
                  if ret \<noteq> 0 then (ret, client2)
                  else if vrings' = [] then (- ENODEV, client2)
                  else
                    (case alloc_shmem_region (ve_p2v ve) client2 0 (buffer_bytes (last vrings')) of (buf, client3) \<Rightarrow>
                       if buf = 0 then (- ENOMEM, client3)
                       else (0, client3\<lparr>mc_vdev_shpool := Some (buf, buffer_bytes (last vrings'))\<rparr>)))))"

definition create_rpmsg_device :: "vdev_env \<Rightarrow> u64 \<Rightarrow> 'w mica_state \<Rightarrow> int \<times> 'w mica_state" where
  "create_rpmsg_device ve rpmsg_vdev st =
     (if \<not> ve_malloc_ok ve then (- ENOMEM, st)
      else
        let st = st\<lparr>mt_rpmsg_vdev_live := True\<rparr> in
        case setup_vdev ve (mt_client st) of (ret, client) \<Rightarrow>
          let st = set_client st client in
          if ret \<noteq> 0 then (ret, st\<lparr>mt_rpmsg_vdev_live := False\<rparr>)
          else if \<not> ve_create_virtio ve then (- EINVAL, st\<lparr>mt_rpmsg_vdev_live := False\<rparr>)
          else
            let st = st\<lparr>mt_virtio := True\<rparr>; ret = ve_init_vdev ve in
            if ret \<noteq> 0 then (ret, st\<lparr>mt_virtio := False, mt_rpmsg_vdev_live := False\<rparr>)
            else (ret, set_client st ((mt_client st)\<lparr>mc_rdev := Some rpmsg_vdev\<rparr>)))"

definition release_rpmsg_device :: "'w mica_state \<Rightarrow> 'w mica_state" where
  "release_rpmsg_device st =
     (case mc_rdev (mt_client st) of
        None \<Rightarrow> st
      | Some _ \<Rightarrow> (set_client st ((mt_client st)\<lparr>mc_rdev := None\<rparr>))\<lparr>mt_virtio := False, mt_rpmsg_vdev_live := False\<rparr>)"

section \<open>The allocations of a device\<close>

definition vdev_requests :: "vdev_env \<Rightarrow> fw_rsc_vdev_vring list \<Rightarrow> (u64 \<times> u64) list" where
  "vdev_requests ve vrings =
     map (\<lambda>v. (vring_phys v, vring_bytes ve v)) vrings @ [(0, buffer_bytes (last vrings))]"

lemma alloc_seq_append:
  "alloc_seq p2v c (xs @ ys) =
     (case alloc_seq p2v c xs of (rs, c') \<Rightarrow> case alloc_seq p2v c' ys of (rs', c'') \<Rightarrow> (rs @ rs', c''))"
  by (induction p2v c xs rule: alloc_seq.induct) (auto split: prod.splits)

lemma alloc_seq_length: "alloc_seq p2v c reqs = (rs, c') \<Longrightarrow> length rs \<le> length reqs"
  by (induction p2v c reqs arbitrary: rs c' rule: alloc_seq.induct) (fastforce split: prod.splits if_splits)+

text \<open>The pool part of a client; the rest does not influence an allocation.\<close>

definition same_pool :: "'s mica_client \<Rightarrow> 's mica_client \<Rightarrow> bool" where
  "same_pool c d \<longleftrightarrow> mc_unused_shmem_start c = mc_unused_shmem_start d
     \<and> mc_virt_shmem_start c = mc_virt_shmem_start d \<and> mc_virt_shmem_end c = mc_virt_shmem_end d"

lemma alloc_same_pool:
  assumes "same_pool c d" "alloc_shmem_region p2v c phys sz = (va, c')" "alloc_shmem_region p2v d phys sz = (vb, d')"
  shows "va = vb \<and> same_pool c' d'"
  using assms by (auto simp: same_pool_def alloc_shmem_region_def Let_def split: if_splits)

text \<open>
  What the table says of a vring once it has the region at \<open>buf\<close>: a vring without an address gets the
  device address of the region, one with an address keeps it.
\<close>

definition placed :: "vdev_env \<Rightarrow> u64 \<Rightarrow> fw_rsc_vdev_vring \<Rightarrow> fw_rsc_vdev_vring" where
  "placed ve buf v =
     (if vr_da v = FW_RSC_U32_ADDR_ANY then v\<lparr>vr_da := ucast (ve_map_da ve (shm_pool_virt_to_phys (ve_v2p ve) buf))\<rparr> else v)"

definition vring_regions :: "vdev_env \<Rightarrow> u64 list \<Rightarrow> fw_rsc_vdev_vring list \<Rightarrow> (nat \<times> nat) list" where
  "vring_regions ve bufs vs = map2 (\<lambda>buf v. (unat buf, unat (vring_bytes ve v))) bufs vs"

definition fixed_at :: "vdev_env \<Rightarrow> u64 \<Rightarrow> fw_rsc_vdev_vring \<Rightarrow> bool" where
  "fixed_at ve buf v \<longleftrightarrow> vr_da v = FW_RSC_U32_ADDR_ANY \<or> buf = shm_pool_phys_to_virt (ve_p2v ve) (ucast (vr_da v))"

lemma vr_num_placed [simp]: "vr_num (placed ve buf v) = vr_num v"
  by (simp add: placed_def)

lemma alloc_fixed:
  assumes "alloc_shmem_region p2v c phys sz = (buf, c')" "buf \<noteq> 0" "phys \<noteq> 0"
  shows "buf = shm_pool_phys_to_virt p2v phys"
  using assms by (auto simp: alloc_shmem_region_def Let_def split: if_splits)

lemma alloc_table: "alloc_shmem_region p2v c phys sz = (buf, c') \<Longrightarrow> client_table c' = client_table c"
  by (auto simp: alloc_shmem_region_def client_table_def Let_def split: if_splits)

lemma ucast_da_0: "ucast (da :: u32) = (0 :: u64) \<longleftrightarrow> da = 0"
proof
  assume "ucast da = (0 :: u64)"
  then have "\<not> bit da n" if "n < 32" for n using that by (auto simp: bit_eq_iff bit_simps)
  then show "da = 0" by (auto simp: bit_eq_iff dest: bit_imp_le_length)
qed simp

lemma setup_vrings_alloc:
  assumes "setup_vrings ve vs c = (0, vs', c')" "\<forall>v \<in> set vs. vr_da v \<noteq> 0"
  shows "\<exists>bufs. alloc_seq (ve_p2v ve) c (map (\<lambda>v. (vring_phys v, vring_bytes ve v)) vs) = (vring_regions ve bufs vs, c')
    \<and> length bufs = length vs \<and> vs' = map2 (placed ve) bufs vs \<and> list_all2 (fixed_at ve) bufs vs"
  using assms
proof (induction vs arbitrary: c vs')
  case (Cons v vs)
  let ?phys = "vring_phys v"
  obtain buf c1 where a: "alloc_shmem_region (ve_p2v ve) c ?phys (vring_bytes ve v) = (buf, c1)" by force
  obtain r1 vs1 c2 where s: "setup_vrings ve vs c1 = (r1, vs1, c2)" by (metis prod_cases3)
  have ok: "buf \<noteq> 0 \<and> r1 = 0 \<and> c2 = c' \<and> vs' = placed ve buf v # vs1"
    using Cons.prems(1) a s by (auto simp: vring_phys_def placed_def split: if_splits)
  have "\<exists>bufs. alloc_seq (ve_p2v ve) c1 (map (\<lambda>v. (vring_phys v, vring_bytes ve v)) vs) = (vring_regions ve bufs vs, c')
    \<and> length bufs = length vs \<and> vs1 = map2 (placed ve) bufs vs \<and> list_all2 (fixed_at ve) bufs vs"
    by (rule Cons.IH) (use s ok Cons.prems(2) in auto)
  then obtain bufs where b: "alloc_seq (ve_p2v ve) c1 (map (\<lambda>v. (vring_phys v, vring_bytes ve v)) vs) = (vring_regions ve bufs vs, c')"
    "length bufs = length vs" "vs1 = map2 (placed ve) bufs vs" "list_all2 (fixed_at ve) bufs vs" by blast
  have "vr_da v \<noteq> 0" using Cons.prems(2) by simp
  then have "fixed_at ve buf v"
    using alloc_fixed [OF a] ok ucast_da_0 [of "vr_da v"]
    by (cases "vr_da v = FW_RSC_U32_ADDR_ANY") (simp_all add: fixed_at_def vring_phys_def)
  then show ?case using a ok b by (intro exI [of _ "buf # bufs"]) (simp add: vring_regions_def)
qed (simp add: vring_regions_def)

lemma placed_last:
  assumes "vs' = map2 (placed ve) bufs vs" "length bufs = length vs" "vs \<noteq> []"
  shows "buffer_bytes (last vs') = buffer_bytes (last vs)"
proof -
  have "last vs' = placed ve (last bufs) (last vs)"
  proof -
    have ne: "vs' \<noteq> []" "bufs \<noteq> []" using assms by (cases vs; cases bufs; simp)+
    have "length vs' = length vs" using assms by simp
    then show ?thesis using assms ne by (simp add: last_conv_nth)
  qed
  then show ?thesis by (simp add: buffer_bytes_def)
qed

lemma setup_vdev_allocs:
  assumes "setup_vdev ve c = (0, c')" "client_table c = Some rt" "rt_vdev rt = Some vrings"
    and "\<forall>v \<in> set vrings. vr_da v \<noteq> 0"
  shows "\<exists>bufs pool d. alloc_seq (ve_p2v ve) c (vdev_requests ve vrings) =
        (vring_regions ve bufs vrings @ [(unat pool, unat (buffer_bytes (last vrings)))], d) \<and> same_pool d c'
    \<and> length bufs = length vrings \<and> list_all2 (fixed_at ve) bufs vrings
    \<and> client_table c' = Some (rt\<lparr>rt_vdev := Some (map2 (placed ve) bufs vrings)\<rparr>)
    \<and> mc_vdev_shpool c' = Some (pool, buffer_bytes (last vrings))"
proof -
  obtain r vs1 c1 where s: "setup_vrings ve vrings c = (r, vs1, c1)" by (metis prod_cases3)
  let ?c2 = "set_table c1 (rt\<lparr>rt_vdev := Some vs1\<rparr>)"
  obtain buf c3 where a: "alloc_shmem_region (ve_p2v ve) ?c2 0 (buffer_bytes (last vs1)) = (buf, c3)" by force
  have ok: "r = 0" "vs1 \<noteq> []" "buf \<noteq> 0" "c' = c3\<lparr>mc_vdev_shpool := Some (buf, buffer_bytes (last vs1))\<rparr>"
    using assms(1-3) s a by (auto simp: setup_vdev_def Let_def split: if_splits)
  from setup_vrings_alloc [OF s [unfolded ok(1)] assms(4)] obtain bufs where
    rs: "alloc_seq (ve_p2v ve) c (map (\<lambda>v. (vring_phys v, vring_bytes ve v)) vrings) = (vring_regions ve bufs vrings, c1)"
      "length bufs = length vrings" "vs1 = map2 (placed ve) bufs vrings" "list_all2 (fixed_at ve) bufs vrings" by blast
  have ne: "vrings \<noteq> []" using rs(3) ok(2) by auto
  note last = placed_last [OF rs(3,2) ne]
  obtain vb d where b: "alloc_shmem_region (ve_p2v ve) c1 0 (buffer_bytes (last vrings)) = (vb, d)" by force
  have "same_pool ?c2 c1" by (simp add: same_pool_def set_table_def)
  from alloc_same_pool [OF this a, of vb d] b last have vb: "vb = buf" "same_pool c3 d" by simp_all
  have "client_table c' = Some (rt\<lparr>rt_vdev := Some vs1\<rparr>)"
    using alloc_table [OF a] ok(4) by (simp add: client_table_def set_table_def)
  moreover have "alloc_seq (ve_p2v ve) c (vdev_requests ve vrings) =
      (vring_regions ve bufs vrings @ [(unat buf, unat (buffer_bytes (last vrings)))], d)"
    using rs(1) b vb(1) ok(3) by (simp add: vdev_requests_def alloc_seq_append)
  ultimately show ?thesis using rs(2-4) vb(2) ok(4) last
    by (intro exI [of _ bufs] exI [of _ buf] exI [of _ d]) (simp add: same_pool_def)
qed

lemma alloc_rdev: "mc_rdev (snd (alloc_shmem_region p2v c phys sz)) = mc_rdev c"
  by (auto simp: alloc_shmem_region_def Let_def)

lemma setup_vrings_rdev: "mc_rdev (snd (snd (setup_vrings ve vs c))) = mc_rdev c"
proof (induction vs arbitrary: c)
  case (Cons v vs)
  have "mc_rdev (snd (snd (setup_vrings ve vs (snd (alloc_shmem_region p2v c phys sz))))) = mc_rdev c" for p2v phys sz
    using Cons.IH alloc_rdev by metis
  then show ?case
    using alloc_rdev [of "ve_p2v ve" c 0 "vring_bytes ve v"]
      alloc_rdev [of "ve_p2v ve" c "ucast (vr_da v)" "vring_bytes ve v"]
    by (auto split: prod.splits) (metis snd_conv)+
qed simp

lemma setup_vdev_rdev: "mc_rdev (snd (setup_vdev ve c)) = mc_rdev c"
proof -
  have "mc_rdev (snd (alloc_shmem_region p2v (set_table (snd (snd (setup_vrings ve vs c))) rt) phys sz)) = mc_rdev c"
    for p2v vs rt phys sz
    by (simp add: alloc_rdev setup_vrings_rdev set_table_def)
  then show ?thesis
    using setup_vrings_rdev [of ve _ c]
    by (auto simp: setup_vdev_def Let_def set_table_def split: option.splits prod.splits) (metis snd_conv)+
qed

section \<open>Properties\<close>

text \<open>
  C34: When \<open>setup_vdev\<close> succeeds, every vring and the buffer pool have a region of their own
  of the size asked for, inside the shared memory of the client and pairwise disjoint. The resource table then has
  the device address of its region for each vring that had none, a vring with a fixed address is at that address, and the
  buffer pool is the one handed to rpmsg. Vrings with a fixed address do not use address 0, and no size
  is so large that the address arithmetic wraps.
\<close>

theorem setup_vdev_disjoint:
  assumes "setup_vdev ve c = (0, c')" "client_table c = Some rt" "rt_vdev rt = Some vrings"
    and "\<forall>v \<in> set vrings. vr_da v \<noteq> 0"
    and "pool_inv c" "p2v_in_pool (ve_p2v ve) c" "\<forall>r \<in> set (vdev_requests ve vrings). fits c (snd r)"
  shows "\<exists>bufs pool. length bufs = length vrings \<and> list_all2 (fixed_at ve) bufs vrings
    \<and> client_table c' = Some (rt\<lparr>rt_vdev := Some (map2 (placed ve) bufs vrings)\<rparr>)
    \<and> mc_vdev_shpool c' = Some (pool, buffer_bytes (last vrings))
    \<and> (let rs = vring_regions ve bufs vrings @ [(unat pool, unat (buffer_bytes (last vrings)))] in
        (\<forall>i < length rs. unat (mc_unused_shmem_start c) \<le> fst (rs ! i) \<and> fst (rs ! i) + snd (rs ! i) \<le> unat (mc_virt_shmem_end c))
        \<and> (\<forall>i j. i < j \<and> j < length rs \<longrightarrow> fst (rs ! i) + snd (rs ! i) \<le> fst (rs ! j)))
    \<and> pool_inv c'"
proof -
  obtain bufs pool d where r: "alloc_seq (ve_p2v ve) c (vdev_requests ve vrings) =
        (vring_regions ve bufs vrings @ [(unat pool, unat (buffer_bytes (last vrings)))], d)" (is "_ = (?rs, d)") "same_pool d c'"
    and t: "length bufs = length vrings" "list_all2 (fixed_at ve) bufs vrings"
      "client_table c' = Some (rt\<lparr>rt_vdev := Some (map2 (placed ve) bufs vrings)\<rparr>)"
      "mc_vdev_shpool c' = Some (pool, buffer_bytes (last vrings))"
    using setup_vdev_allocs [OF assms(1-4)] by blast
  from alloc_seq_within [OF assms(5-7) r(1)] have w: "pool_inv d"
    "regions_within (unat (mc_unused_shmem_start c)) (unat (mc_virt_shmem_end c)) ?rs" by auto
  have "pool_inv c'" using w(1) r(2) by (simp add: pool_inv_def same_pool_def)
  then show ?thesis using t regions_within_nth [OF w(2)] regions_within_disjoint [OF w(2)]
    unfolding Let_def by blast
qed

definition demo_ve :: vdev_env where
  "demo_ve = \<lparr>ve_p2v = (\<lambda>a. 0), ve_v2p = (\<lambda>va. va - 0xF00), ve_vring_size = (\<lambda>n a. 100), ve_map_da = (\<lambda>a. a),
     ve_malloc_ok = True, ve_create_virtio = True, ve_init_vdev = 0\<rparr>"

theorem setup_vdev_disjoint_witness:
  "\<exists>c' bufs pool. setup_vdev demo_ve (mt_client demo_mica) = (0, c') \<and> length bufs = 2
    \<and> client_table c' = Some (demo_rbuf_rt\<lparr>rt_vdev := Some (map2 (placed demo_ve) bufs (the (rt_vdev demo_rbuf_rt)))\<rparr>)
    \<and> mc_vdev_shpool c' = Some (pool, 1024) \<and> pool_inv c'"
proof -
  obtain c' where c: "setup_vdev demo_ve (mt_client demo_mica) = (0, c')"
    by (simp add: setup_vdev_def client_table_def set_table_def demo_mica_def demo_rbuf_rt_def demo_ve_def
        vring_bytes_def buffer_bytes_def alloc_shmem_region_def shm_pool_virt_to_phys_def Let_def)
  let ?vs = "the (rt_vdev demo_rbuf_rt)"
  have h: "client_table (mt_client demo_mica) = Some demo_rbuf_rt" "rt_vdev demo_rbuf_rt = Some ?vs" "\<forall>v \<in> set ?vs. vr_da v \<noteq> 0"
    "pool_inv (mt_client demo_mica)" "p2v_in_pool (ve_p2v demo_ve) (mt_client demo_mica)"
    "\<forall>r \<in> set (vdev_requests demo_ve ?vs). fits (mt_client demo_mica) (snd r)"
    by (simp_all add: client_table_def demo_mica_def demo_rbuf_rt_def demo_ve_def pool_inv_def p2v_in_pool_def
        vdev_requests_def fits_def vring_bytes_def buffer_bytes_def)
  have n: "length ?vs = 2" "buffer_bytes (last ?vs) = 1024" by (simp_all add: demo_rbuf_rt_def buffer_bytes_def)
  from setup_vdev_disjoint [OF c h] show ?thesis unfolding n using c by blast
qed



end
