(* ===== verification/Mica_Lifecycle.thy ===== *)
theory Mica_Lifecycle
  imports Rbuf_Dev Rpmsg_Vdev
begin

text \<open>
  The life cycle of a client: \<open>library/mica/mica.c\<close> over
  \<open>library/remoteproc/remoteproc_core.c\<close>. OpenAMP's remoteproc calls are the
  functions of the record \<open>openamp\<close>, which may change the state in any way; the file
  system is a function from paths to contents.
\<close>

section \<open>Firmware images\<close>

text \<open>An image store: the contents of its file while the file is open, and its buffer.\<close>

record img_store =
  is_file :: "u8 list option"
  is_buf :: "u8 list option"

definition empty_store :: img_store where
  "empty_store = \<lparr>is_file = None, is_buf = None\<rparr>"

definition store_open ::
  "(string \<Rightarrow> u8 list option) \<Rightarrow> bool \<Rightarrow> img_store \<Rightarrow> string \<Rightarrow> int \<times> img_store" where
  "store_open fopen malloc_ok img path =
     (case fopen path of
        None \<Rightarrow> (- EINVAL, img)
      | Some content \<Rightarrow>
          if \<not> malloc_ok then (- ENOMEM, img)
          else (sint (of_nat (length content) :: u32), img\<lparr>is_file := Some content, is_buf := Some content\<rparr>))"

definition store_close :: "img_store \<Rightarrow> img_store" where
  "store_close img = img\<lparr>is_file := None, is_buf := None\<rparr>"

text \<open>
  \<open>store_load\<close> reads from the file into a reallocated buffer, or into memory at the address
  libmetal gives for \<open>pa\<close>; the last component is the address, 0 for the buffer.
\<close>

definition store_load ::
  "(u64 \<Rightarrow> u64) \<Rightarrow> bool \<Rightarrow> img_store \<Rightarrow> nat \<Rightarrow> nat \<Rightarrow> bool \<Rightarrow> u64 \<Rightarrow> int \<times> img_store \<times> (u64 \<times> u8 list) option" where
  "store_load p2v realloc_ok img offset sz data_given pa =
     (let bytes = (case is_file img of None \<Rightarrow> [] | Some content \<Rightarrow> take sz (drop offset content));
          n = sint (of_nat (length bytes) :: u32) in
      if pa = METAL_BAD_PHYS then
        if \<not> data_given then (- EINVAL, img, None)
        else if \<not> realloc_ok then (- ENOMEM, img, None)
        else (n, img\<lparr>is_buf := Some bytes\<rparr>, Some (0, bytes))
      else
        let tmp = p2v pa in
        if tmp = 0 then (- EINVAL, img, None) else (n, img, Some (tmp, bytes)))"

section \<open>remoteproc\_core.c\<close>

record 'w openamp =
  oa_init :: "'w mica_state \<Rightarrow> bool \<times> 'w mica_state"
  oa_config :: "'w mica_state \<Rightarrow> img_store \<Rightarrow> int \<times> 'w mica_state"
  oa_load :: "'w mica_state \<Rightarrow> int \<times> 'w mica_state"
  oa_start :: "'w mica_state \<Rightarrow> int \<times> 'w mica_state"
  oa_stop :: "'w mica_state \<Rightarrow> 'w mica_state"
  oa_shutdown :: "'w mica_state \<Rightarrow> 'w mica_state"
  oa_remove :: "'w mica_state \<Rightarrow> 'w mica_state"

definition create_client :: "'w openamp \<Rightarrow> 'w mica_state \<Rightarrow> int \<times> 'w mica_state" where
  "create_client oa st =
     (case mc_ped (mt_client st) of
        PED_OTHER \<Rightarrow> (- EINVAL, st)
      | _ \<Rightarrow>
          (case oa_init oa st of (ok, st) \<Rightarrow>
             if \<not> ok then (- EINVAL, st)
             else (0, (set_client st ((mt_client st)\<lparr>mc_services := []\<rparr>))\<lparr>mt_listed := True\<rparr>)))"

text \<open>The image store is part of the result: it shows which files and buffers remain open.\<close>

definition load_client_image ::
  "'w openamp \<Rightarrow> (string \<Rightarrow> u8 list option) \<Rightarrow> bool \<Rightarrow> 'w mica_state \<Rightarrow> int \<times> img_store \<times> 'w mica_state" where
  "load_client_image oa fopen malloc_ok st =
     (case store_open fopen malloc_ok empty_store (mc_path (mt_client st)) of (ret, store) \<Rightarrow>
        if ret \<le> 0 then (- EINVAL, store, st)
        else case oa_config oa st store of (ret, st) \<Rightarrow>
          let store = store_close store in
          if ret \<noteq> 0 then (- EINVAL, store, st)
          else if client_table (mt_client st) \<noteq> None \<and> rp_state (mc_rproc (mt_client st)) = RPROC_READY
          then (ret, store, st)
          else case oa_load oa st of (ret, st) \<Rightarrow>
            if client_table (mt_client st) = None then (- EINVAL, store, st) else (ret, store, st))"

definition start_client :: "'w openamp \<Rightarrow> 'w mica_state \<Rightarrow> int \<times> 'w mica_state" where
  "start_client oa st = oa_start oa st"

definition stop_client :: "'w openamp \<Rightarrow> 'w mica_state \<Rightarrow> 'w mica_state" where
  "stop_client oa st = oa_shutdown oa st"

definition destory_client :: "'w openamp \<Rightarrow> 'w mica_state \<Rightarrow> 'w mica_state" where
  "destory_client oa st = oa_remove oa (st\<lparr>mt_listed := False\<rparr>)"

section \<open>mica.c\<close>

definition mica_create :: "'w openamp \<Rightarrow> 'w mica_state \<Rightarrow> int \<times> 'w mica_state" where
  "mica_create oa st = create_client oa st"

record mica_env =
  me_fopen :: "string \<Rightarrow> u8 list option"
  me_malloc_image :: bool
  me_vdev :: vdev_env
  me_rpmsg_vdev :: u64
  me_malloc_rbuf :: bool

definition mica_start :: "'w openamp \<Rightarrow> mica_env \<Rightarrow> 'w mica_state \<Rightarrow> int \<times> 'w mica_state" where
  "mica_start oa env st =
     (case load_client_image oa (me_fopen env) (me_malloc_image env) st of (ret, _, st) \<Rightarrow>
        if ret \<noteq> 0 then (ret, st)
        else case start_client oa st of (ret, st) \<Rightarrow>
          if ret \<noteq> 0 then (ret, st)
          else case create_rpmsg_device (me_vdev env) (me_rpmsg_vdev env) st of (ret, st) \<Rightarrow>
            if mc_debug (mt_client st)
            then create_rbuf_device (me_malloc_rbuf env) (ve_p2v (me_vdev env)) (ve_v2p (me_vdev env)) st
            else (ret, st))"

definition mica_stop :: "'w openamp \<Rightarrow> 'w mica_state \<Rightarrow> 'w mica_state outcome" where
  "mica_stop oa st =
     (let st = oa_stop oa st;
          st = st\<lparr>mt_svc := mica_unregister_all_services (mt_svc st)\<rparr>;
          st = release_rpmsg_device st
      in if mc_debug (mt_client st)
         then (case destroy_rbuf_device st of
                 Ret st \<Rightarrow> Ret (stop_client oa st) | Fault \<Rightarrow> Fault | Spinning \<Rightarrow> Spinning)
         else Ret (stop_client oa st))"

definition mica_remove :: "'w openamp \<Rightarrow> 'w mica_state \<Rightarrow> 'w mica_state outcome" where
  "mica_remove oa st =
     (case (if rp_state (mc_rproc (mt_client st)) \<noteq> RPROC_OFFLINE then mica_stop oa st else Ret st) of
        Ret st \<Rightarrow>
          Ret (destory_client oa (if mc_gdb_server_thread (mt_client st) then st\<lparr>mt_gdb_running := False\<rparr> else st))
      | Fault \<Rightarrow> Fault
      | Spinning \<Rightarrow> Spinning)"

abbreviation CPU_OFF_STATUS :: u32 where "CPU_OFF_STATUS \<equiv> 0x84000002"

fun status_name :: "rproc_state \<Rightarrow> string option" where
  "status_name RPROC_OFFLINE = Some ''Offline''"
| "status_name RPROC_CONFIGURED = Some ''Configured''"
| "status_name RPROC_READY = Some ''Ready''"
| "status_name RPROC_RUNNING = Some ''Running''"
| "status_name RPROC_SUSPENDED = Some ''Suspended''"
| "status_name RPROC_ERROR = Some ''Error''"
| "status_name RPROC_STOPPED = Some ''Stopped''"
| "status_name RPROC_LAST = None"

definition show_client_status ::
  "'w openamp \<Rightarrow> 'w mica_state \<Rightarrow> (string option \<times> 'w mica_state) outcome" where
  "show_client_status oa st =
     (let s = rp_state (mc_rproc (mt_client st)) in
      if s = RPROC_LAST then Ret (None, st)
      else if s = RPROC_RUNNING then
        (case client_table (mt_client st) of
           None \<Rightarrow> Fault
         | Some rt \<Rightarrow>
             if rt_reserved0 rt = CPU_OFF_STATUS then
               (case mica_stop oa st of
                  Ret st' \<Rightarrow> Ret (status_name RPROC_OFFLINE, st') | Fault \<Rightarrow> Fault | Spinning \<Rightarrow> Spinning)
             else Ret (status_name s, st))
      else Ret (status_name s, st))"

definition mica_status :: "'w openamp \<Rightarrow> 'w mica_state \<Rightarrow> (string option \<times> 'w mica_state) outcome" where
  "mica_status oa st = show_client_status oa st"

definition mica_print_service :: "'w mica_state \<Rightarrow> nat \<Rightarrow> string \<Rightarrow> string" where
  "mica_print_service st sz str = print_device_of_service (mt_svc st) sz str"

section \<open>Properties\<close>

text \<open>
  \<open>store_load\<close> puts exactly the requested part of the file into the buffer or at the
  translated address and returns its length; it fails with \<open>-EINVAL\<close> when it has neither a
  data pointer nor an address or the address is unknown, and with \<open>-ENOMEM\<close> when the
  buffer cannot grow, and then changes nothing.
\<close>

theorem store_load_spec:
  assumes "is_file img = Some content" "length content < 2 ^ 31"
  shows "store_load p2v realloc_ok img offset sz data_given pa =
    (let bytes = take sz (drop offset content) in
     if pa = METAL_BAD_PHYS \<and> \<not> data_given \<or> pa \<noteq> METAL_BAD_PHYS \<and> p2v pa = 0 then (- EINVAL, img, None)
     else if pa = METAL_BAD_PHYS \<and> \<not> realloc_ok then (- ENOMEM, img, None)
     else if pa = METAL_BAD_PHYS
       then (int (min sz (length content - offset)), img\<lparr>is_buf := Some bytes\<rparr>, Some (0, bytes))
     else (int (min sz (length content - offset)), img, Some (p2v pa, bytes)))"
proof -
  let ?bytes = "take sz (drop offset content)"
  have l: "length ?bytes = min sz (length content - offset)" by auto
  then have "length ?bytes < 2 ^ 31" using assms(2) by linarith
  then have "unat (of_nat (length ?bytes) :: u32) = length ?bytes" by (intro unat_of_nat_small) simp
  then have "sint (of_nat (length ?bytes) :: u32) = int (min sz (length content - offset))"
    using \<open>length ?bytes < 2 ^ 31\<close> l by (subst sint_u32_small) simp_all
  then show ?thesis using assms(1) by (simp add: store_load_def Let_def)
qed

theorem store_load_spec_witness:
  "store_load (\<lambda>pa. 0x7000) True \<lparr>is_file = Some [1, 2, 3, 4], is_buf = None\<rparr> 1 2 False 0x80
     = (2, \<lparr>is_file = Some [1, 2, 3, 4], is_buf = None\<rparr>, Some (0x7000, [2, 3]))"
  using store_load_spec [of "\<lparr>is_file = Some [1, 2, 3, 4], is_buf = None\<rparr>" "[1, 2, 3, 4]" "\<lambda>pa. 0x7000" True 1 2 False "0x80"]
  by simp

text \<open>
  \<open>load_client_image\<close> leaves no file open and no buffer allocated unless the firmware file
  is empty (or so large that its size reads as negative), succeeds only with a resource table,
  and loads the image exactly when configuration did not already find the client ready.
\<close>

theorem load_client_image_closes:
  assumes "load_client_image oa fopen malloc_ok st = (ret, store, st')"
  shows "(store = empty_store \<or> (\<exists>content. fopen (mc_path (mt_client st)) = Some content
            \<and> sint (of_nat (length content) :: u32) \<le> 0 \<and> ret = - EINVAL \<and> st' = st))
    \<and> (ret = 0 \<longrightarrow> client_table (mt_client st') \<noteq> None)"
  using assms
  by (auto simp: load_client_image_def store_open_def store_close_def empty_store_def Let_def
      split: option.splits if_splits prod.splits)

definition demo_oa :: "nat openamp" where
  "demo_oa = \<lparr>oa_init = (\<lambda>st. (True, st)), oa_config = (\<lambda>st i. (0, st)), oa_load = (\<lambda>st. (0, st)),
     oa_start = (\<lambda>st. (0, st)), oa_stop = (\<lambda>st. st),
     oa_shutdown = (\<lambda>st. set_client st ((mt_client st)\<lparr>mc_rproc := (mc_rproc (mt_client st))\<lparr>rp_state := RPROC_OFFLINE\<rparr>\<rparr>)),
     oa_remove = (\<lambda>st. st)\<rparr>"

theorem load_client_image_closes_witness:
  "fst (snd (load_client_image demo_oa (\<lambda>p. Some [1, 2]) True demo_mica)) = empty_store"
proof -
  obtain r s st where l: "load_client_image demo_oa (\<lambda>p. Some [1, 2]) True demo_mica = (r, s, st)"
    by (metis prod_cases3)
  from load_client_image_closes [OF l] show ?thesis by (auto simp: l)
qed

text \<open>The empty firmware file: it stays open, with its buffer, although loading has failed.\<close>

lemma load_empty_image_leaks:
  "load_client_image demo_oa (\<lambda>p. Some []) True demo_mica =
     (- EINVAL, \<lparr>is_file = Some [], is_buf = Some []\<rparr>, demo_mica)"
  by (simp add: load_client_image_def store_open_def empty_store_def)

text \<open>
  \<open>mica_stop\<close> stops the remote processor, then removes all services (each remove callback
  once, in registration order, while the rpmsg device still exists), then releases the rpmsg
  device and, for a debug client, the ring device, and only then shuts the processor down. It
  completes unless the client holds a dangling ring device.
\<close>

theorem mica_stop_order:
  assumes "mc_debug (mt_client (oa_stop oa st)) \<and> mc_rbuf_dev (mt_client (oa_stop oa st)) \<noteq> None
    \<longrightarrow> mt_rbuf_live (oa_stop oa st)"
  shows "\<exists>st1. mica_stop oa st = Ret (oa_shutdown oa st1)
    \<and> mc_services (mt_client st1) = [] \<and> mc_rdev (mt_client st1) = None
    \<and> (mc_rdev (mt_client (oa_stop oa st)) \<noteq> None \<longrightarrow> \<not> mt_rpmsg_vdev_live st1 \<and> \<not> mt_virtio st1)
    \<and> (mc_debug (mt_client st1) \<and> mc_rbuf_dev (mt_client st1) \<noteq> None \<longrightarrow> \<not> mt_rbuf_live st1)
    \<and> ss_world (mt_svc st1) = fold (\<lambda>f. f)
        (List.map_filter ms_remove (mc_services (mt_client (oa_stop oa st)))) (ss_world (mt_svc (oa_stop oa st)))"
  using assms
  by (auto simp: mica_stop_def stop_client_def release_rpmsg_device_def destroy_rbuf_device_def
      mica_unregister_all_services_def remove_services_fold set_client_def Let_def split: option.splits)

theorem mica_stop_order_witness:
  "\<exists>st1. mica_stop demo_oa demo_mica = Ret (oa_shutdown demo_oa st1) \<and> mc_services (mt_client st1) = []"
  using mica_stop_order [of demo_oa demo_mica] by (auto simp: demo_oa_def demo_mica_def)

text \<open>
  The status of a client is the name of its state; a running client whose firmware has
  recorded a CPU-off is stopped first and reported as offline, and only that case changes
  anything.
\<close>

theorem client_status_spec:
  assumes "show_client_status oa st = Ret (name, st')"
  shows "(case client_table (mt_client st) of
      Some rt \<Rightarrow> if rp_state (mc_rproc (mt_client st)) = RPROC_RUNNING \<and> rt_reserved0 rt = CPU_OFF_STATUS
        then name = Some ''Offline'' \<and> mica_stop oa st = Ret st'
        else name = status_name (rp_state (mc_rproc (mt_client st))) \<and> st' = st
    | None \<Rightarrow> rp_state (mc_rproc (mt_client st)) \<noteq> RPROC_RUNNING
        \<and> name = status_name (rp_state (mc_rproc (mt_client st))) \<and> st' = st)"
  using assms
  by (auto simp: show_client_status_def Let_def split: if_splits option.splits outcome.splits)

theorem client_status_spec_witness:
  "\<exists>st'. show_client_status demo_oa demo_mica = Ret (Some ''Running'', st') \<and> st' = demo_mica"
proof -
  obtain name st' where s: "show_client_status demo_oa demo_mica = Ret (name, st')"
    by (simp add: show_client_status_def client_table_def demo_mica_def demo_rbuf_rt_def)
  from client_status_spec [OF s] s show ?thesis
    by (simp add: client_table_def demo_mica_def demo_rbuf_rt_def)
qed


definition demo_menv :: mica_env where
  "demo_menv = \<lparr>me_fopen = (\<lambda>p. Some [1, 2]), me_malloc_image = True, me_vdev = demo_ve\<lparr>ve_malloc_ok := False\<rparr>,
     me_rpmsg_vdev = 0x4000, me_malloc_rbuf = True\<rparr>"

lemma demo_load: "load_client_image demo_oa (me_fopen demo_menv) (me_malloc_image demo_menv) demo_mica =
  (0, empty_store, demo_mica)"
  by (simp add: load_client_image_def store_open_def store_close_def empty_store_def demo_oa_def demo_menv_def
      demo_mica_def client_table_def)

lemma demo_no_vdev: "create_rpmsg_device (me_vdev demo_menv) (me_rpmsg_vdev demo_menv) demo_mica = (- ENOMEM, demo_mica)"
  by (simp add: create_rpmsg_device_def demo_menv_def)


text \<open>
  A debug client whose rpmsg device could not be created starts successfully all the same: the
  result of the ring device replaces the error.
\<close>

lemma mica_start_masks_error:
  "fst (create_rpmsg_device (me_vdev demo_menv) (me_rpmsg_vdev demo_menv) demo_mica) \<noteq> 0
   \<and> fst (mica_start demo_oa demo_menv demo_mica) = 0"
proof -
  have s: "oa_start demo_oa demo_mica = (0, demo_mica)" "mc_debug (mt_client demo_mica)"
    by (simp_all add: demo_oa_def demo_mica_def)
  have "fst (create_rbuf_device (me_malloc_rbuf demo_menv) (ve_p2v (me_vdev demo_menv))
    (ve_v2p (me_vdev demo_menv)) demo_mica) = 0"
    by (simp add: demo_menv_def demo_ve_def create_rbuf_device_def setup_rbuf_dev_def client_table_def set_table_def
        set_client_def demo_mica_def demo_rbuf_rt_def alloc_shmem_region_def ring_buffer_pair_init_def
        sizeof_ring_buffer_t_def Let_def)
  then show ?thesis using demo_load demo_no_vdev s by (simp add: mica_start_def start_client_def)
qed

end
