(* ===== verification/Baremetal.thy ===== *)
theory Baremetal
  imports Mica_State "HOL-Library.Multiset"
begin

text \<open>
  The bare-metal pedestal (\<open>library/remoteproc/baremetal_rproc.c\<close>): the remoteproc
  operations over the mcs device. System calls, OpenAMP's loader and libmetal are parameters;
  mappings, open descriptors and notifications are recorded as the calls that were made.
\<close>

abbreviation CPU_ON_STATUS :: u32 where "CPU_ON_STATUS \<equiv> 0xC4000003"
abbreviation CPU_OFF_REQUEST :: u32 where "CPU_OFF_REQUEST \<equiv> 0x84000002"
abbreviation SYSTEM_RESET :: u32 where "SYSTEM_RESET \<equiv> 0x84000009"
abbreviation SHM_POOL_SIZE :: u64 where "SHM_POOL_SIZE \<equiv> 0x20000"

section \<open>Notifier\<close>

text \<open>
  The static variables and the descriptors that are open. \<open>bm_threads\<close> counts the notifier
  threads that were started; each sets \<open>notifier\<close> when it begins to run.
\<close>

record bm =
  bm_mcs_fd :: int
  bm_pipe_fd :: "int \<times> int"
  bm_notifier :: bool
  bm_open_fds :: "int list"
  bm_threads :: nat

record bm_env =
  be_open :: int
  be_pipe :: "(int \<times> int) option"
  be_pthread_create :: int
  be_pthread_detach :: int

definition close_fd :: "bm \<Rightarrow> int \<Rightarrow> bm" where
  "close_fd s fd = s\<lparr>bm_open_fds := remove1 fd (bm_open_fds s)\<rparr>"

definition rproc_register_notifier :: "bm_env \<Rightarrow> bm \<Rightarrow> int \<times> bm" where
  "rproc_register_notifier env s =
     (if bm_notifier s then (0, s)
      else case be_pipe env of
          None \<Rightarrow> (- 1, s)
        | Some (r, w) \<Rightarrow>
            let s = s\<lparr>bm_pipe_fd := (r, w), bm_open_fds := r # w # bm_open_fds s\<rparr>;
                undo = (\<lambda>s. close_fd (close_fd s r) w) in
            if be_pthread_create env \<noteq> 0 then (be_pthread_create env, undo s)
            else
              let s = s\<lparr>bm_threads := bm_threads s + 1\<rparr> in
              if be_pthread_detach env \<noteq> 0
              then (be_pthread_detach env, undo (s\<lparr>bm_threads := bm_threads s - 1\<rparr>))
              else (0, s))"

definition rproc_init :: "bm_env \<Rightarrow> bm \<Rightarrow> bool \<times> bm" where
  "rproc_init env s =
     (let fd = be_open env; s = s\<lparr>bm_mcs_fd := fd\<rparr> in
      if fd < 0 then (False, s)
      else
        let s = s\<lparr>bm_open_fds := fd # bm_open_fds s\<rparr> in
        case rproc_register_notifier env s of (ret, s) \<Rightarrow>
          if ret \<noteq> 0 then (False, close_fd s fd) else (True, s))"

text \<open>The notifier thread: its start, and what one return of \<open>poll\<close> does.\<close>

definition notifier_starts :: "bm \<Rightarrow> bm" where
  "notifier_starts s = s\<lparr>bm_notifier := True\<rparr>"

definition rproc_notify_all :: "(pedestal_type \<times> rproc_state) list \<Rightarrow> nat list" where
  "rproc_notify_all clients =
     filter (\<lambda>i. clients ! i = (BARE_METAL, RPROC_RUNNING)) [0..<length clients]"

datatype poll_result = Poll_error | Poll_ready bool

fun rproc_wait_event ::
  "(poll_result \<times> bool) list \<Rightarrow> (pedestal_type \<times> rproc_state) list \<Rightarrow> nat list list outcome" where
  "rproc_wait_event [] clients = Spinning"
| "rproc_wait_event ((Poll_error, _) # ps) clients = Ret []"
| "rproc_wait_event ((Poll_ready mcs, running) # ps) clients =
     (let now = (if mcs then [rproc_notify_all clients] else []) in
      if \<not> running then Ret now
      else case rproc_wait_event ps clients of Ret rest \<Rightarrow> Ret (now @ rest) | Fault \<Rightarrow> Fault | Spinning \<Rightarrow> Spinning)"

definition rproc_remove :: "pedestal_type list \<Rightarrow> bm \<Rightarrow> bm" where
  "rproc_remove clients s =
     (let found = (BARE_METAL \<in> set clients); s = s\<lparr>bm_notifier := found\<rparr> in
      if found then s
      else close_fd (close_fd (close_fd s (bm_mcs_fd s)) (fst (bm_pipe_fd s))) (snd (bm_pipe_fd s)))"

section \<open>Mapping remote memory\<close>

text \<open>The calls of \<open>mmap\<close> that succeeded and of \<open>munmap\<close>, as address and length.\<close>

record map_log =
  ml_mems :: "remoteproc_mem list"
  ml_mapped :: "(u64 \<times> u64) list"
  ml_unmapped :: "(u64 \<times> u64) list"

record map_env =
  mp_pagesize :: u64
  mp_mmap :: "u64 \<Rightarrow> u64 \<Rightarrow> u64 option"
  mp_mem_ok :: bool
  mp_io_ok :: bool
  mp_io_p2v :: "remoteproc_mem \<Rightarrow> u64 \<Rightarrow> u64"

definition resolve_addrs :: "u64 \<Rightarrow> u64 \<Rightarrow> (u64 \<times> u64) option" where
  "resolve_addrs pa da =
     (if pa = METAL_BAD_PHYS \<and> da = METAL_BAD_PHYS then None
      else let lpa = (if pa = METAL_BAD_PHYS then da else pa)
        in Some (lpa, if da = METAL_BAD_PHYS then lpa else da))"

definition map_range :: "u64 \<Rightarrow> u64 \<Rightarrow> u64 \<Rightarrow> u64 \<times> u64 \<times> u64" where
  "map_range pagesize lpa sz =
     (let aligned_addr = align_down lpa pagesize; offset = lpa - aligned_addr
      in (aligned_addr, offset, align_up (offset + sz) pagesize))"

definition rproc_mmap ::
  "map_env \<Rightarrow> map_log \<Rightarrow> u64 \<Rightarrow> u64 \<Rightarrow> u64 \<Rightarrow> u64 \<times> u64 \<times> u64 \<times> map_log" where
  "rproc_mmap env s pa da sz =
     (case resolve_addrs pa da of
        None \<Rightarrow> (0, pa, da, s)
      | Some (lpa, lda) \<Rightarrow>
          (case map_range (mp_pagesize env) lpa sz of (aligned_addr, offset, aligned_size) \<Rightarrow>
             (case mp_mmap env aligned_size aligned_addr of
                None \<Rightarrow> (0, pa, da, s)
              | Some va \<Rightarrow>
                  let s = s\<lparr>ml_mapped := ml_mapped s @ [(va, aligned_size)]\<rparr> in
                  if \<not> mp_mem_ok env \<or> \<not> mp_io_ok env
                  then (0, pa, da, s\<lparr>ml_unmapped := ml_unmapped s @ [(va, aligned_size)]\<rparr>)
                  else
                    let mem = \<lparr>rm_pa = lpa, rm_da = lda, rm_size = sz, rm_io_virt = va + offset, rm_io_size = sz\<rparr>
                    in (mp_io_p2v env mem lpa, lpa, lda, s\<lparr>ml_mems := ml_mems s @ [mem]\<rparr>))))"

definition get_mmap_addr_info :: "u64 \<Rightarrow> remoteproc_mem \<Rightarrow> u64 \<times> u64" where
  "get_mmap_addr_info pagesize mem =
     (let phy = rm_pa mem; aligned_addr = align_down phy pagesize; offset = phy - aligned_addr
      in (rm_io_virt mem - offset, align_up (offset + rm_io_size mem) pagesize))"

fun unmap_all :: "u64 \<Rightarrow> remoteproc_mem list \<Rightarrow> map_log \<Rightarrow> map_log" where
  "unmap_all pagesize [] s = s\<lparr>ml_mems := []\<rparr>"
| "unmap_all pagesize (mem # mems) s =
     unmap_all pagesize mems (s\<lparr>ml_unmapped := ml_unmapped s @ [get_mmap_addr_info pagesize mem]\<rparr>)"

section \<open>CPU status, configuration, start and shutdown\<close>

definition set_cpu_status :: "resource_table \<Rightarrow> u32 \<Rightarrow> resource_table" where
  "set_cpu_status rsc_table status = rsc_table\<lparr>rt_reserved0 := status\<rparr>"

definition get_cpu_status :: "resource_table \<Rightarrow> u32" where
  "get_cpu_status rsc_table = rt_reserved0 rsc_table"

text \<open>
  \<open>wait_cpu_status_reset\<close> polls the status and the clock. Each element of the schedule is
  what one iteration reads: the status and the time as seconds and nanoseconds. The elapsed
  milliseconds are an unsigned int; C division rounds towards zero.
\<close>

definition c_div :: "int \<Rightarrow> int \<Rightarrow> int" where
  "c_div a b = (if a < 0 then - ((- a) div b) else a div b)"

definition elapsed_ms :: "int \<times> int \<Rightarrow> int \<times> int \<Rightarrow> u32" where
  "elapsed_ms start now =
     word_of_int (1000 * (fst now - fst start)) + word_of_int (c_div (snd now - snd start) 1000000)"

fun wait_cpu_status_reset :: "(u32 \<times> int \<times> int) list \<Rightarrow> int \<times> int \<Rightarrow> u32 \<Rightarrow> int outcome" where
  "wait_cpu_status_reset [] start timeout = Spinning"
| "wait_cpu_status_reset ((status, now) # obs) start timeout =
     (if status = 0 then Ret 0
      else if elapsed_ms start now \<ge> timeout then Ret (- 1)
      else wait_cpu_status_reset obs start timeout)"

datatype bm_event = Set_status u32 | Notify | Boot u32 u64

record config_env =
  ce_query_mem :: "int \<times> u64"
  ce_shm_mmap :: "u64 \<Rightarrow> u64 \<Rightarrow> u64 \<times> u64"
  ce_load_header :: int
  ce_locate_rsc_table :: "int \<times> u64 \<times> u64"
  ce_mmap :: "u64 \<Rightarrow> u64 \<Rightarrow> map_log \<Rightarrow> resource_table option \<times> map_log"
  ce_start :: "int \<times> int"
  ce_obs :: "(u32 \<times> int \<times> int) list"
  ce_set_rsc_table :: int
  ce_entry :: u64

text \<open>
  \<open>rproc_config\<close>: the result, the client, the mappings, and the status writes and
  notifications made. \<open>ce_mmap\<close> stands for OpenAMP's \<open>remoteproc_mmap\<close>, which
  calls back \<open>rproc_mmap\<close>, and gives the resource table in the mapped memory;
  \<open>ce_start\<close> and \<open>ce_obs\<close> are what \<open>wait_cpu_status_reset\<close> reads.
\<close>

definition rproc_config ::
  "config_env \<Rightarrow> 's mica_client \<Rightarrow> map_log \<Rightarrow> (int \<times> 's mica_client \<times> map_log \<times> bm_event list) outcome" where
  "rproc_config env client s =
     (if fst (ce_query_mem env) < 0 then Ret (fst (ce_query_mem env), client, s, [])
      else
        case init_shmem_pool (ce_shm_mmap env) client
            (snd (ce_query_mem env) + ucast (mc_cpu_id client * 0x20000)) SHM_POOL_SIZE of
          (ret, client) \<Rightarrow>
        if ret \<noteq> 0 then Ret (ret, client, s, [])
        else if ce_load_header env < 0 then Ret (ce_load_header env, client, s, [])
        else case ce_locate_rsc_table env of (ret, rsc_da, rsc_size) \<Rightarrow>
        if ret \<noteq> 0 \<or> rsc_size = 0 then Ret (ret, client, s, [])
        else case ce_mmap env rsc_da rsc_size s of
          (None, s) \<Rightarrow> Ret (- ENOMEM, client, s, [])
        | (Some rsc_table, s) \<Rightarrow>
            if get_cpu_status rsc_table \<noteq> CPU_ON_STATUS then Ret (0, client, s, [])
            else
              let ev = [Set_status SYSTEM_RESET, Notify] in
              case wait_cpu_status_reset (ce_obs env) (ce_start env) 200 of
                Ret w \<Rightarrow>
                  if w \<noteq> 0 then Ret (0, client, s, ev)
                  else if ce_set_rsc_table env \<noteq> 0 then Ret (ce_set_rsc_table env, client, s, ev)
                  else Ret (0, client\<lparr>mc_rproc := (mc_rproc client)\<lparr>
                      rp_rsc_table := Some (set_cpu_status rsc_table CPU_ON_STATUS), rp_rsc_len := rsc_size,
                      rp_bootaddr := ce_entry env, rp_state := RPROC_READY\<rparr>\<rparr>, s, ev @ [Set_status CPU_ON_STATUS])
              | Fault \<Rightarrow> Fault
              | Spinning \<Rightarrow> Spinning)"

text \<open>\<open>boot\<close> is the result of the boot ioctl for a CPU and an address.\<close>

definition rproc_start ::
  "(u32 \<Rightarrow> u64 \<Rightarrow> int) \<Rightarrow> 's mica_client \<Rightarrow> (int \<times> 's mica_client \<times> bm_event list) outcome" where
  "rproc_start boot client =
     (case client_table client of
        None \<Rightarrow> Fault
      | Some rsc_table \<Rightarrow>
          if get_cpu_status rsc_table = CPU_ON_STATUS then Ret (0, client, [])
          else
            let cpu = mc_cpu_id client; addr = rp_bootaddr (mc_rproc client); ret = boot cpu addr in
            if ret < 0 then Ret (ret, client, [Boot cpu addr])
            else Ret (0, set_table client (set_cpu_status rsc_table CPU_ON_STATUS),
                   [Boot cpu addr, Set_status CPU_ON_STATUS]))"

definition rproc_shutdown ::
  "u64 \<Rightarrow> 's mica_client \<Rightarrow> map_log \<Rightarrow> (int \<times> 's mica_client \<times> map_log \<times> bm_event list) outcome" where
  "rproc_shutdown pagesize client s =
     (case client_table client of
        None \<Rightarrow> Fault
      | Some _ \<Rightarrow>
          Ret (0, client\<lparr>mc_rproc := (mc_rproc client)\<lparr>rp_rsc_table := None, rp_rsc_len := 0, rp_bitmap := 0, rp_mems := []\<rparr>\<rparr>,
            unmap_all pagesize (ml_mems s) s, [Set_status CPU_OFF_REQUEST, Notify]))"

definition rproc_notify :: "(u32 \<Rightarrow> int) \<Rightarrow> 's mica_client \<Rightarrow> int" where
  "rproc_notify send_ipi client = (let ret = send_ipi (mc_cpu_id client) in if ret < 0 then ret else 0)"

section \<open>Lemmas\<close>

lemma get_mmap_addr_info_inverse:
  assumes "map_range pagesize lpa sz = (aligned_addr, offset, aligned_size)"
  shows "get_mmap_addr_info pagesize \<lparr>rm_pa = lpa, rm_da = lda, rm_size = sz, rm_io_virt = va + offset, rm_io_size = sz\<rparr>
    = (va, aligned_size)"
  using assms by (auto simp: map_range_def get_mmap_addr_info_def Let_def)

text \<open>Every mapping made is either unmapped or the one a registered memory stands for.\<close>

definition map_inv :: "u64 \<Rightarrow> map_log \<Rightarrow> bool" where
  "map_inv pagesize s \<longleftrightarrow>
     mset (ml_mapped s) = mset (ml_unmapped s) + mset (map (get_mmap_addr_info pagesize) (ml_mems s))"

lemma rproc_mmap_inv:
  assumes "map_inv (mp_pagesize env) s" "rproc_mmap env s pa da sz = (va, pa', da', s')"
  shows "map_inv (mp_pagesize env) s'"
  using assms get_mmap_addr_info_inverse
  by (auto simp: rproc_mmap_def map_inv_def Let_def split: option.splits prod.splits if_splits)

lemma unmap_all_log:
  "unmap_all pagesize mems s = s\<lparr>ml_mems := [], ml_unmapped := ml_unmapped s @ map (get_mmap_addr_info pagesize) mems\<rparr>"
  by (induction mems arbitrary: s) simp_all

fun mmap_seq :: "map_env \<Rightarrow> (u64 \<times> u64 \<times> u64) list \<Rightarrow> map_log \<Rightarrow> map_log" where
  "mmap_seq env [] s = s"
| "mmap_seq env ((pa, da, sz) # reqs) s = mmap_seq env reqs (snd (snd (snd (rproc_mmap env s pa da sz))))"

lemma mmap_seq_inv: "map_inv (mp_pagesize env) s \<Longrightarrow> map_inv (mp_pagesize env) (mmap_seq env reqs s)"
proof (induction env reqs s rule: mmap_seq.induct)
  case (2 env pa da sz reqs s)
  then show ?case using rproc_mmap_inv [of env s pa da sz] by (metis mmap_seq.simps(2) prod.collapse)
qed simp

lemma init_shmem_pool_rproc: "mc_rproc (snd (init_shmem_pool m client pa sz)) = mc_rproc client"
  by (auto simp: init_shmem_pool_def split: prod.splits)

lemma c_div_ge: "0 < b \<Longrightarrow> a div b \<le> c_div a b"
proof -
  assume b: "0 < b"
  show ?thesis
  proof (cases "a < 0")
    case True
    have "- a div b * b \<le> - a" using b by (simp add: minus_mod_eq_div_mult [symmetric])
    then have "a \<le> - (- a div b) * b" by simp
    then have "a div b \<le> - (- a div b) * b div b" by (rule zdiv_mono1) (use b in simp)
    also have "- (- a div b) * b div b = - (- a div b)" by (rule nonzero_mult_div_cancel_right) (use b in simp)
    finally show ?thesis using True by (simp add: c_div_def)
  qed (simp add: c_div_def)
qed

lemma c_div_lower: "- 1000000000 < a \<Longrightarrow> - 999 \<le> c_div a 1000000"
  by (auto simp: c_div_def)

definition elapsed_ns :: "int \<times> int \<Rightarrow> int \<times> int \<Rightarrow> int" where
  "elapsed_ns start now = (fst now - fst start) * 1000000000 + (snd now - snd start)"

definition clock_ok :: "int \<times> int \<Rightarrow> int \<times> int \<Rightarrow> bool" where
  "clock_ok start now \<longleftrightarrow> 0 \<le> snd now \<and> snd now < 1000000000 \<and> 0 \<le> snd start \<and> snd start < 1000000000
     \<and> 0 \<le> elapsed_ns start now \<and> elapsed_ns start now < 4000000 * 1000000000"

lemma elapsed_ms_ge:
  assumes "clock_ok start now" "int t * 1000000 \<le> elapsed_ns start now" "t < 2 ^ 32"
  shows "of_nat t \<le> elapsed_ms start now"
proof -
  define ds where "ds = fst now - fst start"
  define dn where "dn = snd now - snd start"
  have b: "- 1000000000 < dn" "dn < 1000000000" "0 \<le> ds * 1000000000 + dn" "ds * 1000000000 + dn < 4000000 * 1000000000"
    and t: "int t * 1000000 \<le> ds * 1000000000 + dn"
    using assms(1,2) by (auto simp: clock_ok_def elapsed_ns_def ds_def dn_def)
  have ds: "0 \<le> ds" "ds \<le> 4000000" using b by linarith+
  have lo: "0 \<le> 1000 * ds + c_div dn 1000000"
  proof (cases "ds = 0")
    case True
    then show ?thesis using b by (simp add: c_div_def pos_imp_zdiv_nonneg_iff)
  next
    case False
    then show ?thesis using ds c_div_lower [OF b(1)] by linarith
  qed
  have "c_div dn 1000000 \<le> 1000" using b(2) by (auto simp: c_div_def)
  then have hi: "1000 * ds + c_div dn 1000000 < 2 ^ 32" using ds by simp
  have "int t = int t * 1000000 div 1000000" by simp
  also have "\<dots> \<le> (ds * 1000 * 1000000 + dn) div 1000000" using t by (intro zdiv_mono1) simp_all
  also have "\<dots> = ds * 1000 + dn div 1000000" by simp
  also have "\<dots> \<le> 1000 * ds + c_div dn 1000000" using c_div_ge [of 1000000 dn] by simp
  finally have ge: "int t \<le> 1000 * ds + c_div dn 1000000" .
  have e: "elapsed_ms start now = word_of_int (1000 * ds + c_div dn 1000000)"
    by (simp add: elapsed_ms_def ds_def dn_def)
  have "take_bit LENGTH(32) (1000 * ds + c_div dn 1000000) = 1000 * ds + c_div dn 1000000"
    using take_bit_int_eq_self [OF lo] hi by simp
  then have "uint (elapsed_ms start now) = 1000 * ds + c_div dn 1000000"
    unfolding e unsigned_of_int using lo by simp
  moreover have "uint (of_nat t :: u32) = int t" using assms(3) by (simp add: unsigned_of_nat take_bit_nat_eq_self)
  ultimately show ?thesis using ge by (simp add: word_le_def)
qed

lemma wait_cpu_status_reset_0:
  "wait_cpu_status_reset obs start timeout = Ret 0 \<Longrightarrow> 0 \<in> fst ` set obs"
  by (induction obs start timeout rule: wait_cpu_status_reset.induct) (auto split: if_splits)

section \<open>Properties\<close>

text \<open>
  C37: Shutting a bare-metal client down unmaps exactly the memory that was mapped for it: after
  any sequence of mapping requests, some of which may have failed at any point, the mappings
  removed are the mappings made, each with the address and length of its \<open>mmap\<close>.
\<close>

theorem shutdown_unmaps_all:
  assumes "client_table client \<noteq> None"
  shows "\<exists>client' s' ev. rproc_shutdown (mp_pagesize env) client
      (mmap_seq env reqs \<lparr>ml_mems = [], ml_mapped = [], ml_unmapped = []\<rparr>) = Ret (0, client', s', ev)
    \<and> mset (ml_unmapped s') = mset (ml_mapped s') \<and> ml_mems s' = []
    \<and> client_table client' = None \<and> ev = [Set_status CPU_OFF_REQUEST, Notify]"
proof -
  let ?s0 = "\<lparr>ml_mems = [], ml_mapped = [], ml_unmapped = []\<rparr>"
  have "map_inv (mp_pagesize env) (mmap_seq env reqs ?s0)"
    by (rule mmap_seq_inv) (simp add: map_inv_def)
  then show ?thesis using assms
    by (auto simp: rproc_shutdown_def unmap_all_log map_inv_def client_table_def)
qed

definition demo_map_env :: map_env where
  "demo_map_env = \<lparr>mp_pagesize = 0x1000, mp_mmap = (\<lambda>n off. Some (off + 0x10000)), mp_mem_ok = True, mp_io_ok = True,
     mp_io_p2v = (\<lambda>mem pa. rm_io_virt mem)\<rparr>"

theorem shutdown_unmaps_all_witness:
  "\<exists>client' s' ev. rproc_shutdown 0x1000 (mt_client demo_mica)
      (mmap_seq demo_map_env [(0x7000123, METAL_BAD_PHYS, 0x2000)] \<lparr>ml_mems = [], ml_mapped = [], ml_unmapped = []\<rparr>)
      = Ret (0, client', s', ev)
    \<and> mset (ml_unmapped s') = mset (ml_mapped s')"
  using shutdown_unmaps_all [of "mt_client demo_mica" demo_map_env "[(0x7000123, METAL_BAD_PHYS, 0x2000)]"]
  by (auto simp: client_table_def demo_mica_def demo_map_env_def)

text \<open>
  The range that \<open>rproc_mmap\<close> maps starts and ends on a page boundary, covers the whole
  requested range, and is less than two pages larger than it.
\<close>

theorem rproc_mmap_covers:
  assumes "map_range (2 ^ k) lpa sz = (aligned_addr, offset, aligned_size)"
    and "0 < k" "k < 63" "unat lpa + unat sz + 2 * 2 ^ k \<le> 2 ^ 64"
  shows "2 ^ k dvd unat aligned_addr \<and> 2 ^ k dvd unat aligned_size
    \<and> unat aligned_addr \<le> unat lpa
    \<and> unat lpa + unat sz \<le> unat aligned_addr + unat aligned_size
    \<and> unat aligned_size < unat sz + 2 * 2 ^ k \<and> unat offset < 2 ^ k"
proof -
  have a: "aligned_addr = align_down lpa (2 ^ k)" "offset = lpa - aligned_addr"
    "aligned_size = align_up (offset + sz) (2 ^ k)"
    using assms(1) by (auto simp: map_range_def Let_def)
  have le: "unat aligned_addr \<le> unat lpa" unfolding a(1) by (rule align_down_le)
  have gt: "unat lpa < unat aligned_addr + 2 ^ k" unfolding a(1) by (rule align_down_gt)
  have o: "unat offset = unat lpa - unat aligned_addr"
    unfolding a(2) using le by (simp add: unat_sub word_le_nat_alt)
  then have ob: "unat offset < 2 ^ k" using le gt by linarith
  have "unat offset + unat sz < 2 ^ 64" using ob assms(4) by linarith
  then have os: "unat (offset + sz) = unat offset + unat sz" by (simp add: unat_word_ariths)
  have k: "k < 64" "unat (offset + sz) + 2 ^ k \<le> 2 ^ 64"
    using assms(3,4) os ob by linarith+
  note u = align_up_bounds [OF k]
  show ?thesis
    using u le o ob os align_down_dvd [of k lpa] a(1,3) by auto
qed

theorem rproc_mmap_covers_witness:
  "2 ^ 12 dvd unat (fst (map_range (2 ^ 12) 0x7000123 0x2000))
   \<and> map_range (2 ^ 12) 0x7000123 0x2000 = (0x7000000, 0x123, 0x3000)"
proof -
  have m: "map_range (2 ^ 12) 0x7000123 0x2000 = (0x7000000, 0x123, 0x3000)"
    by (simp add: map_range_def align_down_def align_up_def Let_def)
  show ?thesis using rproc_mmap_covers [OF m] m by simp
qed

text \<open>
  \<open>rproc_config\<close> attaches to a client OS that is already running exactly when its
  resource table says so, an iteration of the wait sees the reset request cleared before the
  timeout and the table is accepted: only then is the client ready, with that table, and the status
  is set back to CPU-on; in every other case the state of the remote processor does not change.
\<close>

theorem rproc_config_attach:
  assumes "rproc_config env client s = Ret (ret, client', s', ev)"
  shows "(mc_rproc client' \<noteq> mc_rproc client \<longrightarrow>
      ret = 0 \<and> 0 \<in> fst ` set (ce_obs env) \<and> ce_set_rsc_table env = 0
      \<and> (\<exists>rt. fst (ce_mmap env (fst (snd (ce_locate_rsc_table env))) (snd (snd (ce_locate_rsc_table env))) s) = Some rt
           \<and> get_cpu_status rt = CPU_ON_STATUS \<and> client_table client' = Some rt
           \<and> rp_state (mc_rproc client') = RPROC_READY \<and> rp_bootaddr (mc_rproc client') = ce_entry env)
      \<and> ev = [Set_status SYSTEM_RESET, Notify, Set_status CPU_ON_STATUS])
    \<and> (Set_status CPU_ON_STATUS \<in> set ev \<longrightarrow> ret = 0 \<and> rp_state (mc_rproc client') = RPROC_READY)"
proof -
  obtain r c where i: "init_shmem_pool (ce_shm_mmap env) client
    (snd (ce_query_mem env) + ucast (mc_cpu_id client * 0x20000)) SHM_POOL_SIZE = (r, c)" by force
  have p: "mc_rproc c = mc_rproc client"
    using arg_cong [OF i, of "mc_rproc \<circ> snd"] init_shmem_pool_rproc by (metis comp_apply snd_conv)
  have same: "rt\<lparr>rt_reserved0 := CPU_ON_STATUS\<rparr> = rt" if "rt_reserved0 rt = CPU_ON_STATUS" for rt :: resource_table
    using that by simp
  note w = wait_cpu_status_reset_0 [of "ce_obs env" "ce_start env" 200]
  show ?thesis using assms i p same w
    by (auto simp: rproc_config_def Let_def client_table_def set_cpu_status_def get_cpu_status_def
        split: if_splits prod.splits option.splits outcome.splits)
qed

text \<open>OpenAMP's \<open>remoteproc_mmap\<close> when no memory is registered yet: it calls the pedestal's.\<close>

definition demo_ce :: config_env where
  "demo_ce = \<lparr>ce_query_mem = (0, 0x70000000), ce_shm_mmap = (\<lambda>pa n. (0x9000, pa)), ce_load_header = 0,
     ce_locate_rsc_table = (0, 0x7A000000, 0x200),
     ce_mmap = (\<lambda>da sz s. case rproc_mmap demo_map_env s METAL_BAD_PHYS da sz of (va, pa, da, s) \<Rightarrow>
       (if va = 0 then None else Some (demo_rbuf_rt\<lparr>rt_reserved0 := CPU_ON_STATUS\<rparr>), s)),
     ce_start = (10, 0), ce_obs = [(SYSTEM_RESET, 10, 50000000), (0, 10, 60000000)], ce_set_rsc_table = 0, ce_entry = 0x7A000000\<rparr>"

theorem rproc_config_attach_witness:
  "\<exists>client' s' ev. rproc_config demo_ce (mt_client demo_mica) \<lparr>ml_mems = [], ml_mapped = [], ml_unmapped = []\<rparr>
      = Ret (0, client', s', ev)
    \<and> rp_state (mc_rproc client') = RPROC_READY"
proof -
  obtain r client' s' ev where c: "rproc_config demo_ce (mt_client demo_mica)
      \<lparr>ml_mems = [], ml_mapped = [], ml_unmapped = []\<rparr> = Ret (r, client', s', ev)"
    and ev: "Set_status CPU_ON_STATUS \<in> set ev"
    by (simp add: rproc_config_def demo_ce_def demo_map_env_def rproc_mmap_def resolve_addrs_def map_range_def
        align_down_def align_up_def init_shmem_pool_def get_cpu_status_def elapsed_ms_def c_div_def Let_def)
  from rproc_config_attach [OF c] c ev show ?thesis by auto
qed

text \<open>
  C38: Waiting for the client OS to clear the reset request ends as soon as an iteration sees the
  status cleared or the timeout reached on a monotonic clock, and reports success only when it
  has seen the status cleared.
\<close>

theorem wait_cpu_status_reset_ends:
  assumes "\<forall>(status, now) \<in> set obs. clock_ok start now" "t < 2 ^ 32"
    and "\<exists>(status, now) \<in> set obs. status = 0 \<or> int t * 1000000 \<le> elapsed_ns start now"
  shows "\<exists>r. wait_cpu_status_reset obs start (of_nat t) = Ret r \<and> (r = 0 \<or> r = - 1)
    \<and> (r = 0 \<longrightarrow> 0 \<in> fst ` set obs)"
  using assms(1,3)
proof (induction obs)
  case (Cons ob obs)
  obtain status now where o: "ob = (status, now)" by (cases ob)
  have k: "clock_ok start now" using Cons.prems(1) o by simp
  show ?case
  proof (cases "status = 0 \<or> elapsed_ms start now \<ge> of_nat t")
    case True
    then show ?thesis using o by auto
  next
    case False
    then have "\<not> int t * 1000000 \<le> elapsed_ns start now" using elapsed_ms_ge [OF k _ assms(2)] by blast
    then have "\<exists>(status, now) \<in> set obs. status = 0 \<or> int t * 1000000 \<le> elapsed_ns start now"
      using Cons.prems(2) False o by auto
    then show ?thesis using Cons.IH Cons.prems(1) False o by auto
  qed
qed simp

theorem wait_cpu_status_reset_ends_witness:
  "wait_cpu_status_reset [(5, 10, 999000000), (5, 11, 199000000)] (10, 999000000) (of_nat 200) = Ret (- 1)"
  using wait_cpu_status_reset_ends [of "[(5, 10, 999000000), (5, 11, 199000000)]" "(10, 999000000)" 200]
  by (auto simp: clock_ok_def elapsed_ns_def elapsed_ms_def c_div_def)

text \<open>
  \<open>rproc_start\<close> never boots a client OS that is already on; otherwise it issues exactly one
  boot request, for the client's CPU and the image's entry, and marks the CPU as on exactly when
  the request was accepted.
\<close>

theorem rproc_start_boots_once:
  assumes "client_table client = Some rt"
  shows "rproc_start boot client =
    (if get_cpu_status rt = CPU_ON_STATUS then Ret (0, client, [])
     else if boot (mc_cpu_id client) (rp_bootaddr (mc_rproc client)) < 0
       then Ret (boot (mc_cpu_id client) (rp_bootaddr (mc_rproc client)), client,
              [Boot (mc_cpu_id client) (rp_bootaddr (mc_rproc client))])
     else Ret (0, set_table client (rt\<lparr>rt_reserved0 := CPU_ON_STATUS\<rparr>),
            [Boot (mc_cpu_id client) (rp_bootaddr (mc_rproc client)), Set_status CPU_ON_STATUS]))"
  using assms by (simp add: rproc_start_def set_cpu_status_def Let_def)

theorem rproc_start_boots_once_witness:
  "rproc_start (\<lambda>cpu addr. 0) (mt_client demo_mica) =
     Ret (0, set_table (mt_client demo_mica) (demo_rbuf_rt\<lparr>rt_reserved0 := CPU_ON_STATUS\<rparr>),
       [Boot 3 0, Set_status CPU_ON_STATUS])"
  using rproc_start_boots_once [of "mt_client demo_mica" demo_rbuf_rt "\<lambda>cpu addr. 0"]
  by (simp add: client_table_def demo_mica_def demo_rbuf_rt_def get_cpu_status_def)

text \<open>
  A failed initialisation of the bare-metal pedestal leaves no descriptor open and no
  notifier thread behind.
\<close>

theorem rproc_init_failure_closes:
  assumes "rproc_init env s = (False, s')"
  shows "mset (bm_open_fds s') = mset (bm_open_fds s) \<and> bm_threads s' = bm_threads s"
  using assms
  by (auto simp: rproc_init_def rproc_register_notifier_def close_fd_def Let_def
      split: if_splits option.splits prod.splits)

theorem rproc_init_failure_closes_witness:
  "bm_open_fds (snd (rproc_init \<lparr>be_open = 5, be_pipe = Some (6, 7), be_pthread_create = 11, be_pthread_detach = 0\<rparr>
     \<lparr>bm_mcs_fd = 0, bm_pipe_fd = (0, 0), bm_notifier = False, bm_open_fds = [], bm_threads = 0\<rparr>)) = []"
proof -
  let ?env = "\<lparr>be_open = 5, be_pipe = Some (6, 7), be_pthread_create = 11, be_pthread_detach = 0\<rparr>"
  let ?s = "\<lparr>bm_mcs_fd = 0, bm_pipe_fd = (0, 0), bm_notifier = False, bm_open_fds = [], bm_threads = 0\<rparr>"
  have "rproc_init ?env ?s = (False, snd (rproc_init ?env ?s))"
    by (simp add: rproc_init_def rproc_register_notifier_def close_fd_def Let_def)
  from rproc_init_failure_closes [OF this] show ?thesis by simp
qed

text \<open>
  Each initialisation opens the device again and overwrites the static descriptor, but the last
  removal closes only the newest one.
\<close>

lemma rproc_init_leaks_fd:
  "let s0 = \<lparr>bm_mcs_fd = 0, bm_pipe_fd = (0, 0), bm_notifier = False, bm_open_fds = [], bm_threads = 0\<rparr>;
       s1 = notifier_starts (snd (rproc_init \<lparr>be_open = 5, be_pipe = Some (6, 7), be_pthread_create = 0, be_pthread_detach = 0\<rparr> s0));
       s2 = snd (rproc_init \<lparr>be_open = 8, be_pipe = Some (9, 10), be_pthread_create = 0, be_pthread_detach = 0\<rparr> s1)
   in bm_open_fds (rproc_remove [] (rproc_remove [BARE_METAL] s2)) = [5]"
  by (simp add: rproc_init_def rproc_register_notifier_def notifier_starts_def rproc_remove_def close_fd_def Let_def)

end
