(* ===== verification/Jailhouse.thy ===== *)
theory Jailhouse
  imports Baremetal
begin

text \<open>
  The jailhouse pedestal (\<open>library/remoteproc/jailhouse_rproc.c\<close>): the remoteproc
  operations over the \<open>jailhouse\<close> command and an ivshmem device. The outcome of each
  command, the sysfs files, OpenAMP's loader and the system calls are parameters. The definitions
  carry the prefix \<open>jh\<close> where the source has the names of the other pedestal.
\<close>

section \<open>State\<close>

abbreviation JAILHOUSE_CELL_NAME_MAXLEN :: nat where "JAILHOUSE_CELL_NAME_MAXLEN \<equiv> 31"
abbreviation JAILHOUSE_CONFIG_REVISION :: u16 where "JAILHOUSE_CONFIG_REVISION \<equiv> 13"

record jailhouse_cell_desc_head =
  jd_signature :: string
  jd_architecture :: u8
  jd_revision :: u16
  jd_name :: string
  jd_id :: u32

record ivshmem_v2_reg =
  iv_id :: u32
  iv_max_peers :: u32
  iv_int_control :: u32
  iv_doorbell :: u32
  iv_state :: u32

text \<open>The pipe is created by the notifier thread; before that its descriptors are indeterminate.\<close>

record ivshmem_device =
  id_uio_fd :: int
  id_pipe_fd :: "(int \<times> int) option"
  id_ivshm_regs :: ivshmem_v2_reg
  id_peer_id :: u32
  id_shmem_addr :: u64
  id_shmem_sz :: u64

record rproc_pdata =
  pd_cell_name :: string
  pd_ivshmem_dev :: ivshmem_device

text \<open>
  The private data of the remote processor, the open descriptors, how many private data blocks and
  register pages are allocated and mapped, the commands that were run, the notifier threads started
  and the descriptors written to in order to end one.
\<close>

record jh =
  jh_priv :: "rproc_pdata option"
  jh_open_fds :: "int list"
  jh_pdata_blocks :: nat
  jh_reg_pages :: nat
  jh_commands :: "string list list"
  jh_threads :: nat
  jh_wakeups :: "int option list"

definition jh_close :: "jh \<Rightarrow> int \<Rightarrow> jh" where
  "jh_close s fd = s\<lparr>jh_open_fds := remove1 fd (jh_open_fds s)\<rparr>"

section \<open>Commands\<close>

text \<open>
  How running a command ends: the argument vector cannot be allocated, \<open>fork\<close> fails, or
  the child ends by exit (with a status) or by a signal.
\<close>

datatype exec_result = Exec_no_memory | Fork_failed | Exited int | Signalled

definition run_command :: "(string list \<Rightarrow> exec_result) \<Rightarrow> string list \<Rightarrow> jh \<Rightarrow> int \<times> jh" where
  "run_command exec argv s =
     (let ran = s\<lparr>jh_commands := jh_commands s @ [argv]\<rparr> in
      case exec argv of
        Exec_no_memory \<Rightarrow> (- 1, s)
      | Fork_failed \<Rightarrow> (- 1, s)
      | Exited status \<Rightarrow> (if status \<noteq> 0 then - 1 else 0, ran)
      | Signalled \<Rightarrow> (- 1, ran))"

section \<open>ivshmem device and initialisation\<close>

text \<open>
  \<open>strtoll\<close> with base 16: white space, a sign, an optional prefix and the digits, saturating.
\<close>

definition hex_digit :: "char \<Rightarrow> int option" where
  "hex_digit c =
     (let n = int (of_char c) in
      if 48 \<le> n \<and> n \<le> 57 then Some (n - 48)
      else if 97 \<le> n \<and> n \<le> 102 then Some (n - 87)
      else if 65 \<le> n \<and> n \<le> 70 then Some (n - 55) else None)"

fun hex_digits :: "int \<Rightarrow> string \<Rightarrow> int" where
  "hex_digits acc [] = acc"
| "hex_digits acc (c # cs) = (case hex_digit c of None \<Rightarrow> acc | Some d \<Rightarrow> hex_digits (16 * acc + d) cs)"

definition isspace :: "char \<Rightarrow> bool" where
  "isspace c \<longleftrightarrow> (let n = (of_char c :: nat) in n = 32 \<or> (9 \<le> n \<and> n \<le> 13))"

definition hex_prefix :: "string \<Rightarrow> string" where
  "hex_prefix cs = (if take 2 cs \<in> {''0x'', ''0X''} then drop 2 cs else cs)"

definition strtoll_hex :: "string \<Rightarrow> int" where
  "strtoll_hex str =
     (let cs = dropWhile isspace str;
          neg = (cs \<noteq> [] \<and> hd cs = CHR ''-'');
          cs = (if cs \<noteq> [] \<and> hd cs \<in> {CHR ''-'', CHR ''+''} then tl cs else cs);
          v = hex_digits 0 (hex_prefix cs)
      in max (- (2 ^ 63)) (min (2 ^ 63 - 1) (if neg then - v else v)))"

fun strstr :: "string \<Rightarrow> string \<Rightarrow> string option" where
  "strstr [] needle = (if needle = [] then Some [] else None)"
| "strstr (c # cs) needle = (if take (length needle) (c # cs) = needle then Some (c # cs) else strstr cs needle)"

text \<open>
  \<open>je_mmap\<close> is the register page, \<open>None\<close> for \<open>MAP_FAILED\<close>, which is not the null
  pointer the source tests for. A file is \<open>None\<close> when it cannot be opened; its contents are
  \<open>None\<close> when it cannot be read. \<open>je_stack\<close> is what the 64 byte buffer of
  \<open>init_ivshmem_dev\<close> holds before it is used.
\<close>

record jh_env =
  je_open_uio :: int
  je_mmap :: "ivshmem_v2_reg option"
  je_sysfs :: "string \<Rightarrow> string option option"
  je_stack :: string
  je_malloc_ok :: bool
  je_cell_file :: "string \<Rightarrow> jailhouse_cell_desc_head option option"
  je_exec :: "string list \<Rightarrow> exec_result"
  je_pthread_create :: int
  je_pthread_detach :: int

definition read_info :: "jh_env \<Rightarrow> string \<Rightarrow> string \<Rightarrow> string option" where
  "read_info env path info_str =
     (case je_sysfs env (take 63 path) of
        Some (Some data) \<Rightarrow> Some (take 64 data @ drop (length data) info_str)
      | _ \<Rightarrow> None)"

definition init_ivshmem_dev :: "jh_env \<Rightarrow> string \<Rightarrow> jh \<Rightarrow> (int \<times> ivshmem_device option \<times> jh) outcome" where
  "init_ivshmem_dev env uio_dev s =
     (let uio_fd = je_open_uio env in
      if uio_fd < 0 then Ret (- 1, None, s)
      else
        let s = s\<lparr>jh_open_fds := uio_fd # jh_open_fds s,
                  jh_reg_pages := jh_reg_pages s + (if je_mmap env = None then 0 else 1)\<rparr> in
        case strstr uio_dev ''/uio'' of
          None \<Rightarrow> Fault
        | Some uio_devname \<Rightarrow>
            (case read_info env (''/sys/class/uio'' @ uio_devname @ ''/maps/map2/size'') (je_stack env) of
               None \<Rightarrow> Ret (- 1, None, jh_close s uio_fd)
             | Some size_str \<Rightarrow>
                 (case read_info env (''/sys/class/uio'' @ uio_devname @ ''/maps/map2/addr'') size_str of
                    None \<Rightarrow> Ret (- 1, None, jh_close s uio_fd)
                  | Some addr_str \<Rightarrow>
                      (case je_mmap env of
                         None \<Rightarrow> Fault
                       | Some regs \<Rightarrow>
                           Ret (0, Some \<lparr>id_uio_fd = uio_fd, id_pipe_fd = None,
                             id_ivshm_regs = regs\<lparr>iv_int_control := 1, iv_state := 1\<rparr>,
                             id_peer_id = (if iv_id regs = 0 then 1 else 0),
                             id_shmem_addr = word_of_int (strtoll_hex addr_str),
                             id_shmem_sz = word_of_int (strtoll_hex size_str)\<rparr>, s)))))"

definition jh_init :: "jh_env \<Rightarrow> 's mica_client option \<Rightarrow> jh \<Rightarrow> (bool \<times> jh) outcome" where
  "jh_init env arg s =
     (case arg of
        None \<Rightarrow> Ret (False, s)
      | Some client \<Rightarrow>
          if \<not> je_malloc_ok env then Ret (False, s)
          else
            let s = s\<lparr>jh_pdata_blocks := jh_pdata_blocks s + 1\<rparr>;
                free = (\<lambda>s. s\<lparr>jh_pdata_blocks := jh_pdata_blocks s - 1\<rparr>) in
            (case init_ivshmem_dev env ''/dev/uio0'' s of
               Fault \<Rightarrow> Fault | Spinning \<Rightarrow> Spinning
             | Ret (ret, None, s) \<Rightarrow> Ret (False, free s)
             | Ret (ret, Some dev, s) \<Rightarrow>
                 if ret \<noteq> 0 then Ret (False, free s)
                 else
                   let err = (\<lambda>s. Ret (False, free (jh_close s (id_uio_fd dev)))) in
                   (case je_cell_file env (mc_ped_cfg client) of
                      None \<Rightarrow> err s | Some None \<Rightarrow> err s
                    | Some (Some cell_desc_hdr) \<Rightarrow>
                        if jd_revision cell_desc_hdr \<noteq> JAILHOUSE_CONFIG_REVISION then err s
                        else case run_command (je_exec env) [''jailhouse'', ''cell'', ''create'', mc_ped_cfg client] s of
                          (ret, s) \<Rightarrow>
                            if ret \<noteq> 0 then err s
                            else Ret (True, s\<lparr>jh_priv := Some \<lparr>
                              pd_cell_name = strlcpy_buf (JAILHOUSE_CELL_NAME_MAXLEN + 1) (jd_name cell_desc_hdr),
                              pd_ivshmem_dev = dev\<rparr>\<rparr>))))"

section \<open>Mapping remote memory\<close>

text \<open>
  The offset of a physical address in the uio device: the read/write section follows the register
  page and the state table page.
\<close>

definition uio_mem_addr :: "u64 \<Rightarrow> rproc_pdata \<Rightarrow> u64 \<Rightarrow> u64" where
  "uio_mem_addr pagesize pdata aligned_addr =
     aligned_addr - id_shmem_addr (pd_ivshmem_dev pdata) + 2 * pagesize"

definition jh_mmap ::
  "map_env \<Rightarrow> rproc_pdata \<Rightarrow> map_log \<Rightarrow> u64 \<Rightarrow> u64 \<Rightarrow> u64 \<Rightarrow> u64 \<times> u64 \<times> u64 \<times> map_log" where
  "jh_mmap env pdata s pa da sz =
     (case resolve_addrs pa da of
        None \<Rightarrow> (0, pa, da, s)
      | Some (lpa, lda) \<Rightarrow>
          (case map_range (mp_pagesize env) lpa sz of (aligned_addr, offset, aligned_size) \<Rightarrow>
             (case mp_mmap env aligned_size (uio_mem_addr (mp_pagesize env) pdata aligned_addr) of
                None \<Rightarrow> (0, pa, da, s)
              | Some va \<Rightarrow>
                  let s = s\<lparr>ml_mapped := ml_mapped s @ [(va, aligned_size)]\<rparr> in
                  if \<not> mp_mem_ok env \<or> \<not> mp_io_ok env
                  then (0, pa, da, s\<lparr>ml_unmapped := ml_unmapped s @ [(va, aligned_size)]\<rparr>)
                  else
                    let mem = \<lparr>rm_pa = lpa, rm_da = lda, rm_size = sz, rm_io_virt = va + offset, rm_io_size = sz\<rparr>
                    in (mp_io_p2v env mem lpa, lpa, lda, s\<lparr>ml_mems := ml_mems s @ [mem]\<rparr>))))"

section \<open>Configuration, start, shutdown, removal and notification\<close>

text \<open>
  \<open>jc_image_table\<close> is the resource table in the image at the offset the loader gives;
  \<open>jc_set_rsc_table\<close> is the result of OpenAMP's \<open>remoteproc_set_rsc_table\<close>.
\<close>

record jh_config_env =
  jc_shm_mmap :: "u64 \<Rightarrow> u64 \<Rightarrow> u64 \<times> u64"
  jc_p2v :: "u64 \<Rightarrow> u64"
  jc_load_header :: int
  jc_locate_rsc_table :: "int \<times> u64"
  jc_pagesize :: u64
  jc_image_table :: resource_table
  jc_set_rsc_table :: int

definition jh_config ::
  "jh_env \<Rightarrow> jh_config_env \<Rightarrow> rproc_pdata \<Rightarrow> 's mica_client \<Rightarrow> jh \<Rightarrow> int \<times> 's mica_client \<times> jh" where
  "jh_config env ce pdata client s =
     (case init_shmem_pool (jc_shm_mmap ce) client (id_shmem_addr (pd_ivshmem_dev pdata))
        (id_shmem_sz (pd_ivshmem_dev pdata)) of (ret, client) \<Rightarrow>
      if ret \<noteq> 0 then (ret, client, s)
      else if jc_load_header ce < 0 then (jc_load_header ce, client, s)
      else case jc_locate_rsc_table ce of (ret, rsc_size) \<Rightarrow>
      if ret \<noteq> 0 \<or> rsc_size = 0 then (ret, client, s)
      else if rsc_size > jc_pagesize ce then (- EINVAL, client, s)
      else case run_command (je_exec env) [''jailhouse'', ''cell'', ''load'', pd_cell_name pdata, mc_path client] s of (ret, s) \<Rightarrow>
      if ret \<noteq> 0 then (ret, client, s)
      else case alloc_shmem_region (jc_p2v ce) client (id_shmem_addr (pd_ivshmem_dev pdata)) (jc_pagesize ce) of
        (rsc_table, client) \<Rightarrow>
      if rsc_table = 0 then (- ENOMEM, client, s)
      else if jc_set_rsc_table ce \<noteq> 0 then (- EINVAL, client, s)
      else (0, client\<lparr>mc_rproc := (mc_rproc client)\<lparr>rp_rsc_table := Some (jc_image_table ce), rp_rsc_len := rsc_size,
               rp_state := RPROC_READY\<rparr>\<rparr>, s))"

definition jh_register_notifier :: "jh_env \<Rightarrow> jh \<Rightarrow> int \<times> jh" where
  "jh_register_notifier env s =
     (if je_pthread_create env \<noteq> 0 then (je_pthread_create env, s)
      else if je_pthread_detach env \<noteq> 0 then (je_pthread_detach env, s)
      else (0, s\<lparr>jh_threads := jh_threads s + 1\<rparr>))"

definition jh_start :: "jh_env \<Rightarrow> rproc_pdata \<Rightarrow> jh \<Rightarrow> int \<times> jh" where
  "jh_start env pdata s =
     (case run_command (je_exec env) [''jailhouse'', ''cell'', ''start'', pd_cell_name pdata] s of (ret, s) \<Rightarrow>
        if ret \<noteq> 0 then (ret, s) else jh_register_notifier env s)"

text \<open>Shutdown unmaps the address and size of each memory's io region.\<close>

fun jh_unmap_all :: "remoteproc_mem list \<Rightarrow> map_log \<Rightarrow> map_log" where
  "jh_unmap_all [] s = s\<lparr>ml_mems := []\<rparr>"
| "jh_unmap_all (mem # mems) s =
     jh_unmap_all mems (s\<lparr>ml_unmapped := ml_unmapped s @ [(rm_io_virt mem, rm_io_size mem)]\<rparr>)"

definition jh_shutdown ::
  "jh_env \<Rightarrow> rproc_pdata \<Rightarrow> 's mica_client \<Rightarrow> map_log \<Rightarrow> jh \<Rightarrow> int \<times> 's mica_client \<times> map_log \<times> jh" where
  "jh_shutdown env pdata client maps s =
     (case run_command (je_exec env) [''jailhouse'', ''cell'', ''shutdown'', pd_cell_name pdata] s of (ret, s) \<Rightarrow>
        if ret \<noteq> 0 then (ret, client, maps, s)
        else (0, client\<lparr>mc_rproc := (mc_rproc client)\<lparr>rp_rsc_table := None, rp_rsc_len := 0, rp_bitmap := 0, rp_mems := []\<rparr>\<rparr>,
          jh_unmap_all (ml_mems maps) maps,
          s\<lparr>jh_wakeups := jh_wakeups s @ [map_option snd (id_pipe_fd (pd_ivshmem_dev pdata))]\<rparr>))"

definition jh_remove :: "jh_env \<Rightarrow> rproc_pdata \<Rightarrow> jh \<Rightarrow> jh" where
  "jh_remove env pdata s =
     (case run_command (je_exec env) [''jailhouse'', ''cell'', ''destroy'', pd_cell_name pdata] s of (ret, s) \<Rightarrow>
        if ret \<noteq> 0 then s
        else (jh_close s (id_uio_fd (pd_ivshmem_dev pdata)))
          \<lparr>jh_pdata_blocks := jh_pdata_blocks s - 1, jh_priv := None\<rparr>)"

definition jh_notify :: "rproc_pdata \<Rightarrow> int \<times> rproc_pdata" where
  "jh_notify pdata =
     (let dev = pd_ivshmem_dev pdata in
      (0, pdata\<lparr>pd_ivshmem_dev := dev\<lparr>id_ivshm_regs := (id_ivshm_regs dev)
             \<lparr>iv_doorbell := push_bit 16 (id_peer_id dev)\<rparr>\<rparr>\<rparr>))"

text \<open>
  The notifier thread: the pipe it creates, what each return of \<open>poll\<close> reports (an error, or
  readiness of the uio device and of the pipe), and the notifications it delivers.
\<close>

datatype jh_poll = Jh_error | Jh_ready bool bool

fun jh_wait_loop :: "jh_poll list \<Rightarrow> rproc_pdata \<Rightarrow> nat \<Rightarrow> (rproc_pdata \<times> nat) outcome" where
  "jh_wait_loop [] pdata n = Spinning"
| "jh_wait_loop (Jh_error # ps) pdata n = Ret (pdata, n)"
| "jh_wait_loop (Jh_ready uio pipe # ps) pdata n =
     (let dev = pd_ivshmem_dev pdata;
          (pdata, n) = (if uio then (pdata\<lparr>pd_ivshmem_dev := dev\<lparr>id_ivshm_regs := (id_ivshm_regs dev)
                          \<lparr>iv_int_control := 1\<rparr>\<rparr>\<rparr>, n + 1) else (pdata, n))
      in if pipe then Ret (pdata, n) else jh_wait_loop ps pdata n)"

definition jh_wait_event :: "(int \<times> int) option \<Rightarrow> jh_poll list \<Rightarrow> rproc_pdata \<Rightarrow> jh \<Rightarrow> (rproc_pdata \<times> nat \<times> jh) outcome" where
  "jh_wait_event pipe polls pdata s =
     (case pipe of
        None \<Rightarrow> Ret (pdata, 0, s)
      | Some (r, w) \<Rightarrow>
          let pdata = pdata\<lparr>pd_ivshmem_dev := (pd_ivshmem_dev pdata)\<lparr>id_pipe_fd := Some (r, w)\<rparr>\<rparr>;
              s = s\<lparr>jh_open_fds := r # w # jh_open_fds s\<rparr> in
          (case jh_wait_loop polls pdata 0 of
             Ret (pdata, n) \<Rightarrow> Ret (pdata, n, jh_close (jh_close s r) w)
           | Fault \<Rightarrow> Fault | Spinning \<Rightarrow> Spinning))"

section \<open>Properties\<close>

lemma run_command_0:
  "run_command exec argv s = (0, s') \<longleftrightarrow> exec argv = Exited 0 \<and> s' = s\<lparr>jh_commands := jh_commands s @ [argv]\<rparr>"
  by (auto simp: run_command_def Let_def split: exec_result.splits)

lemma run_command_frame:
  assumes "run_command exec argv s = (ret, s')"
  shows "s' = s \<or> s' = s\<lparr>jh_commands := jh_commands s @ [argv]\<rparr>"
  using assms by (auto simp: run_command_def Let_def split: exec_result.splits)

lemma init_ivshmem_dev_frame:
  assumes "init_ivshmem_dev env uio s = Ret (ret, dev, s')"
  shows "(dev = None \<and> ret = - 1 \<and> s'\<lparr>jh_reg_pages := 0\<rparr> = s\<lparr>jh_reg_pages := 0\<rparr>)
    \<or> (\<exists>d. dev = Some d \<and> ret = 0
        \<and> s' = s\<lparr>jh_open_fds := id_uio_fd d # jh_open_fds s, jh_reg_pages := jh_reg_pages s + 1\<rparr>)"
  using assms by (auto simp: init_ivshmem_dev_def jh_close_def Let_def split: if_splits option.splits)

lemma jh_init_cases:
  assumes "jh_init env (Some client) s = Ret (ok, s')"
  shows "(if ok then \<exists>pd hdr. je_cell_file env (mc_ped_cfg client) = Some (Some hdr)
            \<and> jd_revision hdr = JAILHOUSE_CONFIG_REVISION \<and> pd_cell_name pd = strlcpy_buf 32 (jd_name hdr)
            \<and> je_exec env [''jailhouse'', ''cell'', ''create'', mc_ped_cfg client] = Exited 0
            \<and> s' = s\<lparr>jh_priv := Some pd, jh_open_fds := id_uio_fd (pd_ivshmem_dev pd) # jh_open_fds s,
                 jh_pdata_blocks := jh_pdata_blocks s + 1, jh_reg_pages := jh_reg_pages s + 1,
                 jh_commands := jh_commands s @ [[''jailhouse'', ''cell'', ''create'', mc_ped_cfg client]]\<rparr>
      else jh_priv s' = jh_priv s \<and> jh_open_fds s' = jh_open_fds s \<and> jh_pdata_blocks s' = jh_pdata_blocks s
        \<and> (jh_commands s' = jh_commands s
          \<or> jh_commands s' = jh_commands s @ [[''jailhouse'', ''cell'', ''create'', mc_ped_cfg client]]))"
proof (cases "je_malloc_ok env")
  case False
  then show ?thesis using assms by (auto simp: jh_init_def)
next
  case True
  define t where "t = s\<lparr>jh_pdata_blocks := jh_pdata_blocks s + 1\<rparr>"
  obtain ret dev s1 where i: "init_ivshmem_dev env ''/dev/uio0'' t = Ret (ret, dev, s1)"
    using assms True by (cases "init_ivshmem_dev env ''/dev/uio0'' t") (auto simp: jh_init_def t_def)
  obtain r s2 where r: "run_command (je_exec env) [''jailhouse'', ''cell'', ''create'', mc_ped_cfg client] s1 = (r, s2)"
    by force
  consider (fail) "dev = None" "s1\<lparr>jh_reg_pages := 0\<rparr> = t\<lparr>jh_reg_pages := 0\<rparr>"
    | (ok) d where "dev = Some d" "ret = 0"
        "s1 = t\<lparr>jh_open_fds := id_uio_fd d # jh_open_fds t, jh_reg_pages := jh_reg_pages t + 1\<rparr>"
    using init_ivshmem_dev_frame [OF i] by blast
  then show ?thesis
  proof cases
    case fail
    then have "\<not> ok" "s' = s1\<lparr>jh_pdata_blocks := jh_pdata_blocks s1 - 1\<rparr>"
      using assms True i by (auto simp: jh_init_def t_def)
    with fail(2) show ?thesis by (cases s, cases s1) (auto simp: t_def)
  next
    case (ok d)
    have clean: "(jh_close s1 (id_uio_fd d))\<lparr>jh_pdata_blocks := jh_pdata_blocks (jh_close s1 (id_uio_fd d)) - 1\<rparr>
        = s\<lparr>jh_reg_pages := jh_reg_pages s + 1\<rparr>"
      by (simp add: ok(3) t_def jh_close_def)
    show ?thesis
    proof (cases "\<exists>hdr. je_cell_file env (mc_ped_cfg client) = Some (Some hdr) \<and> jd_revision hdr = JAILHOUSE_CONFIG_REVISION")
      case no: False
      have "\<not> ok \<and> s' = s\<lparr>jh_reg_pages := jh_reg_pages s + 1\<rparr>"
        using assms True i ok(1,2) no clean by (auto simp: jh_init_def Let_def t_def split: option.splits if_splits)
      then show ?thesis by simp
    next
      case yes: True
      then obtain hdr where h: "je_cell_file env (mc_ped_cfg client) = Some (Some hdr)"
        "jd_revision hdr = JAILHOUSE_CONFIG_REVISION" by blast
      have e: "jh_init env (Some client) s = (if r \<noteq> 0
          then Ret (False, (jh_close s2 (id_uio_fd d))\<lparr>jh_pdata_blocks := jh_pdata_blocks (jh_close s2 (id_uio_fd d)) - 1\<rparr>)
          else Ret (True, s2\<lparr>jh_priv := Some \<lparr>pd_cell_name = strlcpy_buf 32 (jd_name hdr), pd_ivshmem_dev = d\<rparr>\<rparr>))"
        using True i ok(1,2) h r by (simp add: jh_init_def t_def)
      show ?thesis
      proof (cases "r = 0")
        case r0: True
        have "je_exec env [''jailhouse'', ''cell'', ''create'', mc_ped_cfg client] = Exited 0"
          "s2 = s1\<lparr>jh_commands := jh_commands s1 @ [[''jailhouse'', ''cell'', ''create'', mc_ped_cfg client]]\<rparr>"
          using r r0 run_command_0 by auto
        then show ?thesis using assms e r0 h ok(3)
          by (auto simp: t_def intro!: exI [of _ "\<lparr>pd_cell_name = strlcpy_buf 32 (jd_name hdr), pd_ivshmem_dev = d\<rparr>"])
      next
        case r1: False
        then show ?thesis using assms e run_command_frame [OF r] ok(3) by (auto simp: t_def jh_close_def)
      qed
    qed
  qed
qed


definition demo_jh_env :: jh_env where
  "demo_jh_env = \<lparr>je_open_uio = 4,
     je_mmap = Some \<lparr>iv_id = 0, iv_max_peers = 2, iv_int_control = 0, iv_doorbell = 0, iv_state = 0\<rparr>,
     je_sysfs = (\<lambda>p. Some (Some (''0x1000'' @ [CHR 0x0A]))), je_stack = replicate 64 (CHR 0x00), je_malloc_ok = True,
     je_cell_file = (\<lambda>p. Some (Some \<lparr>jd_signature = ''JHCLL'', jd_architecture = 2, jd_revision = 13,
        jd_name = ''zephyr'', jd_id = 0\<rparr>)),
     je_exec = (\<lambda>argv. Exited 0), je_pthread_create = 0, je_pthread_detach = 0\<rparr>"

definition demo_jh :: jh where
  "demo_jh = \<lparr>jh_priv = None, jh_open_fds = [], jh_pdata_blocks = 0, jh_reg_pages = 0, jh_commands = [],
     jh_threads = 0, jh_wakeups = []\<rparr>"

lemma demo_jh_init:
  "\<exists>s1 pd. jh_init demo_jh_env (Some client) demo_jh = Ret (True, s1) \<and> jh_priv s1 = Some pd
    \<and> id_shmem_addr (pd_ivshmem_dev pd) = 0x1000 \<and> id_shmem_sz (pd_ivshmem_dev pd) = 0x1000"
  by (simp add: jh_init_def init_ivshmem_dev_def read_info_def run_command_def demo_jh_env_def Let_def
      strtoll_hex_def isspace_def hex_prefix_def hex_digit_def)


lemma jh_config_0:
  assumes "jh_config env ce pd client s = (0, client', s')" "snd (jc_locate_rsc_table ce) \<noteq> 0"
  shows "s' = s\<lparr>jh_commands := jh_commands s @ [[''jailhouse'', ''cell'', ''load'', pd_cell_name pd, mc_path client]]\<rparr>
    \<and> client_table client' = Some (jc_image_table ce) \<and> rp_state (mc_rproc client') = RPROC_READY"
proof -
  obtain r c where i: "init_shmem_pool (jc_shm_mmap ce) client (id_shmem_addr (pd_ivshmem_dev pd))
      (id_shmem_sz (pd_ivshmem_dev pd)) = (r, c)" by force
  have p: "mc_path c = mc_path client" using i by (auto simp: init_shmem_pool_def split: prod.splits if_splits)
  obtain r2 s2 where c: "run_command (je_exec env) [''jailhouse'', ''cell'', ''load'', pd_cell_name pd, mc_path client] s = (r2, s2)"
    by force
  show ?thesis using assms i p c run_command_0 [of "je_exec env" _ s s2]
    by (auto simp: jh_config_def client_table_def split: if_splits prod.splits)
qed


definition demo_jce :: jh_config_env where
  "demo_jce = \<lparr>jc_shm_mmap = (\<lambda>pa n. (0x9000, pa)), jc_p2v = (\<lambda>pa. 0x9000), jc_load_header = 0,
     jc_locate_rsc_table = (0, 0x200), jc_pagesize = 0x1000, jc_image_table = demo_rbuf_rt, jc_set_rsc_table = 0\<rparr>"


lemma jh_wait_loop_ends:
  assumes "p \<in> set polls" "p = Jh_error \<or> (\<exists>uio. p = Jh_ready uio True)"
  shows "\<exists>pd' n'. jh_wait_loop polls pd n = Ret (pd', n')"
  using assms by (induction polls pd n rule: jh_wait_loop.induct) (auto simp: Let_def split: if_splits prod.splits)

text \<open>The notifier thread ends once its pipe is readable or \<open>poll\<close> fails, and closes its pipe.\<close>

lemma jh_wait_event_ends:
  assumes "p \<in> set polls" "p = Jh_error \<or> (\<exists>uio. p = Jh_ready uio True)"
  shows "\<exists>pd' n s'. jh_wait_event pipe polls pd s = Ret (pd', n, s') \<and> jh_open_fds s' = jh_open_fds s"
proof (cases pipe)
  case (Some rw)
  obtain r w where rw: "rw = (r, w)" by force
  define pd1 where "pd1 = pd\<lparr>pd_ivshmem_dev := (pd_ivshmem_dev pd)\<lparr>id_pipe_fd := Some (r, w)\<rparr>\<rparr>"
  obtain pd' n where "jh_wait_loop polls pd1 0 = Ret (pd', n)" using jh_wait_loop_ends [OF assms] by blast
  then show ?thesis by (auto simp: jh_wait_event_def Some rw pd1_def jh_close_def)
qed (simp add: jh_wait_event_def)

text \<open>
  Shutdown unmaps the unaligned address and the unrounded size: for a request that does not start
  on a page boundary this is not the range that was mapped.
\<close>

lemma jh_unmap_unaligned:
  assumes "id_shmem_addr (pd_ivshmem_dev pd) = 0x7000000"
    and "jh_mmap demo_map_env pd \<lparr>ml_mems = [], ml_mapped = [], ml_unmapped = []\<rparr> 0x7000123 METAL_BAD_PHYS 0x2000 = (va, pa, da, s)"
  shows "ml_mapped s = [(0x12000, 0x3000)] \<and> ml_unmapped (jh_unmap_all (ml_mems s) s) = [(0x12123, 0x2000)]"
  using assms
  by (auto simp: jh_mmap_def demo_map_env_def resolve_addrs_def map_range_def uio_mem_addr_def align_down_def align_up_def Let_def)

text \<open>A register page that cannot be mapped is not noticed and then read.\<close>

lemma jh_init_map_failed:
  "jh_init (demo_jh_env\<lparr>je_mmap := None\<rparr>) (Some client) demo_jh = Fault"
  by (simp add: jh_init_def init_ivshmem_dev_def read_info_def demo_jh_env_def demo_jh_def Let_def)

text \<open>A life leaves the register page mapped.\<close>

lemma jh_remove_keeps_page: "jh_reg_pages (jh_remove env pd s) = jh_reg_pages s"
  using run_command_frame [of "je_exec env" _ s]
  by (fastforce simp: jh_remove_def jh_close_def split: prod.splits)

end
