(* ===== verification/Service_Contract.thy ===== *)
theory Service_Contract
  imports Rpmsg_Service
begin

text \<open>
  The interface between the service registry of a client and the services of the daemon: the
  callbacks of a service keep an invariant of the world they act on. The registry calls no other
  code of a service, so it keeps the invariant through any sequence of registrations, announcements
  and removals. Every service of the daemon interprets this interface.
\<close>

datatype 'w registry_event = Ev_register "'w mica_service" bool | Ev_announce string u32 | Ev_unregister_all

fun registry_run ::
  "('w \<Rightarrow> rpmsg_endpoint list) \<Rightarrow> (remote_ept \<Rightarrow> bool) \<Rightarrow> 'w registry_event list \<Rightarrow> 'w svc_state \<Rightarrow> 'w svc_state" where
  "registry_run endpoints mem_ok [] st = st"
| "registry_run endpoints mem_ok (Ev_register svc m # evs) st =
     registry_run endpoints mem_ok evs (snd (mica_register_service endpoints m st svc))"
| "registry_run endpoints mem_ok (Ev_announce name dest # evs) st =
     registry_run endpoints mem_ok evs (mica_ns_bind_cb endpoints mem_ok st name dest)"
| "registry_run endpoints mem_ok (Ev_unregister_all # evs) st =
     registry_run endpoints mem_ok evs (mica_unregister_all_services st)"

definition registered_from :: "'w mica_service set \<Rightarrow> 'w registry_event \<Rightarrow> bool" where
  "registered_from svcs ev = (case ev of Ev_register svc m \<Rightarrow> svc \<in> svcs | _ \<Rightarrow> True)"

lemma client_rsc_update_world [simp]: "ss_world (client_rsc_update endpoints st) = ss_world st"
  by (simp add: client_rsc_update_def split: option.splits)

lemma find_binder_in:
  "find_binder svcs name dest = Some (Some bind) \<Longrightarrow> \<exists>svc \<in> set svcs. ms_rpmsg_ns_bind_cb svc = Some bind"
  by (induction svcs) (auto split: option.splits if_splits)

lemma bind_pending_world:
  assumes "bind_pending endpoints match bind rs st = (rs', st')" "I (ss_world st)"
    and "\<And>n a d w. I w \<Longrightarrow> I (bind n a d w)"
  shows "I (ss_world st')"
  using assms(1,2)
proof (induction rs arbitrary: rs' st)
  case (Cons r rs)
  then show ?case using assms(3) by (fastforce split: if_splits prod.splits)
qed simp

locale service_contract =
  fixes svcs :: "'w mica_service set"
    and world_inv :: "'w \<Rightarrow> bool"
  assumes init_keeps: "svc \<in> svcs \<Longrightarrow> ms_init svc = Some f \<Longrightarrow> world_inv w \<Longrightarrow> world_inv (f w)"
    and remove_keeps: "svc \<in> svcs \<Longrightarrow> ms_remove svc = Some f \<Longrightarrow> world_inv w \<Longrightarrow> world_inv (f w)"
    and bind_keeps: "svc \<in> svcs \<Longrightarrow> ms_rpmsg_ns_bind_cb svc = Some b \<Longrightarrow> world_inv w \<Longrightarrow> world_inv (b name addr dest w)"
begin

definition client_inv :: "'w svc_state \<Rightarrow> bool" where
  "client_inv st \<longleftrightarrow> world_inv (ss_world st) \<and> set (mc_services (ss_client st)) \<subseteq> svcs"

lemma register_keeps:
  assumes "client_inv st" "svc \<in> svcs"
  shows "client_inv (snd (mica_register_service endpoints m st svc))"
proof -
  define st1 where "st1 = (case ms_init svc of None \<Rightarrow> st | Some f \<Rightarrow> st\<lparr>ss_world := f (ss_world st)\<rparr>)"
  have 1: "client_inv st1"
    using assms init_keeps [OF assms(2)] by (auto simp: st1_def client_inv_def split: option.splits)
  have 2: "client_inv st'"
    if "ms_rpmsg_ns_bind_cb svc = Some b" "bind_pending endpoints match b rs st1 = (rs', st')" for match b rs rs' st'
    using 1 bind_pending_eq [OF that(2)] bind_pending_world [OF that(2), of world_inv] bind_keeps [OF assms(2) that(1)]
    by (simp add: client_inv_def)
  have add: "client_inv st' \<Longrightarrow> client_inv (st'\<lparr>ss_client := (ss_client st')\<lparr>mc_services := mc_services (ss_client st') @ [svc]\<rparr>\<rparr>)"
    "client_inv st' \<Longrightarrow> client_inv (st'\<lparr>ss_remote_ept_list := rs,
       ss_client := (ss_client st')\<lparr>mc_services := mc_services (ss_client st') @ [svc]\<rparr>\<rparr>)" for st' rs
    using assms(2) by (simp_all add: client_inv_def)
  have rem: "client_inv (st1\<lparr>ss_world := f (ss_world st1)\<rparr>)" if "ms_remove svc = Some f" for f
    using 1 remove_keeps [OF assms(2) that] by (simp add: client_inv_def)
  show ?thesis
  proof (cases "rp_state (mc_rproc (ss_client st)) \<noteq> RPROC_RUNNING \<or> \<not> m")
    case True
    then show ?thesis using assms by (simp add: mica_register_service_def)
  next
    case False
    then show ?thesis using 1 2 add rem
      by (auto simp: mica_register_service_def Let_def st1_def [symmetric] split: option.splits prod.splits)
  qed
qed

lemma announce_keeps:
  assumes "client_inv st"
  shows "client_inv (mica_ns_bind_cb endpoints mem_ok st name dest)"
  using assms bind_keeps
  by (auto simp: mica_ns_bind_cb_def client_inv_def Let_def dest!: find_binder_in split: option.splits)

lemma remove_services_keeps: "set ss \<subseteq> svcs \<Longrightarrow> world_inv w \<Longrightarrow> world_inv (remove_services ss w)"
  by (induction ss arbitrary: w) (auto simp: remove_keeps split: option.splits)

lemma unregister_keeps: "client_inv st \<Longrightarrow> client_inv (mica_unregister_all_services st)"
  by (simp add: client_inv_def mica_unregister_all_services_def remove_services_keeps)

theorem registry_keeps:
  assumes "client_inv st" "\<And>ev. ev \<in> set evs \<Longrightarrow> registered_from svcs ev"
  shows "client_inv (registry_run endpoints mem_ok evs st)"
  using assms
proof (induction evs arbitrary: st)
  case (Cons ev evs)
  have r: "registered_from svcs ev" using Cons.prems by simp
  show ?case
  proof (cases ev)
    case (Ev_register svc m)
    then have "svc \<in> svcs" using r by (simp add: registered_from_def)
    then show ?thesis using Ev_register Cons register_keeps by simp
  next
    case (Ev_announce name dest)
    then show ?thesis using Cons announce_keeps by simp
  next
    case Ev_unregister_all
    then show ?thesis using Cons unregister_keeps by simp
  qed
qed simp

end

end
