(* ===== verification/Rpmsg_Pty.thy ===== *)
theory Rpmsg_Pty
  imports Service_Contract
begin

text \<open>
  The rpmsg-tty service (\<open>micad/services/pty/rpmsg_pty.c\<close>): a pseudo terminal for every
  endpoint of the client OS, the translation of its output, and the thread that sends the input.
  Objects are named by handles, and allocation hands out the next unused one; system calls and OpenAMP are the record \<open>pty_env\<close>.
\<close>

section \<open>State\<close>

abbreviation RPMSG_TTY_NAME :: string where "RPMSG_TTY_NAME \<equiv> ''rpmsg-tty''"
abbreviation RPMSG_TTY_DEV :: string where "RPMSG_TTY_DEV \<equiv> ''/dev/ttyRPMSG''"
abbreviation RPMSG_TTY_DEV_LEN :: nat where "RPMSG_TTY_DEV_LEN \<equiv> 20"
abbreviation RPMSG_TTY_MAX_DEV :: nat where "RPMSG_TTY_MAX_DEV \<equiv> 10"

text \<open>The descriptors are indeterminate until \<open>create_tty_device\<close> sets them.\<close>

record rpmsg_tty_service =
  ts_active :: int
  ts_ept_name :: string
  ts_master_fd :: "int option"
  ts_slave_fd :: "int option"
  ts_index :: nat
  ts_tty_dev :: string

record pty_world =
  pw_tty_id :: "int list"
  pw_heap :: "nat \<Rightarrow> rpmsg_tty_service option"
  pw_next :: nat
  pw_list :: "nat list option"
  pw_epts :: "nat list"
  pw_open_fds :: "int list"
  pw_links :: "string list"
  pw_threads :: "nat list"
  pw_fault :: bool

record pty_env =
  pe_malloc_list :: bool
  pe_malloc :: bool
  pe_openpt :: int
  pe_grantpt :: int
  pe_unlockpt :: int
  pe_ptsname :: int
  pe_symlink :: int
  pe_open_slave :: int
  pe_create_ept :: int
  pe_pthread_create :: int
  pe_pthread_detach :: int

definition pty_close :: "int option \<Rightarrow> pty_world \<Rightarrow> pty_world" where
  "pty_close fd w = (case fd of None \<Rightarrow> w | Some fd \<Rightarrow> w\<lparr>pw_open_fds := remove1 fd (pw_open_fds w)\<rparr>)"

section \<open>Devices\<close>

text \<open>The loop over \<open>tty_id\<close>, from index \<open>i\<close>.\<close>

fun find_free :: "nat \<Rightarrow> int list \<Rightarrow> nat option" where
  "find_free i [] = None"
| "find_free i (x # xs) = (if x = - 1 then Some i else find_free (Suc i) xs)"

definition rpmsg_tty_new_index :: "pty_world \<Rightarrow> nat option \<times> pty_world" where
  "rpmsg_tty_new_index w =
     (case find_free 0 (pw_tty_id w) of
        None \<Rightarrow> (None, w)
      | Some i \<Rightarrow> (Some i, w\<lparr>pw_tty_id := (pw_tty_id w)[i := 1]\<rparr>))"

text \<open>One decimal digit, the index of a device.\<close>

definition tty_dev_name :: "nat \<Rightarrow> string" where
  "tty_dev_name i = take (RPMSG_TTY_DEV_LEN - 1) (RPMSG_TTY_DEV @ [char_of (48 + i)])"

definition create_tty_device ::
  "pty_env \<Rightarrow> rpmsg_tty_service \<Rightarrow> pty_world \<Rightarrow> int \<times> rpmsg_tty_service \<times> pty_world" where
  "create_tty_device env svc w =
     (case rpmsg_tty_new_index w of
        (None, w) \<Rightarrow> (- 1, svc, w)
      | (Some i, w) \<Rightarrow>
          let svc = svc\<lparr>ts_index := i\<rparr>; master_fd = pe_openpt env in
          if master_fd = - 1 then (- 1, svc, w)
          else
            let w = w\<lparr>pw_open_fds := master_fd # pw_open_fds w\<rparr>;
                err = (\<lambda>ret svc w. (ret, svc, (pty_close (Some master_fd) w)\<lparr>pw_tty_id := (pw_tty_id w)[i := - 1]\<rparr>)) in
            if pe_grantpt env \<noteq> 0 then err (pe_grantpt env) svc w
            else if pe_unlockpt env \<noteq> 0 then err (pe_unlockpt env) svc w
            else if pe_ptsname env \<noteq> 0 then err (pe_ptsname env) svc w
            else
              let svc = svc\<lparr>ts_tty_dev := tty_dev_name i\<rparr>;
                  w = w\<lparr>pw_links := removeAll (ts_tty_dev svc) (pw_links w)\<rparr> in
              if pe_symlink env \<noteq> 0 then err (pe_symlink env) svc w
              else
                let w = w\<lparr>pw_links := ts_tty_dev svc # pw_links w\<rparr> in
                if pe_open_slave env = - 1 then err 0 svc w
                else (0, svc\<lparr>ts_master_fd := Some master_fd, ts_slave_fd := Some (pe_open_slave env)\<rparr>,
                      w\<lparr>pw_open_fds := pe_open_slave env # pw_open_fds w\<rparr>))"

definition rpmsg_tty_unbind :: "nat \<Rightarrow> pty_world \<Rightarrow> pty_world outcome" where
  "rpmsg_tty_unbind h w =
     (case pw_heap w h of
        None \<Rightarrow> Fault
      | Some svc \<Rightarrow>
          let w = w\<lparr>pw_list := map_option (remove1 h) (pw_list w), pw_epts := remove1 h (pw_epts w),
                     pw_tty_id := (pw_tty_id w)[ts_index svc := - 1],
                     pw_links := removeAll (ts_tty_dev svc) (pw_links w)\<rparr>;
              w = pty_close (ts_slave_fd svc) (pty_close (ts_master_fd svc) w)
          in Ret (w\<lparr>pw_heap := (pw_heap w)(h := Some (svc\<lparr>ts_master_fd := Some (- 1), ts_slave_fd := Some (- 1), ts_active := 0\<rparr>))\<rparr>))"

text \<open>
  \<open>malloc\<close> leaves the fields indeterminate; the ones that are read before they are written do
  not occur, so the new object starts with arbitrary values for them.
\<close>

definition new_tty_service :: rpmsg_tty_service where
  "new_tty_service = \<lparr>ts_active = 0, ts_ept_name = '''', ts_master_fd = None, ts_slave_fd = None, ts_index = 0, ts_tty_dev = ''''\<rparr>"

definition rpmsg_tty_init :: "pty_env \<Rightarrow> string \<Rightarrow> pty_world \<Rightarrow> pty_world" where
  "rpmsg_tty_init env name w =
     (if \<not> pe_malloc env then w
      else
        let h = pw_next w; w = w\<lparr>pw_next := pw_next w + 1\<rparr> in
        case create_tty_device env new_tty_service w of (ret, svc, w) \<Rightarrow>
          if ret \<noteq> 0 then w
          else if pe_create_ept env \<noteq> 0 then w
          else case pw_list w of
            None \<Rightarrow> w\<lparr>pw_fault := True\<rparr>
          | Some devs \<Rightarrow>
              let svc = svc\<lparr>ts_ept_name := strlcpy_buf RPMSG_NAME_SIZE name\<rparr>;
                  w = w\<lparr>pw_heap := (pw_heap w)(h := Some svc), pw_epts := h # pw_epts w, pw_list := Some (devs @ [h])\<rparr>;
                  undo = (\<lambda>w. w\<lparr>pw_epts := remove1 h (pw_epts w), pw_list := map_option (remove1 h) (pw_list w),
                                pw_heap := (pw_heap w)(h := None)\<rparr>) in
              if pe_pthread_create env \<noteq> 0 then undo w
              else if pe_pthread_detach env \<noteq> 0 then undo w
              else w\<lparr>pw_threads := h # pw_threads w\<rparr>)"

definition rpmsg_tty_match :: "string \<Rightarrow> bool" where
  "rpmsg_tty_match name =
     (let len0 = length name; len1 = length RPMSG_TTY_NAME; n = (if len0 < len1 then len0 else len1)
      in strncmp_eq n name RPMSG_TTY_NAME)"

fun get_rpmsg_tty_dev :: "pty_world \<Rightarrow> nat list \<Rightarrow> nat \<Rightarrow> string \<Rightarrow> string" where
  "get_rpmsg_tty_dev w [] sz str = str"
| "get_rpmsg_tty_dev w (h # hs) sz str =
     (case pw_heap w h of
        None \<Rightarrow> str
      | Some svc \<Rightarrow> get_rpmsg_tty_dev w hs sz (snprintf_append sz str (ts_ept_name svc @ ''('' @ ts_tty_dev svc @ '') '')))"

definition create_tty_dev_lists :: "bool \<Rightarrow> pty_world \<Rightarrow> int \<times> pty_world" where
  "create_tty_dev_lists malloc_ok w = (if malloc_ok then (0, w\<lparr>pw_list := Some []\<rparr>) else (- ENOMEM, w))"

fun unbind_all :: "nat list \<Rightarrow> pty_world \<Rightarrow> pty_world" where
  "unbind_all [] w = w"
| "unbind_all (h # hs) w = (case rpmsg_tty_unbind h w of Ret w \<Rightarrow> unbind_all hs w | _ \<Rightarrow> w\<lparr>pw_fault := True\<rparr>)"

definition remove_tty_dev_lists :: "pty_world \<Rightarrow> pty_world" where
  "remove_tty_dev_lists w =
     (case pw_list w of
        None \<Rightarrow> w\<lparr>pw_fault := True\<rparr>
      | Some devs \<Rightarrow> (unbind_all devs w)\<lparr>pw_list := None\<rparr>)"

definition rpmsg_tty_service_ops :: "(pty_world \<Rightarrow> pty_env) \<Rightarrow> pty_world mica_service" where
  "rpmsg_tty_service_ops env = \<lparr>ms_name = RPMSG_TTY_NAME,
     ms_init = Some (\<lambda>w. snd (create_tty_dev_lists (pe_malloc_list (env w)) w)),
     ms_remove = Some remove_tty_dev_lists,
     ms_rpmsg_ns_match = Some (\<lambda>name addr dest. rpmsg_tty_match name),
     ms_rpmsg_ns_bind_cb = Some (\<lambda>name addr dest w. rpmsg_tty_init (env w) name w),
     ms_get_match_device = Some (\<lambda>w sz. case pw_list w of None \<Rightarrow> '''' | Some hs \<Rightarrow> get_rpmsg_tty_dev w hs sz '''')\<rparr>"

definition create_rpmsg_tty ::
  "(pty_world \<Rightarrow> rpmsg_endpoint list) \<Rightarrow> bool \<Rightarrow> (pty_world \<Rightarrow> pty_env) \<Rightarrow> pty_world svc_state \<Rightarrow> int \<times> pty_world svc_state" where
  "create_rpmsg_tty endpoints malloc_ok env st = mica_register_service endpoints malloc_ok st (rpmsg_tty_service_ops env)"

section \<open>Data transfer\<close>

text \<open>
  The translation loop of the receive callback over a buffer of twice the length of the message:
  \<open>i\<close> counts the bytes read and \<open>j\<close> the carriage returns inserted.
\<close>

abbreviation LF :: char where "LF \<equiv> CHR 0x0A"
abbreviation CR :: char where "CR \<equiv> CHR 0x0D"

fun translate_loop :: "string \<Rightarrow> nat \<Rightarrow> nat \<Rightarrow> string \<Rightarrow> (nat \<times> string) option" where
  "translate_loop [] i j msg = Some (i + j, msg)"
| "translate_loop (c # cs) i j msg =
     (if c = LF then
        if i + j + 1 < length msg then translate_loop cs (i + 1) (j + 1) (msg[i + j := CR, i + j + 1 := c]) else None
      else if i + j < length msg then translate_loop cs (i + 1) j (msg[i + j := c]) else None)"

text \<open>The write loop, driven by what each \<open>write\<close> returns; the bytes written are collected.\<close>

fun write_loop :: "int list \<Rightarrow> string \<Rightarrow> string \<Rightarrow> string outcome" where
  "write_loop rets [] out = Ret out"
| "write_loop [] msg out = Spinning"
| "write_loop (ret # rets) msg out =
     (if ret < 0 then Ret out else write_loop rets (drop (nat ret) msg) (out @ take (nat ret) msg))"

definition rpmsg_rx_tty_callback ::
  "int \<Rightarrow> (nat \<Rightarrow> string option) \<Rightarrow> int list \<Rightarrow> string \<Rightarrow> (int \<times> string) outcome" where
  "rpmsg_rx_tty_callback active malloc rets data =
     (if active \<noteq> 1 then Ret (- EAGAIN, [])
      else case malloc (length data * 2) of
        None \<Rightarrow> Ret (- ENOMEM, [])
      | Some msg \<Rightarrow>
          (case translate_loop data 0 0 msg of
             None \<Rightarrow> Fault
           | Some (len, msg) \<Rightarrow>
               (case write_loop rets (take len msg) [] of
                  Ret out \<Rightarrow> Ret (0, out) | Fault \<Rightarrow> Fault | Spinning \<Rightarrow> Spinning)))"

text \<open>
  The send thread: each observation is whether the service is still active, the result of
  \<open>poll\<close>, what \<open>read\<close> returns (\<open>None\<close> for an error or end of file, when the
  descriptor is readable) and the result of \<open>rpmsg_send\<close>. The thread marks the service active
  when it starts; the world it ends in shows whether it was unbound meanwhile.
\<close>

record tx_obs =
  tx_active :: bool
  tx_poll_error :: bool
  tx_ready :: bool
  tx_read :: "string option"
  tx_send :: int

definition tx_task_starts :: "nat \<Rightarrow> pty_world \<Rightarrow> pty_world" where
  "tx_task_starts h w = w\<lparr>pw_heap := (pw_heap w)(h := map_option (\<lambda>svc. svc\<lparr>ts_active := 1\<rparr>) (pw_heap w h))\<rparr>"

fun tx_loop :: "tx_obs list \<Rightarrow> string list \<Rightarrow> string list outcome" where
  "tx_loop [] sent = Spinning"
| "tx_loop (ob # obs) sent =
     (if \<not> tx_active ob then Ret sent
      else if tx_poll_error ob then Ret sent
      else if \<not> tx_ready ob then tx_loop obs sent
      else case tx_read ob of
        None \<Rightarrow> Ret sent
      | Some buf \<Rightarrow> if tx_send ob < 0 then Ret sent else tx_loop obs (sent @ [buf]))"

definition rpmsg_tty_tx_task :: "tx_obs list \<Rightarrow> nat \<Rightarrow> pty_world \<Rightarrow> (string list \<times> pty_world) outcome" where
  "rpmsg_tty_tx_task obs h w =
     (case tx_loop obs [] of
        Ret sent \<Rightarrow>
          (case pw_heap w h of
             None \<Rightarrow> Fault
           | Some svc \<Rightarrow>
               (case (if ts_active svc \<noteq> 0 then rpmsg_tty_unbind h w else Ret w) of
                  Ret w \<Rightarrow> Ret (sent, w\<lparr>pw_heap := (pw_heap w)(h := None), pw_threads := remove1 h (pw_threads w)\<rparr>)
                | Fault \<Rightarrow> Fault | Spinning \<Rightarrow> Spinning))
      | Fault \<Rightarrow> Fault | Spinning \<Rightarrow> Spinning)"

section \<open>Invariant of the device table\<close>

definition listed :: "pty_world \<Rightarrow> nat list" where
  "listed w = (case pw_list w of None \<Rightarrow> [] | Some devs \<Rightarrow> devs)"

definition index_of :: "pty_world \<Rightarrow> nat \<Rightarrow> nat" where
  "index_of w h = (case pw_heap w h of None \<Rightarrow> 0 | Some svc \<Rightarrow> ts_index svc)"

text \<open>
  Every listed device is alive, has an index of its own that is marked as used, and carries the name
  of that index.
\<close>

definition dev_ok :: "pty_world \<Rightarrow> nat \<Rightarrow> bool" where
  "dev_ok w h = (case pw_heap w h of None \<Rightarrow> False
     | Some svc \<Rightarrow> ts_index svc < RPMSG_TTY_MAX_DEV \<and> pw_tty_id w ! ts_index svc = 1
         \<and> ts_tty_dev svc = tty_dev_name (ts_index svc))"

definition pty_inv :: "pty_world \<Rightarrow> bool" where
  "pty_inv w \<longleftrightarrow> length (pw_tty_id w) = RPMSG_TTY_MAX_DEV \<and> distinct (map (index_of w) (listed w))
     \<and> (\<forall>h \<in> set (listed w). dev_ok w h \<and> h < pw_next w)"

lemma find_free_Some:
  "find_free i xs = Some k \<Longrightarrow> i \<le> k \<and> k < i + length xs \<and> xs ! (k - i) = - 1"
  by (induction i xs rule: find_free.induct) (force simp: nth_Cons' split: if_splits)+

lemma new_index_fresh:
  assumes "rpmsg_tty_new_index w = (Some i, w')" "pty_inv w"
  shows "i < RPMSG_TTY_MAX_DEV \<and> w' = w\<lparr>pw_tty_id := (pw_tty_id w)[i := 1]\<rparr> \<and> i \<notin> index_of w ` set (listed w)"
proof -
  have f: "find_free 0 (pw_tty_id w) = Some i" "w' = w\<lparr>pw_tty_id := (pw_tty_id w)[i := 1]\<rparr>"
    using assms(1) by (auto simp: rpmsg_tty_new_index_def split: option.splits)
  have "pw_tty_id w ! i = - 1" "i < RPMSG_TTY_MAX_DEV"
    using find_free_Some [OF f(1)] assms(2) by (auto simp: pty_inv_def)
  then show ?thesis using f(2) assms(2)
    by (fastforce simp: pty_inv_def dev_ok_def index_of_def split: option.splits)
qed

text \<open>Marking or clearing an index that no listed device has keeps the invariant.\<close>

lemma pty_inv_set_id:
  assumes "pty_inv w" "i \<notin> index_of w ` set (listed w)"
  shows "pty_inv (w\<lparr>pw_tty_id := (pw_tty_id w)[i := x]\<rparr>)"
proof -
  let ?w = "w\<lparr>pw_tty_id := (pw_tty_id w)[i := x]\<rparr>"
  have l: "listed ?w = listed w" "index_of ?w = index_of w" by (auto simp: listed_def index_of_def fun_eq_iff)
  have "dev_ok ?w h" if "h \<in> set (listed w)" for h
  proof -
    have "index_of w h \<noteq> i" using assms(2) that by blast
    then show ?thesis using assms(1) that
      by (auto simp: pty_inv_def dev_ok_def index_of_def split: option.splits)
  qed
  then show ?thesis using assms(1) l by (simp add: pty_inv_def)
qed

lemma pty_inv_frame:
  assumes "pty_inv w" "pw_tty_id w' = pw_tty_id w" "pw_list w' = pw_list w" "pw_heap w' = pw_heap w" "pw_next w \<le> pw_next w'"
  shows "pty_inv w'"
proof -
  have "listed w' = listed w" "index_of w' = index_of w" "dev_ok w' = dev_ok w"
    by (simp_all add: listed_def index_of_def dev_ok_def assms fun_eq_iff split: option.splits)
  then show ?thesis using assms by (auto simp: pty_inv_def intro: less_le_trans)
qed

lemma pty_close_frame [simp]:
  "pw_tty_id (pty_close fd w) = pw_tty_id w" "pw_list (pty_close fd w) = pw_list w"
  "pw_heap (pty_close fd w) = pw_heap w" "pw_next (pty_close fd w) = pw_next w"
  by (simp_all add: pty_close_def split: option.splits)

text \<open>
  What \<open>create_tty_device\<close> does to the device table: on success, and when the slave side could
  be opened, the service holds a fresh index that is marked; in every other case the listed devices
  keep theirs.
\<close>

lemma create_tty_device_inv:
  assumes "pty_inv w" "create_tty_device env svc w = (ret, svc', w')" "pe_open_slave env \<noteq> - 1"
  shows "pty_inv w' \<and> pw_list w' = pw_list w \<and> pw_heap w' = pw_heap w \<and> pw_next w' = pw_next w
    \<and> (ret = 0 \<longrightarrow> ts_index svc' < RPMSG_TTY_MAX_DEV \<and> ts_index svc' \<notin> index_of w ` set (listed w)
         \<and> pw_tty_id w' ! ts_index svc' = 1 \<and> ts_tty_dev svc' = tty_dev_name (ts_index svc'))"
proof (cases "rpmsg_tty_new_index w")
  case (Pair io w1)
  show ?thesis
  proof (cases io)
    case None
    then show ?thesis using assms Pair
      by (auto simp: create_tty_device_def rpmsg_tty_new_index_def split: option.splits)
  next
    case (Some i)
    note f = new_index_fresh [OF Pair [unfolded Some] assms(1)]
    have len: "length (pw_tty_id w) = RPMSG_TTY_MAX_DEV" using assms(1) by (simp add: pty_inv_def)
    have w': "pw_list w' = pw_list w" "pw_heap w' = pw_heap w" "pw_next w' = pw_next w"
      "\<exists>x. pw_tty_id w' = (pw_tty_id w)[i := x]"
      using assms(2,3) Pair Some f by (auto simp: create_tty_device_def Let_def split: if_splits)
    then obtain x where x: "pw_tty_id w' = (pw_tty_id w)[i := x]" by blast
    have "pty_inv (w\<lparr>pw_tty_id := (pw_tty_id w)[i := x]\<rparr>)" using pty_inv_set_id [OF assms(1)] f by blast
    then have "pty_inv w'" by (rule pty_inv_frame) (simp_all add: w' x)
    moreover have "ret = 0 \<longrightarrow> ts_index svc' = i \<and> pw_tty_id w' ! i = 1 \<and> ts_tty_dev svc' = tty_dev_name i"
      using assms(2,3) Pair Some f len by (auto simp: create_tty_device_def Let_def split: if_splits)
    ultimately show ?thesis using w' f by auto
  qed
qed

lemma pty_inv_drop:
  assumes "pty_inv w" "pw_heap w' = (pw_heap w)(h := s)" "pw_next w' = pw_next w"
    and "listed w' = remove1 h (listed w)" "pw_tty_id w' = (pw_tty_id w)[index_of w h := x]" "h \<in> set (listed w)"
  shows "pty_inv w'"
proof -
  have d: "distinct (listed w)" using assms(1) by (simp add: pty_inv_def distinct_map)
  then have m: "set (listed w') = set (listed w) - {h}" using assms(4) by simp
  have i: "index_of w' k = index_of w k" if "k \<noteq> h" for k using that assms(2) by (simp add: index_of_def)
  have inj: "inj_on (index_of w) (set (listed w))" using assms(1) by (simp add: pty_inv_def distinct_map)
  have "inj_on (index_of w') (set (listed w'))"
    using inj i by (auto simp: inj_on_def m)
  moreover have "distinct (listed w')" using d assms(4) by simp
  moreover have "dev_ok w' k \<and> k < pw_next w'" if "k \<in> set (listed w')" for k
  proof -
    have k: "k \<noteq> h" "k \<in> set (listed w)" using that m by auto
    have "index_of w k \<noteq> index_of w h" using inj k assms(6) by (auto simp: inj_on_def)
    then show ?thesis using assms(1,2,3,5) k
      by (auto simp: pty_inv_def dev_ok_def index_of_def split: option.splits)
  qed
  ultimately show ?thesis using assms(1,5) by (simp add: pty_inv_def distinct_map)
qed

lemma pty_inv_add:
  assumes "pty_inv w" "pw_list w = Some devs" "pw_next w = Suc h" "pw_heap w h = None \<or> h \<notin> set devs"
    and "ts_index svc < RPMSG_TTY_MAX_DEV" "ts_index svc \<notin> index_of w ` set (listed w)"
    and "pw_tty_id w ! ts_index svc = 1" "ts_tty_dev svc = tty_dev_name (ts_index svc)"
    and "pw_heap w' = (pw_heap w)(h := Some svc)" "pw_list w' = Some (devs @ [h])" "pw_tty_id w' = pw_tty_id w" "pw_next w' = pw_next w"
  shows "pty_inv w'"
proof -
  have h: "h \<notin> set devs" using assms(1,2,4) by (auto simp: pty_inv_def listed_def dev_ok_def)
  have i: "index_of w' k = index_of w k" "dev_ok w' k = dev_ok w k" if "k \<in> set devs" for k
    using that h assms(9,11) by (auto simp: index_of_def dev_ok_def split: option.splits)
  have m: "map (index_of w') devs = map (index_of w) devs" using i by simp
  have n: "index_of w' h = ts_index svc" "dev_ok w' h" using assms by (auto simp: index_of_def dev_ok_def)
  have img: "index_of w' ` set devs = index_of w ` set devs" using i by (intro image_cong) simp_all
  have dm: "distinct (map (index_of w') devs)" unfolding m using assms(1,2) by (simp add: pty_inv_def listed_def)
  show ?thesis
    using assms(1,2,3,6,10,11,12) dm n i h img by (auto simp: pty_inv_def listed_def)
qed

lemma rpmsg_tty_unbind_inv:
  assumes "pty_inv w" "h \<in> set (listed w)"
  shows "\<exists>w'. rpmsg_tty_unbind h w = Ret w' \<and> pty_inv w' \<and> listed w' = remove1 h (listed w)"
proof -
  obtain svc where s: "pw_heap w h = Some svc"
    using assms by (auto simp: pty_inv_def dev_ok_def split: option.splits)
  then obtain w' where w': "rpmsg_tty_unbind h w = Ret w'" by (simp add: rpmsg_tty_unbind_def)
  have "listed w' = remove1 h (listed w)"
    using w' s by (auto simp: rpmsg_tty_unbind_def listed_def Let_def split: option.splits)
  moreover have "pty_inv w'"
    by (rule pty_inv_drop [OF assms(1) _ _ calculation, where x = "- 1"])
      (use w' s assms(2) in \<open>auto simp: rpmsg_tty_unbind_def index_of_def Let_def\<close>)
  ultimately show ?thesis using w' by blast
qed

lemma unbind_all_inv:
  "pty_inv w \<Longrightarrow> listed w = hs \<Longrightarrow> pty_inv (unbind_all hs w) \<and> listed (unbind_all hs w) = []"
proof (induction hs arbitrary: w)
  case (Cons h hs)
  obtain w' where w': "rpmsg_tty_unbind h w = Ret w'" "pty_inv w'" "listed w' = remove1 h (listed w)"
    using rpmsg_tty_unbind_inv [OF Cons.prems(1), of h] Cons.prems(2) by auto
  then show ?case using Cons by simp
qed simp

lemma pty_inv_unlist: "pty_inv w \<Longrightarrow> pty_inv (w\<lparr>pw_list := None\<rparr>)" "pty_inv w \<Longrightarrow> pty_inv (w\<lparr>pw_list := Some []\<rparr>)"
  by (simp_all add: pty_inv_def listed_def)

lemma remove_tty_dev_lists_inv: "pty_inv w \<Longrightarrow> pty_inv (remove_tty_dev_lists w)"
proof (cases "pw_list w")
  case None
  assume "pty_inv w"
  then show ?thesis using None by (simp add: remove_tty_dev_lists_def) (erule pty_inv_frame; simp)
next
  case (Some devs)
  assume "pty_inv w"
  then have "pty_inv (unbind_all devs w)" using unbind_all_inv [of w devs] Some by (simp add: listed_def)
  then show ?thesis using Some pty_inv_unlist by (simp add: remove_tty_dev_lists_def)
qed

lemma rpmsg_tty_init_inv:
  assumes "pty_inv w" "pe_open_slave env \<noteq> - 1"
  shows "pty_inv (rpmsg_tty_init env name w)"
proof (cases "pe_malloc env")
  case False
  then show ?thesis using assms(1) by (simp add: rpmsg_tty_init_def)
next
  case True
  let ?h = "pw_next w"
  let ?w0 = "w\<lparr>pw_next := pw_next w + 1\<rparr>"
  have w0: "pty_inv ?w0" using assms(1) by (rule pty_inv_frame) simp_all
  obtain ret svc w1 where c: "create_tty_device env new_tty_service ?w0 = (ret, svc, w1)" by (metis prod_cases3)
  note d = create_tty_device_inv [OF w0 c assms(2)]
  have i1: "pty_inv w1" using d by simp
  have fault: "pty_inv (w1\<lparr>pw_fault := True\<rparr>)" using i1 by (rule pty_inv_frame) simp_all
  show ?thesis
  proof (cases "ret = 0 \<and> pe_create_ept env = 0")
    case False
    then show ?thesis using True c i1 by (auto simp: rpmsg_tty_init_def Let_def)
  next
    case ok: True
    show ?thesis
    proof (cases "pw_list w1")
      case None
      then show ?thesis using True c ok fault by (simp add: rpmsg_tty_init_def)
    next
      case (Some devs)
      define svc' where "svc' = svc\<lparr>ts_ept_name := strlcpy_buf RPMSG_NAME_SIZE name\<rparr>"
      define w2 where "w2 = w1\<lparr>pw_heap := (pw_heap w1)(?h := Some svc'), pw_epts := ?h # pw_epts w1, pw_list := Some (devs @ [?h])\<rparr>"
      have nd: "?h \<notin> set devs"
        using assms(1) d Some by (auto simp: pty_inv_def listed_def)
      have idx: "index_of w1 = index_of ?w0" "listed w1 = listed ?w0"
        using d by (auto simp: index_of_def listed_def fun_eq_iff)
      have i2: "pty_inv w2"
        by (rule pty_inv_add [OF i1 Some, of ?h svc']) (use d ok nd idx in \<open>simp_all add: w2_def svc'_def\<close>)
      have id: "(pw_tty_id w1)[ts_index svc := 1] = pw_tty_id w1"
        using d ok list_update_id [of "pw_tty_id w1" "ts_index svc"] by simp
      have "pty_inv (w2\<lparr>pw_epts := remove1 ?h (pw_epts w2), pw_list := map_option (remove1 ?h) (pw_list w2),
          pw_heap := (pw_heap w2)(?h := None)\<rparr>)" (is "pty_inv ?undo")
        by (rule pty_inv_drop [OF i2, where h = ?h and s = None and x = 1])
          (use nd id in \<open>auto simp: w2_def svc'_def listed_def index_of_def remove1_append\<close>)
      moreover have "pty_inv (w2\<lparr>pw_threads := ?h # pw_threads w2\<rparr>)" using i2 by (rule pty_inv_frame) simp_all
      ultimately show ?thesis using True c ok Some
        by (simp add: rpmsg_tty_init_def svc'_def [symmetric] w2_def [symmetric] Let_def)
    qed
  qed
qed

lemma dev_name_inj: "i < RPMSG_TTY_MAX_DEV \<Longrightarrow> k < RPMSG_TTY_MAX_DEV \<Longrightarrow> tty_dev_name i = tty_dev_name k \<Longrightarrow> i = k"
proof -
  assume a: "i < RPMSG_TTY_MAX_DEV" "k < RPMSG_TTY_MAX_DEV" "tty_dev_name i = tty_dev_name k"
  then have "char_of (48 + i) = (char_of (48 + k) :: char)" by (simp add: tty_dev_name_def)
  then have "(of_char (char_of (48 + i) :: char) :: nat) = of_char (char_of (48 + k) :: char)" by simp
  then show ?thesis using a(1,2) by (simp only: of_char_of) simp
qed

lemma pty_inv_names:
  assumes "pty_inv w"
  shows "distinct (map (\<lambda>h. ts_tty_dev (the (pw_heap w h))) (listed w)) \<and> length (listed w) \<le> RPMSG_TTY_MAX_DEV"
proof -
  have ok: "ts_tty_dev (the (pw_heap w h)) = tty_dev_name (index_of w h) \<and> index_of w h < RPMSG_TTY_MAX_DEV"
    if "h \<in> set (listed w)" for h
    using assms that by (auto simp: pty_inv_def dev_ok_def index_of_def split: option.splits)
  have d: "distinct (map (index_of w) (listed w))" using assms by (simp add: pty_inv_def)
  have "inj_on (\<lambda>h. ts_tty_dev (the (pw_heap w h))) (set (listed w))"
  proof (rule inj_onI)
    fix x y assume "x \<in> set (listed w)" "y \<in> set (listed w)"
      "ts_tty_dev (the (pw_heap w x)) = ts_tty_dev (the (pw_heap w y))"
    then have "index_of w x = index_of w y" using ok dev_name_inj by metis
    then show "x = y" using d \<open>x \<in> set (listed w)\<close> \<open>y \<in> set (listed w)\<close> by (auto simp: distinct_map inj_on_def)
  qed
  moreover have "length (listed w) = card (index_of w ` set (listed w))"
    using d by (metis distinct_card length_map set_map)
  moreover have "index_of w ` set (listed w) \<subseteq> {..<RPMSG_TTY_MAX_DEV}" using ok by auto
  then have "card (index_of w ` set (listed w)) \<le> card {..<RPMSG_TTY_MAX_DEV}" by (rule card_mono [rotated]) simp
  ultimately show ?thesis using d by (simp add: distinct_map)
qed

section \<open>Properties\<close>

interpretation tty: service_contract "{svc. \<exists>env. svc = rpmsg_tty_service_ops env \<and> (\<forall>w. pe_open_slave (env w) \<noteq> - 1)}" pty_inv
proof unfold_locales
  fix svc f w
  assume "svc \<in> {svc. \<exists>env. svc = rpmsg_tty_service_ops env \<and> (\<forall>w. pe_open_slave (env w) \<noteq> - 1)}"
  then obtain env where e: "svc = rpmsg_tty_service_ops env" "\<forall>w. pe_open_slave (env w) \<noteq> - 1" by blast
  assume i: "pty_inv w"
  show "ms_init svc = Some f \<Longrightarrow> pty_inv (f w)"
    using i e pty_inv_unlist by (auto simp: rpmsg_tty_service_ops_def create_tty_dev_lists_def)
  show "ms_remove svc = Some f \<Longrightarrow> pty_inv (f w)"
    using i e remove_tty_dev_lists_inv by (auto simp: rpmsg_tty_service_ops_def)
  show "ms_rpmsg_ns_bind_cb svc = Some b \<Longrightarrow> pty_inv (b name addr dest w)" for b name addr dest
    using i e rpmsg_tty_init_inv by (auto simp: rpmsg_tty_service_ops_def)
qed

definition pty_boot :: pty_world where
  "pty_boot = \<lparr>pw_tty_id = replicate RPMSG_TTY_MAX_DEV (- 1), pw_heap = (\<lambda>_. None), pw_next = 0, pw_list = None,
     pw_epts = [], pw_open_fds = [], pw_links = [], pw_threads = [], pw_fault = False\<rparr>"

text \<open>
  C23: As long as the slave side of every new pseudo terminal can be opened, any sequence of
  registrations of the tty service, announcements of endpoints and removals leaves every listed tty
  device with a device name of its own, at most ten of them, and each with its index marked in use.
\<close>

theorem tty_devices_distinct:
  assumes "\<forall>w. pe_open_slave (env w) \<noteq> - 1" "ss_world st = pty_boot" "mc_services (ss_client st) = []"
    and "\<forall>ev \<in> set evs. registered_from {rpmsg_tty_service_ops env} ev"
  shows "let w = ss_world (registry_run endpoints mem_ok evs st) in
    distinct (map (\<lambda>h. ts_tty_dev (the (pw_heap w h))) (listed w)) \<and> length (listed w) \<le> RPMSG_TTY_MAX_DEV
    \<and> (\<forall>h \<in> set (listed w). \<exists>svc. pw_heap w h = Some svc \<and> pw_tty_id w ! ts_index svc = 1)"
proof -
  have "tty.client_inv st" using assms(2,3) by (simp add: tty.client_inv_def pty_inv_def listed_def pty_boot_def)
  moreover have "registered_from {svc. \<exists>env. svc = rpmsg_tty_service_ops env \<and> (\<forall>w. pe_open_slave (env w) \<noteq> - 1)} ev"
    if "ev \<in> set evs" for ev
    using assms(1,4) that by (auto simp: registered_from_def split: registry_event.splits)
  ultimately have "tty.client_inv (registry_run endpoints mem_ok evs st)" by (rule tty.registry_keeps)
  then have i: "pty_inv (ss_world (registry_run endpoints mem_ok evs st))" by (simp add: tty.client_inv_def)
  then show ?thesis using pty_inv_names [OF i] i
    by (auto simp: Let_def pty_inv_def dev_ok_def split: option.splits)
qed

definition demo_pe :: pty_env where
  "demo_pe = \<lparr>pe_malloc_list = True, pe_malloc = True, pe_openpt = 5, pe_grantpt = 0, pe_unlockpt = 0, pe_ptsname = 0,
     pe_symlink = 0, pe_open_slave = 6, pe_create_ept = 0, pe_pthread_create = 0, pe_pthread_detach = 0\<rparr>"

definition demo_tty_state :: "pty_world svc_state" where
  "demo_tty_state = \<lparr>ss_client = \<lparr>mc_debug = False, mc_gdb_server_thread = False, mc_path = ''fw.elf'',
       mc_ped_cfg = '''', mc_cpu_id = 3, mc_ped = BARE_METAL,
       mc_rproc = \<lparr>rp_state = RPROC_RUNNING, rp_rsc_table = None, rp_rsc_len = 0, rp_bitmap = 0, rp_bootaddr = 0, rp_mems = []\<rparr>,
       mc_phys_shmem_start = 0, mc_shmem_size = 0, mc_virt_shmem_start = 0, mc_virt_shmem_end = 0,
       mc_unused_shmem_start = 0, mc_vdev_shpool = None, mc_rdev = None, mc_rbuf_dev = None, mc_services = []\<rparr>,
     ss_remote_ept_list = [], ss_world = pty_boot\<rparr>"

lemmas pty_eval = registry_run.simps mica_register_service_def mica_ns_bind_cb_def client_rsc_update_def Let_def
  rpmsg_tty_service_ops_def create_tty_dev_lists_def rpmsg_tty_match_def rpmsg_tty_init_def create_tty_device_def
  rpmsg_tty_new_index_def new_tty_service_def strncmp_eq_def cstr_def strlcpy_buf_def

lemma demo_tty_names [simp]: "tty_dev_name 0 = ''/dev/ttyRPMSG0''" "tty_dev_name (Suc 0) = ''/dev/ttyRPMSG1''"
  by code_simp+

lemma demo_tty_boot: "replicate RPMSG_TTY_MAX_DEV (- 1 :: int) = [- 1, - 1, - 1, - 1, - 1, - 1, - 1, - 1, - 1, - 1]"
  by (simp add: numeral_eq_Suc)

theorem tty_devices_distinct_witness:
  "let w = ss_world (registry_run (\<lambda>w. []) (\<lambda>r. True)
        [Ev_register (rpmsg_tty_service_ops (\<lambda>w. demo_pe)) True, Ev_announce ''rpmsg-tty'' 7, Ev_announce ''rpmsg-tty1'' 8] demo_tty_state)
   in distinct (map (\<lambda>h. ts_tty_dev (the (pw_heap w h))) (listed w)) \<and> listed w = [0, 1]
    \<and> map (\<lambda>h. ts_tty_dev (the (pw_heap w h))) (listed w) = [''/dev/ttyRPMSG0'', ''/dev/ttyRPMSG1'']"
proof -
  let ?evs = "[Ev_register (rpmsg_tty_service_ops (\<lambda>w. demo_pe)) True, Ev_announce ''rpmsg-tty'' 7, Ev_announce ''rpmsg-tty1'' 8]"
  have "\<forall>ev \<in> set ?evs. registered_from {rpmsg_tty_service_ops (\<lambda>w. demo_pe)} ev" by (simp add: registered_from_def)
  moreover have "\<forall>w. pe_open_slave ((\<lambda>w. demo_pe) w) \<noteq> - 1" by (simp add: demo_pe_def)
  moreover have "ss_world demo_tty_state = pty_boot" "mc_services (ss_client demo_tty_state) = []"
    by (simp_all add: demo_tty_state_def)
  ultimately have "let w = ss_world (registry_run (\<lambda>w. []) (\<lambda>r. True) ?evs demo_tty_state) in
      distinct (map (\<lambda>h. ts_tty_dev (the (pw_heap w h))) (listed w))"
    using tty_devices_distinct [of "\<lambda>w. demo_pe" demo_tty_state ?evs "\<lambda>w. []" "\<lambda>r. True"] by (simp add: Let_def)
  moreover have "let w = ss_world (registry_run (\<lambda>w. []) (\<lambda>r. True) ?evs demo_tty_state) in
      listed w = [0, 1] \<and> map (\<lambda>h. ts_tty_dev (the (pw_heap w h))) (listed w) = [''/dev/ttyRPMSG0'', ''/dev/ttyRPMSG1'']"
    by (simp add: pty_eval demo_pe_def demo_tty_state_def pty_boot_def demo_tty_boot listed_def)
  ultimately show ?thesis unfolding Let_def by blast
qed

text \<open>
  When the slave side cannot be opened, \<open>create_tty_device\<close> frees the index and closes the master
  but returns success: the next endpoint gets a device of the same name.
\<close>

lemma tty_slave_failure_shares_name:
  "let w = rpmsg_tty_init demo_pe ''rpmsg-tty1'' (rpmsg_tty_init (demo_pe\<lparr>pe_open_slave := - 1\<rparr>) ''rpmsg-tty'' (pty_boot\<lparr>pw_list := Some []\<rparr>))
   in map (\<lambda>h. ts_tty_dev (the (pw_heap w h))) (listed w) = [''/dev/ttyRPMSG0'', ''/dev/ttyRPMSG0'']"
  by (simp add: pty_eval demo_pe_def pty_boot_def demo_tty_boot listed_def pty_close_def)

text \<open>A failed endpoint creation leaves the index in use and both descriptors open.\<close>

lemma tty_ept_failure_leaks:
  "let w = rpmsg_tty_init (demo_pe\<lparr>pe_create_ept := - 12\<rparr>) ''rpmsg-tty'' (pty_boot\<lparr>pw_list := Some []\<rparr>)
   in listed w = [] \<and> pw_open_fds w = [6, 5] \<and> pw_tty_id w ! 0 = 1"
  by (simp add: pty_eval demo_pe_def pty_boot_def demo_tty_boot listed_def)

lemma tty_openpt_failure_leaks:
  "pw_tty_id (rpmsg_tty_init (demo_pe\<lparr>pe_openpt := - 1\<rparr>) ''rpmsg-tty'' (pty_boot\<lparr>pw_list := Some []\<rparr>)) ! 0 = 1"
  by (simp add: pty_eval demo_pe_def pty_boot_def demo_tty_boot listed_def)

text \<open>The match accepts every prefix of the service name, the empty name included.\<close>

lemma rpmsg_tty_match_prefix:
  assumes "NUL \<notin> set name"
  shows "rpmsg_tty_match name \<longleftrightarrow> take (length RPMSG_TTY_NAME) name = take (length name) RPMSG_TTY_NAME"
proof -
  have c: "cstr name = name" "cstr RPMSG_TTY_NAME = RPMSG_TTY_NAME"
    using assms by (simp_all add: cstr_id)
  show ?thesis by (simp add: rpmsg_tty_match_def strncmp_eq_def c Let_def min_def)
qed

text \<open>The reference definition of the translation.\<close>

definition crlf :: "string \<Rightarrow> string" where
  "crlf data = concat (map (\<lambda>c. if c = LF then [CR, LF] else [c]) data)"

lemma length_crlf: "length (crlf data) \<le> 2 * length data"
  by (induction data) (auto simp: crlf_def)

lemma translate_loop_crlf:
  assumes "i + j + length (crlf cs) \<le> length msg"
  shows "\<exists>msg'. translate_loop cs i j msg = Some (i + j + length (crlf cs), msg')
    \<and> length msg' = length msg \<and> take (i + j + length (crlf cs)) msg' = take (i + j) msg @ crlf cs"
  using assms
proof (induction cs arbitrary: i j msg)
  case (Cons c cs)
  show ?case
  proof (cases "c = LF")
    case True
    let ?m = "msg[i + j := CR, i + j + 1 := c]"
    have "\<exists>msg'. translate_loop cs (i + 1) (j + 1) ?m = Some (i + 1 + (j + 1) + length (crlf cs), msg')
      \<and> length msg' = length ?m \<and> take (i + 1 + (j + 1) + length (crlf cs)) msg' = take (i + 1 + (j + 1)) ?m @ crlf cs"
      by (rule Cons.IH) (use Cons.prems True in \<open>simp add: crlf_def\<close>)
    moreover have "take (i + 1 + (j + 1)) ?m = take (i + j) msg @ [CR, LF]"
      using Cons.prems True by (simp add: crlf_def take_Suc_conv_app_nth)
    ultimately show ?thesis using Cons.prems True by (auto simp: crlf_def)
  next
    case False
    let ?m = "msg[i + j := c]"
    have "\<exists>msg'. translate_loop cs (i + 1) j ?m = Some (i + 1 + j + length (crlf cs), msg')
      \<and> length msg' = length ?m \<and> take (i + 1 + j + length (crlf cs)) msg' = take (i + 1 + j) ?m @ crlf cs"
      by (rule Cons.IH) (use Cons.prems False in \<open>simp add: crlf_def\<close>)
    moreover have "take (i + 1 + j) ?m = take (i + j) msg @ [c]"
      using Cons.prems False by (simp add: crlf_def take_Suc_conv_app_nth)
    ultimately show ?thesis using Cons.prems False by (auto simp: crlf_def)
  qed
qed (simp add: crlf_def)

lemma write_loop_all:
  "\<forall>ret \<in> set rets. 1 \<le> ret \<Longrightarrow> length msg \<le> length rets \<Longrightarrow> write_loop rets msg out = Ret (out @ msg)"
proof (induction rets msg out rule: write_loop.induct)
  case (3 ret rets m msg out)
  have "length (drop (nat ret) (m # msg)) \<le> length rets" using "3.prems" by auto
  then show ?case using 3 by simp
qed simp_all

lemma write_loop_prefix:
  "write_loop rets msg out = Ret out' \<Longrightarrow> \<exists>n. out' = out @ take n msg"
proof (induction rets msg out rule: write_loop.induct)
  case (3 ret rets m msg out)
  show ?case
  proof (cases "ret < 0")
    case True
    then show ?thesis using "3.prems" by (auto intro!: exI [of _ 0])
  next
    case False
    then obtain n where "out' = (out @ take (nat ret) (m # msg)) @ take n (drop (nat ret) (m # msg))"
      using 3 by auto
    then have "out' = out @ take (nat ret + n) (m # msg)" by (simp only: take_add append_assoc)
    then show ?thesis by blast
  qed
qed simp_all

text \<open>
  C24: A message of the client OS reaches the terminal with every line feed preceded by a carriage
  return and nothing else changed: the in-place loop never leaves its buffer of twice the length,
  what is written is always a prefix of the reference translation, and it is all of it when every
  write makes progress.
\<close>

theorem rx_tty_crlf:
  assumes "malloc (length data * 2) = Some buf" "length buf = length data * 2"
  shows "rpmsg_rx_tty_callback 1 malloc rets data \<noteq> Fault
    \<and> (\<forall>ret out. rpmsg_rx_tty_callback 1 malloc rets data = Ret (ret, out) \<longrightarrow> ret = 0 \<and> (\<exists>n. out = take n (crlf data)))
    \<and> ((\<forall>ret \<in> set rets. 1 \<le> ret) \<and> length (crlf data) \<le> length rets
         \<longrightarrow> rpmsg_rx_tty_callback 1 malloc rets data = Ret (0, crlf data))"
proof -
  obtain msg where m: "translate_loop data 0 0 buf = Some (length (crlf data), msg)" "take (length (crlf data)) msg = crlf data"
    using translate_loop_crlf [of 0 0 data buf] length_crlf [of data] assms(2) by (auto simp: mult.commute)
  have nf: "write_loop rets xs out \<noteq> Fault" for xs out
    by (induction rets xs out rule: write_loop.induct) simp_all
  show ?thesis
    using assms(1) m nf write_loop_prefix [of rets "crlf data" "[]"] write_loop_all [of rets "crlf data" "[]"]
    by (auto simp: rpmsg_rx_tty_callback_def split: outcome.splits)
qed

theorem rx_tty_crlf_witness:
  "rpmsg_rx_tty_callback 1 (\<lambda>n. Some (replicate n (CHR ''x''))) [2, 1, 1, 1] [CHR ''a'', LF, CHR ''b''] =
     Ret (0, [CHR ''a'', CR, LF, CHR ''b''])"
proof -
  have c: "crlf [CHR ''a'', LF, CHR ''b''] = [CHR ''a'', CR, LF, CHR ''b'']" by (simp add: crlf_def)
  show ?thesis
    using rx_tty_crlf [of "\<lambda>n. Some (replicate n (CHR ''x''))" "[CHR ''a'', LF, CHR ''b'']" "replicate 6 (CHR ''x'')" "[2, 1, 1, 1]"]
    unfolding c by simp
qed

end
