(* ===== verification/C_Format.thy ===== *)
theory C_Format
  imports Mcs_Prelude
begin

text \<open>
  The conversions of \<open>printf\<close> that the daemon uses, and the little-endian encoding of integers
  in the messages it exchanges.
\<close>

section \<open>Decimal conversion\<close>

fun dec_nat :: "nat \<Rightarrow> string" where
  "dec_nat n = (if n < 10 then [char_of (48 + n)] else dec_nat (n div 10) @ [char_of (48 + n mod 10)])"

declare dec_nat.simps [simp del]

definition dec_int :: "int \<Rightarrow> string" where
  "dec_int i = (if i < 0 then CHR ''-'' # dec_nat (nat (- i)) else dec_nat (nat i))"

text \<open>\<open>%-ns\<close>: at least \<open>n\<close> characters, padded on the right.\<close>

definition pad_right :: "nat \<Rightarrow> string \<Rightarrow> string" where
  "pad_right n s = s @ replicate (n - length s) CHR '' ''"

fun read_dec :: "nat \<Rightarrow> string \<Rightarrow> nat" where
  "read_dec acc [] = acc"
| "read_dec acc (c # cs) = read_dec (10 * acc + (of_char c - 48)) cs"

lemma read_dec_append: "read_dec acc (xs @ ys) = read_dec (read_dec acc xs) ys"
  by (induction acc xs rule: read_dec.induct) simp_all

lemma read_dec_nat: "read_dec 0 (dec_nat n) = n"
proof (induction n rule: dec_nat.induct)
  case (1 n)
  have d: "(of_char (char_of (48 + k) :: char) :: nat) = 48 + k" if "k < 10" for k
    using that by (simp only: of_char_of) simp
  show ?case
  proof (cases "n < 10")
    case True
    then show ?thesis using d [of n] by (simp add: dec_nat.simps [of n])
  next
    case False
    then have "read_dec 0 (dec_nat n) = 10 * read_dec 0 (dec_nat (n div 10)) + n mod 10"
      using d [of "n mod 10"] by (simp add: dec_nat.simps [of n] read_dec_append)
    then show ?thesis using 1 False by simp
  qed
qed

lemma dec_nat_inj: "dec_nat m = dec_nat n \<Longrightarrow> m = n"
  using read_dec_nat by metis

lemma dec_nat_not_Nil [simp]: "dec_nat n \<noteq> []"
  by (subst dec_nat.simps) simp

lemma dec_nat_digit: "c \<in> set (dec_nat n) \<Longrightarrow> \<exists>k < 10. c = char_of (48 + k :: nat)"
proof (induction n rule: dec_nat.induct)
  case (1 n)
  show ?case
  proof (cases "n < 10")
    case False
    then have "c \<in> set (dec_nat (n div 10)) \<or> c = char_of (48 + n mod 10)"
      using "1.prems" by (subst (asm) dec_nat.simps) auto
    then show ?thesis
    proof
      assume "c = char_of (48 + n mod 10)"
      then show ?thesis by (intro exI [of _ "n mod 10"]) simp
    qed (use 1 False in blast)
  qed (use 1 in \<open>auto simp: dec_nat.simps [of n]\<close>)
qed

section \<open>Little-endian integers\<close>

fun le_bytes :: "nat \<Rightarrow> nat \<Rightarrow> u8 list" where
  "le_bytes 0 x = []"
| "le_bytes (Suc n) x = of_nat (x mod 256) # le_bytes n (x div 256)"

fun le_nat :: "u8 list \<Rightarrow> nat" where
  "le_nat [] = 0"
| "le_nat (b # bs) = unat b + 256 * le_nat bs"

lemma length_le_bytes [simp]: "length (le_bytes n x) = n"
  by (induction n arbitrary: x) simp_all

lemma le_nat_bytes: "le_nat (le_bytes n x) = x mod 256 ^ n"
proof (induction n arbitrary: x)
  case (Suc n)
  have "unat (of_nat (x mod 256) :: u8) = x mod 256" by (rule unat_of_nat_small) simp
  then show ?case using Suc by (simp add: mod_mult2_eq)
qed simp

lemma le_nat_bound: "le_nat bs < 256 ^ length bs"
proof (induction bs)
  case (Cons b bs)
  have "unat b < 256" using unsigned_less [of b] by simp
  then show ?case using Cons by simp
qed simp

lemma le_bytes_nat: "le_bytes (length bs) (le_nat bs) = bs"
proof (induction bs)
  case (Cons b bs)
  have "unat b < 256" using unsigned_less [of b] by simp
  then show ?case using Cons by simp
qed simp

definition chars :: "u8 list \<Rightarrow> string" where
  "chars bs = map (\<lambda>b. char_of (unat b)) bs"

definition bytes :: "string \<Rightarrow> u8 list" where
  "bytes cs = map (\<lambda>c. of_nat (of_char c)) cs"

lemma chars_bytes [simp]: "chars (bytes cs) = cs"
proof -
  have "char_of (unat (of_nat (of_char c) :: u8)) = c" for c :: char
  proof -
    have "(of_char c :: nat) < 256" by (rule nat_of_char_less_256)
    then have "unat (of_nat (of_char c) :: u8) = of_char c" by (intro unat_of_nat_small) simp
    then show ?thesis by simp
  qed
  then show ?thesis by (simp add: chars_def bytes_def map_idI)
qed

lemma length_chars [simp]: "length (chars bs) = length bs" "length (bytes cs) = length cs"
  by (simp_all add: chars_def bytes_def)

lemma chars_simps [simp]:
  "chars (xs @ ys) = chars xs @ chars ys" "chars (take n xs) = take n (chars xs)" "chars (drop n xs) = drop n (chars xs)"
  "chars (replicate n 0) = replicate n NUL"
  by (simp_all add: chars_def take_map drop_map char_of_def)

end
