(* ===== verification/User_Msg.thy ===== *)
theory User_Msg
  imports Rsc_Table C_Format
begin

text \<open>
  The user side of the message transfer (\<open>library/user_msg/user_msg.c\<close> and
  \<open>user_msg_mem.c\<close>) and the protocol it runs with the daemon and the client OS: processes take
  a lock in memory shared with the daemon, copy their data to the area shared with the client OS,
  post a semaphore and wait for the answer. The protocol is a step relation over all processes, the
  daemon's thread and callback, and the client OS; \<open>rtos\<close> is what the client OS computes.
\<close>

section \<open>Shared memory and semaphores\<close>

abbreviation OPENAMP_SHM_COPY_SIZE :: nat where "OPENAMP_SHM_COPY_SIZE \<equiv> 0x100000"

record process_shared_data =
  ps_phy_addr :: u64
  ps_data_len :: int
  ps_instance_id :: int
  ps_rcv_data_len :: int
  ps_lock :: bool

record core_msg_info =
  ci_instance_id :: u32
  ci_phy_addr :: u64
  ci_vir_addr :: u64
  ci_size :: u64
  ci_align_size :: u64

text \<open>
  \<open>cs_ioctl\<close> is the answer of the driver: a result and the area it describes.
  \<open>None\<close> of \<open>cs_mmap\<close> is \<open>MAP_FAILED\<close>.
\<close>

record core_shm_env =
  cs_open :: int
  cs_ioctl :: "core_msg_info \<Rightarrow> int \<times> core_msg_info"
  cs_pagesize :: u64
  cs_mmap :: "u64 \<Rightarrow> u64 \<Rightarrow> u64 option"

abbreviation MAP_FAILED :: u64 where "MAP_FAILED \<equiv> - 1"

definition init_core_shared_memory :: "core_shm_env \<Rightarrow> int list \<Rightarrow> core_msg_info \<Rightarrow> int \<times> core_msg_info \<times> int list" where
  "init_core_shared_memory env fds info =
     (let mcs_fd = cs_open env in
      if mcs_fd < 0 then (- 1, info, fds)
      else
        case cs_ioctl env info of (ret, info) \<Rightarrow>
          if ret < 0 then (- 1, info, fds)
          else
            let lpa = ci_phy_addr info; aligned_addr = align_down lpa (cs_pagesize env); offset = lpa - aligned_addr;
                aligned_size = align_up (offset + ci_size info) (cs_pagesize env) in
            case cs_mmap env aligned_size aligned_addr of
              None \<Rightarrow> (- 1, info\<lparr>ci_vir_addr := MAP_FAILED\<rparr>, fds)
            | Some va \<Rightarrow> (0, info\<lparr>ci_vir_addr := va, ci_align_size := aligned_size, ci_phy_addr := aligned_addr\<rparr>, mcs_fd # fds))"

text \<open>A semaphore pointer: never assigned, \<open>SEM_FAILED\<close>, open, or closed.\<close>

datatype sem_ptr = Sem_uninit | Sem_failed | Sem_open string | Sem_closed string

definition sem_name :: "string \<Rightarrow> int \<Rightarrow> string" where
  "sem_name prefix instance_id = prefix @ dec_int instance_id"

abbreviation SEM_USER_TO_MICAD :: string where "SEM_USER_TO_MICAD \<equiv> ''/sem_user_to_mciad_''"
abbreviation SEM_MICAD_TO_USER :: string where "SEM_MICAD_TO_USER \<equiv> ''/sem_mciad_to_user_''"
abbreviation SHM_NAME :: string where "SHM_NAME \<equiv> ''/my_shared_memory_''"

definition create_sem :: "(string \<Rightarrow> bool) \<Rightarrow> int \<Rightarrow> sem_ptr \<times> sem_ptr \<Rightarrow> int \<times> sem_ptr \<times> sem_ptr" where
  "create_sem sem_open instance_id ptrs =
     (let user = sem_name SEM_USER_TO_MICAD instance_id; micad = sem_name SEM_MICAD_TO_USER instance_id in
      if \<not> sem_open user then (- 1, Sem_failed, snd ptrs)
      else if \<not> sem_open micad then (- 1, Sem_closed user, Sem_failed)
      else (0, Sem_open user, Sem_open micad))"

record pshm_env =
  pn_shm_open :: int
  pn_ftruncate :: int
  pn_mmap :: "u64 option"

definition init_process_shared_memory :: "pshm_env \<Rightarrow> int list \<Rightarrow> u64 option \<times> int list" where
  "init_process_shared_memory env fds =
     (let shm_fd = pn_shm_open env in
      if shm_fd = - 1 then (None, fds)
      else
        let fds' = shm_fd # fds in
        if pn_ftruncate env = - 1 then (None, remove1 shm_fd fds')
        else case pn_mmap env of
            None \<Rightarrow> (None, remove1 shm_fd fds')
          | Some shared_data \<Rightarrow> (Some shared_data, remove1 shm_fd fds'))"

section \<open>The protocol\<close>

text \<open>
  Where a process is in \<open>send_data_to_rtos_and_wait_rcv\<close>: before the lock, with the lock, with
  its data in the shared area, waiting for the answer, with the answer but not yet unlocked,
  returned with the answer, or returned with an error.
\<close>

datatype user_state =
    Ready "u8 list" | Locked "u8 list" | Copied "u8 list" | Posted "u8 list"
  | Received "u8 list" "u8 list" | Done "u8 list" "u8 list" | Failed "u8 list"

datatype tx_state = Tx_wait | Tx_woken

record umt =
  um_lock :: bool
  um_data_len :: nat
  um_rcv_len :: nat
  um_send_area :: "u8 list"
  um_recv_area :: "u8 list"
  um_sem_user :: nat
  um_sem_micad :: nat
  um_tx :: tx_state
  um_to_rtos :: "nat list"
  um_from_rtos :: "nat list"
  um_users :: "nat \<Rightarrow> user_state"

definition write_area :: "u8 list \<Rightarrow> u8 list \<Rightarrow> u8 list" where
  "write_area area data = data @ drop (length data) area"

inductive umt_step :: "(u8 list \<Rightarrow> u8 list) \<Rightarrow> umt \<Rightarrow> umt \<Rightarrow> bool" for rtos where
  too_long: "um_users s u = Ready d \<Longrightarrow> length d > OPENAMP_SHM_COPY_SIZE \<Longrightarrow>
    umt_step rtos s (s\<lparr>um_users := (um_users s)(u := Failed d)\<rparr>)"
| user_refused: "um_users s u = Ready d \<Longrightarrow>
    umt_step rtos s (s\<lparr>um_users := (um_users s)(u := Failed d)\<rparr>)"
| user_lock: "um_users s u = Ready d \<Longrightarrow> length d \<le> OPENAMP_SHM_COPY_SIZE \<Longrightarrow> \<not> um_lock s \<Longrightarrow>
    umt_step rtos s (s\<lparr>um_lock := True, um_users := (um_users s)(u := Locked d)\<rparr>)"
| user_no_area: "um_users s u = Locked d \<Longrightarrow>
    umt_step rtos s (s\<lparr>um_users := (um_users s)(u := Failed d)\<rparr>)"
| user_copy: "um_users s u = Locked d \<Longrightarrow>
    umt_step rtos s (s\<lparr>um_send_area := write_area (um_send_area s) d, um_data_len := length d,
      um_users := (um_users s)(u := Copied d)\<rparr>)"
| user_post: "um_users s u = Copied d \<Longrightarrow>
    umt_step rtos s (s\<lparr>um_sem_user := um_sem_user s + 1, um_users := (um_users s)(u := Posted d)\<rparr>)"
| micad_wait: "um_tx s = Tx_wait \<Longrightarrow> 0 < um_sem_user s \<Longrightarrow>
    umt_step rtos s (s\<lparr>um_sem_user := um_sem_user s - 1, um_tx := Tx_woken\<rparr>)"
| micad_send: "um_tx s = Tx_woken \<Longrightarrow>
    umt_step rtos s (s\<lparr>um_to_rtos := um_to_rtos s @ [um_data_len s], um_tx := Tx_wait\<rparr>)"
| micad_send_lost: "um_tx s = Tx_woken \<Longrightarrow> umt_step rtos s (s\<lparr>um_tx := Tx_wait\<rparr>)"
| rtos_reply: "um_to_rtos s = n # ns \<Longrightarrow>
    umt_step rtos s (s\<lparr>um_to_rtos := ns, um_recv_area := write_area (um_recv_area s) (rtos (take n (um_send_area s))),
      um_from_rtos := um_from_rtos s @ [length (rtos (take n (um_send_area s)))]\<rparr>)"
| micad_rx: "um_from_rtos s = n # ns \<Longrightarrow>
    umt_step rtos s (s\<lparr>um_from_rtos := ns, um_rcv_len := n, um_sem_micad := um_sem_micad s + 1\<rparr>)"
| user_recv: "um_users s u = Posted d \<Longrightarrow> 0 < um_sem_micad s \<Longrightarrow>
    umt_step rtos s (s\<lparr>um_sem_micad := um_sem_micad s - 1,
      um_users := (um_users s)(u := Received d (take (um_rcv_len s) (um_recv_area s)))\<rparr>)"
| user_unlock: "um_users s u = Received d r \<Longrightarrow>
    umt_step rtos s (s\<lparr>um_lock := False, um_users := (um_users s)(u := Done d r)\<rparr>)"

definition umt_start :: "umt \<Rightarrow> bool" where
  "umt_start s \<longleftrightarrow> \<not> um_lock s \<and> um_sem_user s = 0 \<and> um_sem_micad s = 0 \<and> um_tx s = Tx_wait
     \<and> um_to_rtos s = [] \<and> um_from_rtos s = [] \<and> (\<forall>u. \<exists>d. um_users s u = Ready d)"

section \<open>Invariant\<close>

definition holds_lock :: "user_state \<Rightarrow> bool" where
  "holds_lock x = (case x of Locked d \<Rightarrow> True | Copied d \<Rightarrow> True | Posted d \<Rightarrow> True | Received d r \<Rightarrow> True | _ \<Rightarrow> False)"

text \<open>How many notifications are on their way between the process and its answer.\<close>

definition in_flight :: "umt \<Rightarrow> nat" where
  "in_flight s = um_sem_user s + (if um_tx s = Tx_woken then 1 else 0) + length (um_to_rtos s)
     + length (um_from_rtos s) + um_sem_micad s"

definition area_holds :: "u8 list \<Rightarrow> nat \<Rightarrow> u8 list \<Rightarrow> bool" where
  "area_holds area n d \<longleftrightarrow> n = length d \<and> take n area = d"

text \<open>
  What the lock owner's position says about the areas and the notifications: before it posts there is
  none, afterwards at most one, and each place it can be in carries the owner's data or its answer.
\<close>

definition owner_ok :: "(u8 list \<Rightarrow> u8 list) \<Rightarrow> umt \<Rightarrow> user_state \<Rightarrow> bool" where
  "owner_ok rtos s x = (case x of
     Locked d \<Rightarrow> in_flight s = 0
   | Copied d \<Rightarrow> in_flight s = 0 \<and> area_holds (um_send_area s) (um_data_len s) d
   | Posted d \<Rightarrow> in_flight s \<le> 1 \<and> area_holds (um_send_area s) (um_data_len s) d
       \<and> (\<forall>n \<in> set (um_to_rtos s). n = length d)
       \<and> (\<forall>n \<in> set (um_from_rtos s). area_holds (um_recv_area s) n (rtos d))
       \<and> (0 < um_sem_micad s \<longrightarrow> area_holds (um_recv_area s) (um_rcv_len s) (rtos d))
   | Received d r \<Rightarrow> in_flight s = 0 \<and> r = rtos d
   | _ \<Rightarrow> True)"

definition umt_inv :: "(u8 list \<Rightarrow> u8 list) \<Rightarrow> umt \<Rightarrow> bool" where
  "umt_inv rtos s \<longleftrightarrow>
     (\<forall>u v. holds_lock (um_users s u) \<longrightarrow> holds_lock (um_users s v) \<longrightarrow> u = v)
     \<and> (\<forall>u. holds_lock (um_users s u) \<longrightarrow> um_lock s \<and> owner_ok rtos s (um_users s u))
     \<and> ((\<forall>u. \<not> holds_lock (um_users s u)) \<longrightarrow> in_flight s = 0)
     \<and> (\<forall>u d r. um_users s u = Done d r \<longrightarrow> r = rtos d)"

lemma area_holds_write [simp]: "area_holds (write_area area d) (length d) d"
  by (simp add: area_holds_def write_area_def)

lemma umt_inv_start: "umt_start s \<Longrightarrow> umt_inv rtos s"
proof -
  assume s: "umt_start s"
  have r: "\<exists>d. um_users s u = Ready d" for u using s by (simp add: umt_start_def)
  have "\<not> holds_lock (um_users s u)" for u using r [of u] by (auto simp: holds_lock_def)
  moreover have "um_users s u \<noteq> Done d r" for u d r using r [of u] by auto
  ultimately show ?thesis using s by (simp add: umt_start_def umt_inv_def in_flight_def)
qed

lemmas umt_defs = umt_inv_def holds_lock_def owner_ok_def in_flight_def

text \<open>Steps of a process that does not hold the lock before and after.\<close>

lemma umt_inv_outside:
  assumes "umt_inv rtos s" "\<not> holds_lock (um_users s u)" "\<not> holds_lock x" "\<And>d r. x = Done d r \<Longrightarrow> r = rtos d"
  shows "umt_inv rtos (s\<lparr>um_users := (um_users s)(u := x)\<rparr>)"
proof -
  have "owner_ok rtos (s\<lparr>um_users := f\<rparr>) y = owner_ok rtos s y" "in_flight (s\<lparr>um_users := f\<rparr>) = in_flight s" for f y
    by (simp_all add: owner_ok_def in_flight_def split: user_state.splits)
  moreover have "holds_lock (((um_users s)(u := x)) v) = holds_lock (um_users s v)" for v using assms(2,3) by simp
  ultimately show ?thesis using assms unfolding umt_inv_def by (auto split: if_splits)
qed

text \<open>Steps of the lock owner, and steps of the daemon and the client OS on its behalf.\<close>

lemma umt_inv_owner:
  assumes "umt_inv rtos s" "holds_lock (um_users s u)" "um_users s' = (um_users s)(u := x)"
    and "holds_lock x \<Longrightarrow> um_lock s' \<and> owner_ok rtos s' x" "\<not> holds_lock x \<Longrightarrow> in_flight s' = 0"
    and "\<And>d r. x = Done d r \<Longrightarrow> r = rtos d"
  shows "umt_inv rtos s'"
proof -
  have only: "v = u" if "holds_lock (um_users s v)" for v using assms(1,2) that by (auto simp: umt_inv_def)
  show ?thesis unfolding umt_inv_def
  proof (intro conjI allI impI)
    fix v v' assume "holds_lock (um_users s' v)" "holds_lock (um_users s' v')"
    then show "v = v'" using only by (auto simp: assms(3) split: if_splits)
  next
    fix v assume "holds_lock (um_users s' v)"
    then show "um_lock s'" "owner_ok rtos s' (um_users s' v)" using only assms(4) by (auto simp: assms(3) split: if_splits)
  next
    assume "\<forall>v. \<not> holds_lock (um_users s' v)"
    then have "\<not> holds_lock (um_users s' u)" by blast
    then show "in_flight s' = 0" using assms(3,5) by simp
  next
    fix v d r assume "um_users s' v = Done d r"
    then show "r = rtos d" using assms(1,3,6) by (auto simp: umt_inv_def split: if_splits)
  qed
qed

lemma umt_inv_flight:
  assumes "umt_inv rtos s" "0 < in_flight s"
  shows "\<exists>u d. um_users s u = Posted d"
proof -
  obtain u where u: "holds_lock (um_users s u)" using assms by (force simp: umt_inv_def)
  then have "owner_ok rtos s (um_users s u)" using assms(1) by (auto simp: umt_inv_def)
  then show ?thesis using u assms(2) by (auto simp: owner_ok_def holds_lock_def split: user_state.splits)
qed

lemma umt_inv_daemon:
  assumes "umt_inv rtos s" "um_users s u = Posted d" "um_users s' = um_users s"
    and "um_lock s'" "owner_ok rtos s' (Posted d)"
  shows "umt_inv rtos s'"
  by (rule umt_inv_owner [OF assms(1), of u _ "Posted d"]) (use assms in \<open>auto simp: holds_lock_def\<close>)

text \<open>At most one of the places of a notification is occupied.\<close>

lemma in_flight_one:
  assumes "in_flight s \<le> 1"
  shows "0 < um_sem_user s \<Longrightarrow> um_sem_user s = 1 \<and> um_tx s = Tx_wait \<and> um_to_rtos s = [] \<and> um_from_rtos s = [] \<and> um_sem_micad s = 0"
    "um_tx s = Tx_woken \<Longrightarrow> um_sem_user s = 0 \<and> um_to_rtos s = [] \<and> um_from_rtos s = [] \<and> um_sem_micad s = 0"
    "um_to_rtos s = n # ns \<Longrightarrow> um_sem_user s = 0 \<and> um_tx s = Tx_wait \<and> ns = [] \<and> um_from_rtos s = [] \<and> um_sem_micad s = 0"
    "um_from_rtos s = n # ns \<Longrightarrow> um_sem_user s = 0 \<and> um_tx s = Tx_wait \<and> um_to_rtos s = [] \<and> ns = [] \<and> um_sem_micad s = 0"
    "0 < um_sem_micad s \<Longrightarrow> um_sem_user s = 0 \<and> um_tx s = Tx_wait \<and> um_to_rtos s = [] \<and> um_from_rtos s = [] \<and> um_sem_micad s = 1"
  using assms by (cases "um_tx s"; cases "um_to_rtos s"; cases "um_from_rtos s"; simp add: in_flight_def)+

lemma umt_inv_owner_ok:
  "umt_inv rtos s \<Longrightarrow> um_users s u = x \<Longrightarrow> holds_lock x \<Longrightarrow> um_lock s \<and> owner_ok rtos s x"
  by (auto simp: umt_inv_def)

lemma umt_inv_step: "umt_step rtos s s' \<Longrightarrow> umt_inv rtos s \<Longrightarrow> umt_inv rtos s'"
proof (induction rule: umt_step.induct)
  case (too_long s u d)
  then show ?case by (intro umt_inv_outside) (simp_all add: holds_lock_def)
next
  case (user_refused s u d)
  then show ?case by (intro umt_inv_outside) (simp_all add: holds_lock_def)
next
  case (user_lock s u d)
  have none: "\<not> holds_lock (um_users s v)" for v using user_lock by (auto simp: umt_inv_def)
  then have "in_flight s = 0" using user_lock(4) by (simp add: umt_inv_def)
  then show ?case using none user_lock(4) by (auto simp: umt_defs split: if_splits)
next
  case (user_no_area s u d)
  note o = umt_inv_owner_ok [OF user_no_area(2,1)]
  show ?case by (rule umt_inv_owner [OF user_no_area(2), of u _ "Failed d"])
    (use o user_no_area in \<open>simp_all add: holds_lock_def owner_ok_def in_flight_def\<close>)
next
  case (user_copy s u d)
  note o = umt_inv_owner_ok [OF user_copy(2,1)]
  show ?case by (rule umt_inv_owner [OF user_copy(2), of u _ "Copied d"])
    (use o user_copy in \<open>simp_all add: holds_lock_def owner_ok_def in_flight_def\<close>)
next
  case (user_post s u d)
  note o = umt_inv_owner_ok [OF user_post(2,1)]
  show ?case by (rule umt_inv_owner [OF user_post(2), of u _ "Posted d"])
    (use o user_post in \<open>simp_all add: holds_lock_def owner_ok_def in_flight_def\<close>)
next
  case (micad_wait s)
  then obtain u d where u: "um_users s u = Posted d" using umt_inv_flight [of rtos s] by (auto simp: in_flight_def)
  have o: "um_lock s" "owner_ok rtos s (Posted d)" using umt_inv_owner_ok [OF micad_wait(3) u] by (simp_all add: holds_lock_def)
  then have "in_flight s \<le> 1" by (simp add: owner_ok_def)
  note e = in_flight_one(1) [OF this micad_wait(2)]
  show ?case by (rule umt_inv_daemon [OF micad_wait(3) u]) (use o e micad_wait(1,2) in \<open>auto simp: owner_ok_def in_flight_def\<close>)
next
  case (micad_send s)
  then obtain u d where u: "um_users s u = Posted d" using umt_inv_flight [of rtos s] by (auto simp: in_flight_def)
  have o: "um_lock s" "owner_ok rtos s (Posted d)" using umt_inv_owner_ok [OF micad_send(2) u] by (simp_all add: holds_lock_def)
  then have "in_flight s \<le> 1" by (simp add: owner_ok_def)
  note e = in_flight_one(2) [OF this micad_send(1)]
  show ?case by (rule umt_inv_daemon [OF micad_send(2) u]) (use o e micad_send(1) in \<open>auto simp: owner_ok_def in_flight_def area_holds_def\<close>)
next
  case (micad_send_lost s)
  then obtain u d where u: "um_users s u = Posted d" using umt_inv_flight [of rtos s] by (auto simp: in_flight_def)
  have o: "um_lock s" "owner_ok rtos s (Posted d)" using umt_inv_owner_ok [OF micad_send_lost(2) u] by (simp_all add: holds_lock_def)
  then have "in_flight s \<le> 1" by (simp add: owner_ok_def)
  note e = in_flight_one(2) [OF this micad_send_lost(1)]
  show ?case by (rule umt_inv_daemon [OF micad_send_lost(2) u]) (use o e micad_send_lost(1) in \<open>auto simp: owner_ok_def in_flight_def\<close>)
next
  case (rtos_reply s n ns)
  then obtain u d where u: "um_users s u = Posted d" using umt_inv_flight [of rtos s] by (auto simp: in_flight_def)
  have o: "um_lock s" "owner_ok rtos s (Posted d)" using umt_inv_owner_ok [OF rtos_reply(2) u] by (simp_all add: holds_lock_def)
  then have "in_flight s \<le> 1" by (simp add: owner_ok_def)
  note e = in_flight_one(3) [OF this rtos_reply(1)]
  have d: "take n (um_send_area s) = d" using o(2) rtos_reply(1) by (auto simp: owner_ok_def area_holds_def)
  show ?case unfolding d by (rule umt_inv_daemon [OF rtos_reply(2) u])
    (use o e rtos_reply(1) in \<open>auto simp: owner_ok_def in_flight_def\<close>)
next
  case (micad_rx s n ns)
  then obtain u d where u: "um_users s u = Posted d" using umt_inv_flight [of rtos s] by (auto simp: in_flight_def)
  have o: "um_lock s" "owner_ok rtos s (Posted d)" using umt_inv_owner_ok [OF micad_rx(2) u] by (simp_all add: holds_lock_def)
  then have "in_flight s \<le> 1" by (simp add: owner_ok_def)
  note e = in_flight_one(4) [OF this micad_rx(1)]
  show ?case by (rule umt_inv_daemon [OF micad_rx(2) u]) (use o e micad_rx(1) in \<open>auto simp: owner_ok_def in_flight_def\<close>)
next
  case (user_recv s u d)
  have o: "owner_ok rtos s (Posted d)" "um_lock s" using umt_inv_owner_ok [OF user_recv(3,1)] by (simp_all add: holds_lock_def)
  then have "in_flight s \<le> 1" by (simp add: owner_ok_def)
  note e = in_flight_one(5) [OF this user_recv(2)]
  show ?case by (rule umt_inv_owner [OF user_recv(3), of u _ "Received d (take (um_rcv_len s) (um_recv_area s))"])
    (use o e user_recv(1,2) in \<open>auto simp: holds_lock_def owner_ok_def in_flight_def area_holds_def\<close>)
next
  case (user_unlock s u d r)
  note o = umt_inv_owner_ok [OF user_unlock(2,1)]
  show ?case by (rule umt_inv_owner [OF user_unlock(2), of u _ "Done d r"])
    (use o user_unlock in \<open>simp_all add: holds_lock_def owner_ok_def in_flight_def\<close>)
qed

lemma umt_inv_reach: "(umt_step rtos)\<^sup>*\<^sup>* s s' \<Longrightarrow> umt_inv rtos s \<Longrightarrow> umt_inv rtos s'"
  by (induction rule: rtranclp_induct) (auto intro: umt_inv_step)

section \<open>Properties\<close>


text \<open>A complete run of process 5, with the client OS reversing its input.\<close>

definition demo_at :: "bool \<Rightarrow> nat \<Rightarrow> nat \<Rightarrow> u8 list \<Rightarrow> u8 list \<Rightarrow> nat \<Rightarrow> nat \<Rightarrow> tx_state \<Rightarrow> nat list \<Rightarrow> nat list \<Rightarrow> user_state \<Rightarrow> umt" where
  "demo_at l dl rl sa ra su sm tx to from x = \<lparr>um_lock = l, um_data_len = dl, um_rcv_len = rl, um_send_area = sa, um_recv_area = ra,
     um_sem_user = su, um_sem_micad = sm, um_tx = tx, um_to_rtos = to, um_from_rtos = from,
     um_users = (\<lambda>u. Ready [1, of_nat u])(5 := x)\<rparr>"

abbreviation demo_umt :: umt where
  "demo_umt \<equiv> demo_at False 0 0 [9, 9, 9] [8, 8, 8] 0 0 Tx_wait [] [] (Ready [1, 5])"

lemma demo_umt_run:
  "(umt_step rev)\<^sup>*\<^sup>* demo_umt (demo_at False 2 2 [1, 5, 9] [5, 1, 8] 0 0 Tx_wait [] [] (Done [1, 5] [5, 1]))"
proof -
  let ?a = "[1, 5, 9] :: u8 list" and ?d = "[1, 5] :: u8 list" and ?r = "[8, 8, 8] :: u8 list"
  have "(umt_step rev)\<^sup>*\<^sup>* demo_umt (demo_at True 0 0 [9, 9, 9] ?r 0 0 Tx_wait [] [] (Locked ?d))" (is "(umt_step rev)\<^sup>*\<^sup>* _ ?s1")
    using user_lock [of demo_umt 5 ?d rev] by (intro r_into_rtranclp) (simp add: demo_at_def)
  also have "umt_step rev ?s1 (demo_at True 2 0 ?a ?r 0 0 Tx_wait [] [] (Copied ?d))" (is "umt_step rev _ ?s2")
    using user_copy [of ?s1 5 ?d rev] by (simp add: demo_at_def write_area_def numeral_2_eq_2)
  also have "umt_step rev ?s2 (demo_at True 2 0 ?a ?r 1 0 Tx_wait [] [] (Posted ?d))" (is "umt_step rev _ ?s3")
    using user_post [of ?s2 5 ?d rev] by (simp add: demo_at_def)
  also have "umt_step rev ?s3 (demo_at True 2 0 ?a ?r 0 0 Tx_woken [] [] (Posted ?d))" (is "umt_step rev _ ?s4")
    using micad_wait [of ?s3 rev] by (simp add: demo_at_def)
  also have "umt_step rev ?s4 (demo_at True 2 0 ?a ?r 0 0 Tx_wait [2] [] (Posted ?d))" (is "umt_step rev _ ?s5")
    using micad_send [of ?s4 rev] by (simp add: demo_at_def)
  also have "umt_step rev ?s5 (demo_at True 2 0 ?a [5, 1, 8] 0 0 Tx_wait [] [2] (Posted ?d))" (is "umt_step rev _ ?s6")
    using rtos_reply [of ?s5 2 "[]" rev] by (simp add: demo_at_def write_area_def numeral_2_eq_2)
  also have "umt_step rev ?s6 (demo_at True 2 2 ?a [5, 1, 8] 0 1 Tx_wait [] [] (Posted ?d))" (is "umt_step rev _ ?s7")
    using micad_rx [of ?s6 2 "[]" rev] by (simp add: demo_at_def)
  also have "umt_step rev ?s7 (demo_at True 2 2 ?a [5, 1, 8] 0 0 Tx_wait [] [] (Received ?d [5, 1]))" (is "umt_step rev _ ?s8")
    using user_recv [of ?s7 5 ?d rev] by (simp add: demo_at_def)
  also have "umt_step rev ?s8 (demo_at False 2 2 ?a [5, 1, 8] 0 0 Tx_wait [] [] (Done ?d [5, 1]))"
    using user_unlock [of ?s8 5 ?d "[5, 1]" rev] by (simp add: demo_at_def)
  finally show ?thesis .
qed


text \<open>
  A process that cannot map the area returns with the lock taken, and every later process waits for
  ever.
\<close>

lemma lock_kept_on_failure:
  assumes "um_users s u = Locked d" "um_lock s"
  shows "umt_step rtos s (s\<lparr>um_users := (um_users s)(u := Failed d)\<rparr>)
    \<and> um_lock (s\<lparr>um_users := (um_users s)(u := Failed d)\<rparr>)"
  using assms user_no_area by simp

text \<open>The descriptor of the mcs device stays open after a successful call.\<close>

lemma init_core_leaks_fd:
  assumes "init_core_shared_memory env fds info = (0, info', fds')"
  shows "fds' = cs_open env # fds"
  using assms by (auto simp: init_core_shared_memory_def Let_def split: if_splits prod.splits option.splits)

end
