(* ===== verification/Rpmsg_Umt.thy ===== *)
theory Rpmsg_Umt
  imports Service_Contract User_Msg
begin

text \<open>
  The rpmsg-umt service of the daemon (\<open>micad/services/umt/rpmsg_umt.c\<close>): the daemon's end of
  the message transfer of \<open>User_Msg\<close>. Objects are named by handles; the named shared memory and
  semaphores are those of the system.
\<close>

section \<open>State\<close>

abbreviation RPMSG_UMT_NAME :: string where "RPMSG_UMT_NAME \<equiv> ''rpmsg-umt''"

record rpmsg_umt_service =
  us_instance_id :: int
  us_active :: int
  us_sem_user_to_micad :: sem_ptr
  us_sem_micad_to_user :: sem_ptr
  us_shared :: "u64 option"

record umt_world =
  uw_list :: "nat list"
  uw_heap :: "nat \<Rightarrow> rpmsg_umt_service option"
  uw_next :: nat
  uw_epts :: "nat list"
  uw_mapped :: "u64 list"
  uw_names :: "string list"
  uw_sent :: "(u64 \<times> int) list"
  uw_threads :: "nat list"
  uw_fault :: bool

record umt_env =
  ue_malloc :: bool
  ue_create_ept :: int
  ue_pshm :: pshm_env
  ue_sem_open :: "string \<Rightarrow> bool"
  ue_pthread_create :: int
  ue_pthread_detach :: int

definition umt_names :: "int \<Rightarrow> string list" where
  "umt_names i = [sem_name SHM_NAME i, sem_name SEM_USER_TO_MICAD i, sem_name SEM_MICAD_TO_USER i]"

definition sem_close :: "sem_ptr \<Rightarrow> bool" where
  "sem_close p = (case p of Sem_open n \<Rightarrow> True | _ \<Rightarrow> False)"

section \<open>Operations\<close>

definition rpmsg_umt_unbind :: "nat \<Rightarrow> umt_world \<Rightarrow> umt_world" where
  "rpmsg_umt_unbind h w =
     (case uw_heap w h of
        None \<Rightarrow> w\<lparr>uw_fault := True\<rparr>
      | Some svc \<Rightarrow>
          let i = us_instance_id svc in
          if us_shared svc = None \<or> \<not> sem_close (us_sem_user_to_micad svc) \<or> \<not> sem_close (us_sem_micad_to_user svc)
          then w\<lparr>uw_fault := True\<rparr>
          else w\<lparr>uw_list := remove1 h (uw_list w), uw_epts := remove1 h (uw_epts w),
                 uw_mapped := remove1 (the (us_shared svc)) (uw_mapped w),
                 uw_names := filter (\<lambda>n. n \<notin> set (umt_names i)) (uw_names w),
                 uw_heap := (uw_heap w)(h := Some (svc\<lparr>us_active := 0,
                   us_sem_user_to_micad := Sem_closed (sem_name SEM_USER_TO_MICAD i),
                   us_sem_micad_to_user := Sem_closed (sem_name SEM_MICAD_TO_USER i)\<rparr>))\<rparr>)"

text \<open>A message shorter than an int is read past its end.\<close>

definition rpmsg_rx_umt_callback :: "u8 list \<Rightarrow> process_shared_data \<Rightarrow> nat \<Rightarrow> (process_shared_data \<times> nat) outcome" where
  "rpmsg_rx_umt_callback data shared sem =
     (if length data < 4 then Fault
      else Ret (shared\<lparr>ps_rcv_data_len := sint (of_nat (le_nat (take 4 data)) :: u32)\<rparr>, sem + 1))"

text \<open>
  The send thread: each element is the shared data it finds after the semaphore was posted and
  whether the service is still active afterwards.
\<close>

fun rpmsg_umt_tx_task :: "(process_shared_data \<times> bool) list \<Rightarrow> (u64 \<times> int) list \<Rightarrow> (u64 \<times> int) list outcome" where
  "rpmsg_umt_tx_task [] sent = Spinning"
| "rpmsg_umt_tx_task ((shared, active) # obs) sent =
     (let sent = sent @ [(ps_phy_addr shared, ps_data_len shared)] in
      if active then rpmsg_umt_tx_task obs sent else Ret sent)"

text \<open>The failure path \<open>free_ept\<close>: semaphores that were never opened, or closed before, are closed.\<close>

definition umt_free_ept :: "nat \<Rightarrow> rpmsg_umt_service \<Rightarrow> umt_world \<Rightarrow> umt_world" where
  "umt_free_ept h svc w =
     (let bad = (\<lambda>p. p \<noteq> Sem_failed \<and> \<not> sem_close p) in
      w\<lparr>uw_epts := remove1 h (uw_epts w), uw_list := remove1 h (uw_list w),
        uw_mapped := (case us_shared svc of None \<Rightarrow> uw_mapped w | Some a \<Rightarrow> remove1 a (uw_mapped w)),
        uw_heap := (uw_heap w)(h := None),
        uw_fault := (uw_fault w \<or> bad (us_sem_micad_to_user svc) \<or> bad (us_sem_user_to_micad svc))\<rparr>)"

definition umt_service_init :: "umt_env \<Rightarrow> umt_world \<Rightarrow> umt_world" where
  "umt_service_init env w =
     (if \<not> ue_malloc env \<or> ue_create_ept env \<noteq> 0 then w
      else
        let h = uw_next w;
            svc = \<lparr>us_instance_id = 0, us_active = 0, us_sem_user_to_micad = Sem_uninit, us_sem_micad_to_user = Sem_uninit, us_shared = None\<rparr>;
            w = w\<lparr>uw_next := h + 1, uw_epts := h # uw_epts w, uw_list := uw_list w @ [h], uw_heap := (uw_heap w)(h := Some svc),
                   uw_sent := uw_sent w @ [(0, 32)]\<rparr> in
        case fst (init_process_shared_memory (ue_pshm env) []) of
          None \<Rightarrow> umt_free_ept h svc w
        | Some a \<Rightarrow>
            let svc = svc\<lparr>us_shared := Some a\<rparr>;
                w = w\<lparr>uw_mapped := a # uw_mapped w, uw_names := List.insert (sem_name SHM_NAME 0) (uw_names w)\<rparr> in
            case create_sem (ue_sem_open env) 0 (us_sem_user_to_micad svc, us_sem_micad_to_user svc) of (ret, user, micad) \<Rightarrow>
              let svc = svc\<lparr>us_sem_user_to_micad := user, us_sem_micad_to_user := micad\<rparr>;
                  w = w\<lparr>uw_names := (if micad = Sem_open (sem_name SEM_MICAD_TO_USER 0) then List.insert (sem_name SEM_MICAD_TO_USER 0) else id)
                         ((if user \<noteq> Sem_failed then List.insert (sem_name SEM_USER_TO_MICAD 0) else id) (uw_names w))\<rparr> in
              if ret \<noteq> 0 \<or> ue_pthread_create env \<noteq> 0 \<or> ue_pthread_detach env \<noteq> 0 then umt_free_ept h svc w
              else w\<lparr>uw_heap := (uw_heap w)(h := Some svc), uw_threads := h # uw_threads w\<rparr>)"

definition umt_name_match :: "string \<Rightarrow> bool" where
  "umt_name_match name \<longleftrightarrow> cstr name = RPMSG_UMT_NAME"

text \<open>
  The loop that removes the service stops at the first entry with instance 0; at any other entry it
  steps back to the previous node and meets the same entry again.
\<close>

definition remove_umt_service :: "umt_world \<Rightarrow> umt_world outcome" where
  "remove_umt_service w =
     (case uw_list w of
        [] \<Rightarrow> Ret w
      | h # hs \<Rightarrow>
          (case uw_heap w h of
             None \<Rightarrow> Fault
           | Some svc \<Rightarrow> if us_instance_id svc = 0 then Ret (rpmsg_umt_unbind h w) else Spinning))"

definition rpmsg_umt_service_ops :: "(umt_world \<Rightarrow> umt_env) \<Rightarrow> umt_world mica_service" where
  "rpmsg_umt_service_ops env = \<lparr>ms_name = RPMSG_UMT_NAME, ms_init = None,
     ms_remove = Some (\<lambda>w. case remove_umt_service w of Ret w' \<Rightarrow> w' | _ \<Rightarrow> w\<lparr>uw_fault := True\<rparr>),
     ms_rpmsg_ns_match = Some (\<lambda>name addr dest. umt_name_match name),
     ms_rpmsg_ns_bind_cb = Some (\<lambda>name addr dest w. umt_service_init (env w) w), ms_get_match_device = None\<rparr>"

definition create_rpmsg_umt_service ::
  "(umt_world \<Rightarrow> rpmsg_endpoint list) \<Rightarrow> bool \<Rightarrow> (umt_world \<Rightarrow> umt_env) \<Rightarrow> umt_world svc_state \<Rightarrow> int \<times> umt_world svc_state" where
  "create_rpmsg_umt_service endpoints malloc_ok env st = mica_register_service endpoints malloc_ok st (rpmsg_umt_service_ops env)"

section \<open>Invariant\<close>

text \<open>Every listed service is alive, serves instance 0 and holds its memory and its open semaphores.\<close>

definition umt_svc_ok :: "rpmsg_umt_service \<Rightarrow> bool" where
  "umt_svc_ok svc \<longleftrightarrow> us_instance_id svc = 0 \<and> us_shared svc \<noteq> None
     \<and> sem_close (us_sem_user_to_micad svc) \<and> sem_close (us_sem_micad_to_user svc)"

definition umt_world_inv :: "umt_world \<Rightarrow> bool" where
  "umt_world_inv w \<longleftrightarrow> distinct (uw_list w)
     \<and> (\<forall>h \<in> set (uw_list w). h < uw_next w \<and> (\<exists>svc. uw_heap w h = Some svc \<and> umt_svc_ok svc))"

lemma umt_world_inv_drop:
  assumes "umt_world_inv w" "uw_list w' = remove1 h (uw_list w)" "\<And>k. k \<noteq> h \<Longrightarrow> uw_heap w' k = uw_heap w k" "uw_next w' = uw_next w"
  shows "umt_world_inv w'"
  using assms unfolding umt_world_inv_def by (auto dest: in_set_remove1 [THEN iffD1, rotated])

lemma umt_service_init_inv:
  assumes "umt_world_inv w"
  shows "umt_world_inv (umt_service_init env w)"
proof -
  let ?h = "uw_next w"
  have fresh: "?h \<notin> set (uw_list w)" using assms by (auto simp: umt_world_inv_def)
  have keep: "umt_world_inv w'"
    if "uw_list w' = uw_list w" "\<And>k. k \<noteq> ?h \<Longrightarrow> uw_heap w' k = uw_heap w k" "uw_next w' = Suc ?h" for w'
    using that assms fresh unfolding umt_world_inv_def by (fastforce intro: less_SucI)
  have add: "umt_world_inv w'"
    if "uw_list w' = uw_list w @ [?h]" "uw_heap w' = (uw_heap w)(?h := Some svc)" "uw_next w' = Suc ?h" "umt_svc_ok svc" for w' svc
    using that assms fresh unfolding umt_world_inv_def by (fastforce intro: less_SucI)
  have rem: "remove1 ?h (uw_list w @ [?h]) = uw_list w" using fresh by (simp add: remove1_append)
  show ?thesis
  proof (cases "ue_malloc env \<and> ue_create_ept env = 0")
    case False
    then show ?thesis using assms by (auto simp: umt_service_init_def)
  next
    case True
    show ?thesis
    proof (cases "fst (init_process_shared_memory (ue_pshm env) [])")
      case None
      show ?thesis by (rule keep) (use True None rem in \<open>simp_all add: umt_service_init_def umt_free_ept_def Let_def\<close>)
    next
      case (Some a)
      obtain ret user micad where c: "create_sem (ue_sem_open env) 0 (Sem_uninit, Sem_uninit) = (ret, user, micad)"
        by (metis prod_cases3)
      show ?thesis
      proof (cases "ret \<noteq> 0 \<or> ue_pthread_create env \<noteq> 0 \<or> ue_pthread_detach env \<noteq> 0")
        case fail: True
        show ?thesis by (rule keep) (use True Some rem c fail in \<open>simp_all add: umt_service_init_def umt_free_ept_def Let_def\<close>)
      next
        case ok: False
        then have "sem_close user" "sem_close micad"
          using c by (auto simp: create_sem_def sem_close_def Let_def split: if_splits)
        then show ?thesis
          by (intro add [of _ "\<lparr>us_instance_id = 0, us_active = 0, us_sem_user_to_micad = user, us_sem_micad_to_user = micad, us_shared = Some a\<rparr>"])
            (use True Some c ok in \<open>simp_all add: umt_service_init_def umt_svc_ok_def Let_def\<close>)
      qed
    qed
  qed
qed

lemma umt_unbind_ok:
  assumes "umt_world_inv w" "h \<in> set (uw_list w)"
  shows "umt_world_inv (rpmsg_umt_unbind h w) \<and> uw_fault (rpmsg_umt_unbind h w) = uw_fault w
    \<and> uw_list (rpmsg_umt_unbind h w) = remove1 h (uw_list w)"
proof -
  obtain svc where s: "uw_heap w h = Some svc" "umt_svc_ok svc" using assms by (auto simp: umt_world_inv_def)
  have "umt_world_inv (rpmsg_umt_unbind h w)"
    by (rule umt_world_inv_drop [OF assms(1), where h = h]) (use s in \<open>auto simp: rpmsg_umt_unbind_def umt_svc_ok_def Let_def\<close>)
  then show ?thesis using s by (auto simp: rpmsg_umt_unbind_def umt_svc_ok_def Let_def)
qed

lemma remove_umt_service_ok:
  assumes "umt_world_inv w"
  shows "\<exists>w'. remove_umt_service w = Ret w' \<and> umt_world_inv w' \<and> uw_fault w' = uw_fault w \<and> uw_list w' = tl (uw_list w)"
proof (cases "uw_list w")
  case Nil
  then show ?thesis using assms by (simp add: remove_umt_service_def)
next
  case (Cons h hs)
  obtain svc where s: "uw_heap w h = Some svc" "umt_svc_ok svc" using assms Cons by (auto simp: umt_world_inv_def)
  then show ?thesis using umt_unbind_ok [OF assms, of h] Cons
    by (simp add: remove_umt_service_def umt_svc_ok_def)
qed

section \<open>Properties\<close>

interpretation umt: service_contract "range rpmsg_umt_service_ops" umt_world_inv
proof unfold_locales
  fix svc f w
  assume "svc \<in> range rpmsg_umt_service_ops"
  then obtain env where e: "svc = rpmsg_umt_service_ops env" by blast
  assume i: "umt_world_inv w"
  show "ms_init svc = Some f \<Longrightarrow> umt_world_inv (f w)" by (simp add: e rpmsg_umt_service_ops_def)
  show "ms_remove svc = Some f \<Longrightarrow> umt_world_inv (f w)"
    using remove_umt_service_ok [OF i] by (auto simp: e rpmsg_umt_service_ops_def)
  show "ms_rpmsg_ns_bind_cb svc = Some b \<Longrightarrow> umt_world_inv (b name addr dest w)" for b name addr dest
    using umt_service_init_inv [OF i] by (auto simp: e rpmsg_umt_service_ops_def)
qed

definition umt_boot :: umt_world where
  "umt_boot = \<lparr>uw_list = [], uw_heap = (\<lambda>_. None), uw_next = 0, uw_epts = [], uw_mapped = [], uw_names = [], uw_sent = [],
     uw_threads = [], uw_fault = False\<rparr>"

text \<open>
  C26: The loop that removes the message service always ends: after any sequence of registrations,
  announcements and removals it meets an entry of instance 0 first, unbinds exactly the first entry
  and touches no memory or semaphore that is not held.
\<close>

theorem umt_removal_ends:
  assumes "ss_world st = umt_boot" "mc_services (ss_client st) = []"
    and "\<forall>ev \<in> set evs. registered_from (range rpmsg_umt_service_ops) ev"
  shows "let w = ss_world (registry_run endpoints mem_ok evs st) in
    \<exists>w'. remove_umt_service w = Ret w' \<and> uw_list w' = tl (uw_list w) \<and> uw_fault w' = uw_fault w"
proof -
  have "umt.client_inv st" using assms(1,2) by (simp add: umt.client_inv_def umt_world_inv_def umt_boot_def)
  then have "umt.client_inv (registry_run endpoints mem_ok evs st)"
    by (rule umt.registry_keeps) (use assms(3) in blast)
  then show ?thesis using remove_umt_service_ok by (force simp: umt.client_inv_def Let_def)
qed

definition demo_ue :: umt_env where
  "demo_ue = \<lparr>ue_malloc = True, ue_create_ept = 0, ue_pshm = \<lparr>pn_shm_open = 3, pn_ftruncate = 0, pn_mmap = Some 0x7000\<rparr>,
     ue_sem_open = (\<lambda>n. True), ue_pthread_create = 0, ue_pthread_detach = 0\<rparr>"

definition demo_umt_state :: "umt_world svc_state" where
  "demo_umt_state = \<lparr>ss_client = \<lparr>mc_debug = False, mc_gdb_server_thread = False, mc_path = ''fw.elf'',
       mc_ped_cfg = '''', mc_cpu_id = 3, mc_ped = BARE_METAL,
       mc_rproc = \<lparr>rp_state = RPROC_RUNNING, rp_rsc_table = None, rp_rsc_len = 0, rp_bitmap = 0, rp_bootaddr = 0, rp_mems = []\<rparr>,
       mc_phys_shmem_start = 0, mc_shmem_size = 0, mc_virt_shmem_start = 0, mc_virt_shmem_end = 0,
       mc_unused_shmem_start = 0, mc_vdev_shpool = None, mc_rdev = None, mc_rbuf_dev = None, mc_services = []\<rparr>,
     ss_remote_ept_list = [], ss_world = umt_boot\<rparr>"

theorem umt_removal_ends_witness:
  "let w = ss_world (registry_run (\<lambda>w. []) (\<lambda>r. True)
        [Ev_register (rpmsg_umt_service_ops (\<lambda>w. demo_ue)) True, Ev_announce ''rpmsg-umt'' 7] demo_umt_state)
   in uw_list w = [0] \<and> (\<exists>w'. remove_umt_service w = Ret w' \<and> uw_list w' = [])"
proof -
  let ?evs = "[Ev_register (rpmsg_umt_service_ops (\<lambda>w. demo_ue)) True, Ev_announce ''rpmsg-umt'' 7]"
  have e: "uw_list (ss_world (registry_run (\<lambda>w. []) (\<lambda>r. True) ?evs demo_umt_state)) = [0]"
    by (simp add: mica_register_service_def mica_ns_bind_cb_def client_rsc_update_def rpmsg_umt_service_ops_def
        umt_name_match_def cstr_def umt_service_init_def init_process_shared_memory_def create_sem_def
        demo_ue_def demo_umt_state_def umt_boot_def Let_def)
  have "ss_world demo_umt_state = umt_boot" "mc_services (ss_client demo_umt_state) = []"
    by (simp_all add: demo_umt_state_def)
  moreover have "\<forall>ev \<in> set ?evs. registered_from (range rpmsg_umt_service_ops) ev" by (simp add: registered_from_def)
  ultimately show ?thesis
    using umt_removal_ends [of demo_umt_state ?evs "\<lambda>w. []" "\<lambda>r. True"] e unfolding Let_def by auto
qed

text \<open>When the shared memory cannot be set up, semaphores that were never opened are closed.\<close>

lemma umt_init_closes_uninit:
  "uw_fault (umt_service_init (demo_ue\<lparr>ue_pshm := \<lparr>pn_shm_open = - 1, pn_ftruncate = 0, pn_mmap = None\<rparr>\<rparr>) umt_boot)"
  by (simp add: umt_service_init_def umt_free_ept_def init_process_shared_memory_def demo_ue_def umt_boot_def sem_close_def Let_def)

text \<open>
  The list is shared by all clients: removing the services of one client unbinds the entry that was
  added first, whichever client it belongs to.
\<close>

lemma umt_removes_first:
  assumes "umt_world_inv w" "uw_list w = h # hs"
  shows "\<exists>w'. remove_umt_service w = Ret w' \<and> uw_list w' = hs"
  using remove_umt_service_ok [OF assms(1)] assms(2) by auto

end
