(* ===== verification/Socket_Listener.thy ===== *)
theory Socket_Listener
  imports Mica_Lifecycle C_Format "HOL-Library.Multiset"
begin

text \<open>
  The control sockets of the daemon (\<open>micad/socket_listener.c\<close>): one socket that accepts
  requests to create a client and one control socket for every client. System calls are the record
  \<open>sl_env\<close>; the objects of the daemon, its descriptors and the files of its socket directory are
  the record \<open>sl\<close>. Reading past the end of a string that is not terminated is \<open>Fault\<close>.
\<close>

section \<open>State\<close>

abbreviation MAX_NAME_LEN :: nat where "MAX_NAME_LEN \<equiv> 32"
abbreviation MAX_FIRMWARE_PATH_LEN :: nat where "MAX_FIRMWARE_PATH_LEN \<equiv> 128"
abbreviation CTRL_MSG_SIZE :: nat where "CTRL_MSG_SIZE \<equiv> 32"
abbreviation RESPONSE_MSG_SIZE :: nat where "RESPONSE_MSG_SIZE \<equiv> 256"
abbreviation MICA_MSG_SUCCESS :: string where "MICA_MSG_SUCCESS \<equiv> ''MICA-SUCCESS''"
abbreviation MICA_MSG_FAILED :: string where "MICA_MSG_FAILED \<equiv> ''MICA-FAILED''"

datatype listener_cb = Create_mica_client | Client_ctrl_handler

record listen_unit =
  lu_name :: string
  lu_socket_fd :: int
  lu_socket_path :: string
  lu_cb :: listener_cb
  lu_client :: "nat option"

text \<open>The arrays of a message keep all their bytes.\<close>

record create_msg =
  cm_cpu :: u32
  cm_name :: string
  cm_path :: string
  cm_ped :: string
  cm_ped_cfg :: string
  cm_debug :: bool

text \<open>
  The clients are an allocated object each; what the services of all clients act on, and the list of
  waiting endpoints, is global. \<open>sl_dangling\<close> are clients that were freed while the library still
  had them in its list.
\<close>

record 'w sl =
  sl_units :: "listen_unit list"
  sl_clients :: "nat \<Rightarrow> 'w mica_state option"
  sl_next :: nat
  sl_dangling :: "nat list"
  sl_world :: 'w
  sl_remote_epts :: "remote_ept list"
  sl_open_fds :: "int list"
  sl_epoll :: "int list"
  sl_files :: "string list"
  sl_listening :: bool
  sl_created :: bool

record 'w daemon_services =
  ds_debug :: "'w mica_service"
  ds_tty :: "'w mica_service"
  ds_rpc :: "'w mica_service"
  ds_umt :: "'w mica_service"

record 'w sl_env =
  se_oa :: "'w openamp"
  se_menv :: mica_env
  se_services :: "'w daemon_services"
  se_endpoints :: "'w \<Rightarrow> rpmsg_endpoint list"
  se_reg_malloc :: bool
  se_log_malloc :: bool
  se_calloc_unit :: bool
  se_socket :: int
  se_bind_ok :: bool
  se_listen :: int
  se_epoll_add :: int
  se_epoll_del :: int
  se_accept :: int
  se_recv :: "u8 list option"
  se_stack :: "u8 list"
  se_access :: "string \<Rightarrow> bool"
  se_nproc :: int
  se_calloc_client :: bool
  se_rings :: "u64 \<Rightarrow> ring_buffer"

definition sl_close :: "int \<Rightarrow> 'w sl \<Rightarrow> 'w sl" where
  "sl_close fd s = s\<lparr>sl_open_fds := remove1 fd (sl_open_fds s), sl_epoll := removeAll fd (sl_epoll s)\<rparr>"

definition sl_unlink :: "string \<Rightarrow> 'w sl \<Rightarrow> 'w sl" where
  "sl_unlink path s = s\<lparr>sl_files := removeAll path (sl_files s)\<rparr>"

definition free_client :: "nat option \<Rightarrow> 'w sl \<Rightarrow> 'w sl" where
  "free_client c s =
     (case c of
        None \<Rightarrow> s
      | Some h \<Rightarrow>
          let listed = (case sl_clients s h of None \<Rightarrow> False | Some st \<Rightarrow> mt_listed st) in
          s\<lparr>sl_clients := (sl_clients s)(h := None), sl_dangling := (if listed then h # sl_dangling s else sl_dangling s)\<rparr>)"

text \<open>The messages sent on a connection; nothing is sent when the buffer cannot be allocated.\<close>

definition send_log :: "'w sl_env \<Rightarrow> string \<Rightarrow> string list" where
  "send_log env msg = (if se_log_malloc env then [msg] else [])"

definition terminated :: "string \<Rightarrow> bool" where
  "terminated buf \<longleftrightarrow> NUL \<in> set buf"

section \<open>Listeners\<close>

definition free_unit :: "listen_unit \<Rightarrow> 'w sl \<Rightarrow> 'w sl" where
  "free_unit u s = sl_unlink (lu_socket_path u) (sl_close (lu_socket_fd u) (free_client (lu_client u) s))"

fun free_by_name :: "string \<Rightarrow> listen_unit list \<Rightarrow> 'w sl \<Rightarrow> listen_unit list \<times> 'w sl" where
  "free_by_name name [] s = ([], s)"
| "free_by_name name (u # us) s =
     (if strncmp_eq MAX_NAME_LEN name (lu_name u) then (us, free_unit u s)
      else case free_by_name name us s of (us', s') \<Rightarrow> (u # us', s'))"

definition free_listener_by_name :: "string \<Rightarrow> 'w sl \<Rightarrow> 'w sl" where
  "free_listener_by_name name s = (case free_by_name name (sl_units s) s of (us, s') \<Rightarrow> s'\<lparr>sl_units := us\<rparr>)"

fun free_units :: "listen_unit list \<Rightarrow> 'w sl \<Rightarrow> 'w sl" where
  "free_units [] s = s\<lparr>sl_units := []\<rparr>"
| "free_units (u # us) s = free_units us (free_unit u s)"

definition free_all_listeners :: "'w sl \<Rightarrow> 'w sl" where
  "free_all_listeners s = free_units (sl_units s) s"

definition socket_path :: "string \<Rightarrow> string" where
  "socket_path name = take 63 (''/run/mica/'' @ name @ ''.socket'')"

definition add_listener :: "'w sl_env \<Rightarrow> string \<Rightarrow> nat option \<Rightarrow> listener_cb \<Rightarrow> 'w sl \<Rightarrow> (int \<times> 'w sl) outcome" where
  "add_listener env name client cb s =
     (if \<not> se_calloc_unit env then Ret (- ENOMEM, s)
      else if length name \<ge> MAX_NAME_LEN \<and> \<not> terminated (take MAX_NAME_LEN name) then Fault
      else
        let nm = strlcpy_buf MAX_NAME_LEN name; path = socket_path nm; fd = se_socket env in
        if fd < 0 then Ret (- 1, s)
        else
          let s = s\<lparr>sl_open_fds := fd # sl_open_fds s\<rparr>; undo = (\<lambda>s. sl_unlink path (sl_close fd s)) in
          if \<not> se_bind_ok env \<or> path \<in> set (sl_files s) then Ret (- 1, undo s)
          else
            let s = s\<lparr>sl_files := path # sl_files s\<rparr> in
            if se_listen env < 0 then Ret (se_listen env, undo s)
            else if se_epoll_add env < 0 then Ret (se_epoll_add env, undo s)
            else Ret (0, s\<lparr>sl_epoll := fd # sl_epoll s,
              sl_units := sl_units s @ [\<lparr>lu_name = nm, lu_socket_fd = fd, lu_socket_path = path, lu_cb = cb, lu_client = client\<rparr>]\<rparr>))"

section \<open>Control of a client\<close>

definition load_client :: "'w sl \<Rightarrow> 'w mica_state \<Rightarrow> 'w mica_state" where
  "load_client s st = st\<lparr>mt_svc := (mt_svc st)\<lparr>ss_world := sl_world s, ss_remote_ept_list := sl_remote_epts s\<rparr>\<rparr>"

definition store_client :: "nat \<Rightarrow> 'w mica_state \<Rightarrow> 'w sl \<Rightarrow> 'w sl" where
  "store_client h st s = s\<lparr>sl_clients := (sl_clients s)(h := Some st), sl_world := ss_world (mt_svc st),
     sl_remote_epts := ss_remote_ept_list (mt_svc st)\<rparr>"

definition register_on :: "'w sl_env \<Rightarrow> 'w mica_service \<Rightarrow> 'w mica_state \<Rightarrow> int \<times> 'w mica_state" where
  "register_on env svc st =
     (case mica_register_service (se_endpoints env) (se_reg_malloc env) (mt_svc st) svc of (ret, svcs) \<Rightarrow> (ret, st\<lparr>mt_svc := svcs\<rparr>))"

fun register_seq :: "'w sl_env \<Rightarrow> 'w mica_service list \<Rightarrow> 'w mica_state \<Rightarrow> int \<times> 'w mica_state" where
  "register_seq env [] st = (0, st)"
| "register_seq env (svc # svcs) st =
     (case register_on env svc st of (ret, st) \<Rightarrow> if ret \<noteq> 0 then (ret, st) else register_seq env svcs st)"

definition start_command :: "'w sl_env \<Rightarrow> 'w mica_state \<Rightarrow> int \<times> 'w mica_state" where
  "start_command env st =
     (case mica_start (se_oa env) (se_menv env) st of (ret, st) \<Rightarrow>
        if ret \<noteq> 0 then (ret, st)
        else register_seq env ((if mc_debug (mt_client st) then [ds_debug (se_services env)] else [])
          @ [ds_tty (se_services env), ds_rpc (se_services env), ds_umt (se_services env)]) st)"

text \<open>\<open>%s\<close> of a null pointer prints \<open>(null)\<close>; the CPU number is printed as an int.\<close>

definition show_status :: "'w sl_env \<Rightarrow> listen_unit \<Rightarrow> 'w mica_state \<Rightarrow> (string list \<times> 'w mica_state) outcome" where
  "show_status env u st =
     (case mica_status (se_oa env) st of
        Ret (status, st) \<Rightarrow>
          let buffer = mica_print_service st RESPONSE_MSG_SIZE '''';
              response = take (RESPONSE_MSG_SIZE * 2 - 1)
                (pad_right 30 (lu_name u) @ pad_right 20 (dec_int (sint (mc_cpu_id (mt_client st))))
                 @ pad_right 20 (case status of None \<Rightarrow> ''(null)'' | Some x \<Rightarrow> x) @ buffer)
          in Ret (send_log env response, st)
      | Fault \<Rightarrow> Fault | Spinning \<Rightarrow> Spinning)"

definition start_gdb_client :: "'w sl_env \<Rightarrow> 'w mica_state \<Rightarrow> int \<times> string list" where
  "start_gdb_client env st =
     (if \<not> mc_debug (mt_client st)
      then (- 1, send_log env (''The elf file does not support debugging'' @ [CHR 0x0A]))
      else (0, send_log env (take (RESPONSE_MSG_SIZE - 1) (''gdb '' @ mc_path (mt_client st)
        @ '' -ex '' @ [CHR 0x27] @ ''set remotetimeout unlimited'' @ [CHR 0x27]
        @ '' -ex '' @ [CHR 0x27] @ ''target extended-remote :5678'' @ [CHR 0x27]
        @ '' -ex '' @ [CHR 0x27] @ ''set remote run-packet off'' @ [CHR 0x27]))))"

definition ctrl_msg :: "u8 list \<Rightarrow> string" where
  "ctrl_msg data = take CTRL_MSG_SIZE (chars data @ replicate CTRL_MSG_SIZE NUL)"

definition is_cmd :: "string \<Rightarrow> string \<Rightarrow> bool" where
  "is_cmd msg cmd = strncmp_eq CTRL_MSG_SIZE msg cmd"

text \<open>
  The commands: the result, the messages sent before the final one, the client, and whether the
  handler jumps to its error exit.
\<close>

definition ctrl_command ::
  "'w sl_env \<Rightarrow> listen_unit \<Rightarrow> string \<Rightarrow> int \<Rightarrow> 'w mica_state \<Rightarrow> (int \<times> string list \<times> 'w mica_state \<times> bool) outcome" where
  "ctrl_command env u msg n st =
     (if is_cmd msg ''start'' then
        (case start_command env st of (ret, st) \<Rightarrow> Ret (ret, [], st, ret \<noteq> 0))
      else if is_cmd msg ''stop'' then
        (case mica_stop (se_oa env) st of Ret st \<Rightarrow> Ret (n, [], st, False) | Fault \<Rightarrow> Fault | Spinning \<Rightarrow> Spinning)
      else if is_cmd msg ''rm'' then
        if se_epoll_del env < 0 then Ret (se_epoll_del env, [], st, True)
        else (case mica_remove (se_oa env) st of Ret st \<Rightarrow> Ret (se_epoll_del env, [], st, False) | Fault \<Rightarrow> Fault | Spinning \<Rightarrow> Spinning)
      else if is_cmd msg ''status'' then
        (case show_status env u st of Ret (out, st) \<Rightarrow> Ret (n, out, st, False) | Fault \<Rightarrow> Fault | Spinning \<Rightarrow> Spinning)
      else if is_cmd msg ''gdb'' then
        (case start_gdb_client env st of (ret, out) \<Rightarrow> Ret (ret, out, st, ret = - 1))
      else if \<not> terminated msg then Fault
      else Ret (n, send_log env (''Invalid command: '' @ cstr msg), st, True))"

definition client_ctrl_handler :: "'w sl_env \<Rightarrow> listen_unit \<Rightarrow> 'w sl \<Rightarrow> (int \<times> string list \<times> 'w sl) outcome" where
  "client_ctrl_handler env u s =
     (let msg_fd = se_accept env in
      if msg_fd = - 1 then Ret (- 1, [], s)
      else
        let s = s\<lparr>sl_open_fds := msg_fd # sl_open_fds s\<rparr> in
        case se_recv env of
          None \<Rightarrow> Ret (- 1, send_log env MICA_MSG_FAILED, sl_close msg_fd s)
        | Some data \<Rightarrow>
            let msg = ctrl_msg data in
            (case lu_client u of
               None \<Rightarrow> Fault
             | Some h \<Rightarrow>
                 (case sl_clients s h of
                    None \<Rightarrow> Fault
                  | Some st \<Rightarrow>
                      (case ctrl_command env u msg (int (min (length data) CTRL_MSG_SIZE)) (load_client s st) of
                         Ret (ret, out, st, err) \<Rightarrow>
                           let s = store_client h st s;
                               s = (if is_cmd msg ''rm'' \<and> \<not> err then s\<lparr>sl_epoll := removeAll (lu_socket_fd u) (sl_epoll s)\<rparr> else s) in
                           if err then Ret (ret, out @ send_log env MICA_MSG_FAILED, sl_close msg_fd s)
                           else
                             let s = sl_close msg_fd s in
                             Ret (0, out @ send_log env MICA_MSG_SUCCESS,
                               if is_cmd msg ''rm'' then free_listener_by_name (lu_name u) s else s)
                       | Fault \<Rightarrow> Fault | Spinning \<Rightarrow> Spinning))))"

section \<open>Creation of a client\<close>

definition slice :: "nat \<Rightarrow> nat \<Rightarrow> 'a list \<Rightarrow> 'a list" where
  "slice i n xs = take n (drop i xs)"

text \<open>The layout of the message, 328 bytes with padding; what is not received is what the stack held.\<close>

definition decode_create_msg :: "u8 list \<Rightarrow> create_msg" where
  "decode_create_msg bs = \<lparr>cm_cpu = of_nat (le_nat (slice 0 4 bs)), cm_name = chars (slice 4 32 bs), cm_path = chars (slice 36 128 bs),
     cm_ped = chars (slice 164 32 bs), cm_ped_cfg = chars (slice 196 128 bs), cm_debug = (bs ! 324 \<noteq> 0)\<rparr>"

definition recv_create_msg :: "u8 list \<Rightarrow> u8 list \<Rightarrow> create_msg" where
  "recv_create_msg stack data = decode_create_msg (take 328 data @ drop (length data) stack)"

definition check_create_msg :: "'w sl_env \<Rightarrow> 'w sl \<Rightarrow> create_msg \<Rightarrow> (int \<times> string list) outcome" where
  "check_create_msg env s msg =
     (if \<not> terminated (cm_path msg) then Fault
      else if \<not> se_access env (cstr (cm_path msg)) then Ret (- EINVAL, send_log env (''No such file: '' @ cstr (cm_path msg)))
      else if uint (cm_cpu msg) \<ge> se_nproc env
      then Ret (- EINVAL, send_log env (''Invalid CPUID: '' @ dec_int (sint (cm_cpu msg)) @ '', out of range(0-'' @ dec_int (se_nproc env - 1) @ '')''))
      else if \<exists>u \<in> set (sl_units s). strncmp_eq MAX_NAME_LEN (cm_name msg) (lu_name u)
      then Ret (- EINVAL, send_log env (cstr (cm_name msg) @ '' is already created''))
      else Ret (0, []))"

definition zero_client :: "'s mica_client" where
  "zero_client = \<lparr>mc_debug = False, mc_gdb_server_thread = False, mc_path = '''', mc_ped_cfg = '''', mc_cpu_id = 0, mc_ped = BARE_METAL,
     mc_rproc = \<lparr>rp_state = RPROC_OFFLINE, rp_rsc_table = None, rp_rsc_len = 0, rp_bitmap = 0, rp_bootaddr = 0, rp_mems = []\<rparr>,
     mc_phys_shmem_start = 0, mc_shmem_size = 0, mc_virt_shmem_start = 0, mc_virt_shmem_end = 0, mc_unused_shmem_start = 0,
     mc_vdev_shpool = None, mc_rdev = None, mc_rbuf_dev = None, mc_services = []\<rparr>"

definition new_client :: "'w sl_env \<Rightarrow> 'w sl \<Rightarrow> create_msg \<Rightarrow> 'w mica_state" where
  "new_client env s msg =
     \<lparr>mt_svc = \<lparr>ss_client = zero_client\<lparr>mc_cpu_id := cm_cpu msg, mc_path := strlcpy_buf MAX_FIRMWARE_PATH_LEN (cm_path msg),
          mc_ped := (if cstr (cm_ped msg) = ''jailhouse'' then JAILHOUSE else BARE_METAL),
          mc_ped_cfg := strlcpy_buf MAX_FIRMWARE_PATH_LEN (cm_ped_cfg msg), mc_debug := cm_debug msg\<rparr>,
        ss_remote_ept_list = sl_remote_epts s, ss_world = sl_world s\<rparr>,
      mt_rings = se_rings env, mt_rbuf_live = False, mt_rpmsg_vdev_live = False, mt_virtio = False, mt_listed = False, mt_gdb_running = False\<rparr>"

text \<open>The body of \<open>create_mica_client\<close> between the received message and the reply.\<close>

definition create_from_msg :: "'w sl_env \<Rightarrow> create_msg \<Rightarrow> 'w sl \<Rightarrow> (int \<times> string list \<times> 'w sl) outcome" where
  "create_from_msg env msg s =
     (case check_create_msg env s msg of
        Ret (ret, out) \<Rightarrow>
          if ret < 0 then Ret (ret, out, s)
          else if \<not> se_calloc_client env then Ret (- ENOMEM, out, s)
          else if \<not> terminated (cm_ped_cfg msg) then Fault
          else
            let h = sl_next s; s = s\<lparr>sl_next := h + 1\<rparr> in
            (case mica_create (se_oa env) (new_client env s msg) of (ret, st) \<Rightarrow>
               let s = store_client h st s in
               if ret < 0 then Ret (ret, out, free_client (Some h) s)
               else
                 (case add_listener env (cm_name msg) (Some h) Client_ctrl_handler s of
                    Ret (ret, s) \<Rightarrow> if ret < 0 then Ret (ret, out, free_client (Some h) s) else Ret (ret, out, s)
                  | Fault \<Rightarrow> Fault | Spinning \<Rightarrow> Spinning))
      | Fault \<Rightarrow> Fault | Spinning \<Rightarrow> Spinning)"

definition create_mica_client :: "'w sl_env \<Rightarrow> 'w sl \<Rightarrow> (int \<times> string list \<times> 'w sl) outcome" where
  "create_mica_client env s =
     (let msg_fd = se_accept env in
      if msg_fd = - 1 then Ret (- 1, [], s)
      else
        let s = s\<lparr>sl_open_fds := msg_fd # sl_open_fds s\<rparr> in
        case se_recv env of
          None \<Rightarrow> Ret (- 1, send_log env MICA_MSG_FAILED, sl_close msg_fd s)
        | Some data \<Rightarrow>
            (case create_from_msg env (recv_create_msg (se_stack env) data) s of
               Ret (ret, out, s) \<Rightarrow>
                 Ret (ret, out @ send_log env (if ret \<noteq> 0 then MICA_MSG_FAILED else MICA_MSG_SUCCESS), sl_close msg_fd s)
             | Fault \<Rightarrow> Fault | Spinning \<Rightarrow> Spinning))"

section \<open>The event loop\<close>

definition dispatch :: "'w sl_env \<Rightarrow> int \<Rightarrow> 'w sl \<Rightarrow> (int \<times> string list \<times> 'w sl) outcome" where
  "dispatch env fd s =
     (case find (\<lambda>u. lu_socket_fd u = fd) (sl_units s) of
        None \<Rightarrow> Fault
      | Some u \<Rightarrow> (case lu_cb u of Create_mica_client \<Rightarrow> create_mica_client env s | Client_ctrl_handler \<Rightarrow> client_ctrl_handler env u s))"

text \<open>The events that \<open>epoll_wait\<close> reports, in order; the loop ends when listening is switched off.\<close>

fun event_loop :: "('w sl_env \<times> int) list \<Rightarrow> 'w sl \<Rightarrow> 'w sl outcome" where
  "event_loop [] s = Ret s"
| "event_loop ((env, fd) # evs) s =
     (if \<not> sl_listening s then Ret s
      else case dispatch env fd s of Ret (ret, out, s) \<Rightarrow> event_loop evs s | Fault \<Rightarrow> Fault | Spinning \<Rightarrow> Spinning)"

definition wait_create_msg :: "'w sl_env \<Rightarrow> int \<Rightarrow> 'w sl \<Rightarrow> 'w sl outcome" where
  "wait_create_msg env epoll_fd s =
     (if epoll_fd = - 1 then Ret (s\<lparr>sl_created := True\<rparr>)
      else case add_listener env ''mica-create'' None Create_mica_client s of
          Ret (ret, s) \<Rightarrow> if ret < 0 then Ret (s\<lparr>sl_created := True\<rparr>) else Ret (s\<lparr>sl_listening := True, sl_created := True\<rparr>)
        | Fault \<Rightarrow> Fault | Spinning \<Rightarrow> Spinning)"

text \<open>\<open>mkdir_ok\<close>: the directory was created or exists.\<close>

definition register_socket_listener ::
  "'w sl_env \<Rightarrow> bool \<Rightarrow> int \<Rightarrow> int \<Rightarrow> int \<Rightarrow> 'w sl \<Rightarrow> (int \<times> 'w sl) outcome" where
  "register_socket_listener env mkdir_ok pthread_create pthread_detach epoll_fd s =
     (let s = s\<lparr>sl_files := []\<rparr> in
      if \<not> mkdir_ok then Ret (- 1, s)
      else if pthread_create \<noteq> 0 then Ret (pthread_create, s)
      else if pthread_detach \<noteq> 0 then Ret (pthread_detach, s)
      else case wait_create_msg env epoll_fd s of
          Ret s \<Rightarrow> Ret (if sl_listening s then 0 else - 1, s) | Fault \<Rightarrow> Fault | Spinning \<Rightarrow> Spinning)"

definition unregister_socket_listener :: "'w sl \<Rightarrow> 'w sl" where
  "unregister_socket_listener s = (free_all_listeners (s\<lparr>sl_listening := False\<rparr>))\<lparr>sl_files := []\<rparr>"

section \<open>Invariant\<close>

definition unit_ok :: "listen_unit \<Rightarrow> bool" where
  "unit_ok u \<longleftrightarrow> length (lu_name u) < MAX_NAME_LEN \<and> NUL \<notin> set (lu_name u) \<and> lu_socket_path u = socket_path (lu_name u)"

definition handles :: "listen_unit list \<Rightarrow> nat list" where
  "handles us = List.map_filter lu_client us"

text \<open>
  Listeners have names, descriptors and clients of their own; the socket files, the open descriptors
  and the watched descriptors are exactly theirs, apart from the connections \<open>E\<close> being served.
\<close>

definition sl_inv :: "int multiset \<Rightarrow> 'w sl \<Rightarrow> bool" where
  "sl_inv E s \<longleftrightarrow>
     distinct (map lu_name (sl_units s)) \<and> (\<forall>u \<in> set (sl_units s). unit_ok u)
     \<and> mset (sl_open_fds s) = E + mset (map lu_socket_fd (sl_units s)) \<and> distinct (sl_open_fds s)
     \<and> set (sl_epoll s) = lu_socket_fd ` set (sl_units s)
     \<and> set (sl_files s) = lu_socket_path ` set (sl_units s)
     \<and> distinct (handles (sl_units s)) \<and> (\<forall>h \<in> set (handles (sl_units s)). sl_clients s h \<noteq> None)
     \<and> (\<forall>h. sl_clients s h \<noteq> None \<longrightarrow> h < sl_next s)"

lemma handles_simps [simp]:
  "handles [] = []" "handles (us @ vs) = handles us @ handles vs"
  "handles (u # us) = (case lu_client u of None \<Rightarrow> handles us | Some h \<Rightarrow> h # handles us)"
  by (simp_all add: handles_def List.map_filter_def split: option.splits)

lemma handles_iff: "h \<in> set (handles us) \<longleftrightarrow> (\<exists>u \<in> set us. lu_client u = Some h)"
  by (induction us) (auto split: option.splits)

lemma socket_path_inj:
  assumes "length a < MAX_NAME_LEN" "length b < MAX_NAME_LEN" "socket_path a = socket_path b"
  shows "a = b"
proof -
  have "take 63 (''/run/mica/'' @ x @ ''.socket'') = ''/run/mica/'' @ x @ ''.socket''" if "length x < MAX_NAME_LEN" for x :: string
    using that by (intro take_all) simp
  then show ?thesis using assms by (simp add: socket_path_def)
qed

lemma strncmp_eq_names:
  assumes "length a < n" "length b < n" "NUL \<notin> set a" "NUL \<notin> set b"
  shows "strncmp_eq n a b \<longleftrightarrow> a = b"
  using assms by (simp add: strncmp_eq_def cstr_id)

lemma sl_frame [simp]:
  "sl_units (sl_close fd s) = sl_units s" "sl_clients (sl_close fd s) = sl_clients s" "sl_next (sl_close fd s) = sl_next s"
  "sl_files (sl_close fd s) = sl_files s"
  "sl_units (sl_unlink p s) = sl_units s" "sl_clients (sl_unlink p s) = sl_clients s" "sl_next (sl_unlink p s) = sl_next s"
  "sl_open_fds (sl_unlink p s) = sl_open_fds s" "sl_epoll (sl_unlink p s) = sl_epoll s"
  "sl_units (free_client c s) = sl_units s" "sl_next (free_client c s) = sl_next s" "sl_files (free_client c s) = sl_files s"
  "sl_open_fds (free_client c s) = sl_open_fds s" "sl_epoll (free_client c s) = sl_epoll s"
  "sl_units (store_client h st s) = sl_units s" "sl_next (store_client h st s) = sl_next s" "sl_files (store_client h st s) = sl_files s"
  "sl_open_fds (store_client h st s) = sl_open_fds s" "sl_epoll (store_client h st s) = sl_epoll s"
  "sl_clients (store_client h st s) = (sl_clients s)(h := Some st)"
  by (simp_all add: sl_close_def sl_unlink_def free_client_def store_client_def Let_def split: option.splits)

lemma free_client_clients: "sl_clients (free_client c s) h = (if c = Some h then None else sl_clients s h)"
  by (simp add: free_client_def Let_def split: option.splits)

text \<open>Opening and closing a connection.\<close>

lemma sl_inv_open:
  assumes "sl_inv {#} s" "fd \<notin> set (sl_open_fds s)"
  shows "sl_inv {#fd#} (s\<lparr>sl_open_fds := fd # sl_open_fds s\<rparr>)"
  using assms by (simp add: sl_inv_def)

lemma sl_inv_close:
  assumes "sl_inv {#fd#} s"
  shows "sl_inv {#} (sl_close fd s)"
proof -
  have m: "mset (sl_open_fds s) = {#fd#} + mset (map lu_socket_fd (sl_units s))" and d: "distinct (sl_open_fds s)"
    using assms by (simp_all add: sl_inv_def)
  have "fd \<notin> set (map lu_socket_fd (sl_units s))"
  proof
    assume a: "fd \<in> set (map lu_socket_fd (sl_units s))"
    then have "2 \<le> count (mset (sl_open_fds s)) fd" unfolding m by (simp add: count_mset_gt_0 Suc_le_eq)
    moreover have "count (mset (sl_open_fds s)) fd \<le> 1" using d by (simp add: distinct_count_atmost_1)
    ultimately show False by simp
  qed
  then show ?thesis using assms by (auto simp: sl_inv_def sl_close_def)
qed

lemma sl_inv_fds: "sl_inv E s \<Longrightarrow> u \<in> set (sl_units s) \<Longrightarrow> lu_socket_fd u \<in> set (sl_open_fds s)"
proof -
  assume a: "sl_inv E s" "u \<in> set (sl_units s)"
  then have "lu_socket_fd u \<in># mset (sl_open_fds s)" by (auto simp: sl_inv_def)
  then show ?thesis by simp
qed

lemma add_listener_inv:
  assumes "sl_inv E s" "add_listener env name client cb s = Ret (ret, s')"
    and "se_socket env \<notin> set (sl_open_fds s)"
    and "strlcpy_buf MAX_NAME_LEN name \<notin> lu_name ` set (sl_units s)"
    and "\<And>h. client = Some h \<Longrightarrow> h \<notin> set (handles (sl_units s)) \<and> sl_clients s h \<noteq> None"
  shows "sl_inv E s' \<and> sl_clients s' = sl_clients s \<and> sl_next s' = sl_next s
    \<and> (ret < 0 \<longrightarrow> sl_units s' = sl_units s) \<and> ret \<le> 0
    \<and> (ret = 0 \<longrightarrow> (\<exists>fd. sl_units s' = sl_units s @ [\<lparr>lu_name = strlcpy_buf MAX_NAME_LEN name, lu_socket_fd = fd,
          lu_socket_path = socket_path (strlcpy_buf MAX_NAME_LEN name), lu_cb = cb, lu_client = client\<rparr>]))"
proof -
  let ?nm = "strlcpy_buf MAX_NAME_LEN name" and ?fd = "se_socket env"
  let ?path = "socket_path ?nm"
  have len: "length ?nm < MAX_NAME_LEN" "NUL \<notin> set ?nm"
    using length_strlcpy_buf [of MAX_NAME_LEN name] cstr_no_NUL [of name] by (auto simp: strlcpy_buf_def dest: in_set_takeD)
  have path: "?path \<notin> set (sl_files s)"
  proof
    assume "?path \<in> set (sl_files s)"
    then obtain u where u: "u \<in> set (sl_units s)" "?path = socket_path (lu_name u)" "length (lu_name u) < MAX_NAME_LEN"
      using assms(1) by (auto simp: sl_inv_def unit_ok_def)
    then have "?nm = lu_name u" using socket_path_inj len by blast
    then show False using assms(4) u by blast
  qed
  have ep: "?fd \<notin> set (sl_epoll s)" using assms(1,3) sl_inv_fds [OF assms(1)] by (auto simp: sl_inv_def)
  have undo: "sl_unlink ?path (sl_close ?fd (s\<lparr>sl_open_fds := ?fd # sl_open_fds s, sl_files := fs\<rparr>)) = s"
    if "fs = sl_files s \<or> fs = ?path # sl_files s" for fs
    using that path ep by (auto simp: sl_unlink_def sl_close_def)
  have undo1: "sl_unlink ?path (sl_close ?fd (s\<lparr>sl_open_fds := ?fd # sl_open_fds s\<rparr>)) = s"
    using path ep by (simp add: sl_unlink_def sl_close_def)
  have cases: "(ret < 0 \<and> s' = s) \<or> (ret = 0 \<and> s' = s\<lparr>sl_open_fds := ?fd # sl_open_fds s, sl_files := ?path # sl_files s,
      sl_epoll := ?fd # sl_epoll s, sl_units := sl_units s @ [\<lparr>lu_name = ?nm, lu_socket_fd = ?fd, lu_socket_path = ?path, lu_cb = cb, lu_client = client\<rparr>]\<rparr>)"
    using assms(2) path undo undo1 by (auto simp: add_listener_def Let_def split: if_splits)
  have ok: "sl_inv E (s\<lparr>sl_open_fds := ?fd # sl_open_fds s, sl_files := ?path # sl_files s,
      sl_epoll := ?fd # sl_epoll s, sl_units := sl_units s @ [\<lparr>lu_name = ?nm, lu_socket_fd = ?fd, lu_socket_path = ?path, lu_cb = cb, lu_client = client\<rparr>]\<rparr>)"
    using assms(1,3,4,5) len by (auto simp: sl_inv_def unit_ok_def split: option.splits)
  show ?thesis using cases ok assms(1) by auto
qed

lemma free_by_name_split:
  assumes "free_by_name name us s = (us', s')"
  shows "(\<exists>xs u ys. us = xs @ u # ys \<and> us' = xs @ ys \<and> s' = free_unit u s \<and> strncmp_eq MAX_NAME_LEN name (lu_name u))
    \<or> (us' = us \<and> s' = s \<and> (\<forall>u \<in> set us. \<not> strncmp_eq MAX_NAME_LEN name (lu_name u)))"
  using assms
proof (induction us arbitrary: us')
  case (Cons u us)
  show ?case
  proof (cases "strncmp_eq MAX_NAME_LEN name (lu_name u)")
    case True
    then show ?thesis using Cons.prems by (intro disjI1 exI [of _ "[]"]) auto
  next
    case False
    then obtain vs where v: "free_by_name name us s = (vs, s')" "us' = u # vs" using Cons.prems by (auto split: prod.splits)
    from Cons.IH [OF v(1)] show ?thesis
    proof
      assume "\<exists>xs w ys. us = xs @ w # ys \<and> vs = xs @ ys \<and> s' = free_unit w s \<and> strncmp_eq MAX_NAME_LEN name (lu_name w)"
      then obtain xs w ys where "us = xs @ w # ys" "vs = xs @ ys" "s' = free_unit w s" "strncmp_eq MAX_NAME_LEN name (lu_name w)"
        by blast
      then show ?thesis using v(2) by (intro disjI1 exI [of _ "u # xs"] exI [of _ w] exI [of _ ys]) simp
    qed (use v(2) False in auto)
  qed
qed simp

lemma free_unit_inv:
  assumes "sl_inv {#} s" "sl_units s = xs @ u # ys"
  shows "sl_inv {#} ((free_unit u s)\<lparr>sl_units := xs @ ys\<rparr>)"
proof -
  have d: "distinct (sl_open_fds s)" "mset (sl_open_fds s) = mset (map lu_socket_fd (xs @ u # ys))"
    using assms by (simp_all add: sl_inv_def)
  then have df: "distinct (map lu_socket_fd (xs @ u # ys))" by (metis mset_eq_imp_distinct_iff)
  then have f: "lu_socket_fd u \<notin> lu_socket_fd ` set (xs @ ys)" by auto
  have n: "lu_name u \<notin> lu_name ` set (xs @ ys)" using assms by (auto simp: sl_inv_def)
  have p: "lu_socket_path u \<notin> lu_socket_path ` set (xs @ ys)"
  proof
    assume "lu_socket_path u \<in> lu_socket_path ` set (xs @ ys)"
    then obtain v where v: "v \<in> set (xs @ ys)" "lu_socket_path v = lu_socket_path u" by (metis imageE)
    then have "lu_name v = lu_name u" using assms socket_path_inj by (auto simp: sl_inv_def unit_ok_def)
    then show False using n v(1) by (metis image_eqI)
  qed
  have c: "\<forall>h \<in> set (handles (xs @ ys)). lu_client u \<noteq> Some h" using assms by (auto simp: sl_inv_def split: option.splits)
  have m: "mset (remove1 (lu_socket_fd u) (sl_open_fds s)) = mset (map lu_socket_fd (xs @ ys))" using d(2) by simp
  show ?thesis unfolding sl_inv_def
  proof (intro conjI)
    show "set (sl_files (free_unit u s\<lparr>sl_units := xs @ ys\<rparr>)) = lu_socket_path ` set (sl_units (free_unit u s\<lparr>sl_units := xs @ ys\<rparr>))"
      using assms p by (auto simp: sl_inv_def free_unit_def sl_unlink_def)
    show "set (sl_epoll (free_unit u s\<lparr>sl_units := xs @ ys\<rparr>)) = lu_socket_fd ` set (sl_units (free_unit u s\<lparr>sl_units := xs @ ys\<rparr>))"
      using assms f by (auto simp: sl_inv_def free_unit_def sl_close_def)
    show "mset (sl_open_fds (free_unit u s\<lparr>sl_units := xs @ ys\<rparr>)) = {#} + mset (map lu_socket_fd (sl_units (free_unit u s\<lparr>sl_units := xs @ ys\<rparr>)))"
      using m by (simp add: free_unit_def sl_close_def)
  qed (use assms c d(1) in \<open>auto simp: sl_inv_def free_unit_def sl_close_def free_client_clients split: option.splits\<close>)
qed

lemma free_listener_by_name_inv:
  assumes "sl_inv {#} s"
  shows "sl_inv {#} (free_listener_by_name name s)"
proof -
  obtain us s' where f: "free_by_name name (sl_units s) s = (us, s')" by force
  from free_by_name_split [OF f] show ?thesis
    using assms free_unit_inv by (auto simp: free_listener_by_name_def f)
qed

text \<open>Removing a listener of the list by its name removes it and no other.\<close>

lemma free_listener_unit:
  assumes "sl_inv E s" "u \<in> set (sl_units s)"
  obtains xs ys where "sl_units s = xs @ u # ys"
    "\<And>t :: 'w sl. sl_units t = sl_units s \<Longrightarrow> free_listener_by_name (lu_name u) t = (free_unit u t)\<lparr>sl_units := xs @ ys\<rparr>"
proof -
  have d: "distinct (map lu_name (sl_units s))" using assms(1) by (simp add: sl_inv_def)
  have eq: "strncmp_eq MAX_NAME_LEN (lu_name u) (lu_name v) \<longleftrightarrow> v = u" if "v \<in> set (sl_units s)" for v
    using strncmp_eq_names [of "lu_name u" MAX_NAME_LEN "lu_name v"] assms that d
    by (auto simp: sl_inv_def unit_ok_def distinct_map inj_on_def)
  obtain xs ys where x: "sl_units s = xs @ u # ys" using assms(2) by (meson split_list)
  have nx: "u \<notin> set xs" using d x by auto
  have run: "free_by_name (lu_name u) (zs @ u # ys) t = (zs @ ys, free_unit u t)"
    if "set zs \<subseteq> set xs" for zs and t :: "'w sl"
    using that eq x nx by (induction zs) auto
  show thesis by (rule that [OF x]) (simp add: free_listener_by_name_def x run)
qed

lemma free_listener_by_name_units:
  assumes "sl_inv E s" "u \<in> set (sl_units s)"
  shows "sl_units (free_listener_by_name (lu_name u) s) = filter (\<lambda>v. lu_name v \<noteq> lu_name u) (sl_units s)"
proof -
  obtain xs ys where x: "sl_units s = xs @ u # ys"
      "\<And>t :: 'a sl. sl_units t = sl_units s \<Longrightarrow> free_listener_by_name (lu_name u) t = (free_unit u t)\<lparr>sl_units := xs @ ys\<rparr>"
    using free_listener_unit [OF assms] by metis
  have d: "distinct (map lu_name (sl_units s))" using assms(1) by (simp add: sl_inv_def)
  have "filter (\<lambda>v. lu_name v \<noteq> lu_name u) zs = zs" if "lu_name u \<notin> lu_name ` set zs" for zs
  proof -
    have "\<forall>v \<in> set zs. lu_name v \<noteq> lu_name u" using that by (metis imageI)
    then show ?thesis by simp
  qed
  from this [of xs] this [of ys] show ?thesis using d x by simp
qed

lemma sl_inv_store:
  assumes "sl_inv E s" "sl_clients s h \<noteq> None"
  shows "sl_inv E (store_client h st s)"
  using assms by (auto simp: sl_inv_def)

lemma sl_inv_cong:
  "sl_units s' = sl_units s \<Longrightarrow> sl_open_fds s' = sl_open_fds s \<Longrightarrow> sl_epoll s' = sl_epoll s \<Longrightarrow> sl_files s' = sl_files s
    \<Longrightarrow> sl_clients s' = sl_clients s \<Longrightarrow> sl_next s' = sl_next s \<Longrightarrow> sl_inv E s' = sl_inv E s"
  by (simp add: sl_inv_def)

lemma sl_inv_free_unused:
  assumes "sl_inv E s" "h \<notin> set (handles (sl_units s))"
  shows "sl_inv E (free_client (Some h) s)"
  using assms by (auto simp: sl_inv_def free_client_clients)

lemma cstr_terminated: "terminated buf \<Longrightarrow> length (cstr buf) < length buf"
  unfolding terminated_def cstr_def by (induction buf) auto

lemma check_create_msg_0:
  assumes "check_create_msg env s msg = Ret (ret, out)" "\<not> ret < 0" "\<forall>u \<in> set (sl_units s). unit_ok u"
  shows "terminated (cm_name msg) \<Longrightarrow> length (cm_name msg) \<le> MAX_NAME_LEN \<Longrightarrow>
    ret = 0 \<and> strlcpy_buf MAX_NAME_LEN (cm_name msg) \<notin> lu_name ` set (sl_units s)"
proof -
  assume t: "terminated (cm_name msg)" "length (cm_name msg) \<le> MAX_NAME_LEN"
  have r: "ret = 0" "\<forall>u \<in> set (sl_units s). \<not> strncmp_eq MAX_NAME_LEN (cm_name msg) (lu_name u)"
    using assms(1,2) by (auto simp: check_create_msg_def split: if_splits)
  have l: "length (cstr (cm_name msg)) < MAX_NAME_LEN" using cstr_terminated [OF t(1)] t(2) by simp
  then have n: "strlcpy_buf MAX_NAME_LEN (cm_name msg) = cstr (cm_name msg)" by (simp add: strlcpy_buf_def)
  have "strncmp_eq MAX_NAME_LEN (cm_name msg) (lu_name u) \<longleftrightarrow> cstr (cm_name msg) = lu_name u" if "u \<in> set (sl_units s)" for u
    using assms(3) that l by (auto simp: strncmp_eq_def unit_ok_def cstr_id)
  then show ?thesis using r n by auto
qed

text \<open>A name that is not terminated within its array cannot be served.\<close>

lemma add_listener_terminated:
  assumes "add_listener env name client cb s = Ret (ret, s')" "length name = MAX_NAME_LEN"
  shows "\<not> se_calloc_unit env \<or> terminated name"
  using assms by (auto simp: add_listener_def split: if_splits)

lemma create_from_msg_inv:
  assumes "sl_inv E s" "create_from_msg env msg s = Ret (ret, out, s')" "length (cm_name msg) = MAX_NAME_LEN"
    and "se_socket env \<notin> set (sl_open_fds s)"
  shows "sl_inv E s'"
proof -
  obtain r o1 where c: "check_create_msg env s msg = Ret (r, o1)"
    using assms(2) by (cases "check_create_msg env s msg") (auto simp: create_from_msg_def)
  show ?thesis
  proof (cases "r < 0 \<or> \<not> se_calloc_client env")
    case True
    then show ?thesis using assms(1,2) c by (auto simp: create_from_msg_def split: if_splits)
  next
    case False
    let ?h = "sl_next s" and ?s1 = "s\<lparr>sl_next := sl_next s + 1\<rparr>"
    obtain r2 st where m: "mica_create (se_oa env) (new_client env ?s1 msg) = (r2, st)" by force
    let ?s2 = "store_client ?h st ?s1"
    have fresh: "sl_clients s ?h = None" using assms(1) by (auto simp: sl_inv_def)
    then have nh: "?h \<notin> set (handles (sl_units s))" using assms(1) by (auto simp: sl_inv_def)
    have i2: "sl_inv E ?s2" using assms(1) by (auto simp: sl_inv_def less_Suc_eq)
    show ?thesis
    proof (cases "r2 < 0")
      case True
      then have "s' = free_client (Some ?h) ?s2" using assms(2) c m False by (auto simp: create_from_msg_def Let_def split: if_splits)
      then show ?thesis using sl_inv_free_unused [OF i2] nh by simp
    next
      case r2: False
      obtain r3 s3 where a: "add_listener env (cm_name msg) (Some ?h) Client_ctrl_handler ?s2 = Ret (r3, s3)"
        using assms(2) c m False r2
        by (cases "add_listener env (cm_name msg) (Some ?h) Client_ctrl_handler ?s2") (auto simp: create_from_msg_def Let_def split: if_splits)
      have s': "s' = (if r3 < 0 then free_client (Some ?h) s3 else s3)"
        using assms(2) c m False r2 a by (auto simp: create_from_msg_def Let_def split: if_splits)
      show ?thesis
      proof (cases "se_calloc_unit env")
        case nocalloc: False
        then have "s3 = ?s2" "r3 = - ENOMEM" using a by (simp_all add: add_listener_def)
        then show ?thesis using s' sl_inv_free_unused [OF i2] nh by simp
      next
        case True
        then have t: "terminated (cm_name msg)" using add_listener_terminated [OF a assms(3)] by simp
        have "\<forall>u \<in> set (sl_units s). unit_ok u" using assms(1) by (simp add: sl_inv_def)
        then have nn: "strlcpy_buf MAX_NAME_LEN (cm_name msg) \<notin> lu_name ` set (sl_units s)"
          using check_create_msg_0 [OF c] False t assms(3) by simp
        note l = add_listener_inv [OF i2 a]
        have l: "sl_inv E s3" "r3 < 0 \<longrightarrow> sl_units s3 = sl_units s"
          using l nn nh assms(4) by simp_all
        then show ?thesis using s' sl_inv_free_unused [OF l(1)] nh by auto
      qed
    qed
  qed
qed

lemma create_mica_client_inv:
  assumes "sl_inv {#} s" "create_mica_client env s = Ret (ret, out, s')" "length (se_stack env) = 328"
    and "se_accept env \<notin> set (sl_open_fds s)" "se_socket env \<notin> set (sl_open_fds s)" "se_socket env \<noteq> se_accept env"
  shows "sl_inv {#} s'"
proof (cases "se_accept env = - 1")
  case True
  then show ?thesis using assms(1,2) by (simp add: create_mica_client_def)
next
  case False
  let ?fd = "se_accept env" and ?s1 = "s\<lparr>sl_open_fds := se_accept env # sl_open_fds s\<rparr>"
  have i1: "sl_inv {#?fd#} ?s1" by (rule sl_inv_open [OF assms(1,4)])
  show ?thesis
  proof (cases "se_recv env")
    case None
    then show ?thesis using assms(2) False sl_inv_close [OF i1] by (simp add: create_mica_client_def Let_def)
  next
    case (Some data)
    let ?msg = "recv_create_msg (se_stack env) data"
    obtain r o1 s2 where c: "create_from_msg env ?msg ?s1 = Ret (r, o1, s2)" "s' = sl_close ?fd s2"
      using assms(2) False Some by (cases "create_from_msg env ?msg ?s1") (auto simp: create_mica_client_def Let_def)
    have "length (cm_name ?msg) = MAX_NAME_LEN"
      using assms(3) by (simp add: recv_create_msg_def decode_create_msg_def slice_def chars_def)
    then have "sl_inv {#?fd#} s2" by (rule create_from_msg_inv [OF i1 c(1)]) (use assms(5,6) in simp)
    then show ?thesis using c(2) sl_inv_close by simp
  qed
qed

lemma client_ctrl_handler_inv:
  assumes "sl_inv {#} s" "client_ctrl_handler env u s = Ret (ret, out, s')" "u \<in> set (sl_units s)"
    and "se_accept env \<notin> set (sl_open_fds s)"
  shows "sl_inv {#} s'"
proof (cases "se_accept env = - 1")
  case True
  then show ?thesis using assms(1,2) by (simp add: client_ctrl_handler_def)
next
  case False
  let ?fd = "se_accept env" and ?s1 = "s\<lparr>sl_open_fds := se_accept env # sl_open_fds s\<rparr>"
  have i1: "sl_inv {#?fd#} ?s1" by (rule sl_inv_open [OF assms(1,4)])
  show ?thesis
  proof (cases "se_recv env")
    case None
    then show ?thesis using assms(2) False sl_inv_close [OF i1] by (simp add: client_ctrl_handler_def Let_def)
  next
    case (Some data)
    obtain h st where h: "lu_client u = Some h" "sl_clients s h = Some st"
      using assms(2) False Some by (auto simp: client_ctrl_handler_def Let_def split: option.splits)
    let ?cmd = "ctrl_command env u (ctrl_msg data) (int (min (length data) CTRL_MSG_SIZE)) (load_client ?s1 st)"
    obtain r o1 st' err where c: "?cmd = Ret (r, o1, st', err)"
      using assms(2) False Some h by (cases ?cmd) (auto simp: client_ctrl_handler_def Let_def)
    have i2: "sl_inv {#?fd#} (store_client h st' ?s1)" using sl_inv_store [OF i1] h by simp
    then have i3: "sl_inv {#} (sl_close ?fd (store_client h st' ?s1))" by (rule sl_inv_close)
    show ?thesis
    proof (cases "is_cmd (ctrl_msg data) ''rm'' \<and> \<not> err")
      case False
      then show ?thesis using assms(2) \<open>se_accept env \<noteq> - 1\<close> Some h c i3
        by (auto simp: client_ctrl_handler_def Let_def split: if_splits)
    next
      case True
      let ?s2 = "store_client h st' ?s1"
      define s3 where "s3 = sl_close ?fd (?s2\<lparr>sl_epoll := removeAll (lu_socket_fd u) (sl_epoll ?s2)\<rparr>)"
      have s': "s' = free_listener_by_name (lu_name u) s3"
        using assms(2) \<open>se_accept env \<noteq> - 1\<close> Some h c True by (simp add: client_ctrl_handler_def Let_def s3_def)
      obtain xs ys where x: "sl_units s = xs @ u # ys"
          "\<And>t :: 'a sl. sl_units t = sl_units s \<Longrightarrow> free_listener_by_name (lu_name u) t = (free_unit u t)\<lparr>sl_units := xs @ ys\<rparr>"
        using free_listener_unit [OF assms(1,3)] by metis
      have "free_unit u s3 = free_unit u (sl_close ?fd ?s2)"
        by (simp add: free_unit_def s3_def sl_close_def free_client_def sl_unlink_def removeAll_filter_not_eq conj_commute split: option.splits)
      then have "s' = (free_unit u (sl_close ?fd ?s2))\<lparr>sl_units := xs @ ys\<rparr>"
        using s' x(2) [of s3] by (simp add: s3_def)
      then show ?thesis using free_unit_inv [OF i3, of xs u ys] x(1) by simp
    qed
  qed
qed

section \<open>Runs of the daemon\<close>

text \<open>The kernel hands out descriptors that are not in use.\<close>

definition fresh_fds :: "'w sl_env \<Rightarrow> 'w sl \<Rightarrow> bool" where
  "fresh_fds env s \<longleftrightarrow> se_accept env \<notin> set (sl_open_fds s) \<and> se_socket env \<notin> set (sl_open_fds s) \<and> se_socket env \<noteq> se_accept env
     \<and> length (se_stack env) = 328"

inductive sl_step :: "'w sl \<Rightarrow> 'w sl \<Rightarrow> bool" where
  serve: "sl_listening s \<Longrightarrow> fresh_fds env s \<Longrightarrow> dispatch env fd s = Ret (ret, out, s') \<Longrightarrow> sl_step s s'"

lemma dispatch_inv:
  assumes "sl_inv {#} s" "fresh_fds env s" "dispatch env fd s = Ret (ret, out, s')"
  shows "sl_inv {#} s'"
proof -
  obtain u where u: "find (\<lambda>u. lu_socket_fd u = fd) (sl_units s) = Some u"
    using assms(3) by (auto simp: dispatch_def split: option.splits)
  then have m: "u \<in> set (sl_units s)" by (auto simp: find_Some_iff)
  show ?thesis
  proof (cases "lu_cb u")
    case Create_mica_client
    then have "create_mica_client env s = Ret (ret, out, s')" using assms(3) u by (simp add: dispatch_def)
    then show ?thesis by (rule create_mica_client_inv [OF assms(1)]) (use assms(2) in \<open>auto simp: fresh_fds_def\<close>)
  next
    case Client_ctrl_handler
    then have "client_ctrl_handler env u s = Ret (ret, out, s')" using assms(3) u by (simp add: dispatch_def)
    then show ?thesis by (rule client_ctrl_handler_inv [OF assms(1) _ m]) (use assms(2) in \<open>auto simp: fresh_fds_def\<close>)
  qed
qed

lemma sl_reach_inv: "sl_step\<^sup>*\<^sup>* s s' \<Longrightarrow> sl_inv {#} s \<Longrightarrow> sl_inv {#} s'"
  by (induction rule: rtranclp_induct) (auto elim!: sl_step.cases intro: dispatch_inv)

definition sl_boot :: "'w \<Rightarrow> 'w sl" where
  "sl_boot w = \<lparr>sl_units = [], sl_clients = (\<lambda>_. None), sl_next = 0, sl_dangling = [], sl_world = w, sl_remote_epts = [],
     sl_open_fds = [], sl_epoll = [], sl_files = [], sl_listening = False, sl_created = False\<rparr>"

lemma register_inv:
  assumes "register_socket_listener env mk pc pd ep (sl_boot w) = Ret (0, s)"
  shows "sl_inv {#} s \<and> sl_listening s"
proof -
  let ?b = "sl_boot w\<lparr>sl_files := []\<rparr>"
  have b: "sl_inv {#} ?b" by (simp add: sl_inv_def sl_boot_def)
  obtain t where t: "wait_create_msg env ep ?b = Ret t" "s = t" "sl_listening t"
    using assms by (auto simp: register_socket_listener_def Let_def split: if_splits outcome.splits)
  then obtain r s1 where a: "add_listener env ''mica-create'' None Create_mica_client ?b = Ret (r, s1)"
      "s = s1\<lparr>sl_listening := True, sl_created := True\<rparr>"
    by (cases "add_listener env ''mica-create'' None Create_mica_client ?b")
      (auto simp: wait_create_msg_def sl_boot_def add_listener_def Let_def sl_close_def sl_unlink_def split: if_splits)
  have "sl_inv {#} s1" using add_listener_inv [OF b a(1)] by (simp add: sl_boot_def)
  then show ?thesis using a(2) sl_inv_cong [of s s1] by simp
qed

lemma free_units_units: "free_units us (s\<lparr>sl_units := xs\<rparr>) = free_units us s"
proof (induction us arbitrary: s)
  case (Cons u us)
  have "free_unit u (s\<lparr>sl_units := xs\<rparr>) = (free_unit u s)\<lparr>sl_units := xs\<rparr>"
    by (simp add: free_unit_def free_client_def sl_close_def sl_unlink_def Let_def split: option.splits)
  then show ?case using Cons by simp
qed simp

lemma free_units_all:
  "sl_inv {#} s \<Longrightarrow> sl_inv {#} (free_units (sl_units s) s) \<and> sl_units (free_units (sl_units s) s) = []"
proof (induction "sl_units s" arbitrary: s)
  case Nil
  then show ?case using Nil.hyps [symmetric] by (simp add: sl_inv_def)
next
  case (Cons u us)
  let ?t = "(free_unit u s)\<lparr>sl_units := us\<rparr>"
  have e: "free_units us (free_unit u s) = free_units us ?t" by (simp only: free_units_units)
  have "sl_inv {#} ?t" using free_unit_inv [OF Cons.prems, of "[]" u us] Cons.hyps(2) by simp
  then show ?case using Cons.hyps(1) [of ?t] Cons.hyps(2) [symmetric] by (simp add: e)
qed

section \<open>Properties\<close>

text \<open>
  C6: In every state the daemon reaches by serving connections, the listeners have distinct names,
  socket files and descriptors and live clients of their own; the files in the socket directory and
  the open descriptors are exactly theirs, so no connection, descriptor or file is leaked.
\<close>

theorem listeners_consistent:
  assumes "register_socket_listener env mk pc pd ep (sl_boot w) = Ret (0, s0)" "sl_step\<^sup>*\<^sup>* s0 s"
  shows "distinct (map lu_name (sl_units s)) \<and> set (sl_files s) = (socket_path \<circ> lu_name) ` set (sl_units s)
    \<and> mset (sl_open_fds s) = mset (map lu_socket_fd (sl_units s)) \<and> distinct (map lu_socket_fd (sl_units s))
    \<and> set (sl_epoll s) = lu_socket_fd ` set (sl_units s)
    \<and> distinct (handles (sl_units s)) \<and> (\<forall>u \<in> set (sl_units s). \<forall>h. lu_client u = Some h \<longrightarrow> sl_clients s h \<noteq> None)"
proof -
  have i: "sl_inv {#} s" using sl_reach_inv [OF assms(2)] register_inv [OF assms(1)] by blast
  have "lu_socket_path ` set (sl_units s) = (socket_path \<circ> lu_name) ` set (sl_units s)"
    using i by (intro image_cong) (auto simp: sl_inv_def unit_ok_def)
  moreover have "distinct (map lu_socket_fd (sl_units s))" using i by (metis add_cancel_left_left mset_eq_imp_distinct_iff sl_inv_def)
  ultimately show ?thesis using i by (auto simp: sl_inv_def handles_iff)
qed

definition demo_sl_env :: "nat sl_env" where
  "demo_sl_env = \<lparr>se_oa = demo_oa, se_menv = demo_menv, se_services = \<lparr>ds_debug = demo_svc, ds_tty = demo_svc, ds_rpc = demo_svc, ds_umt = demo_svc\<rparr>,
     se_endpoints = (\<lambda>w. []), se_reg_malloc = True, se_log_malloc = True, se_calloc_unit = True, se_socket = 4, se_bind_ok = True,
     se_listen = 0, se_epoll_add = 0, se_epoll_del = 0, se_accept = 5, se_recv = Some (bytes ''rm''), se_stack = replicate 328 0,
     se_access = (\<lambda>p. True), se_nproc = 4, se_calloc_client = True, se_rings = mt_rings demo_mica\<rparr>"

lemma demo_register:
  "\<exists>s0. register_socket_listener demo_sl_env True 0 0 3 (sl_boot (0 :: nat)) = Ret (0, s0) \<and> map lu_name (sl_units s0) = [''mica-create'']
    \<and> sl_open_fds s0 = [4]"
  by (simp add: register_socket_listener_def wait_create_msg_def add_listener_def demo_sl_env_def sl_boot_def strlcpy_buf_def cstr_def Let_def)

theorem listeners_consistent_witness:
  "\<exists>s0. register_socket_listener demo_sl_env True 0 0 3 (sl_boot (0 :: nat)) = Ret (0, s0)
    \<and> set (sl_files s0) = {socket_path ''mica-create''} \<and> sl_open_fds s0 = [4]"
proof -
  obtain s0 where s0: "register_socket_listener demo_sl_env True 0 0 3 (sl_boot (0 :: nat)) = Ret (0, s0)"
      "map lu_name (sl_units s0) = [''mica-create'']" "sl_open_fds s0 = [4]"
    using demo_register by (elim exE conjE) (rule that)
  have "lu_name ` set (sl_units s0) = set [''mica-create'']" unfolding s0(2) [symmetric] by simp
  then have "(socket_path \<circ> lu_name) ` set (sl_units s0) = {socket_path ''mica-create''}"
    unfolding image_comp [symmetric] by simp
  moreover have "set (sl_files s0) = (socket_path \<circ> lu_name) ` set (sl_units s0)"
    using listeners_consistent [OF s0(1) rtranclp.rtrancl_refl] by blast
  ultimately have "set (sl_files s0) = {socket_path ''mica-create''}" by (rule trans [rotated])
  then show ?thesis by (intro exI [of _ s0] conjI s0(1,3))
qed

text \<open>
  Ending the daemon frees every listener and leaves no descriptor open, no file in the socket
  directory and nothing watched.
\<close>

theorem unregister_releases:
  assumes "register_socket_listener env mk pc pd ep (sl_boot w) = Ret (0, s0)" "sl_step\<^sup>*\<^sup>* s0 s"
  shows "let s' = unregister_socket_listener s in
    sl_units s' = [] \<and> sl_open_fds s' = [] \<and> sl_epoll s' = [] \<and> sl_files s' = [] \<and> \<not> sl_listening s'"
proof -
  let ?t = "s\<lparr>sl_listening := False\<rparr>"
  have "sl_inv {#} s" using sl_reach_inv [OF assms(2)] register_inv [OF assms(1)] by blast
  then have "sl_inv {#} ?t" using sl_inv_cong [of ?t s] by simp
  then have f: "sl_inv {#} (free_units (sl_units ?t) ?t)" "sl_units (free_units (sl_units ?t) ?t) = []"
    using free_units_all by blast+
  moreover have "sl_listening (free_units us t) = sl_listening t" for us and t :: "'a sl"
    by (induction us t rule: free_units.induct) (simp_all add: free_unit_def free_client_def sl_close_def sl_unlink_def Let_def split: option.splits)
  ultimately show ?thesis by (simp add: sl_inv_def unregister_socket_listener_def free_all_listeners_def Let_def)
qed

theorem unregister_releases_witness:
  "\<exists>s0. register_socket_listener demo_sl_env True 0 0 3 (sl_boot (0 :: nat)) = Ret (0, s0)
    \<and> sl_open_fds s0 = [4] \<and> sl_open_fds (unregister_socket_listener s0) = []"
proof -
  obtain s0 where s0: "register_socket_listener demo_sl_env True 0 0 3 (sl_boot (0 :: nat)) = Ret (0, s0)" "sl_open_fds s0 = [4]"
    using demo_register by blast
  then show ?thesis using unregister_releases [OF s0(1) rtranclp.rtrancl_refl] by (auto simp: Let_def)
qed

lemma cstr_ctrl_msg:
  assumes "length c < CTRL_MSG_SIZE" "NUL \<notin> set c"
  shows "cstr (ctrl_msg (bytes c)) = c" "terminated (ctrl_msg (bytes c))"
proof -
  have m: "ctrl_msg (bytes c) = c @ replicate (CTRL_MSG_SIZE - length c) NUL"
    using assms(1) by (simp add: ctrl_msg_def)
  have "CTRL_MSG_SIZE - length c = Suc (CTRL_MSG_SIZE - length c - 1)" using assms(1) by simp
  then have r: "replicate (CTRL_MSG_SIZE - length c) NUL = NUL # replicate (CTRL_MSG_SIZE - length c - 1) NUL"
    by (metis replicate_Suc)
  show "cstr (ctrl_msg (bytes c)) = c" unfolding m r cstr_def using assms(2) by (subst takeWhile_append2) auto
  show "terminated (ctrl_msg (bytes c))" unfolding m r by (simp add: terminated_def)
qed

lemma is_cmd_bytes:
  assumes "length c < CTRL_MSG_SIZE" "NUL \<notin> set c" "length cmd < CTRL_MSG_SIZE" "NUL \<notin> set cmd"
  shows "is_cmd (ctrl_msg (bytes c)) cmd \<longleftrightarrow> c = cmd"
  using assms cstr_ctrl_msg(1) [OF assms(1,2)] by (simp add: is_cmd_def strncmp_eq_def cstr_id)

text \<open>
  Removing a client through its control socket answers with success, removes its listener and no
  other, and frees the client after the library has taken it off its list.
\<close>

theorem rm_removes_listener:
  assumes "sl_inv {#} s" "u \<in> set (sl_units s)" "se_accept env \<notin> insert (- 1) (set (sl_open_fds s))" "lu_client u = Some h"
    and "se_recv env = Some (bytes ''rm'')" "se_epoll_del env = 0" "se_log_malloc env"
    and "\<And>st. mt_listed (oa_remove (se_oa env) st) = mt_listed st"
    and "client_ctrl_handler env u s = Ret (ret, out, s')"
  shows "ret = 0 \<and> out = [MICA_MSG_SUCCESS] \<and> sl_units s' = filter (\<lambda>v. lu_name v \<noteq> lu_name u) (sl_units s)
    \<and> sl_clients s' h = None \<and> sl_dangling s' = sl_dangling s"
proof -
  let ?fd = "se_accept env" and ?s1 = "s\<lparr>sl_open_fds := se_accept env # sl_open_fds s\<rparr>" and ?m = "ctrl_msg (bytes ''rm'')"
  have cmd: "is_cmd ?m cmd \<longleftrightarrow> cmd = ''rm''" if "length cmd < CTRL_MSG_SIZE" "NUL \<notin> set cmd" for cmd
    using is_cmd_bytes [OF _ _ that, of "''rm''"] by auto
  obtain st where st: "sl_clients s h = Some st"
    using assms(1,2,4) by (force simp: sl_inv_def handles_iff)
  obtain st' where st': "mica_remove (se_oa env) (load_client ?s1 st) = Ret st'"
    using assms(3-9) st cmd by (cases "mica_remove (se_oa env) (load_client ?s1 st)") (auto simp: client_ctrl_handler_def ctrl_command_def Let_def)
  have nl: "\<not> mt_listed st'" using st' assms(8) by (auto simp: mica_remove_def destory_client_def split: outcome.splits)
  define s3 where "s3 = sl_close ?fd ((store_client h st' ?s1)\<lparr>sl_epoll := removeAll (lu_socket_fd u) (sl_epoll (store_client h st' ?s1))\<rparr>)"
  have r: "ret = 0" "out = [MICA_MSG_SUCCESS]" "s' = free_listener_by_name (lu_name u) s3"
    using assms(3-9) st st' cmd by (auto simp: client_ctrl_handler_def ctrl_command_def send_log_def Let_def s3_def)
  have u3: "sl_units s3 = sl_units s" by (simp add: s3_def)
  obtain xs ys where x: "sl_units s = xs @ u # ys"
      "\<And>t :: 'a sl. sl_units t = sl_units s \<Longrightarrow> free_listener_by_name (lu_name u) t = (free_unit u t)\<lparr>sl_units := xs @ ys\<rparr>"
    using free_listener_unit [OF assms(1,2)] by metis
  have "sl_units s' = sl_units (free_listener_by_name (lu_name u) s)" using x(2) [OF u3] x(2) [of s] r(3) by simp
  then have "sl_units s' = filter (\<lambda>v. lu_name v \<noteq> lu_name u) (sl_units s)"
    using free_listener_by_name_units [OF assms(1,2)] by simp
  moreover have "s' = (free_unit u s3)\<lparr>sl_units := xs @ ys\<rparr>" using x(2) [OF u3] r(3) by simp
  then have "sl_clients s' h = None" "sl_dangling s' = sl_dangling s"
    using assms(4) nl by (simp_all add: free_unit_def free_client_clients)
      (simp add: sl_unlink_def sl_close_def free_client_def store_client_def s3_def)
  ultimately show ?thesis using r by simp
qed

definition demo_unit :: listen_unit where
  "demo_unit = \<lparr>lu_name = ''zephyr'', lu_socket_fd = 4, lu_socket_path = socket_path ''zephyr'', lu_cb = Client_ctrl_handler, lu_client = Some 0\<rparr>"

definition demo_sl :: "nat sl" where
  "demo_sl = (sl_boot 0)\<lparr>sl_units := [demo_unit], sl_clients := (\<lambda>h. if h = 0 then Some (demo_mica\<lparr>mt_svc := (mt_svc demo_mica)
       \<lparr>ss_client := zero_client\<rparr>\<rparr>) else None), sl_next := 1,
     sl_open_fds := [4], sl_epoll := [4], sl_files := [socket_path ''zephyr''], sl_listening := True\<rparr>"

theorem rm_removes_listener_witness:
  "\<exists>s'. client_ctrl_handler demo_sl_env demo_unit demo_sl = Ret (0, [MICA_MSG_SUCCESS], s') \<and> sl_units s' = [] \<and> sl_clients s' 0 = None"
proof -
  have cmd: "is_cmd (ctrl_msg (bytes ''rm'')) cmd \<longleftrightarrow> cmd = ''rm''" if "length cmd < CTRL_MSG_SIZE" "NUL \<notin> set cmd" for cmd
    using is_cmd_bytes [OF _ _ that, of "''rm''"] by auto
  obtain ret out s' where r: "client_ctrl_handler demo_sl_env demo_unit demo_sl = Ret (ret, out, s')"
    using cmd by (simp add: client_ctrl_handler_def ctrl_command_def mica_remove_def demo_sl_env_def demo_sl_def sl_boot_def demo_unit_def
        load_client_def zero_client_def Let_def)
  have i: "sl_inv {#} demo_sl" by (simp add: sl_inv_def demo_sl_def sl_boot_def demo_unit_def unit_ok_def)
  have e: "demo_unit \<in> set (sl_units demo_sl)" "se_accept demo_sl_env \<notin> insert (- 1) (set (sl_open_fds demo_sl))" "lu_client demo_unit = Some 0"
    "se_recv demo_sl_env = Some (bytes ''rm'')" "se_epoll_del demo_sl_env = 0" "se_log_malloc demo_sl_env"
    "\<And>st. mt_listed (oa_remove (se_oa demo_sl_env) st) = mt_listed st"
    by (simp_all add: demo_sl_env_def demo_sl_def demo_unit_def demo_oa_def)
  from rm_removes_listener [OF i e r] r show ?thesis by (auto simp: demo_sl_def)
qed

text \<open>
  When the control socket of a new client cannot be set up, the client is freed although the library
  still has it in its list.
\<close>

lemma create_failure_dangles:
  assumes "check_create_msg env s msg = Ret (0, [])" "se_calloc_client env" "terminated (cm_ped_cfg msg)"
    and "mica_create (se_oa env) (new_client env (s\<lparr>sl_next := sl_next s + 1\<rparr>) msg) = (0, st)" "mt_listed st" "\<not> se_calloc_unit env"
  shows "\<exists>s'. create_from_msg env msg s = Ret (- ENOMEM, [], s') \<and> sl_dangling s' = sl_next s # sl_dangling s"
  using assms by (simp add: create_from_msg_def add_listener_def free_client_def store_client_def Let_def)

end
