(* ===== verification/Micactl.thy ===== *)
theory Micactl
  imports Socket_Listener
begin

text \<open>
  The command line tool \<open>mica\<close> (\<open>micactl/mica.py\<close>) and its agreement with the daemon: the
  encoding of the creation request, the reading of the answer, and the commands. Python strings are
  strings of bytes; the parsed configuration, the file system and what arrives from a socket are
  parameters.
\<close>

section \<open>Requests\<close>

record mica_create_msg =
  pm_cpu :: int
  pm_name :: string
  pm_path :: string
  pm_ped :: string
  pm_ped_cfg :: string
  pm_debug :: bool

text \<open>\<open>struct.pack('I32s128s32s128s?')\<close>: strings are cut or filled with zero bytes.\<close>

definition pack_string :: "nat \<Rightarrow> string \<Rightarrow> u8 list" where
  "pack_string n s = take n (bytes s @ replicate n 0)"

definition pack :: "mica_create_msg \<Rightarrow> u8 list option" where
  "pack m =
     (if pm_cpu m < 0 \<or> 2 ^ 32 \<le> pm_cpu m then None
      else Some (le_bytes 4 (nat (pm_cpu m)) @ pack_string 32 (pm_name m) @ pack_string 128 (pm_path m)
        @ pack_string 32 (pm_ped m) @ pack_string 128 (pm_ped_cfg m) @ [if pm_debug m then 1 else 0]))"

section \<open>Answers\<close>

fun find_sub :: "string \<Rightarrow> string \<Rightarrow> nat option" where
  "find_sub needle [] = (if needle = [] then Some 0 else None)"
| "find_sub needle (c # cs) = (if take (length needle) (c # cs) = needle then Some 0 else map_option Suc (find_sub needle cs))"

definition py_space :: "char \<Rightarrow> bool" where
  "py_space c \<longleftrightarrow> (of_char c :: nat) \<in> {9, 10, 11, 12, 13, 28, 29, 30, 31, 32}"

definition strip :: "string \<Rightarrow> string" where
  "strip s = rev (dropWhile py_space (rev (dropWhile py_space s)))"

datatype mica_reply = Mica_failed | Mica_success | No_reply

text \<open>
  What a \<open>recv\<close> on the socket gives: bytes (none at the end of the stream), the timeout, or an
  error that is raised. A sequence that ends is one where nothing more arrives, so that the timeout passes.
\<close>

datatype arrival = Chunk string | Timeout | Recv_error

record answer =
  an_reply :: mica_reply
  an_printed :: string
  an_system :: "string option"

text \<open>
  \<open>mica_socket.recv\<close>, \<open>None\<close> when an error is raised: the answer, the text before it, which is
  printed, and the text as a command when it is run.
\<close>

fun mica_recv :: "string \<Rightarrow> arrival list \<Rightarrow> answer option" where
  "mica_recv buf [] = Some \<lparr>an_reply = No_reply, an_printed = [], an_system = None\<rparr>"
| "mica_recv buf (Timeout # arrivals) = Some \<lparr>an_reply = No_reply, an_printed = [], an_system = None\<rparr>"
| "mica_recv buf (Recv_error # arrivals) = None"
| "mica_recv buf (Chunk chunk # arrivals) =
     (let buf = buf @ chunk in
      case find_sub MICA_MSG_FAILED buf of
        Some i \<Rightarrow> Some \<lparr>an_reply = Mica_failed, an_printed = strip (take i buf), an_system = None\<rparr>
      | None \<Rightarrow>
          (case find_sub MICA_MSG_SUCCESS buf of
             Some i \<Rightarrow>
               let msg = strip (take i buf) in
               Some \<lparr>an_reply = Mica_success, an_printed = msg,
                 an_system = (if takeWhile (\<lambda>c. c \<noteq> CHR '' '') msg = ''gdb'' then Some msg else None)\<rparr>
           | None \<Rightarrow>
               if chunk = [] then Some \<lparr>an_reply = No_reply, an_printed = [], an_system = None\<rparr>
               else mica_recv buf arrivals))"

section \<open>Configuration files\<close>

text \<open>\<open>int(s)\<close>: blanks around, a sign, and digits with single underscores between them.\<close>

fun py_digits :: "bool \<Rightarrow> nat \<Rightarrow> string \<Rightarrow> nat option" where
  "py_digits digit acc [] = (if digit then Some acc else None)"
| "py_digits digit acc (c # cs) =
     (if 48 \<le> (of_char c :: nat) \<and> (of_char c :: nat) \<le> 57 then py_digits True (10 * acc + (of_char c - 48)) cs
      else if c = CHR ''_'' \<and> digit then py_digits False acc cs
      else None)"

definition py_int :: "string \<Rightarrow> int option" where
  "py_int s =
     (case strip s of
        [] \<Rightarrow> None
      | c # cs \<Rightarrow>
          if c = CHR ''-'' then map_option (\<lambda>n. - int n) (py_digits False 0 cs)
          else if c = CHR ''+'' then map_option int (py_digits False 0 cs)
          else map_option int (py_digits False 0 (c # cs)))"

definition lower :: "string \<Rightarrow> string" where
  "lower s = map (\<lambda>c. if 65 \<le> (of_char c :: nat) \<and> (of_char c :: nat) \<le> 90 then char_of ((of_char c :: nat) + 32) else c) s"

definition getboolean :: "string \<Rightarrow> bool option" where
  "getboolean s =
     (if lower s \<in> {''1'', ''yes'', ''true'', ''on''} then Some True
      else if lower s \<in> {''0'', ''no'', ''false'', ''off''} then Some False
      else None)"

record mica_config =
  cf_msg :: mica_create_msg
  cf_auto_boot :: bool

text \<open>The options of the section \<open>Mica\<close>, by their names in lower case; \<open>None\<close> is an exception.\<close>

definition option_flag :: "(string \<rightharpoonup> string) \<Rightarrow> string \<Rightarrow> bool option" where
  "option_flag section key = (case section key of None \<Rightarrow> Some False | Some v \<Rightarrow> getboolean v)"

definition parse_config :: "(string \<rightharpoonup> string) \<Rightarrow> mica_config option" where
  "parse_config section =
     (case (section ''cpu'', section ''name'', section ''clientpath'') of
        (Some cpu, Some name, Some path) \<Rightarrow>
          (case (py_int cpu,
              (case section ''pedestal'' of
                 None \<Rightarrow> Some ([], [])
               | Some ped \<Rightarrow> map_option (Pair ped) (section ''pedestalconf'')),
              option_flag section ''autoboot'', option_flag section ''debug'') of
             (Some cpu, Some (ped, ped_cfg), Some auto_boot, Some debug) \<Rightarrow>
               Some \<lparr>cf_msg = \<lparr>pm_cpu = cpu, pm_name = name, pm_path = path, pm_ped = ped, pm_ped_cfg = ped_cfg, pm_debug = debug\<rparr>,
                 cf_auto_boot = auto_boot\<rparr>
           | _ \<Rightarrow> None)
      | _ \<Rightarrow> None)"

section \<open>Commands\<close>

text \<open>
  The world is what the file system and the daemon are; a connection changes it. \<open>ci_read\<close> is
  \<open>None\<close> when the parser raises. The state of the tool has the exchanges so far, and whether
  the process has ended, by \<open>exit\<close> or by an exception that nothing catches.
\<close>

record 'w cli_env =
  ci_isfile :: "'w \<Rightarrow> string \<Rightarrow> bool"
  ci_exists :: "'w \<Rightarrow> string \<Rightarrow> bool"
  ci_read :: "'w \<Rightarrow> string \<Rightarrow> (string \<rightharpoonup> string) option"
  ci_listdir :: "'w \<Rightarrow> string \<Rightarrow> string list"
  ci_connect :: "'w \<Rightarrow> string \<Rightarrow> bool"
  ci_exchange :: "'w \<Rightarrow> string \<Rightarrow> u8 list \<Rightarrow> arrival list \<times> 'w"

record 'w cli =
  cl_world :: 'w
  cl_log :: "(string \<times> u8 list \<times> answer option) list"
  cl_ended :: bool

definition path_join :: "string \<Rightarrow> string \<Rightarrow> string" where
  "path_join dir f = (if take 1 f = ''/'' then f else dir @ ''/'' @ f)"

definition ctrl_socket :: "string \<Rightarrow> string" where
  "ctrl_socket name = ''/run/mica/'' @ name @ ''.socket''"

text \<open>The body of a \<open>with mica_socket(...)\<close> block: connect, send, wait for the answer.\<close>

definition talk :: "'w cli_env \<Rightarrow> string \<Rightarrow> u8 list \<Rightarrow> 'w cli \<Rightarrow> answer option \<times> 'w cli" where
  "talk env path data st =
     (if \<not> ci_connect env (cl_world st) path then (None, st\<lparr>cl_ended := True\<rparr>)
      else case ci_exchange env (cl_world st) path data of (arrivals, w) \<Rightarrow>
        let a = mica_recv [] arrivals in
        (a, st\<lparr>cl_world := w, cl_log := cl_log st @ [(path, data, a)], cl_ended := (a = None)\<rparr>))"

definition send_create_msg :: "'w cli_env \<Rightarrow> string \<Rightarrow> 'w cli \<Rightarrow> 'w cli" where
  "send_create_msg env config_file st =
     (let w = cl_world st;
          mica_config = (if ci_isfile env w config_file then config_file else path_join ''/etc/mica'' config_file) in
      if \<not> ci_isfile env w mica_config then st
      else if \<not> ci_exists env w (ctrl_socket ''mica-create'') then st\<lparr>cl_ended := True\<rparr>
      else case ci_read env w mica_config of
        None \<Rightarrow> st\<lparr>cl_ended := True\<rparr>
      | Some section \<Rightarrow>
          (case parse_config section of
             None \<Rightarrow> st
           | Some cfg \<Rightarrow>
               if \<not> ci_connect env w (ctrl_socket ''mica-create'') then st\<lparr>cl_ended := True\<rparr>
               else case pack (cf_msg cfg) of
                 None \<Rightarrow> st\<lparr>cl_world := snd (ci_exchange env w (ctrl_socket ''mica-create'') []), cl_ended := True\<rparr>
               | Some data \<Rightarrow>
                   (case talk env (ctrl_socket ''mica-create'') data st of
                      (None, st) \<Rightarrow> st
                    | (Some a, st) \<Rightarrow>
                        if an_reply a = Mica_failed \<or> \<not> cf_auto_boot cfg then st
                        else snd (talk env (ctrl_socket (pm_name (cf_msg cfg))) (bytes ''start'') st))))"

definition send_ctrl_msg :: "'w cli_env \<Rightarrow> string \<Rightarrow> string \<Rightarrow> 'w cli \<Rightarrow> 'w cli" where
  "send_ctrl_msg env command client st =
     (if \<not> ci_exists env (cl_world st) (ctrl_socket client) then st
      else snd (talk env (ctrl_socket client) (bytes command) st))"

definition ends_with :: "string \<Rightarrow> string \<Rightarrow> bool" where
  "ends_with s suf \<longleftrightarrow> length suf \<le> length s \<and> drop (length s - length suf) s = suf"

fun query_files :: "'w cli_env \<Rightarrow> string list \<Rightarrow> 'w cli \<Rightarrow> 'w cli" where
  "query_files env [] st = st"
| "query_files env (f # fs) st =
     (if f = ''mica-create.socket'' \<or> \<not> ends_with f ''.socket'' then query_files env fs st
      else let st = snd (talk env (path_join ''/run/mica'' f) (bytes ''status'') st) in
        if cl_ended st then st else query_files env fs st)"

definition query_status :: "'w cli_env \<Rightarrow> 'w cli \<Rightarrow> 'w cli" where
  "query_status env st =
     (if \<not> ci_exists env (cl_world st) (ctrl_socket ''mica-create'') then st\<lparr>cl_ended := True\<rparr>
      else query_files env (ci_listdir env (cl_world st) ''/run/mica'') st)"

fun create_files :: "'w cli_env \<Rightarrow> string list \<Rightarrow> 'w cli \<Rightarrow> 'w cli" where
  "create_files env [] st = st"
| "create_files env (f # fs) st =
     (let st = send_create_msg env (path_join ''/etc/mica'' f) st in
      if cl_ended st then st else create_files env fs st)"

text \<open>The parsed command line; \<open>Cli_create\<close> has the flag \<open>--all\<close> and the file, if given.\<close>

datatype cli_args = Cli_create bool "string option" | Cli_ctrl string string | Cli_status

definition mica_main :: "'w cli_env \<Rightarrow> cli_args \<Rightarrow> 'w cli \<Rightarrow> 'w cli" where
  "mica_main env args st =
     (case args of
        Cli_create everything config \<Rightarrow>
          if everything \<and> config \<noteq> None \<and> config \<noteq> Some [] then st\<lparr>cl_ended := True\<rparr>
          else if everything then create_files env (ci_listdir env (cl_world st) ''/etc/mica'') st
          else (case config of None \<Rightarrow> st | Some f \<Rightarrow> if f = [] then st else send_create_msg env f st)
      | Cli_ctrl command client \<Rightarrow> send_ctrl_msg env command client st
      | Cli_status \<Rightarrow> query_status env st)"

section \<open>Lemmas\<close>

lemma length_pack_string [simp]: "length (pack_string n s) = n"
  by (simp add: pack_string_def)

lemma chars_pack_string: "chars (pack_string n s) = take n (s @ replicate n NUL)"
  by (simp add: pack_string_def)

lemma cstr_pack_string:
  assumes "length s < n" "NUL \<notin> set s"
  shows "cstr (chars (pack_string n s)) = s" "terminated (chars (pack_string n s))" "strlcpy_buf n (chars (pack_string n s)) = s"
proof -
  have m: "chars (pack_string n s) = s @ replicate (n - length s) NUL" using assms(1) by (simp add: chars_pack_string)
  have "n - length s = Suc (n - length s - 1)" using assms(1) by simp
  then have r: "replicate (n - length s) NUL = NUL # replicate (n - length s - 1) NUL" by (metis replicate_Suc)
  show c: "cstr (chars (pack_string n s)) = s" unfolding m r cstr_def using assms(2) by (subst takeWhile_append2) auto
  show "terminated (chars (pack_string n s))" unfolding m r by (simp add: terminated_def)
  show "strlcpy_buf n (chars (pack_string n s)) = s" using c assms(1) by (simp add: strlcpy_buf_def)
qed

lemma find_sub_iff: "find_sub needle hay = None \<longleftrightarrow> (\<nexists>xs ys. hay = xs @ needle @ ys)"
proof (induction hay)
  case Nil
  then show ?case by auto
next
  case (Cons c cs)
  show ?case
  proof (cases "take (length needle) (c # cs) = needle")
    case True
    then have "c # cs = [] @ needle @ drop (length needle) (c # cs)" by (metis append_Nil append_take_drop_id)
    then have "\<exists>xs ys. c # cs = xs @ needle @ ys" by (intro exI)
    then show ?thesis using True by simp
  next
    case False
    have "(\<exists>xs ys. c # cs = xs @ needle @ ys) \<longleftrightarrow> (\<exists>xs ys. cs = xs @ needle @ ys)"
    proof
      assume "\<exists>xs ys. c # cs = xs @ needle @ ys"
      then obtain xs ys where x: "c # cs = xs @ needle @ ys" by blast
      then have "xs \<noteq> []" using False by (metis append_Nil append_eq_conv_conj)
      then show "\<exists>xs ys. cs = xs @ needle @ ys" using x by (metis list.sel(3) tl_append2)
    qed (metis append_Cons)
    then show ?thesis using False Cons by auto
  qed
qed

lemma find_sub_mono: "find_sub needle (xs @ ys) = None \<Longrightarrow> find_sub needle xs = None"
  unfolding find_sub_iff by (metis append_assoc)

text \<open>The fields of a packed request where the daemon looks for them.\<close>

lemma decode_pack:
  assumes "pack m = Some data" "length stack = 328"
  shows "recv_create_msg stack data = \<lparr>cm_cpu = word_of_int (pm_cpu m), cm_name = chars (pack_string 32 (pm_name m)),
    cm_path = chars (pack_string 128 (pm_path m)), cm_ped = chars (pack_string 32 (pm_ped m)),
    cm_ped_cfg = chars (pack_string 128 (pm_ped_cfg m)), cm_debug = pm_debug m\<rparr>"
proof -
  let ?a = "le_bytes 4 (nat (pm_cpu m))" and ?b = "pack_string 32 (pm_name m)" and ?c = "pack_string 128 (pm_path m)"
    and ?d = "pack_string 32 (pm_ped m)" and ?e = "pack_string 128 (pm_ped_cfg m)" and ?f = "[if pm_debug m then 1 else 0] :: u8 list"
  have d: "data = ?a @ ?b @ ?c @ ?d @ ?e @ ?f" and c: "0 \<le> pm_cpu m" "pm_cpu m < 2 ^ 32"
    using assms(1) by (auto simp: pack_def split: if_splits)
  have len: "length data = 325" unfolding d by simp
  let ?bs = "take 328 data @ drop (length data) stack"
  have bs: "?bs = ?a @ ?b @ ?c @ ?d @ ?e @ ?f @ drop 325 stack" using len by (simp add: d)
  have cpu: "(of_nat (le_nat ?a) :: u32) = word_of_int (pm_cpu m)"
  proof -
    have "le_nat ?a = nat (pm_cpu m)" using c by (simp add: le_nat_bytes nat_mod_distrib)
    then show ?thesis using c(1) by simp
  qed
  have f: "?bs ! 324 = (if pm_debug m then 1 else 0)" unfolding bs by (simp add: nth_append)
  show ?thesis unfolding recv_create_msg_def decode_create_msg_def f
    unfolding bs slice_def by (simp add: cpu)
qed

lemma mica_recv_all:
  assumes "find_sub MICA_MSG_FAILED (buf @ concat chunks) = None" "find_sub MICA_MSG_SUCCESS (buf @ concat chunks) \<noteq> None"
    and "find_sub MICA_MSG_SUCCESS buf = None" "[] \<notin> set chunks"
  shows "\<exists>a. mica_recv buf (map Chunk chunks) = Some a \<and> an_reply a = Mica_success"
  using assms
proof (induction chunks arbitrary: buf)
  case (Cons c cs)
  have f: "find_sub MICA_MSG_FAILED (buf @ c) = None"
    using Cons.prems(1) find_sub_mono [of MICA_MSG_FAILED "buf @ c" "concat cs"] by simp
  show ?case
  proof (cases "find_sub MICA_MSG_SUCCESS (buf @ c)")
    case None
    moreover have "c \<noteq> []" using Cons.prems(4) by auto
    ultimately show ?thesis using Cons.IH [of "buf @ c"] Cons.prems f by (simp add: Let_def)
  qed (simp add: f Let_def)
qed simp

lemma mica_recv_failed:
  assumes "find_sub MICA_MSG_SUCCESS (buf @ concat chunks) = None" "find_sub MICA_MSG_FAILED (buf @ concat chunks) \<noteq> None"
    and "find_sub MICA_MSG_FAILED buf = None" "[] \<notin> set chunks"
  shows "\<exists>a. mica_recv buf (map Chunk chunks) = Some a \<and> an_reply a = Mica_failed"
  using assms
proof (induction chunks arbitrary: buf)
  case (Cons c cs)
  have f: "find_sub MICA_MSG_SUCCESS (buf @ c) = None"
    using Cons.prems(1) find_sub_mono [of MICA_MSG_SUCCESS "buf @ c" "concat cs"] by simp
  show ?case
  proof (cases "find_sub MICA_MSG_FAILED (buf @ c)")
    case None
    moreover have "c \<noteq> []" using Cons.prems(4) by auto
    ultimately show ?thesis using Cons.IH [of "buf @ c"] Cons.prems f by (simp add: Let_def)
  qed (simp add: Let_def)
qed simp

section \<open>The tool and the daemon agree\<close>

text \<open>Names that fit in their arrays with the terminating zero byte.\<close>

definition request_fits :: "mica_create_msg \<Rightarrow> bool" where
  "request_fits m \<longleftrightarrow> length (pm_name m) < 32 \<and> length (pm_path m) < 128 \<and> length (pm_ped m) < 32 \<and> length (pm_ped_cfg m) < 128
     \<and> NUL \<notin> set (pm_name m) \<and> NUL \<notin> set (pm_path m) \<and> NUL \<notin> set (pm_ped m) \<and> NUL \<notin> set (pm_ped_cfg m)"

lemma ctrl_socket_path: "length name < 32 \<Longrightarrow> socket_path name = ctrl_socket name"
  unfolding socket_path_def ctrl_socket_def by (rule take_all) simp


definition demo_request :: mica_create_msg where
  "demo_request = \<lparr>pm_cpu = 3, pm_name = ''rtos'', pm_path = ''/lib/fw'', pm_ped = [], pm_ped_cfg = [], pm_debug = False\<rparr>"

lemma demo_request_fits: "request_fits demo_request"
  by (simp add: request_fits_def demo_request_def)

lemma demo_request_packs: "\<exists>data. pack demo_request = Some data"
  by (simp add: pack_def demo_request_def)


lemma add_listener_fits:
  assumes "terminated name" "length name = MAX_NAME_LEN"
  shows "\<exists>ret s'. add_listener env name client cb s = Ret (ret, s') \<and> ret \<le> 0
    \<and> (ret < 0 \<longrightarrow> sl_units s' = sl_units s)
    \<and> (ret = 0 \<longrightarrow> sl_clients s' = sl_clients s \<and> (\<exists>fd. sl_units s' = sl_units s @ [\<lparr>lu_name = strlcpy_buf MAX_NAME_LEN name, lu_socket_fd = fd,
        lu_socket_path = socket_path (strlcpy_buf MAX_NAME_LEN name), lu_cb = cb, lu_client = client\<rparr>]))"
  using assms by (simp add: add_listener_def Let_def sl_close_def sl_unlink_def)

lemma check_create_msg_total:
  assumes "terminated (cm_path msg)"
  shows "\<exists>r out. check_create_msg env s msg = Ret (r, out) \<and> r \<le> 0 \<and> (r = 0 \<longrightarrow> out = [])"
  using assms by (simp add: check_create_msg_def)

text \<open>The client that the daemon sets up for a request.\<close>

definition serves :: "'w sl_env \<Rightarrow> mica_create_msg \<Rightarrow> 'w sl \<Rightarrow> 'w sl \<Rightarrow> bool" where
  "serves env m s s' \<longleftrightarrow> (\<exists>fd h st0 st. sl_units s' = sl_units s @ [\<lparr>lu_name = pm_name m, lu_socket_fd = fd,
       lu_socket_path = ctrl_socket (pm_name m), lu_cb = Client_ctrl_handler, lu_client = Some h\<rparr>]
     \<and> sl_clients s' h = Some st \<and> snd (mica_create (se_oa env) st0) = st
     \<and> mc_path (ss_client (mt_svc st0)) = pm_path m \<and> uint (mc_cpu_id (ss_client (mt_svc st0))) = pm_cpu m
     \<and> mc_ped_cfg (ss_client (mt_svc st0)) = pm_ped_cfg m \<and> mc_debug (ss_client (mt_svc st0)) = pm_debug m
     \<and> mc_ped (ss_client (mt_svc st0)) = (if pm_ped m = ''jailhouse'' then JAILHOUSE else BARE_METAL))"

lemma create_from_request:
  assumes "pack m = Some data" "request_fits m" "length stack = 328"
  shows "\<exists>ret out s'. create_from_msg env (recv_create_msg stack data) s = Ret (ret, out, s') \<and> ret \<le> 0
    \<and> (ret = 0 \<longrightarrow> out = [] \<and> serves env m s s') \<and> (ret < 0 \<longrightarrow> sl_units s' = sl_units s)"
proof -
  let ?msg = "recv_create_msg stack data" and ?h = "sl_next s" and ?s1 = "s\<lparr>sl_next := sl_next s + 1\<rparr>"
  note f = assms(2) [unfolded request_fits_def]
  note d = decode_pack [OF assms(1,3)]
  have t: "terminated (cm_name ?msg)" "length (cm_name ?msg) = MAX_NAME_LEN" "terminated (cm_path ?msg)" "terminated (cm_ped_cfg ?msg)"
    using f by (simp_all add: d cstr_pack_string)
  have n: "strlcpy_buf MAX_NAME_LEN (cm_name ?msg) = pm_name m" using f by (simp add: d cstr_pack_string)
  obtain r o1 where c: "check_create_msg env s ?msg = Ret (r, o1)" "r \<le> 0" "r = 0 \<longrightarrow> o1 = []"
    using check_create_msg_total [OF t(3), of env s] by (elim exE conjE) (rule that)
  obtain r2 st where m: "mica_create (se_oa env) (new_client env ?s1 ?msg) = (r2, st)" by force
  let ?s2 = "store_client ?h st ?s1"
  obtain r3 s3 where a: "add_listener env (cm_name ?msg) (Some ?h) Client_ctrl_handler ?s2 = Ret (r3, s3)" "r3 \<le> 0"
      "r3 < 0 \<longrightarrow> sl_units s3 = sl_units ?s2"
      "r3 = 0 \<longrightarrow> sl_clients s3 = sl_clients ?s2 \<and> (\<exists>fd. sl_units s3 = sl_units ?s2 @ [\<lparr>lu_name = pm_name m, lu_socket_fd = fd,
        lu_socket_path = socket_path (pm_name m), lu_cb = Client_ctrl_handler, lu_client = Some ?h\<rparr>])"
    using add_listener_fits [OF t(1,2), of env "Some ?h" Client_ctrl_handler ?s2, unfolded n] by (elim exE conjE) (rule that)
  have u: "sl_units ?s2 = sl_units s" by (simp add: store_client_def)
  have e: "create_from_msg env ?msg s = (if r < 0 then Ret (r, o1, s) else if \<not> se_calloc_client env then Ret (- ENOMEM, o1, s)
      else if r2 < 0 then Ret (r2, o1, free_client (Some ?h) ?s2)
      else if r3 < 0 then Ret (r3, o1, free_client (Some ?h) s3) else Ret (r3, o1, s3))"
    using c(1) m a(1) t(4) by (simp add: create_from_msg_def Let_def)
  have v: "serves env m s s3" if "r3 = 0"
  proof -
    have "snd (mica_create (se_oa env) (new_client env ?s1 ?msg)) = st" unfolding m by (rule snd_conv)
    moreover have "uint (cm_cpu ?msg) = pm_cpu m"
      using assms(1) by (auto simp: d pack_def unsigned_of_int take_bit_int_eq_self split: if_splits)
    moreover have "sl_clients s3 ?h = Some st" using a(4) that by (simp add: store_client_def)
    ultimately show ?thesis using a(4) that u f unfolding serves_def
      by (elim conjE exE impE) (auto simp: ctrl_socket_path new_client_def d cstr_pack_string intro!: exI [of _ ?h] exI [of _ "new_client env ?s1 ?msg"])
  qed
  have fr: "sl_units (free_client x y) = sl_units y" for x and y :: "'a sl" by (simp add: free_client_def Let_def split: option.splits)
  show ?thesis unfolding e using c(2,3) a(2,3) v u by (simp add: fr)
qed

lemma find_sub_suffix: "find_sub needle (xs @ needle) \<noteq> None"
  unfolding find_sub_iff by (metis append_Nil2)

lemma success_not_failed: "find_sub MICA_MSG_FAILED MICA_MSG_SUCCESS = None" "find_sub MICA_MSG_SUCCESS [] = None" "find_sub MICA_MSG_FAILED [] = None"
  by simp_all

text \<open>
  C5: Creating a client works from the tool to the daemon. A request whose strings fit, on a connection
  that the daemon accepts and from which it receives the whole request, gets an answer from its handler when the answer can be allocated. When the handler succeeds, the tool reports success however the answer
  is cut into pieces, and the daemon has one more listener, on the very socket that the tool's later commands
  for that name connect to, for a client created with the processor, firmware, pedestal and debug
  flag of the request. When it fails, no listener is added and the tool reports the failure, unless the
  daemon's explanation itself has the word for success.
\<close>

theorem mica_create_served:
  assumes "pack m = Some data" "request_fits m" "length (se_stack env) = 328"
    and "se_accept env \<noteq> - 1" "se_recv env = Some data" "se_log_malloc env"
  shows "\<exists>ret out s'. create_mica_client env s = Ret (ret, out, s')
    \<and> (ret = 0 \<longrightarrow> serves env m s s') \<and> (ret \<noteq> 0 \<longrightarrow> sl_units s' = sl_units s)
    \<and> (\<forall>chunks. concat chunks = concat out \<and> [] \<notin> set chunks \<longrightarrow>
         (ret = 0 \<longrightarrow> (\<exists>a. mica_recv [] (map Chunk chunks) = Some a \<and> an_reply a = Mica_success))
         \<and> (ret \<noteq> 0 \<and> find_sub MICA_MSG_SUCCESS (concat out) = None \<longrightarrow>
              (\<exists>a. mica_recv [] (map Chunk chunks) = Some a \<and> an_reply a = Mica_failed)))"
proof -
  let ?s = "s\<lparr>sl_open_fds := se_accept env # sl_open_fds s\<rparr>"
  obtain ret out s1 where c: "create_from_msg env (recv_create_msg (se_stack env) data) ?s = Ret (ret, out, s1)" "ret \<le> 0"
      "ret = 0 \<longrightarrow> out = [] \<and> serves env m ?s s1" "ret < 0 \<longrightarrow> sl_units s1 = sl_units ?s"
    using create_from_request [OF assms(1-3), of env ?s] by (elim exE conjE) (rule that)
  let ?out = "out @ [if ret \<noteq> 0 then MICA_MSG_FAILED else MICA_MSG_SUCCESS]" and ?s' = "sl_close (se_accept env) s1"
  have e: "create_mica_client env s = Ret (ret, ?out, ?s')"
    using assms(4-6) c(1) by (simp add: create_mica_client_def send_log_def)
  have v: "ret = 0 \<longrightarrow> serves env m s ?s'" using c(3) by (simp add: serves_def sl_close_def)
  have u: "ret \<noteq> 0 \<longrightarrow> sl_units ?s' = sl_units s" using c(2,4) by (simp add: sl_close_def)
  have ok: "\<exists>a. mica_recv [] (map Chunk chunks) = Some a \<and> an_reply a = Mica_success"
    if "concat chunks = concat ?out" "[] \<notin> set chunks" "ret = 0" for chunks
  proof (rule mica_recv_all)
    have m: "[] @ concat chunks = MICA_MSG_SUCCESS" using that c(3) by simp
    show "find_sub MICA_MSG_FAILED ([] @ concat chunks) = None" unfolding m by (rule success_not_failed)
    show "find_sub MICA_MSG_SUCCESS ([] @ concat chunks) \<noteq> None" unfolding m using find_sub_suffix [of MICA_MSG_SUCCESS "[]"] by simp
  qed (use that in \<open>simp_all add: success_not_failed\<close>)
  have bad: "\<exists>a. mica_recv [] (map Chunk chunks) = Some a \<and> an_reply a = Mica_failed"
    if "concat chunks = concat ?out" "[] \<notin> set chunks" "ret \<noteq> 0" "find_sub MICA_MSG_SUCCESS (concat ?out) = None" for chunks
  proof (rule mica_recv_failed)
    have m: "[] @ concat chunks = concat out @ MICA_MSG_FAILED" using that by simp
    show "find_sub MICA_MSG_SUCCESS ([] @ concat chunks) = None" using that(1,4) by (metis append_Nil)
    show "find_sub MICA_MSG_FAILED ([] @ concat chunks) \<noteq> None" unfolding m by (rule find_sub_suffix)
  qed (use that in \<open>simp_all add: success_not_failed\<close>)
  show ?thesis using e v u ok bad by (intro exI [of _ ret] exI [of _ ?out] exI [of _ ?s']) blast
qed

abbreviation demo_create_env :: "u8 list \<Rightarrow> nat sl_env" where
  "demo_create_env data \<equiv> demo_sl_env\<lparr>se_recv := Some data\<rparr>"

lemma demo_mica_create: "fst (mica_create demo_oa (new_client env s msg)) = 0"
  by (simp add: mica_create_def create_client_def demo_oa_def new_client_def)

lemma demo_create_ok:
  assumes "pack demo_request = Some data"
  shows "\<exists>s'. create_mica_client (demo_create_env data) (sl_boot 0) = Ret (0, [MICA_MSG_SUCCESS], s')"
proof -
  have d: "recv_create_msg (replicate 328 0) data = \<lparr>cm_cpu = 3, cm_name = chars (pack_string 32 ''rtos''), cm_path = chars (pack_string 128 ''/lib/fw''),
      cm_ped = chars (pack_string 32 []), cm_ped_cfg = chars (pack_string 128 []), cm_debug = False\<rparr>"
    using decode_pack [OF assms, of "replicate 328 0"] by (simp add: demo_request_def)
  have t: "terminated (chars (pack_string 32 ''rtos''))" "terminated (chars (pack_string 128 ''/lib/fw''))" "terminated (chars (pack_string 128 []))"
    by (simp_all add: cstr_pack_string)
  show ?thesis
    by (simp add: create_mica_client_def create_from_msg_def check_create_msg_def add_listener_def demo_sl_env_def sl_boot_def d t
        demo_mica_create store_client_def send_log_def prod.case_eq_if Let_def)
qed

theorem mica_create_served_witness:
  "\<exists>data s'. pack demo_request = Some data \<and> create_mica_client (demo_create_env data) (sl_boot 0) = Ret (0, [MICA_MSG_SUCCESS], s')
    \<and> serves (demo_create_env data) demo_request (sl_boot 0) s'"
proof -
  obtain data where d: "pack demo_request = Some data" using demo_request_packs by (elim exE) (rule that)
  obtain s' where s': "create_mica_client (demo_create_env data) (sl_boot 0) = Ret (0, [MICA_MSG_SUCCESS], s')"
    using demo_create_ok [OF d] by (elim exE) (rule that)
  have "length (se_stack (demo_create_env data)) = 328" "se_accept (demo_create_env data) \<noteq> - 1" "se_recv (demo_create_env data) = Some data"
      "se_log_malloc (demo_create_env data)"
    by (simp_all add: demo_sl_env_def)
  from mica_create_served [OF d demo_request_fits this, of "sl_boot 0"] s'
  have "serves (demo_create_env data) demo_request (sl_boot 0) s'" by (elim exE conjE) simp
  then show ?thesis using d s' by (intro exI [of _ data] exI [of _ s'] conjI)
qed

section \<open>Where they do not agree\<close>

text \<open>
  The tool lets a name have 32 characters, which leaves no room for the terminating zero byte: the
  daemon reads past the array when it copies the name.
\<close>

lemma full_name_faults:
  assumes "pack m = Some data" "length (se_stack env) = 328" "length (pm_name m) = 32" "NUL \<notin> set (pm_name m)" "se_calloc_unit env"
  shows "add_listener env (cm_name (recv_create_msg (se_stack env) data)) client cb s = Fault"
proof -
  have "chars (pack_string 32 (pm_name m)) = pm_name m" using assms(3) by (simp add: chars_pack_string)
  then show ?thesis using assms(3-5) decode_pack [OF assms(1,2)] by (simp add: add_listener_def terminated_def)
qed

text \<open>An explanation with the word for success that arrives before the verdict is taken for success.\<close>

lemma success_word_in_explanation:
  "map_option an_reply (mica_recv [] [Chunk ''No such file: /MICA-SUCCESS'', Chunk MICA_MSG_FAILED]) = Some Mica_success"
  by code_simp

end
