(* ===== verification/Mica_Debug.thy ===== *)
theory Mica_Debug
  imports Mica_Lifecycle Service_Contract C_Format
begin

text \<open>
  The debug service (\<open>services/debug/mica_debug.c\<close>, \<open>mica_debug_ring_buffer.c\<close>,
  \<open>mica_gdb_server.c\<close>): a proxy between a gdb client and the ring buffers that the client OS
  shares. First the threads that carry the bytes, in every interleaving; then the set-up and the
  proxy loop with its control packets.
\<close>

abbreviation MAX_BUFF_LENGTH :: nat where "MAX_BUFF_LENGTH \<equiv> 1600"
abbreviation MAX_MQ_SIZE :: nat where "MAX_MQ_SIZE \<equiv> 10"
abbreviation RBUF_STATE_CTRL_C :: u8 where "RBUF_STATE_CTRL_C \<equiv> 3"
abbreviation RBUF_STATE_CPU_STOP :: u8 where "RBUF_STATE_CPU_STOP \<equiv> 4"

section \<open>The threads that carry the bytes\<close>

text \<open>
  A thread waits, or holds what it has taken and not yet passed on. Every thread stores a zero byte
  behind what it received in a buffer of \<open>MAX_BUFF_LENGTH\<close> bytes, so that a full buffer is
  overrun; nothing is said about what follows.
\<close>

datatype courier = C_wait | C_carry "u8 list"

record dbg =
  db_sent :: "u8 list"
  db_from_server :: "u8 list list"
  db_to_rtos :: courier
  db_tx :: ring_buffer
  db_rtos_in :: "u8 list"
  db_rtos_out :: "u8 list"
  db_rx :: ring_buffer
  db_to_server_thread :: courier
  db_to_server :: "u8 list list"
  db_gdb :: "u8 list"
  db_overrun :: bool

definition dbg_init :: "ring_buffer \<Rightarrow> ring_buffer \<Rightarrow> dbg" where
  "dbg_init tx rx = \<lparr>db_sent = [], db_from_server = [], db_to_rtos = C_wait, db_tx = tx, db_rtos_in = [],
     db_rtos_out = [], db_rx = rx, db_to_server_thread = C_wait, db_to_server = [], db_gdb = [], db_overrun = False\<rparr>"

inductive dbg_step :: "dbg \<Rightarrow> dbg \<Rightarrow> bool" where
  gdb_packet: "\<not> db_overrun s \<Longrightarrow> 0 < length p \<Longrightarrow> length p < MAX_BUFF_LENGTH \<Longrightarrow> length (db_from_server s) < MAX_MQ_SIZE \<Longrightarrow>
    dbg_step s (s\<lparr>db_sent := db_sent s @ p, db_from_server := db_from_server s @ [p]\<rparr>)"
| gdb_overrun: "\<not> db_overrun s \<Longrightarrow> length (p :: u8 list) = MAX_BUFF_LENGTH \<Longrightarrow> dbg_step s (s\<lparr>db_overrun := True\<rparr>)"
| rtos_take: "\<not> db_overrun s \<Longrightarrow> db_to_rtos s = C_wait \<Longrightarrow> db_from_server s = p # ps \<Longrightarrow> length p < MAX_BUFF_LENGTH \<Longrightarrow>
    dbg_step s (s\<lparr>db_from_server := ps, db_to_rtos := C_carry p\<rparr>)"
| rtos_put: "\<not> db_overrun s \<Longrightarrow> db_to_rtos s = C_carry p \<Longrightarrow> p \<noteq> [] \<Longrightarrow>
    kfifo_in (db_tx s) p (of_nat (length p)) = Some (tx, k) \<Longrightarrow>
    dbg_step s (s\<lparr>db_tx := tx, db_to_rtos := C_carry (drop (unat k) p)\<rparr>)"
| rtos_done: "\<not> db_overrun s \<Longrightarrow> db_to_rtos s = C_carry [] \<Longrightarrow> dbg_step s (s\<lparr>db_to_rtos := C_wait\<rparr>)"
| rtos_reads: "\<not> db_overrun s \<Longrightarrow> ring_buffer_read (db_tx s) n = Some (tx, bs, k) \<Longrightarrow>
    dbg_step s (s\<lparr>db_tx := tx, db_rtos_in := db_rtos_in s @ bs\<rparr>)"
| rtos_writes: "\<not> db_overrun s \<Longrightarrow> length p < 2 ^ 32 \<Longrightarrow> kfifo_in (db_rx s) p (of_nat (length p)) = Some (rx, k) \<Longrightarrow>
    dbg_step s (s\<lparr>db_rx := rx, db_rtos_out := db_rtos_out s @ take (unat k) p\<rparr>)"
| server_read: "\<not> db_overrun s \<Longrightarrow> db_to_server_thread s = C_wait \<Longrightarrow> ring_buffer_read (db_rx s) (of_nat MAX_BUFF_LENGTH) = Some (rx, bs, k) \<Longrightarrow>
    length bs < MAX_BUFF_LENGTH \<Longrightarrow> dbg_step s (s\<lparr>db_rx := rx, db_to_server_thread := (if bs = [] then C_wait else C_carry bs)\<rparr>)"
| server_overrun: "\<not> db_overrun s \<Longrightarrow> db_to_server_thread s = C_wait \<Longrightarrow> ring_buffer_read (db_rx s) (of_nat MAX_BUFF_LENGTH) = Some (rx, bs, k) \<Longrightarrow>
    length bs = MAX_BUFF_LENGTH \<Longrightarrow> dbg_step s (s\<lparr>db_overrun := True\<rparr>)"
| server_send: "\<not> db_overrun s \<Longrightarrow> db_to_server_thread s = C_carry bs \<Longrightarrow> length (db_to_server s) < MAX_MQ_SIZE \<Longrightarrow>
    dbg_step s (s\<lparr>db_to_server_thread := C_wait, db_to_server := db_to_server s @ [bs]\<rparr>)"
| gdb_send: "\<not> db_overrun s \<Longrightarrow> db_to_server s = p # ps \<Longrightarrow> dbg_step s (s\<lparr>db_to_server := ps, db_gdb := db_gdb s @ p\<rparr>)"

text \<open>
  The same threads as loops, one call after the other: an observation is the result of each system call,
  \<open>Inl\<close> an error number. A send may pass on less than it was given, which the code does not look at.
\<close>

definition send_to_gdb :: "(int + nat) \<Rightarrow> u8 list \<Rightarrow> u8 list \<Rightarrow> int \<times> u8 list" where
  "send_to_gdb sent buffer gdb = (case sent of Inl e \<Rightarrow> (- e, gdb) | Inr n \<Rightarrow> (0, gdb @ take n buffer))"

fun recv_from_shared_mem_thread :: "((int + u8 list) \<times> (int + nat)) list \<Rightarrow> u8 list \<Rightarrow> (int \<times> u8 list) outcome" where
  "recv_from_shared_mem_thread [] gdb = Spinning"
| "recv_from_shared_mem_thread ((received, sent) # obs) gdb =
     (case received of
        Inl e \<Rightarrow> Ret (- e, gdb)
      | Inr bs \<Rightarrow>
          if length bs \<ge> MAX_BUFF_LENGTH then Fault
          else case send_to_gdb sent bs gdb of (ret, gdb) \<Rightarrow>
            if ret < 0 then Ret (ret, gdb) else recv_from_shared_mem_thread obs gdb)"

text \<open>
  \<open>write\<close> gives the result of \<open>ring_buffer_write\<close>, which returns when all bytes are in the ring, or with a negative
  number; its rounds are the steps \<open>rtos_put\<close> above.
\<close>

fun data_to_rtos_thread :: "(int + u8 list) list \<Rightarrow> (u8 list \<Rightarrow> int) \<Rightarrow> u8 list \<Rightarrow> (int \<times> u8 list) outcome" where
  "data_to_rtos_thread [] write out = Spinning"
| "data_to_rtos_thread (received # obs) write out =
     (case received of
        Inl e \<Rightarrow> Ret (- e, out)
      | Inr bs \<Rightarrow>
          if length bs \<ge> MAX_BUFF_LENGTH then Fault
          else if write bs < 0 then Ret (- 1, out)
          else data_to_rtos_thread obs write (out @ bs))"

fun data_to_server_thread :: "((int + u8 list) \<times> int) list \<Rightarrow> u8 list list \<Rightarrow> (int \<times> u8 list list) outcome" where
  "data_to_server_thread [] queue = Spinning"
| "data_to_server_thread ((read, sent) # obs) queue =
     (case read of
        Inl e \<Rightarrow> Ret (- e, queue)
      | Inr bs \<Rightarrow>
          if bs = [] then data_to_server_thread obs queue
          else if length bs \<ge> MAX_BUFF_LENGTH then Fault
          else if sent \<noteq> 0 then Ret (- sent, queue)
          else data_to_server_thread obs (queue @ [bs]))"

section \<open>Set-up of the service\<close>

text \<open>
  The globals of \<open>mica_debug.c\<close>: the message queues that are open, the pointer to the data of the
  ring buffer module and whether that block is allocated, and the threads that run. Thread and queue
  creation give an error number, 0 for success.
\<close>

record dm =
  dm_queues :: "int list"
  dm_data_ptr :: bool
  dm_data_live :: bool
  dm_to_rtos_thread :: bool
  dm_to_server_thread :: bool
  dm_rings_cleared :: bool
  dm_gdb_server_running :: bool
  dm_server_thread :: bool

record dm_env =
  de_mq_from :: "int + int"
  de_mq_to :: "int + int"
  de_calloc :: bool
  de_thread_to_rtos :: int
  de_thread_to_server :: int
  de_thread_server :: int

definition alloc_message_queue :: "dm_env \<Rightarrow> dm \<Rightarrow> int \<times> dm" where
  "alloc_message_queue env s =
     (case de_mq_from env of
        Inl e \<Rightarrow> (- e, s)
      | Inr q \<Rightarrow>
          let s = s\<lparr>dm_queues := q # dm_queues s\<rparr> in
          (case de_mq_to env of Inl e \<Rightarrow> (- e, s) | Inr r \<Rightarrow> (0, s\<lparr>dm_queues := r # dm_queues s\<rparr>)))"

definition free_message_queue :: "dm_env \<Rightarrow> dm \<Rightarrow> dm" where
  "free_message_queue env s =
     s\<lparr>dm_queues := fold remove1 (case_sum (\<lambda>e. []) (\<lambda>q. [q]) (de_mq_from env) @ case_sum (\<lambda>e. []) (\<lambda>q. [q]) (de_mq_to env)) (dm_queues s)\<rparr>"

text \<open>The result of the first thread is overwritten by that of the second.\<close>

definition transfer_data_to_rtos :: "dm_env \<Rightarrow> dm \<Rightarrow> int \<times> dm" where
  "transfer_data_to_rtos env s = (de_thread_to_rtos env, s\<lparr>dm_to_rtos_thread := (de_thread_to_rtos env = 0)\<rparr>)"

definition transfer_data_to_server :: "dm_env \<Rightarrow> dm \<Rightarrow> int \<times> dm" where
  "transfer_data_to_server env s = (de_thread_to_server env, s\<lparr>dm_to_server_thread := (de_thread_to_server env = 0)\<rparr>)"

definition start_ring_buffer_module :: "dm_env \<Rightarrow> 's mica_client \<Rightarrow> dm \<Rightarrow> (int \<times> dm) outcome" where
  "start_ring_buffer_module env client s =
     (if \<not> de_calloc env \<or> mc_rbuf_dev client = None then Fault
      else
        let s = s\<lparr>dm_data_ptr := True, dm_data_live := True, dm_rings_cleared := False\<rparr>;
            (ret, s) = transfer_data_to_rtos env s;
            (ret, s) = transfer_data_to_server env s
        in Ret (ret, s))"

lemmas ring_buffer_module_def = start_ring_buffer_module_def transfer_data_to_rtos_def transfer_data_to_server_def Let_def

definition free_resources_for_ring_buffer_module :: "dm \<Rightarrow> dm outcome" where
  "free_resources_for_ring_buffer_module s =
     (if \<not> dm_data_ptr s then Ret s
      else if \<not> dm_data_live s then Fault
      else Ret (s\<lparr>dm_to_rtos_thread := False, dm_to_server_thread := False, dm_rings_cleared := True, dm_data_live := False\<rparr>))"

definition debug_start :: "dm_env \<Rightarrow> 's mica_client \<Rightarrow> dm \<Rightarrow> (int \<times> dm) outcome" where
  "debug_start env client s =
     (case alloc_message_queue env s of (ret, s) \<Rightarrow>
        if ret < 0 then Ret (ret, s)
        else case start_ring_buffer_module env client s of
          Fault \<Rightarrow> Fault | Spinning \<Rightarrow> Spinning
        | Ret (ret, s) \<Rightarrow>
            if ret < 0 then Ret (ret, free_message_queue env s)
            else if dm_gdb_server_running s then Ret (0, s)
            else if de_thread_server env \<noteq> 0 then
              (case free_resources_for_ring_buffer_module s of
                 Ret s \<Rightarrow> Ret (- de_thread_server env, free_message_queue env s) | Fault \<Rightarrow> Fault | Spinning \<Rightarrow> Spinning)
            else Ret (0, s\<lparr>dm_server_thread := True\<rparr>))"

definition debug_stop :: "dm \<Rightarrow> dm outcome" where
  "debug_stop s = free_resources_for_ring_buffer_module s"

text \<open>The service, on the state of this module or its fault; the registry does not look at the result of \<open>init\<close>.\<close>

definition debug_service :: "(dm \<Rightarrow> dm_env) \<Rightarrow> dm outcome mica_service mica_client \<Rightarrow> dm outcome mica_service" where
  "debug_service env client = \<lparr>ms_name = ''debug-rtos-kernel'',
     ms_init = Some (\<lambda>w. case w of Ret s \<Rightarrow> map_outcome snd (debug_start (env s) client s) | _ \<Rightarrow> w),
     ms_remove = Some (\<lambda>w. case w of Ret s \<Rightarrow> debug_stop s | _ \<Rightarrow> w),
     ms_rpmsg_ns_match = None, ms_rpmsg_ns_bind_cb = None, ms_get_match_device = None\<rparr>"

definition create_debug_service ::
  "(dm outcome \<Rightarrow> rpmsg_endpoint list) \<Rightarrow> bool \<Rightarrow> (dm \<Rightarrow> dm_env) \<Rightarrow> dm outcome svc_state \<Rightarrow> int \<times> dm outcome svc_state" where
  "create_debug_service endpoints malloc_ok env st =
     mica_register_service endpoints malloc_ok st (debug_service env (ss_client st))"

section \<open>The gdb proxy\<close>

text \<open>The resources of the proxy; a failed call is \<open>Inl\<close> of its error number.\<close>

record px =
  px_live :: bool
  px_fds :: "int list"
  px_thread :: bool

datatype px_event = To_shared_mem "u8 list" | Ctrl_c | Restarted

record px_obs =
  po_recv :: "int + u8 list"
  po_polls :: "u8 list"
  po_mq_send :: int

record px_env =
  pv_calloc :: bool
  pv_socket :: "int option"
  pv_setsockopt :: int
  pv_bind :: int
  pv_listen :: int
  pv_accept :: "int + int"
  pv_thread :: int

definition send_ctrl_c :: "'w mica_state \<Rightarrow> (int \<times> 'w mica_state) outcome" where
  "send_ctrl_c st =
     (case client_table (mt_client st) of
        None \<Rightarrow> Fault
      | Some rt \<Rightarrow>
          (case rt_rbuf rt of
             None \<Rightarrow> Ret (- ENODEV, st)
           | Some r \<Rightarrow> Ret (0, set_client st (set_table (mt_client st) (rt\<lparr>rt_rbuf := Some (r\<lparr>rr_state := RBUF_STATE_CTRL_C\<rparr>)\<rparr>)))))"

fun wait_cpu_stop :: "u8 list \<Rightarrow> unit outcome" where
  "wait_cpu_stop [] = Spinning"
| "wait_cpu_stop (x # xs) = (if x = RBUF_STATE_CPU_STOP then Ret () else wait_cpu_stop xs)"

text \<open>The functions that create the services, each up to the first that fails.\<close>

fun create_each :: "('w svc_state \<Rightarrow> int \<times> 'w svc_state) list \<Rightarrow> 'w mica_state \<Rightarrow> int \<times> 'w mica_state" where
  "create_each [] st = (0, st)"
| "create_each (create # creates) st =
     (case create (mt_svc st) of (ret, sv) \<Rightarrow>
        if ret \<noteq> 0 then (ret, st\<lparr>mt_svc := sv\<rparr>) else create_each creates (st\<lparr>mt_svc := sv\<rparr>))"

text \<open>
  \<open>restart_client\<close>: \<open>creates\<close> are the functions for the debug, tty and rpc services. The pointer into the resource
  table is used after the client was stopped; where stopping has dropped the table, its memory is
  no longer mapped.
\<close>

definition restart_client ::
  "'w openamp \<Rightarrow> mica_env \<Rightarrow> ('w svc_state \<Rightarrow> int \<times> 'w svc_state) list \<Rightarrow> u8 list \<Rightarrow>
   'w mica_state \<Rightarrow> (int \<times> 'w mica_state) outcome" where
  "restart_client oa menv creates polls st =
     (case client_table (mt_client st) of
        None \<Rightarrow> Fault
      | Some rt \<Rightarrow>
          if rt_rbuf rt = None then Ret (- ENODEV, st)
          else case mica_stop oa st of
            Fault \<Rightarrow> Fault | Spinning \<Rightarrow> Spinning
          | Ret st \<Rightarrow>
              if client_table (mt_client st) = None then Fault
              else case wait_cpu_stop polls of
                Fault \<Rightarrow> Fault | Spinning \<Rightarrow> Spinning
              | Ret _ \<Rightarrow>
                  (case mica_start oa menv st of (ret, st) \<Rightarrow>
                     if ret \<noteq> 0 then Ret (ret, st) else Ret (create_each creates st)))"

text \<open>The loop of the proxy, on what each call of \<open>recv\<close> gives; the zero byte behind a full buffer is an overrun.\<close>

fun proxy_loop ::
  "('w mica_state \<Rightarrow> u8 list \<Rightarrow> (int \<times> 'w mica_state) outcome) \<Rightarrow> px_obs list \<Rightarrow> px_event list \<Rightarrow> 'w mica_state \<Rightarrow>
   (int \<times> bool \<times> px_event list \<times> 'w mica_state) outcome" where
  "proxy_loop restart [] ev st = Spinning"
| "proxy_loop restart (ob # obs) ev st =
     (case po_recv ob of
        Inl e \<Rightarrow> Ret (- e, False, ev, st)
      | Inr bs \<Rightarrow>
          if length bs \<ge> MAX_BUFF_LENGTH then Fault
          else if bs = [] then Ret (0, True, ev, st)
          else
            let str = takeWhile (\<lambda>b. b \<noteq> 0) bs;
                control = (if str = [3] then map_outcome (\<lambda>(r, st). (r, [Ctrl_c], st)) (send_ctrl_c st)
                  else if str = bytes ''$R0#82'' then map_outcome (\<lambda>(r, st). (r, [Restarted], st)) (restart st (po_polls ob))
                  else Ret (0, [], st))
            in case control of
                 Fault \<Rightarrow> Fault | Spinning \<Rightarrow> Spinning
               | Ret (ret, ev', st) \<Rightarrow>
                   if ret \<noteq> 0 then Ret (ret, False, ev, st)
                   else if po_mq_send ob \<noteq> 0 then Ret (- po_mq_send ob, False, ev @ ev', st)
                   else proxy_loop restart obs (ev @ ev' @ [To_shared_mem bs]) st)"

definition configure_socket :: "px_env \<Rightarrow> int" where
  "configure_socket env = (if pv_setsockopt env \<noteq> 0 then - pv_setsockopt env else if pv_bind env \<noteq> 0 then - pv_bind env else 0)"

definition start_proxy_server ::
  "('w mica_state \<Rightarrow> u8 list \<Rightarrow> (int \<times> 'w mica_state) outcome) \<Rightarrow> px_env \<Rightarrow> px_obs list \<Rightarrow> 'w mica_state \<Rightarrow>
   (int \<times> px \<times> px_event list \<times> 'w mica_state) outcome" where
  "start_proxy_server restart env obs st =
     (let closed = \<lparr>px_live = False, px_fds = [], px_thread = False\<rparr> in
      if \<not> pv_calloc env then Fault
      else case pv_socket env of
        None \<Rightarrow> Ret (- 1, \<lparr>px_live = True, px_fds = [], px_thread = False\<rparr>, [], st)
      | Some srv \<Rightarrow>
          if configure_socket env \<noteq> 0 then Ret (configure_socket env, closed, [], st)
          else if pv_listen env \<noteq> 0 then Ret (- pv_listen env, closed, [], st)
          else case pv_accept env of
            Inl e \<Rightarrow> Ret (- e, closed, [], st)
          | Inr cl \<Rightarrow>
              if pv_thread env \<noteq> 0 then Ret (- pv_thread env, closed, [], st)
              else case proxy_loop restart obs [] st of
                Fault \<Rightarrow> Fault | Spinning \<Rightarrow> Spinning
              | Ret (ret, orderly, ev, st) \<Rightarrow>
                  Ret (ret, if orderly then \<lparr>px_live = True, px_fds = [srv, cl], px_thread = True\<rparr> else closed, ev, st))"

text \<open>The thread of the proxy: the flag is set while it runs.\<close>

definition server_loop_thread ::
  "('w mica_state \<Rightarrow> u8 list \<Rightarrow> (int \<times> 'w mica_state) outcome) \<Rightarrow> px_env \<Rightarrow> px_obs list \<Rightarrow> dm \<Rightarrow> 'w mica_state \<Rightarrow>
   dm \<times> (int \<times> px \<times> px_event list \<times> 'w mica_state) outcome" where
  "server_loop_thread restart env obs s st =
     (case start_proxy_server restart env obs st of
        Ret r \<Rightarrow> (s\<lparr>dm_gdb_server_running := False\<rparr>, Ret r)
      | r \<Rightarrow> (s\<lparr>dm_gdb_server_running := True\<rparr>, r))"

definition free_resources_for_proxy_server :: "px \<Rightarrow> px" where
  "free_resources_for_proxy_server p = (if px_live p then \<lparr>px_live = False, px_fds = [], px_thread = False\<rparr> else p)"

fun carried :: "courier \<Rightarrow> u8 list" where
  "carried C_wait = []"
| "carried (C_carry p) = p"

text \<open>A ring into which \<open>n\<close> bytes have been put since its indices were zero.\<close>

definition ring_after :: "ring_buffer \<Rightarrow> nat \<Rightarrow> bool" where
  "ring_after rb n \<longleftrightarrow> rb_wf rb \<and> (unat (rb_len rb) dvd 2 ^ 32 \<or> unat (rb_out rb) \<le> unat (rb_in rb) \<and> unat (rb_in rb) = n)"

definition dbg_inv :: "dbg \<Rightarrow> bool" where
  "dbg_inv s \<longleftrightarrow> db_rtos_in s @ rb_contents (db_tx s) @ carried (db_to_rtos s) @ concat (db_from_server s) = db_sent s
     \<and> db_gdb s @ concat (db_to_server s) @ carried (db_to_server_thread s) @ rb_contents (db_rx s) = db_rtos_out s
     \<and> ring_after (db_tx s) (length (db_rtos_in s @ rb_contents (db_tx s))) \<and> ring_after (db_rx s) (length (db_rtos_out s))
     \<and> length (carried (db_to_rtos s)) < MAX_BUFF_LENGTH \<and> length (db_from_server s) \<le> MAX_MQ_SIZE
     \<and> length (db_to_server s) \<le> MAX_MQ_SIZE"

definition dbg_traffic :: "dbg \<Rightarrow> bool" where
  "dbg_traffic s \<longleftrightarrow> (unat (rb_len (db_tx s)) dvd 2 ^ 32 \<or> length (db_sent s) < 2 ^ 32)
     \<and> (unat (rb_len (db_rx s)) dvd 2 ^ 32 \<or> length (db_rtos_out s) < 2 ^ 32)"

section \<open>Lemmas\<close>

lemma ring_after_put:
  assumes "ring_after rb n" "length p < 2 ^ 32" "unat (rb_len rb) dvd 2 ^ 32 \<or> n + length (take (unat k) p) < 2 ^ 32"
    and "kfifo_in rb p (of_nat (length p)) = Some (rb', k)"
  shows "ring_after rb' (n + length (take (unat k) p)) \<and> rb_contents rb' = rb_contents rb @ take (unat k) p \<and> rb_len rb' = rb_len rb"
proof -
  have n: "unat (of_nat (length p) :: u32) = length p" using assms(2) by (intro unat_of_nat_small) simp
  have wf: "rb_wf rb" using assms(1) by (simp add: ring_after_def)
  define m where "m = min (length p) (unat (rb_len rb) - rb_used rb)"
  have k0: "k = (if of_nat (length p) > kfifo_unused rb then kfifo_unused rb else of_nat (length p))"
    using assms(4) by (auto simp: kfifo_in_def Let_def split: Option.bind_splits)
  have k: "unat k = m" unfolding k0 m_def by (simp only: unat_if_min rb_unused [OF wf] n)
  then have kp: "length (take (unat k) p) = unat k" by (simp add: m_def)
  have "index_ok rb m" using assms(1,3) k kp by (auto simp: ring_after_def index_ok_def)
  from kfifo_in_ok [of rb "of_nat (length p)" p, OF wf] this assms(4)
  have r: "rb_wf rb'" "rb_contents rb' = rb_contents rb @ take (unat k) p" "rb_in rb' = rb_in rb + k" "rb_out rb' = rb_out rb" "rb_len rb' = rb_len rb"
    by (auto simp: n m_def)
  have "unat (rb_len rb) dvd 2 ^ 32 \<or> unat (rb_out rb') \<le> unat (rb_in rb') \<and> unat (rb_in rb') = n + unat k"
  proof (cases "unat (rb_len rb) dvd 2 ^ 32")
    case False
    then have a: "unat (rb_out rb) \<le> unat (rb_in rb)" "unat (rb_in rb) = n" "n + unat k < 2 ^ 32"
      using assms(1,3) kp by (auto simp: ring_after_def)
    then have "unat (rb_in rb + k) = n + unat k" by (simp add: unat_word_ariths)
    then show ?thesis using a r(3,4) by simp
  qed simp
  then show ?thesis using r kp by (simp add: ring_after_def)
qed

lemma ring_after_get:
  assumes "ring_after rb n" "ring_buffer_read rb m = Some (rb', bs, k)"
  shows "ring_after rb' n \<and> bs @ rb_contents rb' = rb_contents rb \<and> rb_len rb' = rb_len rb \<and> length bs \<le> unat m"
proof -
  have wf: "rb_wf rb" using assms(1) by (simp add: ring_after_def)
  have i: "index_ok rb 0" using assms(1) unsigned_less [of "rb_in rb"] by (auto simp: ring_after_def index_ok_def)
  have "(unat (rb_len rb') dvd 2 ^ 32 \<or> unat (rb_out rb') \<le> unat (rb_in rb')) \<and> rb_wf rb' \<and> rb_in rb' = rb_in rb \<and> rb_len rb' = rb_len rb
      \<and> bs @ rb_contents rb' = rb_contents rb \<and> length bs \<le> unat m"
    using kfifo_out_ok [OF wf i, of m] assms(2) by (auto simp: index_ok_def)
  then show ?thesis using assms(1) by (auto simp: ring_after_def)
qed

lemma take_drop_append: "take n p @ drop n p @ xs = p @ xs"
  by (metis append.assoc append_take_drop_id)

lemma dbg_traffic_back:
  assumes "dbg_step s s'" "dbg_traffic s'"
  shows "dbg_traffic s"
proof -
  have k: "rb_len rb' = rb_len rb" if "kfifo_in rb p n = Some (rb', k)" for rb rb' p n k
    using that by (auto simp: kfifo_in_def kfifo_copy_in_def Let_def split: if_splits Option.bind_splits)
  have r: "rb_len rb' = rb_len rb" if "ring_buffer_read rb n = Some (rb', bs, k)" for rb rb' bs n k
    using that by (auto simp: ring_buffer_read_def kfifo_out_def kfifo_out_peek_def Let_def split: if_splits Option.bind_splits)
  show ?thesis using assms(1,2) by (cases rule: dbg_step.cases) (auto simp: dbg_traffic_def dest: k r)
qed

lemma dbg_inv_step:
  assumes "dbg_step s s'" "dbg_inv s" "dbg_traffic s'"
  shows "dbg_inv s'"
  using assms(1)
proof (cases rule: dbg_step.cases)
  case (rtos_put p tx k)
  let ?n = "length (db_rtos_in s @ rb_contents (db_tx s))"
  have c: "length p < MAX_BUFF_LENGTH" using assms(2) rtos_put by (simp add: dbg_inv_def)
  have "?n + length (take (unat k) p) \<le> length (db_sent s)"
    using arg_cong [of _ _ length, OF assms(2) [unfolded dbg_inv_def, THEN conjunct1]] rtos_put(3) by simp
  then have "unat (rb_len (db_tx s)) dvd 2 ^ 32 \<or> ?n + length (take (unat k) p) < 2 ^ 32"
    using dbg_traffic_back [OF assms(1,3)] by (auto simp: dbg_traffic_def)
  moreover have "ring_after (db_tx s) ?n" using assms(2) by (simp add: dbg_inv_def)
  ultimately have "ring_after tx (?n + length (take (unat k) p)) \<and> rb_contents tx = rb_contents (db_tx s) @ take (unat k) p"
    using ring_after_put [of "db_tx s" ?n p k tx] rtos_put(5) c by simp
  then show ?thesis using assms(2) rtos_put c by (simp add: dbg_inv_def add.assoc less_imp_diff_less take_drop_append)
next
  case (rtos_writes p rx k)
  have "ring_after (db_rx s) (length (db_rtos_out s))" using assms(2) by (simp add: dbg_inv_def)
  moreover have "rb_len rx = rb_len (db_rx s)"
    using rtos_writes(4) by (auto simp: kfifo_in_def kfifo_copy_in_def Let_def split: if_splits Option.bind_splits)
  then have "unat (rb_len (db_rx s)) dvd 2 ^ 32 \<or> length (db_rtos_out s) + length (take (unat k) p) < 2 ^ 32"
    using assms(3) rtos_writes(1) by (auto simp: dbg_traffic_def)
  ultimately have "ring_after rx (length (db_rtos_out s) + length (take (unat k) p)) \<and> rb_contents rx = rb_contents (db_rx s) @ take (unat k) p"
    using ring_after_put [of "db_rx s" "length (db_rtos_out s)" p k rx] rtos_writes(3,4) by simp
  then show ?thesis using assms(2) rtos_writes(1) by (auto simp: dbg_inv_def)
next
  case (rtos_reads n tx bs k)
  have "ring_after (db_tx s) (length (db_rtos_in s @ rb_contents (db_tx s)))" using assms(2) by (simp add: dbg_inv_def)
  note g = ring_after_get [OF this rtos_reads(3)]
  have "length (rb_contents (db_tx s)) = length bs + length (rb_contents tx)" using g by (metis length_append)
  moreover have e: "rb_contents (db_tx s) = bs @ rb_contents tx" using g by simp
  ultimately show ?thesis using assms(2) rtos_reads(1) g [THEN conjunct1] by (simp add: dbg_inv_def add.assoc e)
next
  case (server_read rx bs k)
  have "ring_after (db_rx s) (length (db_rtos_out s))" using assms(2) by (simp add: dbg_inv_def)
  note g = ring_after_get [OF this server_read(4)]
  have "carried (if bs = [] then C_wait else C_carry bs) = bs" by simp
  then show ?thesis using assms(2) server_read(1,3) g by (simp add: dbg_inv_def)
qed (use assms(2) in \<open>auto simp: dbg_inv_def\<close>)

lemma dbg_inv_reach:
  assumes "dbg_step\<^sup>*\<^sup>* s s'" "dbg_inv s" "dbg_traffic s'"
  shows "dbg_inv s'"
  using assms
proof (induction rule: rtranclp_induct)
  case (step t u)
  then show ?case using dbg_inv_step dbg_traffic_back by blast
qed simp

lemma dbg_inv_init:
  assumes "rb_wf tx" "rb_in tx = 0" "rb_out tx = 0" "rb_wf rx" "rb_in rx = 0" "rb_out rx = 0"
  shows "dbg_inv (dbg_init tx rx)"
  using assms by (simp add: dbg_inv_def dbg_init_def ring_after_def rb_contents_def rb_used_def)

lemma ring_after_serves:
  assumes "ring_after rb n"
  shows "ring_buffer_read rb m \<noteq> None"
proof -
  have "rb_wf rb" "index_ok rb 0" using assms unsigned_less [of "rb_in rb"] by (auto simp: ring_after_def index_ok_def)
  then show ?thesis using kfifo_out_ok [of rb 0 m] by auto
qed

section \<open>The byte streams\<close>



section \<open>The threads one by one\<close>

text \<open>As long as every call succeeds and sends are complete, a thread passes on what it has received, in order.\<close>

lemma recv_thread_passes:
  assumes "\<forall>p \<in> set ps. length p < MAX_BUFF_LENGTH"
  shows "recv_from_shared_mem_thread (map (\<lambda>p. (Inr p, Inr (length p))) ps @ obs) gdb = recv_from_shared_mem_thread obs (gdb @ concat ps)"
  using assms by (induction ps arbitrary: gdb) (simp_all add: send_to_gdb_def)

lemma data_to_rtos_passes:
  assumes "\<forall>p \<in> set ps. length p < MAX_BUFF_LENGTH \<and> 0 \<le> write p"
  shows "data_to_rtos_thread (map Inr ps @ obs) write out = data_to_rtos_thread obs write (out @ concat ps)"
  using assms by (induction ps arbitrary: out) (simp_all add: not_less [symmetric])

lemma data_to_server_passes:
  assumes "\<forall>p \<in> set ps. length p < MAX_BUFF_LENGTH"
  shows "data_to_server_thread (map (\<lambda>p. (Inr p, 0)) ps @ obs) queue = data_to_server_thread obs (queue @ filter (\<lambda>p. p \<noteq> []) ps)"
  using assms by (induction ps arbitrary: queue) simp_all

text \<open>A send that passes on less than it was given loses the rest.\<close>

lemma recv_thread_short_send:
  assumes "length p < MAX_BUFF_LENGTH" "n < length p"
  shows "recv_from_shared_mem_thread ((Inr p, Inr n) # obs) gdb = recv_from_shared_mem_thread obs (gdb @ take n p)"
  using assms by (simp add: send_to_gdb_def)

section \<open>The threads of the module\<close>

text \<open>The threads of the module run only while its data is allocated.\<close>

definition dm_inv :: "dm outcome \<Rightarrow> bool" where
  "dm_inv w = (case w of Ret s \<Rightarrow> (dm_to_rtos_thread s \<or> dm_to_server_thread s \<longrightarrow> dm_data_ptr s \<and> dm_data_live s) | _ \<Rightarrow> True)"

lemma debug_start_inv: "dm_inv (Ret s) \<Longrightarrow> dm_inv (map_outcome snd (debug_start env client s))"
  by (auto simp: dm_inv_def debug_start_def alloc_message_queue_def ring_buffer_module_def free_resources_for_ring_buffer_module_def
      free_message_queue_def split: outcome.splits sum.splits if_splits)

lemma debug_stop_inv: "dm_inv (Ret s) \<Longrightarrow> dm_inv (debug_stop s)"
  by (auto simp add: dm_inv_def debug_stop_def free_resources_for_ring_buffer_module_def)

interpretation dbgs: service_contract "{svc. \<exists>env client. svc = debug_service env client}" dm_inv
proof unfold_locales
  fix svc f w
  assume "svc \<in> {svc. \<exists>env client. svc = debug_service env client}"
  then obtain env client where e: "svc = debug_service env client" by blast
  assume i: "dm_inv w"
  show "ms_init svc = Some f \<Longrightarrow> dm_inv (f w)"
    using debug_start_inv i by (auto simp: e debug_service_def split: outcome.splits)
  show "ms_remove svc = Some f \<Longrightarrow> dm_inv (f w)"
    using debug_stop_inv i by (auto simp: e debug_service_def split: outcome.splits)
  show "ms_rpmsg_ns_bind_cb svc = Some b \<Longrightarrow> dm_inv (b name addr dest w)" for b name addr dest
    by (simp add: e debug_service_def)
qed

lemma debug_threads_have_data:
  assumes "dm_inv (ss_world st)" "mc_services (ss_client st) = []"
    and "\<forall>ev \<in> set evs. registered_from {svc. \<exists>env client. svc = debug_service env client} ev"
  shows "dm_inv (ss_world (registry_run endpoints mem_ok evs st))"
proof -
  have "dbgs.client_inv st" using assms(1,2) by (simp add: dbgs.client_inv_def)
  then have "dbgs.client_inv (registry_run endpoints mem_ok evs st)" by (rule dbgs.registry_keeps) (use assms(3) in blast)
  then show ?thesis by (simp add: dbgs.client_inv_def)
qed

section \<open>Control\<close>

fun forwarded :: "px_event list \<Rightarrow> u8 list list" where
  "forwarded [] = []"
| "forwarded (To_shared_mem bs # ev) = bs # forwarded ev"
| "forwarded (_ # ev) = forwarded ev"

definition packets :: "px_obs list \<Rightarrow> u8 list list" where
  "packets obs = takeWhile (\<lambda>bs. bs \<noteq> []) (map (\<lambda>ob. case po_recv ob of Inl e \<Rightarrow> [] | Inr bs \<Rightarrow> bs) obs)"

lemma forwarded_append [simp]: "forwarded (xs @ ys) = forwarded xs @ forwarded ys"
  by (induction xs rule: forwarded.induct) simp_all

lemma proxy_loop_orderly:
  assumes "proxy_loop restart obs ev st = Ret (ret, orderly, ev', st')" "\<forall>ob \<in> set obs. \<forall>e. po_recv ob = Inl e \<longrightarrow> e \<noteq> 0"
  shows "orderly \<longleftrightarrow> ret = 0"
  using assms
proof (induction restart obs ev st rule: proxy_loop.induct)
  case (2 restart ob obs ev st)
  show ?case
  proof (cases "po_recv ob")
    case (Inl e)
    then show ?thesis using 2 by simp
  next
    case (Inr bs)
    show ?thesis using "2.prems" "2.IH" [OF Inr] Inr
      by (auto simp: Let_def split: if_splits outcome.splits prod.splits)
  qed
qed simp

lemma control_not_forwarded:
  assumes "(if a then map_outcome (\<lambda>(r, st). (r, [Ctrl_c], st)) x
    else if b then map_outcome (\<lambda>(r, st). (r, [Restarted], st)) y else Ret (0, [], z)) = Ret (ret, ev, st)"
  shows "forwarded ev = []"
proof -
  have "ev = [Ctrl_c] \<or> ev = [Restarted] \<or> ev = []"
    using assms by (cases x; cases y) (auto split: if_splits)
  then show ?thesis by auto
qed

lemma proxy_loop_forwards:
  assumes "proxy_loop restart obs ev st = Ret (ret, True, ev', st')"
  shows "forwarded ev' = forwarded ev @ packets obs"
  using assms
proof (induction restart obs ev st rule: proxy_loop.induct)
  case (2 restart ob obs ev st)
  obtain bs where bs: "po_recv ob = Inr bs" "length bs < MAX_BUFF_LENGTH"
    using "2.prems" by (cases "po_recv ob") (auto split: if_splits)
  show ?case
  proof (cases "bs = []")
    case True
    then show ?thesis using "2.prems" bs by (simp add: packets_def)
  next
    case False
    let ?str = "takeWhile (\<lambda>b. b \<noteq> 0) bs"
    let ?c = "if ?str = [3] then map_outcome (\<lambda>(r, st). (r, [Ctrl_c], st)) (send_ctrl_c st)
      else if ?str = bytes ''$R0#82'' then map_outcome (\<lambda>(r, st). (r, [Restarted], st)) (restart st (po_polls ob)) else Ret (0, [], st)"
    obtain ev1 st1 where c: "?c = Ret (0, ev1, st1)" "po_mq_send ob = 0"
        "proxy_loop restart obs (ev @ ev1 @ [To_shared_mem bs]) st1 = Ret (ret, True, ev', st')"
      using "2.prems" bs False by (auto simp: Let_def split: outcome.splits if_splits prod.splits)
    have "\<not> length bs \<ge> MAX_BUFF_LENGTH" using bs(2) by simp
    then have "forwarded ev' = forwarded (ev @ ev1 @ [To_shared_mem bs]) @ packets obs"
      using "2.IH" [OF bs(1) _ False refl refl c(1) refl refl _ _ c(3)] c(2) by simp
    then show ?thesis using control_not_forwarded [OF c(1)] bs(1) False by (simp add: packets_def)
  qed
qed simp


definition demo_px_env :: px_env where
  "demo_px_env = \<lparr>pv_calloc = True, pv_socket = Some 6, pv_setsockopt = 0, pv_bind = 0, pv_listen = 0, pv_accept = Inr 7, pv_thread = 0\<rparr>"

definition demo_px_obs :: "px_obs list" where
  "demo_px_obs = [\<lparr>po_recv = Inr [36, 103], po_polls = [], po_mq_send = 0\<rparr>, \<lparr>po_recv = Inr [3], po_polls = [], po_mq_send = 0\<rparr>,
     \<lparr>po_recv = Inr [], po_polls = [], po_mq_send = 0\<rparr>]"

lemma demo_proxy:
  "\<exists>p st'. start_proxy_server (\<lambda>st polls. Ret (0, st)) demo_px_env demo_px_obs demo_mica = Ret (0, p, [To_shared_mem [36, 103], Ctrl_c, To_shared_mem [3]], st')
    \<and> px_fds p = [6, 7]"
  by (simp add: start_proxy_server_def demo_px_env_def demo_px_obs_def configure_socket_def send_ctrl_c_def client_table_def demo_mica_def
      demo_rbuf_rt_def bytes_def)


section \<open>Where the service goes wrong\<close>

text \<open>When gdb closes the connection, both sockets stay open and the receiving thread keeps running.\<close>

lemma proxy_close_keeps_sockets:
  "\<exists>p ev st'. start_proxy_server (\<lambda>st polls. Ret (0, st)) demo_px_env demo_px_obs demo_mica = Ret (0, p, ev, st') \<and> px_fds p = [6, 7]"
  using demo_proxy by (elim exE conjE) (intro exI conjI)

text \<open>A packet of exactly the buffer length is terminated behind the buffer.\<close>

lemma proxy_full_packet_overruns:
  "po_recv ob = Inr bs \<Longrightarrow> length bs = MAX_BUFF_LENGTH \<Longrightarrow> proxy_loop restart (ob # obs) ev st = Fault"
  by simp

text \<open>With a pedestal whose shutdown drops the resource table, restarting always reads memory that is no longer mapped.\<close>

lemma restart_reads_unmapped:
  assumes "client_table (mt_client st) = Some rt" "rt_rbuf rt \<noteq> None" "mica_stop oa st = Ret st'" "client_table (mt_client st') = None"
  shows "restart_client oa menv creates polls st = Fault"
  using assms by (auto simp: restart_client_def)

text \<open>
  The set-up frees the module data when the server thread cannot be created; the service is registered
  all the same, and its removal then uses the freed block.
\<close>

lemma debug_failed_start_then_stop:
  assumes "debug_start env client s = Ret (ret, s')" "de_mq_from env = Inr q" "de_mq_to env = Inr r"
    and "0 \<le> de_thread_to_server env" "\<not> dm_gdb_server_running s" "de_thread_server env \<noteq> 0"
  shows "debug_stop s' = Fault"
  using assms
  by (auto simp: debug_start_def alloc_message_queue_def ring_buffer_module_def free_resources_for_ring_buffer_module_def
      free_message_queue_def debug_stop_def split: if_splits)

text \<open>A transfer thread that cannot be created goes unnoticed: thread creation fails with a positive number.\<close>

lemma debug_thread_failure_unnoticed:
  assumes "debug_start env client s = Ret (ret, s')" "de_mq_from env = Inr q" "de_mq_to env = Inr r"
    and "0 < de_thread_to_server env" "de_thread_server env = 0"
  shows "ret = 0 \<and> \<not> dm_to_server_thread s'"
  using assms by (auto simp: debug_start_def alloc_message_queue_def ring_buffer_module_def split: if_splits)

text \<open>When the second message queue cannot be opened, the first one stays open.\<close>

lemma debug_queue_leak:
  assumes "de_mq_from env = Inr q" "de_mq_to env = Inl e" "0 < e"
  shows "debug_start env client s = Ret (- e, s\<lparr>dm_queues := q # dm_queues s\<rparr>)"
  using assms by (simp add: debug_start_def alloc_message_queue_def)

end
