(* ===== verification/Micad_Main.thy ===== *)
theory Micad_Main
  imports Socket_Listener
begin

text \<open>
  The daemon's main program (\<open>micad/main.c\<close>): becoming a daemon, the pid file, the signal handlers
  and the order in which the parts are started and ended. Forks, signals and files are parameters;
  what the daemon serves between its start and the stop signal is a run of \<open>sl_step\<close>.
\<close>

section \<open>Definitions\<close>

text \<open>The pid file: its descriptor and name as the globals hold them, and whether it is on disk and locked.\<close>

record pidfile =
  pf_fd :: "int option"
  pf_name :: bool
  pf_on_disk :: bool
  pf_locked :: bool

record main_env =
  mn_fork1 :: int
  mn_setsid :: int
  mn_fork2 :: int
  mn_strdup :: bool
  mn_open :: "int option"
  mn_lockf :: bool
  mn_asprintf :: bool
  mn_write :: bool
  mn_sigaction :: "nat \<Rightarrow> bool"
  mn_fork_create :: int
  mn_execvp :: bool

definition write_pid_file :: "main_env \<Rightarrow> pidfile \<Rightarrow> int \<times> pidfile" where
  "write_pid_file env p =
     (if \<not> mn_strdup env then (- 1, p)
      else case mn_open env of
        None \<Rightarrow> (- 1, p\<lparr>pf_fd := None, pf_name := False\<rparr>)
      | Some fd \<Rightarrow>
          if \<not> mn_lockf env then (- 1, p\<lparr>pf_fd := None, pf_name := False, pf_on_disk := True\<rparr>)
          else if \<not> mn_asprintf env then (- 1, p\<lparr>pf_fd := None, pf_name := False, pf_on_disk := True\<rparr>)
          else (0, \<lparr>pf_fd = Some fd, pf_name = True, pf_on_disk = mn_write env, pf_locked = True\<rparr>))"

definition close_pid_file :: "pidfile \<Rightarrow> pidfile" where
  "close_pid_file p =
     (let p = (if pf_fd p = None then p else p\<lparr>pf_fd := None, pf_locked := False\<rparr>) in
      if pf_name p then p\<lparr>pf_name := False, pf_on_disk := False\<rparr> else p)"

text \<open>\<open>Inl\<close> is the exit code of a process that ends here, \<open>Inr\<close> the daemon.\<close>

definition daemonize :: "main_env \<Rightarrow> pidfile \<Rightarrow> int + pidfile" where
  "daemonize env p =
     (if mn_fork1 env = - 1 then Inl 1
      else if mn_fork1 env > 0 then Inl 0
      else if mn_setsid env < 0 then Inl 1
      else if mn_fork2 env < 0 then Inl 1
      else if mn_fork2 env > 0 then Inl 0
      else case write_pid_file env p of (ret, p) \<Rightarrow> if ret < 0 then Inl 1 else Inr p)"

text \<open>The seven calls that can fail, in order: three signals are ignored, one is reset, the semaphore is set up, two get a handler.\<close>

definition add_signal_handler :: "main_env \<Rightarrow> int" where
  "add_signal_handler env = (if \<forall>i < 7. mn_sigaction env i then 0 else - 1)"

text \<open>
  The process that continues after \<open>mica_create_all\<close>: the daemon, and, when the tool cannot be run,
  the child too. \<open>None\<close> is the child that became the tool.
\<close>

datatype role = Daemon | Stray_child

definition mica_create_all :: "main_env \<Rightarrow> role option" where
  "mica_create_all env =
     (if mn_fork_create env = 0 then (if mn_execvp env then None else Some Stray_child) else Some Daemon)"

text \<open>
  \<open>main\<close>, from the state \<open>b\<close> in which nothing is registered; \<open>s\<close> is the state in which its
  listeners are ended. The result is the exit code, the listeners and the pid file at the end, or
  \<open>None\<close> for the child that became the tool.
\<close>

definition micad_main ::
  "main_env \<Rightarrow> pidfile \<Rightarrow> ('w sl \<Rightarrow> (int \<times> 'w sl) outcome) \<Rightarrow> 'w sl \<Rightarrow> 'w sl \<Rightarrow> (int \<times> 'w sl \<times> pidfile) option outcome" where
  "micad_main env p register b s =
     (case daemonize env p of
        Inl code \<Rightarrow> Ret (Some (code, b, p))
      | Inr p \<Rightarrow>
          (case register b of
             Fault \<Rightarrow> Fault | Spinning \<Rightarrow> Spinning
           | Ret (ret, s0) \<Rightarrow>
               if ret \<noteq> 0 then Ret (Some (ret, s0, close_pid_file p))
               else if mica_create_all env = None then Ret None
               else Ret (Some (add_signal_handler env, unregister_socket_listener s, close_pid_file p))))"

section \<open>Lemmas\<close>

lemma unregister_clean:
  assumes "sl_inv {#} s"
  shows "sl_units (unregister_socket_listener s) = [] \<and> sl_open_fds (unregister_socket_listener s) = [] \<and> sl_files (unregister_socket_listener s) = []"
proof -
  let ?t = "s\<lparr>sl_listening := False\<rparr>"
  have "sl_inv {#} ?t" using assms sl_inv_cong [of ?t s] by simp
  then have "sl_inv {#} (free_units (sl_units ?t) ?t)" "sl_units (free_units (sl_units ?t) ?t) = []"
    using free_units_all by blast+
  then show ?thesis by (simp add: sl_inv_def unregister_socket_listener_def free_all_listeners_def Let_def)
qed

lemma daemonize_pid: "daemonize env p = Inr p' \<Longrightarrow> pf_fd p' \<noteq> None \<and> pf_name p' \<and> pf_locked p'"
  by (auto simp: daemonize_def write_pid_file_def split: if_splits option.splits)


definition demo_main_env :: main_env where
  "demo_main_env = \<lparr>mn_fork1 = 0, mn_setsid = 0, mn_fork2 = 0, mn_strdup = True, mn_open = Some 3, mn_lockf = True, mn_asprintf = True,
     mn_write = True, mn_sigaction = (\<lambda>i. True), mn_fork_create = 9, mn_execvp = True\<rparr>"

definition no_pid_file :: pidfile where
  "no_pid_file = \<lparr>pf_fd = None, pf_name = False, pf_on_disk = False, pf_locked = False\<rparr>"

lemma demo_daemonize: "\<exists>p1. daemonize demo_main_env no_pid_file = Inr p1 \<and> pf_on_disk p1"
  by (simp add: daemonize_def write_pid_file_def demo_main_env_def)


section \<open>Where the program goes wrong\<close>

text \<open>
  When the tool cannot be run, the child returns into \<open>main\<close> as a second daemon: it too waits for
  the stop signal and then removes the listeners' files and the pid file.
\<close>

lemma stray_child_continues:
  assumes "mn_fork_create env = 0" "\<not> mn_execvp env" "daemonize env p = Inr p1" "register b = Ret (0, s0)"
  shows "micad_main env p register b s = Ret (Some (add_signal_handler env, unregister_socket_listener s, close_pid_file p1))"
  using assms by (simp add: micad_main_def mica_create_all_def)

text \<open>A pid file that cannot be written is removed, and the daemon starts all the same.\<close>

lemma pid_write_failure_ignored:
  assumes "mn_strdup env" "mn_open env = Some fd" "mn_lockf env" "mn_asprintf env" "\<not> mn_write env"
  shows "\<exists>p'. write_pid_file env p = (0, p') \<and> \<not> pf_on_disk p'"
  using assms by (simp add: write_pid_file_def)

end
