(* ===== verification/Rpc_Codec.thy ===== *)
theory Rpc_Codec
  imports C_Format
begin

text \<open>
  The encodings of the RPC service for host entries and address lists
  (\<open>services/rpc/rpc_helper.c\<close>). Memory is a list of bytes: reading behind its end, following a
  pointer that was never set, or looking for a terminating zero that is not there is
  \<open>Fault\<close>. Strings are byte lists without their terminating zero.
\<close>

abbreviation RPC_EOVERLONG :: int where "RPC_EOVERLONG \<equiv> 3002"
abbreviation RPC_ECORRUPTED :: int where "RPC_ECORRUPTED \<equiv> 3003"
abbreviation RPC_EINVAL :: int where "RPC_EINVAL \<equiv> 3005"
abbreviation RPC_ENOMEM :: int where "RPC_ENOMEM \<equiv> 3006"

section \<open>Reading memory\<close>

definition rd :: "nat \<Rightarrow> nat \<Rightarrow> u8 list \<Rightarrow> u8 list option" where
  "rd i n m = (if i + n \<le> length m then Some (take n (drop i m)) else None)"

definition rd_str :: "nat \<Rightarrow> u8 list \<Rightarrow> u8 list option" where
  "rd_str i m = (if 0 \<in> set (drop i m) then Some (takeWhile (\<lambda>b. b \<noteq> 0) (drop i m)) else None)"

definition c_string :: "u8 list \<Rightarrow> bool" where
  "c_string s \<longleftrightarrow> 0 \<notin> set s"

section \<open>Host entries\<close>

record hostent =
  h_name :: "u8 list option"
  h_aliases :: "u8 list list option"
  h_addrtype :: u32
  h_length :: nat
  h_addr_list :: "u8 list list option"

abbreviation sizeof_ihostent :: nat where "sizeof_ihostent \<equiv> 24"

definition ihostent :: "nat \<Rightarrow> nat \<Rightarrow> nat \<Rightarrow> nat \<Rightarrow> u32 \<Rightarrow> nat \<Rightarrow> nat \<Rightarrow> u8 list" where
  "ihostent name_idx aliases_idx aliaslen addrlen addrtype len addr_list_idx =
     le_bytes 4 name_idx @ le_bytes 4 aliases_idx @ le_bytes 2 aliaslen @ le_bytes 2 addrlen
     @ le_bytes 4 (unat addrtype) @ le_bytes 4 len @ le_bytes 4 addr_list_idx"

text \<open>The copying loops: each piece is refused unless it ends before the last byte of the buffer.\<close>

fun put_all :: "nat \<Rightarrow> u8 list list \<Rightarrow> u8 list \<Rightarrow> u8 list option" where
  "put_all buflen [] acc = Some acc"
| "put_all buflen (c # cs) acc = (if length acc + length c \<ge> buflen then None else put_all buflen cs (acc @ c))"

text \<open>The result and what the buffer holds. \<open>acc\<close> starts with the room for the header, which is written last.\<close>

definition encode_hostent :: "hostent \<Rightarrow> nat \<Rightarrow> (int \<times> u8 list) outcome" where
  "encode_hostent ht buflen =
     (let terminate = (\<lambda>s. s @ [0]); none = (\<lambda>x. case x of None \<Rightarrow> [] | Some xs \<Rightarrow> xs);
          addrs = none (h_addr_list ht) in
      if \<exists>a \<in> set addrs. length a \<noteq> h_length ht then Fault
      else case put_all buflen (map terminate (case h_name ht of None \<Rightarrow> [] | Some s \<Rightarrow> [s])) (replicate sizeof_ihostent 0) of
        None \<Rightarrow> Ret (- RPC_EOVERLONG, [])
      | Some acc1 \<Rightarrow>
          (case put_all buflen (map terminate (none (h_aliases ht))) acc1 of
             None \<Rightarrow> Ret (- RPC_EOVERLONG, [])
           | Some acc2 \<Rightarrow>
               (case put_all buflen addrs acc2 of
                  None \<Rightarrow> Ret (- RPC_EOVERLONG, [])
                | Some acc3 \<Rightarrow>
                    if buflen < sizeof_ihostent then Fault
                    else Ret (int (length acc3),
                      ihostent sizeof_ihostent (length acc1) (length (none (h_aliases ht))) (length addrs)
                        (h_addrtype ht) (h_length ht) (length acc2) @ drop sizeof_ihostent acc3))))"

text \<open>The pointers that the decoder sets into the copied payload, with what they point to.\<close>

fun get_strs :: "nat \<Rightarrow> nat \<Rightarrow> u8 list \<Rightarrow> (u8 list list \<times> nat) option" where
  "get_strs 0 i m = Some ([], i)"
| "get_strs (Suc n) i m =
     (case rd_str i m of
        None \<Rightarrow> None
      | Some s \<Rightarrow> map_option (\<lambda>(ss, j). (s # ss, j)) (get_strs n (i + length s + 1) m))"

fun get_addrs :: "nat \<Rightarrow> nat \<Rightarrow> nat \<Rightarrow> u8 list \<Rightarrow> u8 list list option" where
  "get_addrs 0 len i m = Some []"
| "get_addrs (Suc n) len i m =
     (case rd i len m of None \<Rightarrow> None | Some a \<Rightarrow> map_option (Cons a) (get_addrs n len (i + len) m))"

definition int32 :: "nat \<Rightarrow> int" where
  "int32 n = (if n < 2 ^ 31 then int n else int n - 2 ^ 32)"

text \<open>
  The indices and the address length are signed, the counts are \<open>short\<close>. A negative count moves the
  pointer tables out of the allocated block; an entry with a pointer that leaves the payload is
  \<open>Fault\<close> as well. The buffer has \<open>length src\<close> bytes.
\<close>

definition decode_hostent :: "bool \<Rightarrow> u8 list \<Rightarrow> (int \<times> hostent option) outcome" where
  "decode_hostent malloc_ok src =
     (let at = (\<lambda>i n. le_nat (take n (drop i src))); name_idx = int32 (at 0 4); aliases_idx = int32 (at 4 4);
          aliaslen = at 8 2; addrlen = at 10 2; addr_list_idx = int32 (at 20 4); m = drop sizeof_ihostent src in
      if length src < sizeof_ihostent then Ret (- RPC_EINVAL, None)
      else if name_idx > aliases_idx \<or> aliases_idx > addr_list_idx then Ret (- RPC_ECORRUPTED, None)
      else if \<not> malloc_ok then Ret (- RPC_ENOMEM, None)
      else if aliaslen \<ge> 2 ^ 15 \<or> addrlen \<ge> 2 ^ 15 \<or> int32 (at 16 4) < 0 then Fault
      else
        case (if name_idx = aliases_idx then Some None else map_option Some (rd_str 0 m)) of
          None \<Rightarrow> Fault
        | Some nm \<Rightarrow>
            (case get_strs aliaslen (nat (aliases_idx - name_idx)) m of
               None \<Rightarrow> Fault
             | Some (aliases, i) \<Rightarrow>
                 (case get_addrs addrlen (at 16 4) i m of
                    None \<Rightarrow> Fault
                  | Some addrs \<Rightarrow>
                      Ret (0, Some \<lparr>h_name = nm, h_aliases = Some aliases, h_addrtype = of_nat (at 12 4), h_length = at 16 4,
                        h_addr_list = Some addrs\<rparr>))))"

section \<open>Lemmas on the host codec\<close>

lemma put_all_Some:
  "put_all buflen cs acc = Some r \<Longrightarrow> r = acc @ concat cs \<and> (cs = [] \<or> length r < buflen)"
proof (induction cs arbitrary: acc)
  case (Cons c cs)
  then have c: "length acc + length c < buflen" "put_all buflen cs (acc @ c) = Some r" by (auto split: if_splits)
  show ?case using Cons.IH [OF c(2)] c(1) by auto
qed simp

lemma put_all_length: "put_all buflen cs acc = Some r \<Longrightarrow> length acc \<le> buflen \<Longrightarrow> length r \<le> buflen"
  using put_all_Some by fastforce

lemma rd_str_at: "c_string s \<Longrightarrow> rd_str (length xs) (xs @ s @ 0 # ys) = Some s"
  unfolding rd_str_def c_string_def by (simp, subst takeWhile_append2) auto

lemma get_strs_at:
  assumes "\<forall>s \<in> set ss. c_string s"
  shows "get_strs (length ss) (length xs) (xs @ concat (map (\<lambda>s. s @ [0]) ss) @ ys) =
    Some (ss, length xs + length (concat (map (\<lambda>s. s @ [0]) ss)))"
  using assms
proof (induction ss arbitrary: xs)
  case (Cons s ss)
  have "get_strs (length ss) (length (xs @ s @ [0])) ((xs @ s @ [0]) @ concat (map (\<lambda>s. s @ [0]) ss) @ ys) =
      Some (ss, length (xs @ s @ [0]) + length (concat (map (\<lambda>s. s @ [0]) ss)))"
    by (rule Cons.IH) (use Cons.prems in simp)
  then show ?case using Cons.prems rd_str_at [of s xs "concat (map (\<lambda>s. s @ [0]) ss) @ ys"] by simp
qed simp

lemma get_addrs_at:
  assumes "\<forall>a \<in> set as. length a = n"
  shows "get_addrs (length as) n (length xs) (xs @ concat as @ ys) = Some as"
  using assms
proof (induction as arbitrary: xs)
  case (Cons a as)
  have "get_addrs (length as) n (length (xs @ a)) ((xs @ a) @ concat as @ ys) = Some as"
    by (rule Cons.IH) (use Cons.prems in simp)
  then show ?case using Cons.prems by (simp add: rd_def)
qed simp

lemma length_ihostent: "length (ihostent a b c d e f g) = sizeof_ihostent"
  by (simp add: ihostent_def)

lemma ihostent_fields:
  assumes "a < 2 ^ 32" "b < 2 ^ 32" "c < 2 ^ 16" "d < 2 ^ 16" "f < 2 ^ 32" "g < 2 ^ 32"
  shows "le_nat (take 4 (drop 0 (ihostent a b c d e f g @ m))) = a" "le_nat (take 4 (drop 4 (ihostent a b c d e f g @ m))) = b"
    "le_nat (take 2 (drop 8 (ihostent a b c d e f g @ m))) = c" "le_nat (take 2 (drop 10 (ihostent a b c d e f g @ m))) = d"
    "le_nat (take 4 (drop 12 (ihostent a b c d e f g @ m))) = unat e" "le_nat (take 4 (drop 16 (ihostent a b c d e f g @ m))) = f"
    "le_nat (take 4 (drop 20 (ihostent a b c d e f g @ m))) = g"
  using assms unat_u32_lt [of e] by (simp_all add: ihostent_def le_nat_bytes)

definition strings :: "u8 list list option \<Rightarrow> u8 list list" where
  "strings x = (case x of None \<Rightarrow> [] | Some xs \<Rightarrow> xs)"

definition host_ok :: "hostent \<Rightarrow> bool" where
  "host_ok ht \<longleftrightarrow> (\<forall>s. h_name ht = Some s \<longrightarrow> c_string s) \<and> (\<forall>s \<in> set (strings (h_aliases ht)). c_string s)
     \<and> (\<forall>a \<in> set (strings (h_addr_list ht)). length a = h_length ht \<and> a \<noteq> []) \<and> h_length ht < 2 ^ 31"

lemma length_le_concat: "\<forall>x \<in> set xs. x \<noteq> [] \<Longrightarrow> length xs \<le> length (concat xs)"
proof (induction xs)
  case (Cons x xs)
  then show ?case by (cases x) auto
qed simp

lemma encode_hostent_layout:
  assumes "encode_hostent ht buflen = Ret (n, buf)" "0 \<le> n"
  shows "\<exists>nm al ad. nm = concat (map (\<lambda>s. s @ [0]) (case h_name ht of None \<Rightarrow> [] | Some s \<Rightarrow> [s]))
    \<and> al = concat (map (\<lambda>s. s @ [0]) (strings (h_aliases ht))) \<and> ad = concat (strings (h_addr_list ht))
    \<and> buf = ihostent sizeof_ihostent (sizeof_ihostent + length nm) (length (strings (h_aliases ht))) (length (strings (h_addr_list ht)))
        (h_addrtype ht) (h_length ht) (sizeof_ihostent + length nm + length al) @ nm @ al @ ad
    \<and> n = int (length buf) \<and> length buf \<le> buflen"
proof -
  obtain a1 a2 a3 where a: "put_all buflen (map (\<lambda>s. s @ [0]) (case h_name ht of None \<Rightarrow> [] | Some s \<Rightarrow> [s])) (replicate sizeof_ihostent 0) = Some a1"
      "put_all buflen (map (\<lambda>s. s @ [0]) (strings (h_aliases ht))) a1 = Some a2" "put_all buflen (strings (h_addr_list ht)) a2 = Some a3"
      "sizeof_ihostent \<le> buflen"
      "n = int (length a3)" "buf = ihostent sizeof_ihostent (length a1) (length (strings (h_aliases ht))) (length (strings (h_addr_list ht)))
        (h_addrtype ht) (h_length ht) (length a2) @ drop sizeof_ihostent a3"
    using assms unfolding encode_hostent_def strings_def [symmetric] by (auto simp: Let_def split: if_splits option.splits)
  note b = put_all_Some [OF a(1), THEN conjunct1] put_all_Some [OF a(2), THEN conjunct1] put_all_Some [OF a(3), THEN conjunct1]
  have "length a3 \<le> buflen" using put_all_length [OF a(3) put_all_length [OF a(2) put_all_length [OF a(1)]]] a(4) by simp
  then show ?thesis using a(5,6) b by (simp add: length_ihostent add.assoc)
qed

text \<open>
  C32: A host entry that fits in the reply buffer survives the encoding: the encoder returns the length
  of what it wrote, which is within the buffer, and the decoder gives back the same name, aliases,
  address type and addresses. (The buffer has less than 32768 bytes, so the counts do
  not overflow; a missing list comes back as an empty one.)
\<close>

theorem hostent_roundtrip:
  assumes "encode_hostent ht buflen = Ret (n, buf)" "0 \<le> n" "host_ok ht" "buflen < 2 ^ 15"
  shows "n = int (length buf) \<and> length buf \<le> buflen
    \<and> decode_hostent True buf = Ret (0, Some (ht\<lparr>h_aliases := Some (strings (h_aliases ht)), h_addr_list := Some (strings (h_addr_list ht))\<rparr>))"
proof -
  define nm where "nm = concat (map (\<lambda>s. s @ [0]) (case h_name ht of None \<Rightarrow> [] | Some s \<Rightarrow> [s]))"
  define al where "al = concat (map (\<lambda>s. s @ [0]) (strings (h_aliases ht)))"
  define ad where "ad = concat (strings (h_addr_list ht))"
  let ?na = "length (strings (h_aliases ht))" and ?nd = "length (strings (h_addr_list ht))"
  let ?h = "ihostent sizeof_ihostent (sizeof_ihostent + length nm) ?na ?nd (h_addrtype ht) (h_length ht) (sizeof_ihostent + length nm + length al)"
  have buf: "buf = ?h @ nm @ al @ ad" "n = int (length buf)" "length buf \<le> buflen"
    using encode_hostent_layout [OF assms(1,2)] unfolding nm_def al_def ad_def by blast+
  have len: "sizeof_ihostent + length nm + length al + length ad < 2 ^ 15"
    using buf(1,3) assms(4) by (simp add: length_ihostent)
  have "?na \<le> length al" using length_le_concat [of "map (\<lambda>s. s @ [0]) (strings (h_aliases ht))"] by (simp add: al_def)
  moreover have "?nd \<le> length ad" using length_le_concat [of "strings (h_addr_list ht)"] assms(3) by (simp add: ad_def host_ok_def)
  ultimately have cnt: "?na < 2 ^ 15" "?nd < 2 ^ 15" using len by linarith+
  note f = ihostent_fields [of sizeof_ihostent "sizeof_ihostent + length nm" ?na ?nd "h_length ht" "sizeof_ihostent + length nm + length al"
      "h_addrtype ht" "nm @ al @ ad", folded buf(1)]
  have hl: "h_length ht < 2 ^ 31" using assms(3) by (simp add: host_ok_def)
  have f: "le_nat (take 4 (drop 0 buf)) = sizeof_ihostent" "le_nat (take 4 (drop 4 buf)) = sizeof_ihostent + length nm"
      "le_nat (take 2 (drop 8 buf)) = ?na" "le_nat (take 2 (drop 10 buf)) = ?nd" "le_nat (take 4 (drop 12 buf)) = unat (h_addrtype ht)"
      "le_nat (take 4 (drop 16 buf)) = h_length ht" "le_nat (take 4 (drop 20 buf)) = sizeof_ihostent + length nm + length al"
    using f len cnt hl by simp_all
  have m: "drop sizeof_ihostent buf = nm @ al @ ad" unfolding buf(1) by (simp add: length_ihostent)
  have name: "(if nm = [] then Some None else map_option Some (rd_str 0 (nm @ al @ ad))) = Some (h_name ht)"
    using assms(3) rd_str_at [of _ "[]" "al @ ad"] by (cases "h_name ht") (auto simp: nm_def host_ok_def)
  have str: "get_strs ?na (length nm) (nm @ al @ ad) = Some (strings (h_aliases ht), length nm + length al)"
    using get_strs_at [of "strings (h_aliases ht)" nm ad] assms(3) by (simp add: al_def host_ok_def)
  have adr: "get_addrs ?nd (h_length ht) (length nm + length al) (nm @ al @ ad) = Some (strings (h_addr_list ht))"
    using get_addrs_at [of "strings (h_addr_list ht)" "h_length ht" "nm @ al" "[]"] assms(3) by (simp add: ad_def host_ok_def)
  have i: "int32 sizeof_ihostent = int sizeof_ihostent" "int32 (sizeof_ihostent + length nm) = int (sizeof_ihostent + length nm)"
      "int32 (sizeof_ihostent + length nm + length al) = int (sizeof_ihostent + length nm + length al)" "int32 (h_length ht) = int (h_length ht)"
    using len hl by (simp_all add: int32_def)
  have "\<not> length buf < sizeof_ihostent" unfolding buf(1) by (simp add: length_ihostent)
  then have "decode_hostent True buf = Ret (0, Some \<lparr>h_name = h_name ht, h_aliases = Some (strings (h_aliases ht)), h_addrtype = of_nat (unat (h_addrtype ht)),
      h_length = h_length ht, h_addr_list = Some (strings (h_addr_list ht))\<rparr>)"
    using name str adr cnt unfolding decode_hostent_def Let_def f m i by simp
  then show ?thesis using buf(2,3) by (cases ht) simp
qed

definition demo_host :: hostent where
  "demo_host = \<lparr>h_name = Some [104, 111], h_aliases = None, h_addrtype = 2, h_length = 4, h_addr_list = Some [[127, 0, 0, 1]]\<rparr>"

lemma demo_host_encodes: "\<exists>buf. encode_hostent demo_host 432 = Ret (31, buf)"
  by (simp add: encode_hostent_def demo_host_def ihostent_def)

theorem hostent_roundtrip_witness:
  "\<exists>buf. encode_hostent demo_host 432 = Ret (31, buf) \<and> decode_hostent True buf = Ret (0, Some (demo_host\<lparr>h_aliases := Some []\<rparr>))"
proof -
  obtain buf where b: "encode_hostent demo_host 432 = Ret (31, buf)" using demo_host_encodes by (elim exE) (rule that)
  have "host_ok demo_host" by (simp add: host_ok_def demo_host_def strings_def c_string_def)
  then have "decode_hostent True buf = Ret (0, Some (demo_host\<lparr>h_aliases := Some []\<rparr>))"
    using hostent_roundtrip [OF b] by (simp add: demo_host_def strings_def)
  then show ?thesis using b by (intro exI [of _ buf] conjI)
qed

section \<open>Address lists\<close>

record addrinfo =
  ai_flags :: u32
  ai_family :: u32
  ai_socktype :: u32
  ai_protocol :: u32
  ai_addrlen :: u32
  ai_addr :: "u8 list option"
  ai_canonname :: "u8 list option"

abbreviation ai_hlen :: nat where "ai_hlen \<equiv> 20"

definition ai_header :: "addrinfo \<Rightarrow> u8 list" where
  "ai_header p = le_bytes 4 (unat (ai_flags p)) @ le_bytes 4 (unat (ai_family p)) @ le_bytes 4 (unat (ai_socktype p))
     @ le_bytes 4 (unat (ai_protocol p)) @ le_bytes 4 (unat (ai_addrlen p))"

definition ai_aclen :: "addrinfo \<Rightarrow> nat" where
  "ai_aclen p = (case ai_canonname p of None \<Rightarrow> 0 | Some s \<Rightarrow> length s + 1)"

definition ai_bytes :: "addrinfo \<Rightarrow> u8 list" where
  "ai_bytes p = ai_header p @ le_bytes 4 (ai_aclen p)
     @ (case ai_addr p of None \<Rightarrow> [] | Some a \<Rightarrow> a) @ (case ai_canonname p of None \<Rightarrow> [] | Some s \<Rightarrow> s @ [0])"

text \<open>
  The result, the length stored for the caller and what the buffer holds. The length is computed in a
  32-bit \<open>int\<close> before anything is copied, and counts the address length even without an address.
\<close>

definition encode_addrlist :: "addrinfo list \<Rightarrow> int \<Rightarrow> (int \<times> int \<times> u8 list) outcome" where
  "encode_addrlist ais buflen =
     (if ais = [] then Ret (- RPC_EINVAL, buflen, [])
      else let len = int32 (sum_list (map (\<lambda>p. ai_hlen + unat (ai_addrlen p) + 4 + ai_aclen p) ais) mod 2 ^ 32);
          out = concat (map ai_bytes ais) in
        if len > buflen then Ret (- RPC_EOVERLONG, buflen, [])
        else if int (length out) > buflen \<or> (\<exists>p \<in> set ais. case ai_addr p of None \<Rightarrow> False | Some a \<Rightarrow> length a \<noteq> unat (ai_addrlen p)) then Fault
        else Ret (int (length ais), len, out))"

text \<open>
  \<open>decode_addrlist\<close>, from position \<open>bi\<close>. A node is linked into the list before its own link is
  set, so every error after its allocation follows an unset pointer when the list is freed. The
  header is copied before the length of the buffer is looked at, and the end of the address is computed in 32 bits.
\<close>

fun decode_nodes :: "(nat \<Rightarrow> bool) \<Rightarrow> u8 list \<Rightarrow> int \<Rightarrow> nat \<Rightarrow> nat \<Rightarrow> (int \<times> addrinfo list) outcome" where
  "decode_nodes malloc buf buflen 0 bi = Ret (0, [])"
| "decode_nodes malloc buf buflen (Suc n) bi =
     (case rd bi ai_hlen buf of
        None \<Rightarrow> Fault
      | Some h \<Rightarrow>
          let fld = (\<lambda>i. of_nat (le_nat (take 4 (drop i h))) :: u32); addrlen = fld 16 in
          if \<not> malloc (48 + unat addrlen) then Ret (- RPC_ENOMEM, [])
          else if int (bi + ai_hlen) \<ge> buflen \<or> int (bi + ai_hlen + 4) \<ge> buflen then Fault
          else case rd (bi + ai_hlen) 4 buf of
            None \<Rightarrow> Fault
          | Some ac \<Rightarrow>
              if addrlen \<noteq> 0 \<and> (of_nat (bi + ai_hlen + 4) + addrlen :: u32) \<ge> word_of_int buflen then Fault
              else (case rd (bi + ai_hlen + 4) (unat addrlen) buf of
                 None \<Rightarrow> Fault
               | Some a \<Rightarrow>
                   let bi = bi + ai_hlen + 4 + unat addrlen; aclen = int32 (le_nat ac) in
                   (case (if aclen > 0 then map_option (\<lambda>s. if malloc (length s + 1) then Some s else None) (rd_str bi buf) else Some None) of
                      None \<Rightarrow> Fault
                    | Some nm \<Rightarrow>
                        (case decode_nodes malloc buf buflen n (bi + nat aclen) of
                           Ret (ret, ps) \<Rightarrow>
                             Ret (ret, if ret \<noteq> 0 then [] else \<lparr>ai_flags = fld 0, ai_family = fld 4, ai_socktype = fld 8, ai_protocol = fld 12,
                               ai_addrlen = addrlen, ai_addr = Some a, ai_canonname = nm\<rparr> # ps)
                         | Fault \<Rightarrow> Fault | Spinning \<Rightarrow> Spinning))))"

definition decode_addrlist :: "(nat \<Rightarrow> bool) \<Rightarrow> u8 list \<Rightarrow> int \<Rightarrow> int \<Rightarrow> (int \<times> addrinfo list) outcome" where
  "decode_addrlist malloc buf cnt buflen = decode_nodes malloc buf buflen (nat cnt) 0"

definition ai_ok :: "addrinfo \<Rightarrow> bool" where
  "ai_ok p \<longleftrightarrow> (\<exists>a. ai_addr p = Some a \<and> length a = unat (ai_addrlen p)) \<and> (\<forall>s. ai_canonname p = Some s \<longrightarrow> c_string s)"

lemma length_ai_header [simp]: "length (ai_header p) = ai_hlen"
  by (simp add: ai_header_def)

lemma ai_header_fields:
  "(of_nat (le_nat (take 4 (drop 0 (ai_header p)))) :: u32) = ai_flags p" "(of_nat (le_nat (take 4 (drop 4 (ai_header p)))) :: u32) = ai_family p"
  "(of_nat (le_nat (take 4 (drop 8 (ai_header p)))) :: u32) = ai_socktype p" "(of_nat (le_nat (take 4 (drop 12 (ai_header p)))) :: u32) = ai_protocol p"
  "(of_nat (le_nat (take 4 (drop 16 (ai_header p)))) :: u32) = ai_addrlen p"
proof -
  have "le_nat (le_bytes 4 (unat w)) = unat w" for w :: u32 using unat_u32_lt [of w] by (simp add: le_nat_bytes)
  then show "(of_nat (le_nat (take 4 (drop 0 (ai_header p)))) :: u32) = ai_flags p" "(of_nat (le_nat (take 4 (drop 4 (ai_header p)))) :: u32) = ai_family p"
    "(of_nat (le_nat (take 4 (drop 8 (ai_header p)))) :: u32) = ai_socktype p" "(of_nat (le_nat (take 4 (drop 12 (ai_header p)))) :: u32) = ai_protocol p"
    "(of_nat (le_nat (take 4 (drop 16 (ai_header p)))) :: u32) = ai_addrlen p"
    by (simp_all add: ai_header_def)
qed

lemma rd_at: "length b = n \<Longrightarrow> rd (length xs) n (xs @ b @ ys) = Some b"
  by (simp add: rd_def)

lemma length_ai_bytes: "ai_ok p \<Longrightarrow> length (ai_bytes p) = ai_hlen + 4 + unat (ai_addrlen p) + ai_aclen p"
  by (auto simp: ai_ok_def ai_bytes_def ai_aclen_def split: option.splits)

lemma decode_node_step:
  assumes "ai_ok p" "int (length xs + length (ai_bytes p)) < buflen" "buflen < 2 ^ 31"
    and "decode_nodes (\<lambda>_. True) (xs @ ai_bytes p @ ys) buflen n (length (xs @ ai_bytes p)) = Ret (0, ps)"
  shows "decode_nodes (\<lambda>_. True) (xs @ ai_bytes p @ ys) buflen (Suc n) (length xs) = Ret (0, p # ps)"
proof -
  obtain a where a: "ai_addr p = Some a" "length a = unat (ai_addrlen p)" using assms(1) by (auto simp: ai_ok_def)
  define c where "c = (case ai_canonname p of None \<Rightarrow> [] | Some s \<Rightarrow> s @ [0])"
  define buf where "buf = xs @ ai_bytes p @ ys"
  have b: "buf = xs @ ai_header p @ le_bytes 4 (ai_aclen p) @ a @ c @ ys" by (simp add: buf_def ai_bytes_def a(1) c_def)
  have cl: "length c = ai_aclen p" by (simp add: c_def ai_aclen_def split: option.splits)
  have lim: "int (length xs + ai_hlen + 4 + unat (ai_addrlen p) + ai_aclen p) < buflen"
    using assms(2) length_ai_bytes [OF assms(1)] by simp
  have h: "rd (length xs) ai_hlen buf = Some (ai_header p)" unfolding b by (rule rd_at) simp
  have k: "rd (length xs + ai_hlen) 4 buf = Some (le_bytes 4 (ai_aclen p))"
    unfolding b using rd_at [of "le_bytes 4 (ai_aclen p)" 4 "xs @ ai_header p" "a @ c @ ys"] by simp
  have d: "rd (length xs + ai_hlen + 4) (unat (ai_addrlen p)) buf = Some a"
    unfolding b using rd_at [of a "unat (ai_addrlen p)" "xs @ ai_header p @ le_bytes 4 (ai_aclen p)" "c @ ys"] a(2) by (simp add: add.assoc)
  have "int (ai_aclen p) < 2 ^ 31" using lim assms(3) by linarith
  then have ac: "int32 (le_nat (le_bytes 4 (ai_aclen p))) = int (ai_aclen p)" by (simp add: le_nat_bytes int32_def)
  have w: "\<not> (of_nat (length xs + ai_hlen + 4) + ai_addrlen p :: u32) \<ge> word_of_int buflen"
  proof -
    have "unat (of_nat (length xs + ai_hlen + 4) + ai_addrlen p :: u32) = length xs + ai_hlen + 4 + unat (ai_addrlen p)"
    proof -
      have e: "(of_nat (length xs + ai_hlen + 4) + ai_addrlen p :: u32) = of_nat (length xs + ai_hlen + 4 + unat (ai_addrlen p))" by simp
      have "int (length xs + ai_hlen + 4 + unat (ai_addrlen p)) < int (2 ^ 32)" using lim assms(3) by simp
      then have "length xs + ai_hlen + 4 + unat (ai_addrlen p) < 2 ^ LENGTH(32)" by (simp only: of_nat_less_iff) simp
      then show ?thesis unfolding e by (rule unat_of_nat_small)
    qed
    moreover have "unat (word_of_int buflen :: u32) = nat buflen"
    proof (rule unat_of_int_u32)
      show "0 \<le> buflen" using lim by linarith
      show "buflen < 2 ^ 32" using assms(3) by simp
    qed
    moreover have "length xs + ai_hlen + 4 + unat (ai_addrlen p) < nat buflen" using lim by linarith
    ultimately show ?thesis by (simp only: word_le_nat_alt not_le)
  qed
  have nm: "(if int (ai_aclen p) > 0 then map_option (\<lambda>s. if True then Some s else None) (rd_str (length xs + ai_hlen + 4 + unat (ai_addrlen p)) buf)
      else Some None) = Some (ai_canonname p)"
  proof (cases "ai_canonname p")
    case (Some s)
    have "c_string s" using assms(1) Some by (simp add: ai_ok_def)
    then have "rd_str (length (xs @ ai_header p @ le_bytes 4 (ai_aclen p) @ a)) buf = Some s"
      unfolding b using rd_str_at [of s "xs @ ai_header p @ le_bytes 4 (ai_aclen p) @ a" ys] Some by (simp add: c_def)
    then show ?thesis using Some a(2) by (simp add: ai_aclen_def add.assoc)
  qed (simp add: ai_aclen_def)
  have nx: "decode_nodes (\<lambda>_. True) buf buflen n (length xs + ai_hlen + 4 + unat (ai_addrlen p) + nat (int (ai_aclen p))) = Ret (0, ps)"
    using assms(4) length_ai_bytes [OF assms(1)] by (simp add: buf_def add.assoc)
  have l: "\<not> (int (length xs + ai_hlen) \<ge> buflen \<or> int (length xs + ai_hlen + 4) \<ge> buflen)" using lim by linarith
  have "decode_nodes (\<lambda>_. True) buf buflen (Suc n) (length xs) = Ret (0, p # ps)"
    unfolding decode_nodes.simps h option.case Let_def ai_header_fields k d ac nm nx using l w a(1) by (simp only: if_False simp_thms) simp
  then show ?thesis by (simp only: buf_def)
qed

lemma decode_nodes_all:
  assumes "\<forall>p \<in> set ais. ai_ok p" "int (length xs + length (concat (map ai_bytes ais))) < buflen" "buflen < 2 ^ 31"
  shows "decode_nodes (\<lambda>_. True) (xs @ concat (map ai_bytes ais) @ ys) buflen (length ais) (length xs) = Ret (0, ais)"
  using assms
proof (induction ais arbitrary: xs)
  case (Cons p ais)
  have "decode_nodes (\<lambda>_. True) ((xs @ ai_bytes p) @ concat (map ai_bytes ais) @ ys) buflen (length ais) (length (xs @ ai_bytes p)) = Ret (0, ais)"
    by (rule Cons.IH) (use Cons.prems in \<open>simp_all add: add.assoc\<close>)
  then show ?case using decode_node_step [of p xs buflen "concat (map ai_bytes ais) @ ys" "length ais" ais] Cons.prems by simp
qed simp


definition demo_ai :: addrinfo where
  "demo_ai = \<lparr>ai_flags = 1, ai_family = 2, ai_socktype = 1, ai_protocol = 6, ai_addrlen = 4, ai_addr = Some [127, 0, 0, 1], ai_canonname = Some [104]\<rparr>"

lemma demo_ai_encodes: "\<exists>out. encode_addrlist [demo_ai] 432 = Ret (1, 30, out) \<and> length out = 30"
  by (simp add: encode_addrlist_def demo_ai_def ai_bytes_def ai_aclen_def ai_header_def int32_def)


section \<open>Where the codec goes wrong\<close>

text \<open>
  Told of exactly the encoded length, the decoder takes the last address for overlong when no name
  follows it, and its error path then follows an unset pointer.
\<close>

lemma decode_exact_fit_faults:
  assumes "ai_ok p" "ai_canonname p = None" "ai_addrlen p \<noteq> 0" "length (ai_bytes p) < 2 ^ 31"
  shows "decode_addrlist (\<lambda>_. True) (ai_bytes p) 1 (int (length (ai_bytes p))) = Fault"
proof -
  let ?n = "length (ai_bytes p)"
  have n: "?n = ai_hlen + 4 + unat (ai_addrlen p)" using length_ai_bytes [OF assms(1)] assms(2) by (simp add: ai_aclen_def)
  have h: "rd 0 ai_hlen (ai_bytes p) = Some (ai_header p)" by (simp add: rd_def ai_bytes_def)
  have "(of_nat (0 + ai_hlen + 4) + ai_addrlen p :: u32) = word_of_int (int ?n)" by (simp add: n)
  then show ?thesis using assms(3) unfolding decode_addrlist_def
    by (simp add: h ai_header_fields [simplified] Let_def split: option.splits)
qed

text \<open>A request of one node with a buffer that is too short for a header makes the decoder follow an unset pointer.\<close>

lemma decode_short_faults: "buflen \<le> 24 \<Longrightarrow> decode_addrlist (\<lambda>_. True) buf 1 buflen = Fault"
  by (simp add: decode_addrlist_def Let_def split: option.splits)

text \<open>An entry without name and lists is written without looking at the length of the buffer.\<close>

lemma encode_hostent_small_buffer:
  "buflen < sizeof_ihostent \<Longrightarrow> encode_hostent \<lparr>h_name = None, h_aliases = None, h_addrtype = t, h_length = n, h_addr_list = None\<rparr> buflen = Fault"
  by (simp add: encode_hostent_def)

end
