(* ===== verification/C_Struct.thy ===== *)
theory C_Struct
  imports C_Format "HOL-Library.Monad_Syntax"
begin

text \<open>
  C objects as bytes, for the RPC messages. A byte that was never stored is indeterminate
  (\<open>None\<close>): it can be copied, but an operation that depends on it has no result. The layout of
  a structure is the list of its members with their sizes and alignments; offsets and sizes follow from
  it by the rules of a 64-bit ABI.
\<close>

section \<open>Objects with indeterminate bytes\<close>

type_synonym obj = "u8 option list"

definition ld :: "obj \<Rightarrow> nat \<Rightarrow> nat \<Rightarrow> u8 list option" where
  "ld m i n = do { bs \<leftarrow> mem_read m i n; if None \<in> set bs then None else Some (map the bs) }"

text \<open>A C string at an address: the bytes before the first zero, all of them stored.\<close>

fun str_of :: "obj \<Rightarrow> u8 list option" where
  "str_of [] = None"
| "str_of (None # m) = None"
| "str_of (Some b # m) = (if b = 0 then Some [] else map_option (Cons b) (str_of m))"

definition ld_str :: "obj \<Rightarrow> nat \<Rightarrow> u8 list option" where
  "ld_str m i = str_of (drop i m)"

abbreviation store :: "obj \<Rightarrow> nat \<Rightarrow> u8 list \<Rightarrow> obj option" where
  "store m i bs \<equiv> mem_write m i (map Some bs)"

section \<open>Structure layouts\<close>

type_synonym member = "string \<times> nat \<times> nat"
type_synonym layout = "member list"

definition pad_to :: "nat \<Rightarrow> nat \<Rightarrow> nat" where
  "pad_to a n = (n + a - 1) div a * a"

fun offsets :: "nat \<Rightarrow> layout \<Rightarrow> (string \<times> nat \<times> nat) list" where
  "offsets p [] = []"
| "offsets p ((f, n, a) # ms) = (f, pad_to a p, n) # offsets (pad_to a p + n) ms"

fun end_of :: "nat \<Rightarrow> layout \<Rightarrow> nat" where
  "end_of p [] = p"
| "end_of p ((f, n, a) # ms) = end_of (pad_to a p + n) ms"

fun alignof :: "layout \<Rightarrow> nat" where
  "alignof [] = 1"
| "alignof ((f, n, a) # ms) = max a (alignof ms)"

definition sizeof :: "layout \<Rightarrow> nat" where
  "sizeof L = pad_to (alignof L) (end_of 0 L)"

text \<open>Offset and size of a member.\<close>

definition member_at :: "layout \<Rightarrow> string \<Rightarrow> (nat \<times> nat) option" where
  "member_at L f = map_of (offsets 0 L) f"

abbreviation c_int :: "string \<Rightarrow> member" where "c_int f \<equiv> (f, 4, 4)"
abbreviation c_long :: "string \<Rightarrow> member" where "c_long f \<equiv> (f, 8, 8)"
abbreviation c_char :: "string \<Rightarrow> member" where "c_char f \<equiv> (f, 1, 1)"
abbreviation c_chars :: "string \<Rightarrow> nat \<Rightarrow> member" where "c_chars f n \<equiv> (f, n, 1)"
abbreviation c_array :: "string \<Rightarrow> layout \<Rightarrow> nat \<Rightarrow> member" where "c_array f L n \<equiv> (f, n * sizeof L, alignof L)"

section \<open>Access to members\<close>

definition get_fld :: "layout \<Rightarrow> string \<Rightarrow> obj \<Rightarrow> nat option" where
  "get_fld L f m = do { (i, n) \<leftarrow> member_at L f; bs \<leftarrow> ld m i n; Some (le_nat bs) }"

definition get_str :: "layout \<Rightarrow> string \<Rightarrow> obj \<Rightarrow> u8 list option" where
  "get_str L f m = do { (i, n) \<leftarrow> member_at L f; ld_str m i }"

text \<open>Stored bytes, respectively bytes of any kind, that start \<open>k\<close> bytes behind the start of a member.\<close>

definition get_bytes :: "layout \<Rightarrow> string \<Rightarrow> nat \<Rightarrow> nat \<Rightarrow> obj \<Rightarrow> u8 list option" where
  "get_bytes L f k n m = do { (i, _) \<leftarrow> member_at L f; ld m (i + k) n }"

definition get_obj :: "layout \<Rightarrow> string \<Rightarrow> nat \<Rightarrow> obj \<Rightarrow> obj option" where
  "get_obj L f n m = do { (i, _) \<leftarrow> member_at L f; mem_read m i n }"

text \<open>An integer stored in a member is reduced to its width.\<close>

definition put_fld :: "layout \<Rightarrow> string \<Rightarrow> int \<Rightarrow> obj \<Rightarrow> obj option" where
  "put_fld L f v m = do { (i, n) \<leftarrow> member_at L f; store m i (le_bytes n (nat (v mod 2 ^ (8 * n)))) }"

fun put_flds :: "layout \<Rightarrow> (string \<times> int) list \<Rightarrow> obj \<Rightarrow> obj option" where
  "put_flds L [] m = Some m"
| "put_flds L ((f, v) # fvs) m = do { m \<leftarrow> put_fld L f v m; put_flds L fvs m }"

definition put_bytes :: "layout \<Rightarrow> string \<Rightarrow> nat \<Rightarrow> u8 list \<Rightarrow> obj \<Rightarrow> obj option" where
  "put_bytes L f k bs m = do { (i, _) \<leftarrow> member_at L f; store m (i + k) bs }"

definition put_obj :: "layout \<Rightarrow> string \<Rightarrow> obj \<Rightarrow> obj \<Rightarrow> obj option" where
  "put_obj L f bs m = do { (i, _) \<leftarrow> member_at L f; mem_write m i bs }"

text \<open>An automatic variable without and with the initialiser \<open>{0}\<close>.\<close>

definition uninit :: "layout \<Rightarrow> obj" where
  "uninit L = replicate (sizeof L) None"

definition zeroed :: "layout \<Rightarrow> obj" where
  "zeroed L = replicate (sizeof L) (Some 0)"

section \<open>Lemmas\<close>

named_theorems layouts \<open>structure layouts\<close>

lemma length_uninit [simp]: "length (uninit L) = sizeof L" "length (zeroed L) = sizeof L"
  by (simp_all add: uninit_def zeroed_def)

lemma put_length:
  "put_fld L f v m = Some m' \<Longrightarrow> length m' = length m"
  "put_bytes L f k bs m = Some m' \<Longrightarrow> length m' = length m"
  "put_obj L f xs m = Some m' \<Longrightarrow> length m' = length m"
  by (auto simp: put_fld_def put_bytes_def put_obj_def bind_eq_Some_conv mem_write_length)

lemma put_flds_length: "put_flds L fvs m = Some m' \<Longrightarrow> length m' = length m"
  by (induction L fvs m rule: put_flds.induct) (auto simp: bind_eq_Some_conv put_length)

text \<open>Distinct names and positive alignments.\<close>

definition wf_layout :: "layout \<Rightarrow> bool" where
  "wf_layout L \<longleftrightarrow> distinct (map fst L) \<and> (\<forall>(f, n, a) \<in> set L. 0 < a)"

lemma pad_to_ge: "0 < a \<Longrightarrow> n \<le> pad_to a n"
  unfolding pad_to_def using div_mult_mod_eq [of "n + a - 1" a] mod_less_divisor [of a "n + a - 1"] by linarith

lemma pad_to_dvd: "a dvd pad_to a n"
  by (simp add: pad_to_def)

lemma end_of_ge: "\<forall>(f, n, a) \<in> set L. 0 < a \<Longrightarrow> p \<le> end_of p L"
proof (induction p L rule: end_of.induct)
  case (2 p f n a ms)
  have "p \<le> pad_to a p" using "2.prems" by (simp add: pad_to_ge)
  moreover have "pad_to a p + n \<le> end_of (pad_to a p + n) ms" using "2.prems" by (intro "2.IH") auto
  ultimately show ?case by simp
qed simp

lemma offsets_bounds:
  "\<forall>(f, n, a) \<in> set L. 0 < a \<Longrightarrow> (f, i, n) \<in> set (offsets p L) \<Longrightarrow> p \<le> i \<and> i + n \<le> end_of p L"
proof (induction p L rule: end_of.induct)
  case (2 p g k a ms)
  have p: "p \<le> pad_to a p" using "2.prems" by (simp add: pad_to_ge)
  show ?case
  proof (cases "(f, i, n) = (g, pad_to a p, k)")
    case True
    then show ?thesis using p end_of_ge [of ms] "2.prems"(1) by auto
  next
    case False
    then have "pad_to a p + k \<le> i \<and> i + n \<le> end_of (pad_to a p + k) ms" using "2.prems" by (intro "2.IH") auto
    then show ?thesis using p by simp
  qed
qed simp

lemma offsets_disjoint:
  assumes "\<forall>(f, n, a) \<in> set L. 0 < a" "(f, i, n) \<in> set (offsets p L)" "(g, j, k) \<in> set (offsets p L)" "f \<noteq> g"
  shows "i + n \<le> j \<or> j + k \<le> i"
  using assms
proof (induction p L rule: end_of.induct)
  case (2 p h l a ms)
  have b: "x \<in> set (offsets (pad_to a p + l) ms) \<Longrightarrow> pad_to a p + l \<le> fst (snd x)" for x
    using "2.prems"(1) offsets_bounds [of ms "fst x" "fst (snd x)" "snd (snd x)"] by auto
  show ?case using "2.prems" "2.IH" b [of "(f, i, n)"] b [of "(g, j, k)"] by auto
qed simp

lemma offsets_aligned:
  "(f, i, n) \<in> set (offsets p L) \<Longrightarrow> \<exists>a. (f, n, a) \<in> set L \<and> a dvd i"
proof (induction p L rule: end_of.induct)
  case (2 p h l a ms)
  then show ?case using pad_to_dvd [of a p] by auto
qed simp

lemma member_at_in: "member_at L f = Some (i, n) \<Longrightarrow> (f, i, n) \<in> set (offsets 0 L)"
  by (simp add: member_at_def map_of_SomeD)

lemma alignof_pos: "0 < alignof L"
  by (induction L rule: alignof.induct) auto

text \<open>Members are aligned, lie inside the structure and do not overlap.\<close>

lemma member_inside: "wf_layout L \<Longrightarrow> member_at L f = Some (i, n) \<Longrightarrow> i + n \<le> sizeof L"
  using offsets_bounds [OF _ member_at_in] pad_to_ge [OF alignof_pos [of L], of "end_of 0 L"]
  unfolding wf_layout_def sizeof_def by fastforce

lemma member_disjoint:
  "wf_layout L \<Longrightarrow> member_at L f = Some (i, n) \<Longrightarrow> member_at L g = Some (j, k) \<Longrightarrow> f \<noteq> g \<Longrightarrow> i + n \<le> j \<or> j + k \<le> i"
  unfolding wf_layout_def by (rule offsets_disjoint [OF _ member_at_in member_at_in]) auto

lemma str_of_length: "str_of m = Some xs \<Longrightarrow> length xs < length m"
  by (induction m arbitrary: xs rule: str_of.induct) (fastforce split: if_splits)+

lemma get_str_fits: "get_str L f m = Some xs \<Longrightarrow> member_at L f = Some (i, k) \<Longrightarrow> i + length xs + 1 \<le> length m"
  by (auto simp: get_str_def ld_str_def dest!: str_of_length)

section \<open>Loads after stores\<close>

lemma ld_st_same: "store m i bs = Some m' \<Longrightarrow> ld m' i (length bs) = Some bs"
  using mem_read_write_same [of m i "map Some bs" m'] by (auto simp: ld_def comp_def)

lemma mem_read_write_other:
  assumes "mem_write m i bs = Some m'" "j + n \<le> i \<or> i + length bs \<le> j"
  shows "mem_read m' j n = mem_read m j n"
proof -
  have l: "length m' = length m" using assms(1) by (rule mem_write_length)
  have "take n (drop j m') = take n (drop j m)" if "j + n \<le> length m"
    using that assms l by (intro nth_equalityI) (auto simp: mem_write_nth)
  then show ?thesis by (simp add: mem_read_def l)
qed

lemma ld_st_other: "store m i bs = Some m' \<Longrightarrow> j + n \<le> i \<or> i + length bs \<le> j \<Longrightarrow> ld m' j n = ld m j n"
  by (simp add: ld_def mem_read_write_other)

lemma get_put_same:
  assumes "put_fld L f v m = Some m'" "member_at L f = Some (i, n)"
  shows "get_fld L f m' = Some (nat (v mod 2 ^ (8 * n)))"
proof -
  let ?b = "le_bytes n (nat (v mod 2 ^ (8 * n)))"
  have "store m i ?b = Some m'" using assms by (simp add: put_fld_def)
  then have "ld m' i (length ?b) = Some ?b" by (rule ld_st_same)
  moreover have "nat (v mod 2 ^ (8 * n)) < 256 ^ n"
    by (simp add: nat_less_iff power_mult [symmetric] flip: of_nat_less_iff) (simp add: power_mult)
  ultimately show ?thesis using assms(2) by (simp add: get_fld_def le_nat_bytes)
qed

lemma get_put_other:
  assumes "put_fld L f v m = Some m'" "wf_layout L" "f \<noteq> g"
  shows "get_fld L g m' = get_fld L g m"
proof (cases "member_at L g")
  case (Some jk)
  obtain i n where f: "member_at L f = Some (i, n)" "store m i (le_bytes n (nat (v mod 2 ^ (8 * n)))) = Some m'"
    using assms(1) by (auto simp: put_fld_def bind_eq_Some_conv)
  obtain j k where g: "member_at L g = Some (j, k)" using Some by (cases jk) auto
  have "ld m' j k = ld m j k"
    using member_disjoint [OF assms(2) f(1) g assms(3)] by (intro ld_st_other [OF f(2)]) auto
  then show ?thesis by (simp add: get_fld_def g)
qed (simp add: get_fld_def)

end
