(* ===== verification/Rpc_Layout.thy ===== *)
theory Rpc_Layout
  imports C_Struct
begin

text \<open>
  The messages of the RPC service (\<open>services/rpc/rpc_internal_model.h\<close>): the numbers of the
  calls and the structures of requests and responses, member by member in the order of the header.
  The base of a response is written out as its first two members. The structures of the client side
  (\<open>_outp_t\<close>) and of the calls without a handler are left out.
\<close>

section \<open>Numbers and limits\<close>

abbreviation OPEN_ID :: nat where "OPEN_ID \<equiv> 1"
abbreviation CLOSE_ID :: nat where "CLOSE_ID \<equiv> 2"
abbreviation WRITE_ID :: nat where "WRITE_ID \<equiv> 3"
abbreviation READ_ID :: nat where "READ_ID \<equiv> 4"
abbreviation LSEEK_ID :: nat where "LSEEK_ID \<equiv> 5"
abbreviation FCNTL_ID :: nat where "FCNTL_ID \<equiv> 6"
abbreviation IOCTL_ID :: nat where "IOCTL_ID \<equiv> 7"
abbreviation UNLINK_ID :: nat where "UNLINK_ID \<equiv> 8"
abbreviation GETDENTS64_ID :: nat where "GETDENTS64_ID \<equiv> 9"
abbreviation FOPEN_ID :: nat where "FOPEN_ID \<equiv> 10"
abbreviation FCLOSE_ID :: nat where "FCLOSE_ID \<equiv> 11"
abbreviation FREAD_ID :: nat where "FREAD_ID \<equiv> 12"
abbreviation FWRITE_ID :: nat where "FWRITE_ID \<equiv> 13"
abbreviation FREOPEN_ID :: nat where "FREOPEN_ID \<equiv> 14"
abbreviation FPUTS_ID :: nat where "FPUTS_ID \<equiv> 15"
abbreviation FGETS_ID :: nat where "FGETS_ID \<equiv> 16"
abbreviation FEOF_ID :: nat where "FEOF_ID \<equiv> 17"
abbreviation FPRINTF_ID :: nat where "FPRINTF_ID \<equiv> 18"
abbreviation GETC_ID :: nat where "GETC_ID \<equiv> 19"
abbreviation FERROR_ID :: nat where "FERROR_ID \<equiv> 20"
abbreviation GETC_UNLOCK_ID :: nat where "GETC_UNLOCK_ID \<equiv> 21"
abbreviation PCLOSE_ID :: nat where "PCLOSE_ID \<equiv> 22"
abbreviation TMPFILE_ID :: nat where "TMPFILE_ID \<equiv> 23"
abbreviation CLEARERR_ID :: nat where "CLEARERR_ID \<equiv> 24"
abbreviation POPEN_ID :: nat where "POPEN_ID \<equiv> 25"
abbreviation UNGETC_ID :: nat where "UNGETC_ID \<equiv> 26"
abbreviation FSEEKO_ID :: nat where "FSEEKO_ID \<equiv> 27"
abbreviation FTELLO_ID :: nat where "FTELLO_ID \<equiv> 28"
abbreviation RENAME_ID :: nat where "RENAME_ID \<equiv> 29"
abbreviation REMOVE_ID :: nat where "REMOVE_ID \<equiv> 30"
abbreviation MKSTMP_ID :: nat where "MKSTMP_ID \<equiv> 31"
abbreviation FSEEK_ID :: nat where "FSEEK_ID \<equiv> 32"
abbreviation FTELL_ID :: nat where "FTELL_ID \<equiv> 33"
abbreviation FFLUSH_ID :: nat where "FFLUSH_ID \<equiv> 34"
abbreviation GETWC_ID :: nat where "GETWC_ID \<equiv> 35"
abbreviation PUTWC_ID :: nat where "PUTWC_ID \<equiv> 36"
abbreviation PUTC_ID :: nat where "PUTC_ID \<equiv> 37"
abbreviation UNGETWC_ID :: nat where "UNGETWC_ID \<equiv> 38"
abbreviation STAT_ID :: nat where "STAT_ID \<equiv> 39"
abbreviation GETCWD_ID :: nat where "GETCWD_ID \<equiv> 40"
abbreviation LSTAT_ID :: nat where "LSTAT_ID \<equiv> 41"
abbreviation FSTAT_ID :: nat where "FSTAT_ID \<equiv> 42"
abbreviation FDOPEN_ID :: nat where "FDOPEN_ID \<equiv> 45"
abbreviation FILENO_ID :: nat where "FILENO_ID \<equiv> 46"
abbreviation SETVBUF_ID :: nat where "SETVBUF_ID \<equiv> 46"
abbreviation READLINK_ID :: nat where "READLINK_ID \<equiv> 47"
abbreviation SYSTEM_ID :: nat where "SYSTEM_ID \<equiv> 48"
abbreviation ACCESS_ID :: nat where "ACCESS_ID \<equiv> 49"
abbreviation PIPE_ID :: nat where "PIPE_ID \<equiv> 50"
abbreviation DUP2_ID :: nat where "DUP2_ID \<equiv> 51"
abbreviation MKFIFO_ID :: nat where "MKFIFO_ID \<equiv> 52"
abbreviation CHMOD_ID :: nat where "CHMOD_ID \<equiv> 53"
abbreviation CHDIR_ID :: nat where "CHDIR_ID \<equiv> 54"
abbreviation MKDIR_ID :: nat where "MKDIR_ID \<equiv> 55"
abbreviation RMDIR_ID :: nat where "RMDIR_ID \<equiv> 56"
abbreviation FSCANFX_ID :: nat where "FSCANFX_ID \<equiv> 57"
abbreviation FREEADDRINFO_ID :: nat where "FREEADDRINFO_ID \<equiv> 100"
abbreviation GETADDRINFO_ID :: nat where "GETADDRINFO_ID \<equiv> 101"
abbreviation GETHOSTBYADDR_ID :: nat where "GETHOSTBYADDR_ID \<equiv> 102"
abbreviation GETHOSTBYNAME_ID :: nat where "GETHOSTBYNAME_ID \<equiv> 103"
abbreviation POLL_ID :: nat where "POLL_ID \<equiv> 104"
abbreviation GETPEERNAME_ID :: nat where "GETPEERNAME_ID \<equiv> 105"
abbreviation GETHOSTNAME_ID :: nat where "GETHOSTNAME_ID \<equiv> 106"
abbreviation GETSOCKNAME_ID :: nat where "GETSOCKNAME_ID \<equiv> 107"
abbreviation GETSOCKOPT_ID :: nat where "GETSOCKOPT_ID \<equiv> 108"
abbreviation SELECT_ID :: nat where "SELECT_ID \<equiv> 109"
abbreviation ACCEPT_ID :: nat where "ACCEPT_ID \<equiv> 110"
abbreviation BIND_ID :: nat where "BIND_ID \<equiv> 111"
abbreviation CONNECT_ID :: nat where "CONNECT_ID \<equiv> 112"
abbreviation LISTEN_ID :: nat where "LISTEN_ID \<equiv> 113"
abbreviation RECV_ID :: nat where "RECV_ID \<equiv> 114"
abbreviation RECVFROM_ID :: nat where "RECVFROM_ID \<equiv> 115"
abbreviation SEND_ID :: nat where "SEND_ID \<equiv> 116"
abbreviation SENDTO_ID :: nat where "SENDTO_ID \<equiv> 117"
abbreviation SETSOCKOPT_ID :: nat where "SETSOCKOPT_ID \<equiv> 118"
abbreviation SHUTDOWN_ID :: nat where "SHUTDOWN_ID \<equiv> 119"
abbreviation SOCKET_ID :: nat where "SOCKET_ID \<equiv> 120"
abbreviation IFNAMEINDEX_ID :: nat where "IFNAMEINDEX_ID \<equiv> 121"
abbreviation PUTCHAR_ID :: nat where "PUTCHAR_ID \<equiv> 122"
abbreviation GAISTRERROR_ID :: nat where "GAISTRERROR_ID \<equiv> 123"
abbreviation ACCEPT4_ID :: nat where "ACCEPT4_ID \<equiv> 124"
abbreviation WRITEV_ID :: nat where "WRITEV_ID \<equiv> 125"
abbreviation PRINTF_ID :: nat where "PRINTF_ID \<equiv> 300"

abbreviation MAX_SBUF_LEN :: nat where "MAX_SBUF_LEN \<equiv> 432"
abbreviation MAX_SADDR_SIZE :: nat where "MAX_SADDR_SIZE \<equiv> 8"
abbreviation MAX_STRING_LEN :: nat where "MAX_STRING_LEN \<equiv> 432"
abbreviation MAX_FILE_NAME_LEN :: nat where "MAX_FILE_NAME_LEN \<equiv> 128"
abbreviation MAX_POLL_FDS :: nat where "MAX_POLL_FDS \<equiv> 32"
abbreviation MAX_PATH_LEN :: nat where "MAX_PATH_LEN \<equiv> 1024"
abbreviation MAX_IFNAMEINDEX_LEN :: nat where "MAX_IFNAMEINDEX_LEN \<equiv> 40"
abbreviation MAX_IFNAMEINDEX_SIZE :: nat where "MAX_IFNAMEINDEX_SIZE \<equiv> 40"
abbreviation MAX_IOV_LEN :: nat where "MAX_IOV_LEN \<equiv> 60"
abbreviation MAX_IOV_SIZE :: nat where "MAX_IOV_SIZE \<equiv> 30"
abbreviation MAX_FILE_MODE_LEN :: nat where "MAX_FILE_MODE_LEN \<equiv> 6"
abbreviation PROXY_MAX_BUF_LEN :: nat where "PROXY_MAX_BUF_LEN \<equiv> 2024"
abbreviation RPC_BUFFER_SIZE :: nat where "RPC_BUFFER_SIZE \<equiv> 2048"

section \<open>Structures of the C library\<close>

definition sockaddr :: layout where [layouts]: "sockaddr = [(''sa_family'', 2, 2), c_chars ''sa_data'' 14]"
definition pollfd :: layout where [layouts]: "pollfd = [c_int ''fd'', (''events'', 2, 2), (''revents'', 2, 2)]"
abbreviation c_fd_set :: "string \<Rightarrow> member" where "c_fd_set f \<equiv> (f, 128, 8)"
abbreviation c_timeval :: "string \<Rightarrow> member" where "c_timeval f \<equiv> (f, 16, 8)"

section \<open>Requests and responses\<close>

definition rpc_resp_base :: layout where [layouts]:
  "rpc_resp_base =
     [c_int ''trace_id'', c_int ''errnum'']"

definition rpc_common_resp :: layout where [layouts]:
  "rpc_common_resp =
     rpc_resp_base @ [c_int ''ret'']"

definition rpc_fcommon_req :: layout where [layouts]:
  "rpc_fcommon_req =
     [c_long ''func_id'', c_int ''trace_id'', c_long ''fhandle'']"

definition rpc_fcommon_resp :: layout where [layouts]:
  "rpc_fcommon_resp =
     rpc_resp_base @ [c_long ''fhandle'']"

definition rpc_csret_resp :: layout where [layouts]:
  "rpc_csret_resp =
     rpc_resp_base @ [c_long ''ret'']"

definition rpc_open_req :: layout where [layouts]:
  "rpc_open_req =
     [c_long ''func_id'', c_int ''trace_id'', c_int ''flags'', c_int ''mode'',
     c_chars ''buf'' MAX_FILE_NAME_LEN]"

abbreviation rpc_open_resp :: layout where "rpc_open_resp \<equiv> rpc_common_resp"

definition rpc_read_req :: layout where [layouts]:
  "rpc_read_req =
     [c_long ''func_id'', c_int ''trace_id'', c_int ''fd'', c_int ''count'']"

definition rpc_read_resp :: layout where [layouts]:
  "rpc_read_resp =
     rpc_resp_base @ [c_long ''ret'', c_chars ''buf'' MAX_STRING_LEN]"

definition rpc_write_req :: layout where [layouts]:
  "rpc_write_req =
     [c_long ''func_id'', c_int ''trace_id'', c_int ''fd'', c_int ''count'', c_chars ''buf'' MAX_STRING_LEN]"

abbreviation rpc_write_resp :: layout where "rpc_write_resp \<equiv> rpc_csret_resp"

definition rpc_close_req :: layout where [layouts]:
  "rpc_close_req =
     [c_long ''func_id'', c_int ''trace_id'', c_int ''fd'']"

abbreviation rpc_close_resp :: layout where "rpc_close_resp \<equiv> rpc_common_resp"

definition rpc_ioctl_req :: layout where [layouts]:
  "rpc_ioctl_req =
     [c_long ''func_id'', c_int ''trace_id'', c_int ''fd'', c_long ''request'', c_long ''len'',
     c_chars ''buf'' MAX_STRING_LEN]"

definition rpc_ioctl_resp :: layout where [layouts]:
  "rpc_ioctl_resp =
     rpc_resp_base @ [c_int ''ret'', c_long ''len'', c_chars ''buf'' MAX_STRING_LEN]"

definition rpc_lseek_req :: layout where [layouts]:
  "rpc_lseek_req =
     [c_long ''func_id'', c_int ''trace_id'', c_int ''fd'', c_long ''offset'', c_int ''whence'']"

definition rpc_lseek_resp :: layout where [layouts]:
  "rpc_lseek_resp =
     rpc_resp_base @ [c_long ''ret'']"

definition rpc_fcntl_req :: layout where [layouts]:
  "rpc_fcntl_req =
     [c_long ''func_id'', c_int ''trace_id'', c_int ''fd'', c_int ''cmd'', c_long ''arg'']"

abbreviation rpc_fcntl_resp :: layout where "rpc_fcntl_resp \<equiv> rpc_common_resp"

definition rpc_unlink_req :: layout where [layouts]:
  "rpc_unlink_req =
     [c_long ''func_id'', c_int ''trace_id'', c_chars ''buf'' MAX_FILE_NAME_LEN]"

abbreviation rpc_unlink_resp :: layout where "rpc_unlink_resp \<equiv> rpc_common_resp"

definition rpc_gethostbyaddr_req :: layout where [layouts]:
  "rpc_gethostbyaddr_req =
     [c_long ''func_id'', c_int ''trace_id'', c_int ''len'', c_int ''type'', c_chars ''buf'' MAX_SBUF_LEN]"

definition rpc_gethostbyaddr_resp :: layout where [layouts]:
  "rpc_gethostbyaddr_resp =
     rpc_resp_base @ [c_int ''h_errnum'', c_int ''len'', c_chars ''buf'' MAX_SBUF_LEN]"

definition rpc_gethostbyname_req :: layout where [layouts]:
  "rpc_gethostbyname_req =
     [c_long ''func_id'', c_int ''trace_id'', c_chars ''buf'' MAX_SBUF_LEN]"

abbreviation rpc_gethostbyname_resp :: layout where "rpc_gethostbyname_resp \<equiv> rpc_gethostbyaddr_resp"

definition rpc_getaddrinfo_req :: layout where [layouts]:
  "rpc_getaddrinfo_req =
     [c_long ''func_id'', c_int ''trace_id'', c_int ''hints_cnt'', c_int ''hints'', c_int ''node'',
     c_int ''service'', c_int ''buflen'', c_chars ''buf'' MAX_SBUF_LEN]"

definition rpc_getaddrinfo_resp :: layout where [layouts]:
  "rpc_getaddrinfo_resp =
     rpc_resp_base @ [c_int ''h_errnum'', c_int ''ret'', c_int ''cnt'', c_int ''buflen'', c_chars ''buf'' MAX_SBUF_LEN]"

definition rpc_getpeername_req :: layout where [layouts]:
  "rpc_getpeername_req =
     [c_long ''func_id'', c_int ''trace_id'', c_int ''sockfd'', c_int ''addrlen'',
     c_chars ''addr_buf'' MAX_SBUF_LEN]"

definition rpc_getpeername_resp :: layout where [layouts]:
  "rpc_getpeername_resp =
     rpc_resp_base @ [c_int ''ret'', c_int ''addrlen'', c_chars ''addr_buf'' MAX_SBUF_LEN]"

abbreviation rpc_getsockname_req :: layout where "rpc_getsockname_req \<equiv> rpc_getpeername_req"

abbreviation rpc_getsockname_resp :: layout where "rpc_getsockname_resp \<equiv> rpc_getpeername_resp"

definition rpc_accept_req :: layout where [layouts]:
  "rpc_accept_req =
     [c_long ''func_id'', c_int ''trace_id'', c_int ''sockfd'', c_int ''addrlen'',
     c_chars ''addr_buf'' MAX_SBUF_LEN]"

definition rpc_accept_resp :: layout where [layouts]:
  "rpc_accept_resp =
     rpc_resp_base @ [c_int ''ret'', c_int ''addrlen'', c_chars ''buf'' MAX_SBUF_LEN]"

definition rpc_bind_req :: layout where [layouts]:
  "rpc_bind_req =
     [c_long ''func_id'', c_int ''trace_id'', c_int ''sockfd'', c_int ''addrlen'',
     c_chars ''addr_buf'' MAX_SBUF_LEN]"

abbreviation rpc_bind_resp :: layout where "rpc_bind_resp \<equiv> rpc_common_resp"

abbreviation rpc_connect_req :: layout where "rpc_connect_req \<equiv> rpc_bind_req"

abbreviation rpc_connect_resp :: layout where "rpc_connect_resp \<equiv> rpc_common_resp"

definition rpc_listen_req :: layout where [layouts]:
  "rpc_listen_req =
     [c_long ''func_id'', c_int ''trace_id'', c_int ''sockfd'', c_int ''backlog'']"

abbreviation rpc_listen_resp :: layout where "rpc_listen_resp \<equiv> rpc_common_resp"

definition rpc_recv_req :: layout where [layouts]:
  "rpc_recv_req =
     [c_long ''func_id'', c_int ''trace_id'', c_int ''fd'', c_int ''flags'', c_long ''len'']"

definition rpc_recv_resp :: layout where [layouts]:
  "rpc_recv_resp =
     rpc_resp_base @ [c_long ''ret'', c_chars ''buf'' MAX_SBUF_LEN]"

definition rpc_recvfrom_req :: layout where [layouts]:
  "rpc_recvfrom_req =
     [c_long ''func_id'', c_int ''trace_id'', c_int ''fd'', c_int ''flags'', c_int ''addrlen'',
     c_long ''len'', c_chars ''buf'' MAX_SBUF_LEN]"

definition rpc_recvfrom_resp :: layout where [layouts]:
  "rpc_recvfrom_resp =
     rpc_resp_base @ [c_int ''addrlen'', c_long ''ret'', c_array ''addr'' sockaddr MAX_SADDR_SIZE,
     c_chars ''buf'' (MAX_SBUF_LEN - MAX_SADDR_SIZE * sizeof sockaddr)]"

definition rpc_send_req :: layout where [layouts]:
  "rpc_send_req =
     [c_long ''func_id'', c_int ''trace_id'', c_int ''fd'', c_long ''len'', c_int ''flags'',
     c_chars ''buf'' MAX_SBUF_LEN]"

abbreviation rpc_send_resp :: layout where "rpc_send_resp \<equiv> rpc_csret_resp"

definition rpc_sendto_req :: layout where [layouts]:
  "rpc_sendto_req =
     [c_long ''func_id'', c_int ''trace_id'', c_int ''fd'', c_long ''len'', c_int ''flags'',
     c_int ''addrlen'', c_chars ''buf'' MAX_SBUF_LEN]"

abbreviation rpc_sendto_resp :: layout where "rpc_sendto_resp \<equiv> rpc_csret_resp"

definition rpc_setsockopt_req :: layout where [layouts]:
  "rpc_setsockopt_req =
     [c_long ''func_id'', c_int ''trace_id'', c_int ''fd'', c_int ''level'', c_int ''optname'',
     c_int ''optlen'', c_chars ''optval'' MAX_STRING_LEN]"

abbreviation rpc_setsockopt_resp :: layout where "rpc_setsockopt_resp \<equiv> rpc_common_resp"

definition rpc_shutdown_req :: layout where [layouts]:
  "rpc_shutdown_req =
     [c_long ''func_id'', c_int ''trace_id'', c_int ''fd'', c_int ''how'']"

abbreviation rpc_shutdown_resp :: layout where "rpc_shutdown_resp \<equiv> rpc_common_resp"

definition rpc_socket_req :: layout where [layouts]:
  "rpc_socket_req =
     [c_long ''func_id'', c_int ''trace_id'', c_int ''domain'', c_int ''type'', c_int ''protocol'']"

abbreviation rpc_socket_resp :: layout where "rpc_socket_resp \<equiv> rpc_common_resp"

definition rpc_poll_req :: layout where [layouts]:
  "rpc_poll_req =
     [c_long ''func_id'', c_int ''trace_id'', c_int ''timeout'', c_array ''fds'' pollfd MAX_POLL_FDS,
     c_long ''nfds'']"

definition rpc_poll_resp :: layout where [layouts]:
  "rpc_poll_resp =
     rpc_resp_base @ [c_int ''ret'', c_array ''fds'' pollfd MAX_POLL_FDS]"

definition rpc_select_req :: layout where [layouts]:
  "rpc_select_req =
     [c_long ''func_id'', c_int ''trace_id'', c_int ''nfds'', c_fd_set ''readfds'', c_fd_set ''writefds'',
     c_fd_set ''exceptfds'', c_timeval ''timeout'', c_char ''is_readfds_not_null'',
     c_char ''is_writefds_not_null'', c_char ''is_exceptfds_not_null'', c_char ''is_timeout_not_null'']"

definition rpc_select_resp :: layout where [layouts]:
  "rpc_select_resp =
     rpc_resp_base @ [c_fd_set ''readfds'', c_fd_set ''writefds'', c_fd_set ''exceptfds'', c_timeval ''timeout'',
     c_int ''ret'']"

definition rpc_gethostname_req :: layout where [layouts]:
  "rpc_gethostname_req =
     [c_long ''func_id'', c_int ''trace_id'', c_long ''len'']"

definition rpc_gethostname_resp :: layout where [layouts]:
  "rpc_gethostname_resp =
     rpc_resp_base @ [c_int ''ret'', c_int ''len'', c_chars ''name'' MAX_STRING_LEN]"

definition rpc_getsockopt_req :: layout where [layouts]:
  "rpc_getsockopt_req =
     [c_long ''func_id'', c_int ''trace_id'', c_int ''sockfd'', c_int ''optlen'', c_int ''level'',
     c_int ''optname'']"

definition rpc_getsockopt_resp :: layout where [layouts]:
  "rpc_getsockopt_resp =
     rpc_resp_base @ [c_int ''ret'', c_int ''optlen'', c_chars ''optval'' MAX_STRING_LEN]"

definition rpc_printf_req :: layout where [layouts]:
  "rpc_printf_req =
     [c_long ''func_id'', c_int ''len'', c_chars ''buf'' MAX_STRING_LEN]"

definition rpc_getdents64_req :: layout where [layouts]:
  "rpc_getdents64_req =
     [c_long ''func_id'', c_int ''trace_id'', c_int ''count'', c_long ''pos'', c_int ''fd'']"

definition rpc_getdents64_resp :: layout where [layouts]:
  "rpc_getdents64_resp =
     rpc_resp_base @ [c_long ''pos'', c_int ''ret'', c_chars ''buf'' MAX_STRING_LEN]"

definition rpc_fopen_req :: layout where [layouts]:
  "rpc_fopen_req =
     [c_long ''func_id'', c_int ''trace_id'', c_chars ''filename'' MAX_FILE_NAME_LEN,
     c_chars ''mode'' MAX_FILE_MODE_LEN]"

abbreviation rpc_fclose_req :: layout where "rpc_fclose_req \<equiv> rpc_fcommon_req"

definition rpc_fread_req :: layout where [layouts]:
  "rpc_fread_req =
     [c_long ''func_id'', c_int ''trace_id'', c_long ''size'', c_long ''count'', c_long ''fhandle'']"

definition rpc_fread_resp :: layout where [layouts]:
  "rpc_fread_resp =
     rpc_resp_base @ [c_long ''ret'', c_chars ''buf'' MAX_STRING_LEN]"

definition rpc_fwrite_req :: layout where [layouts]:
  "rpc_fwrite_req =
     [c_long ''func_id'', c_int ''trace_id'', c_long ''size'', c_long ''count'', c_long ''fhandle'',
     c_chars ''buf'' MAX_STRING_LEN]"

definition rpc_fwrite_resp :: layout where [layouts]:
  "rpc_fwrite_resp =
     rpc_resp_base @ [c_long ''ret'']"

definition rpc_freopen_req :: layout where [layouts]:
  "rpc_freopen_req =
     [c_long ''func_id'', c_int ''trace_id'', c_chars ''filename'' MAX_FILE_NAME_LEN,
     c_chars ''mode'' MAX_FILE_MODE_LEN, c_long ''fhandle'']"

definition rpc_fputs_req :: layout where [layouts]:
  "rpc_fputs_req =
     [c_long ''func_id'', c_int ''trace_id'', c_long ''fhandle'', c_chars ''str'' MAX_STRING_LEN]"

definition rpc_fgets_req :: layout where [layouts]:
  "rpc_fgets_req =
     [c_long ''func_id'', c_int ''trace_id'', c_long ''fhandle'', c_int ''size'']"

definition rpc_fgets_resp :: layout where [layouts]:
  "rpc_fgets_resp =
     rpc_resp_base @ [c_int ''isEof'', c_chars ''str'' MAX_STRING_LEN]"

abbreviation rpc_fflush_req :: layout where "rpc_fflush_req \<equiv> rpc_fcommon_req"

abbreviation rpc_fflush_resp :: layout where "rpc_fflush_resp \<equiv> rpc_common_resp"

abbreviation rpc_feof_req :: layout where "rpc_feof_req \<equiv> rpc_fcommon_req"

definition rpc_fprintf_req :: layout where [layouts]:
  "rpc_fprintf_req =
     [c_long ''func_id'', c_long ''fhandle'', c_int ''len'', c_chars ''buf'' MAX_STRING_LEN]"

abbreviation rpc_getc_req :: layout where "rpc_getc_req \<equiv> rpc_fcommon_req"

abbreviation rpc_ferror_req :: layout where "rpc_ferror_req \<equiv> rpc_fcommon_req"

abbreviation rpc_getc_unlocked_req :: layout where "rpc_getc_unlocked_req \<equiv> rpc_fcommon_req"

abbreviation rpc_pclose_req :: layout where "rpc_pclose_req \<equiv> rpc_fcommon_req"

definition rpc_tmpfile_req :: layout where [layouts]:
  "rpc_tmpfile_req =
     [c_long ''func_id'', c_int ''trace_id'']"

definition rpc_clearerr_req :: layout where [layouts]:
  "rpc_clearerr_req =
     [c_long ''func_id'', c_long ''fhandle'']"

definition rpc_popen_req :: layout where [layouts]:
  "rpc_popen_req =
     [c_long ''func_id'', c_int ''trace_id'', c_chars ''cmd'' MAX_FILE_NAME_LEN,
     c_chars ''mode'' MAX_FILE_MODE_LEN]"

definition rpc_ungetc_req :: layout where [layouts]:
  "rpc_ungetc_req =
     [c_long ''func_id'', c_int ''trace_id'', c_int ''c'', c_long ''fhandle'']"

abbreviation rpc_ungetc_resp :: layout where "rpc_ungetc_resp \<equiv> rpc_common_resp"

definition rpc_fseeko_req :: layout where [layouts]:
  "rpc_fseeko_req =
     [c_long ''func_id'', c_int ''trace_id'', c_long ''fhandle'', c_long ''offset'', c_int ''whence'']"

abbreviation rpc_ftello_req :: layout where "rpc_ftello_req \<equiv> rpc_fcommon_req"

definition rpc_ftello_resp :: layout where [layouts]:
  "rpc_ftello_resp =
     rpc_resp_base @ [c_long ''ret'']"

definition rpc_rename_req :: layout where [layouts]:
  "rpc_rename_req =
     [c_long ''func_id'', c_int ''trace_id'', c_chars ''old'' MAX_FILE_NAME_LEN,
     c_chars ''new'' MAX_FILE_NAME_LEN]"

definition rpc_remove_req :: layout where [layouts]:
  "rpc_remove_req =
     [c_long ''func_id'', c_int ''trace_id'', c_chars ''path'' MAX_FILE_NAME_LEN]"

definition rpc_mkstemp_req :: layout where [layouts]:
  "rpc_mkstemp_req =
     [c_long ''func_id'', c_int ''trace_id'', c_chars ''tmp'' MAX_FILE_NAME_LEN]"

abbreviation rpc_getwc_req :: layout where "rpc_getwc_req \<equiv> rpc_fflush_req"

definition rpc_getwc_resp :: layout where [layouts]:
  "rpc_getwc_resp =
     rpc_resp_base @ [c_int ''ret'']"

definition rpc_putwc_req :: layout where [layouts]:
  "rpc_putwc_req =
     [c_long ''func_id'', c_int ''trace_id'', c_int ''wc'', c_long ''fhandle'']"

abbreviation rpc_putwc_resp :: layout where "rpc_putwc_resp \<equiv> rpc_getwc_resp"

definition rpc_ungetwc_req :: layout where [layouts]:
  "rpc_ungetwc_req =
     [c_long ''func_id'', c_int ''trace_id'', c_int ''wc'', c_long ''fhandle'']"

abbreviation rpc_ungetwc_resp :: layout where "rpc_ungetwc_resp \<equiv> rpc_getwc_resp"

abbreviation rpc_putc_req :: layout where "rpc_putc_req \<equiv> rpc_ungetc_req"

abbreviation rpc_putc_resp :: layout where "rpc_putc_resp \<equiv> rpc_common_resp"

definition rpc_stat_req :: layout where [layouts]:
  "rpc_stat_req =
     [c_long ''func_id'', c_int ''trace_id'', c_chars ''path'' MAX_PATH_LEN]"

definition rpc_stat_resp :: layout where [layouts]:
  "rpc_stat_resp =
     rpc_resp_base @ [c_int ''ret'', c_long ''st_dev'', c_long ''st_ino'', c_long ''st_nlink'', c_int ''st_mode'',
     c_int ''st_uid'', c_int ''st_gid'', c_long ''st_rdev'', c_long ''st_size'', c_long ''st_blksize'',
     c_long ''st_blocks'', c_long ''st_atime_sec'', c_long ''st_atime_nsec'', c_long ''st_mtime_sec'',
     c_long ''st_mtime_nsec'', c_long ''st_ctime_sec'', c_long ''st_ctime_nsec'']"

definition rpc_getcwd_req :: layout where [layouts]:
  "rpc_getcwd_req =
     [c_long ''func_id'', c_int ''trace_id'', c_long ''size'']"

definition rpc_getcwd_resp :: layout where [layouts]:
  "rpc_getcwd_resp =
     rpc_resp_base @ [c_int ''isNull'', c_chars ''buf'' MAX_PATH_LEN]"

abbreviation rpc_fileno_req :: layout where "rpc_fileno_req \<equiv> rpc_fcommon_req"

abbreviation rpc_fileno_resp :: layout where "rpc_fileno_resp \<equiv> rpc_common_resp"

definition rpc_fdopen_req :: layout where [layouts]:
  "rpc_fdopen_req =
     [c_long ''func_id'', c_int ''trace_id'', c_int ''fd'', c_chars ''mode'' MAX_FILE_MODE_LEN]"

abbreviation rpc_fdopen_resp :: layout where "rpc_fdopen_resp \<equiv> rpc_fcommon_resp"

definition rpc_fstat_req :: layout where [layouts]:
  "rpc_fstat_req =
     [c_long ''func_id'', c_int ''trace_id'', c_int ''fd'']"

abbreviation rpc_fstat_resp :: layout where "rpc_fstat_resp \<equiv> rpc_stat_resp"

definition rpc_setvbuf_req :: layout where [layouts]:
  "rpc_setvbuf_req =
     [c_long ''func_id'', c_int ''trace_id'', c_long ''fhandle'']"

abbreviation rpc_setvbuf_resp :: layout where "rpc_setvbuf_resp \<equiv> rpc_common_resp"

abbreviation rpc_system_req :: layout where "rpc_system_req \<equiv> rpc_unlink_req"

abbreviation rpc_system_resp :: layout where "rpc_system_resp \<equiv> rpc_common_resp"

definition rpc_readlink_req :: layout where [layouts]:
  "rpc_readlink_req =
     [c_long ''func_id'', c_int ''trace_id'', c_long ''bufsiz'', c_chars ''pathname'' MAX_STRING_LEN]"

definition rpc_readlink_resp :: layout where [layouts]:
  "rpc_readlink_resp =
     rpc_resp_base @ [c_long ''ret'', c_chars ''buf'' MAX_STRING_LEN]"

definition rpc_access_req :: layout where [layouts]:
  "rpc_access_req =
     [c_long ''func_id'', c_int ''trace_id'', c_int ''mode'', c_chars ''pathname'' MAX_STRING_LEN]"

abbreviation rpc_access_resp :: layout where "rpc_access_resp \<equiv> rpc_common_resp"

definition rpc_dup2_req :: layout where [layouts]:
  "rpc_dup2_req =
     [c_long ''func_id'', c_int ''trace_id'', c_int ''oldfd'', c_int ''newfd'']"

abbreviation rpc_dup2_resp :: layout where "rpc_dup2_resp \<equiv> rpc_common_resp"

abbreviation rpc_mkfifo_req :: layout where "rpc_mkfifo_req \<equiv> rpc_access_req"

abbreviation rpc_mkfifo_resp :: layout where "rpc_mkfifo_resp \<equiv> rpc_common_resp"

definition rpc_chmod_req :: layout where [layouts]:
  "rpc_chmod_req =
     [c_long ''func_id'', c_int ''trace_id'', c_int ''mode'', c_chars ''pathname'' MAX_STRING_LEN]"

abbreviation rpc_chmod_resp :: layout where "rpc_chmod_resp \<equiv> rpc_common_resp"

abbreviation rpc_chdir_req :: layout where "rpc_chdir_req \<equiv> rpc_unlink_req"

abbreviation rpc_chdir_resp :: layout where "rpc_chdir_resp \<equiv> rpc_common_resp"

definition rpc_mkdir_req :: layout where [layouts]:
  "rpc_mkdir_req =
     [c_long ''func_id'', c_int ''trace_id'', c_int ''mode'', c_chars ''pathname'' MAX_STRING_LEN]"

abbreviation rpc_mkdir_resp :: layout where "rpc_mkdir_resp \<equiv> rpc_common_resp"

abbreviation rpc_rmdir_req :: layout where "rpc_rmdir_req \<equiv> rpc_unlink_req"

abbreviation rpc_rmdir_resp :: layout where "rpc_rmdir_resp \<equiv> rpc_common_resp"

definition rpc_pipe_req :: layout where [layouts]:
  "rpc_pipe_req =
     [c_long ''func_id'', c_int ''trace_id'']"

definition rpc_pipe_resp :: layout where [layouts]:
  "rpc_pipe_resp =
     rpc_resp_base @ [c_long ''ret'', (''fd'', 4 * 2, 4)]"

definition rpc_fscanfx_req :: layout where [layouts]:
  "rpc_fscanfx_req =
     [c_long ''func_id'', c_int ''trace_id'', c_chars ''fmt'' MAX_FILE_NAME_LEN, c_long ''fhandle'']"

definition rpc_fscanfx_resp :: layout where [layouts]:
  "rpc_fscanfx_resp =
     rpc_resp_base @ [c_long ''ret'', c_long ''data'']"

definition t_nameindex :: layout where [layouts]:
  "t_nameindex =
     [c_int ''if_index'', c_chars ''if_name'' MAX_IFNAMEINDEX_LEN]"

definition rpc_if_nameindex_req :: layout where [layouts]:
  "rpc_if_nameindex_req =
     [c_long ''func_id'', c_int ''trace_id'']"

definition rpc_if_nameindex_resp :: layout where [layouts]:
  "rpc_if_nameindex_resp =
     rpc_resp_base @ [c_long ''ret'', c_int ''cnt'', c_array ''if_index'' t_nameindex MAX_IFNAMEINDEX_SIZE]"

definition rpc_putchar_req :: layout where [layouts]:
  "rpc_putchar_req =
     [c_long ''func_id'', c_int ''trace_id'', c_int ''ch'']"

definition rpc_putchar_resp :: layout where [layouts]:
  "rpc_putchar_resp =
     rpc_resp_base @ [c_int ''ret'']"

definition rpc_gai_strerror_req :: layout where [layouts]:
  "rpc_gai_strerror_req =
     [c_long ''func_id'', c_int ''trace_id'', c_int ''error'']"

definition rpc_gai_strerror_resp :: layout where [layouts]:
  "rpc_gai_strerror_resp =
     rpc_resp_base @ [c_int ''isNull'', c_chars ''buf'' MAX_STRING_LEN]"

definition rpc_accept4_req :: layout where [layouts]:
  "rpc_accept4_req =
     [c_long ''func_id'', c_int ''trace_id'', c_int ''sockfd'', c_int ''flags'', c_int ''addrlen'',
     c_chars ''addr_buf'' MAX_SBUF_LEN]"

definition rpc_accept4_resp :: layout where [layouts]:
  "rpc_accept4_resp =
     rpc_resp_base @ [c_int ''ret'', c_int ''addrlen'', c_chars ''buf'' MAX_SBUF_LEN]"

definition rpc_iovbuf :: layout where [layouts]:
  "rpc_iovbuf =
     [c_long ''len'', c_chars ''iov'' MAX_IOV_LEN]"

definition rpc_writev_req :: layout where [layouts]:
  "rpc_writev_req =
     [c_long ''func_id'', c_int ''trace_id'', c_int ''fd'', c_int ''iovcnt'',
     c_array ''buf'' rpc_iovbuf MAX_IOV_SIZE]"

definition rpc_writev_resp :: layout where [layouts]:
  "rpc_writev_resp =
     rpc_resp_base @ [c_long ''ret'']"

section \<open>All structures\<close>

definition rpc_requests :: "layout list" where
  "rpc_requests =
    [rpc_fcommon_req, rpc_open_req, rpc_read_req, rpc_write_req, rpc_close_req, rpc_ioctl_req,
     rpc_lseek_req, rpc_fcntl_req, rpc_unlink_req, rpc_gethostbyaddr_req, rpc_gethostbyname_req,
     rpc_getaddrinfo_req, rpc_getpeername_req, rpc_accept_req, rpc_bind_req, rpc_listen_req,
     rpc_recv_req, rpc_recvfrom_req, rpc_send_req, rpc_sendto_req, rpc_setsockopt_req, rpc_shutdown_req,
     rpc_socket_req, rpc_poll_req, rpc_select_req, rpc_gethostname_req, rpc_getsockopt_req,
     rpc_printf_req, rpc_getdents64_req, rpc_fopen_req, rpc_fread_req, rpc_fwrite_req, rpc_freopen_req,
     rpc_fputs_req, rpc_fgets_req, rpc_fprintf_req, rpc_tmpfile_req, rpc_clearerr_req, rpc_popen_req,
     rpc_ungetc_req, rpc_fseeko_req, rpc_rename_req, rpc_remove_req, rpc_mkstemp_req, rpc_putwc_req,
     rpc_ungetwc_req, rpc_stat_req, rpc_getcwd_req, rpc_fdopen_req, rpc_fstat_req, rpc_setvbuf_req,
     rpc_readlink_req, rpc_access_req, rpc_dup2_req, rpc_chmod_req, rpc_mkdir_req, rpc_pipe_req,
     rpc_fscanfx_req, rpc_if_nameindex_req, rpc_putchar_req, rpc_gai_strerror_req, rpc_accept4_req,
     rpc_writev_req]"

definition rpc_responses :: "layout list" where
  "rpc_responses =
    [rpc_common_resp, rpc_fcommon_resp, rpc_csret_resp, rpc_read_resp, rpc_ioctl_resp, rpc_lseek_resp,
     rpc_gethostbyaddr_resp, rpc_getaddrinfo_resp, rpc_getpeername_resp, rpc_accept_resp, rpc_recv_resp,
     rpc_recvfrom_resp, rpc_poll_resp, rpc_select_resp, rpc_gethostname_resp, rpc_getsockopt_resp,
     rpc_getdents64_resp, rpc_fread_resp, rpc_fwrite_resp, rpc_fgets_resp, rpc_ftello_resp,
     rpc_getwc_resp, rpc_stat_resp, rpc_getcwd_resp, rpc_readlink_resp, rpc_pipe_resp, rpc_fscanfx_resp,
     rpc_if_nameindex_resp, rpc_putchar_resp, rpc_gai_strerror_resp, rpc_accept4_resp, rpc_writev_resp]"

text \<open>Every response starts with the base and fits in an answer; every request but that of \<open>writev\<close> fits in the receive buffer.\<close>

lemma rpc_structs_wf: "list_all wf_layout (rpc_requests @ rpc_responses)"
  by code_simp

lemma rpc_responses_fit: "list_all (\<lambda>L. take 2 L = rpc_resp_base \<and> 12 \<le> sizeof L \<and> sizeof L \<le> PROXY_MAX_BUF_LEN) rpc_responses"
  by code_simp

lemma rpc_requests_fit: "list_all (\<lambda>L. sizeof L \<le> RPC_BUFFER_SIZE \<or> L = rpc_writev_req) rpc_requests"
  by code_simp

lemma writev_request_too_long: "sizeof rpc_writev_req = 2184"
  by code_simp

end
