(* ===== verification/Rpc_Server.thy ===== *)
theory Rpc_Server
  imports Rpc_Codec Rpc_Layout
begin

text \<open>
  What the handlers of the RPC server (\<open>services/rpc/rpc_backend.c\<close>) share: the system calls and C
  library functions they make for the client OS, the base of a response, and sending it. The system is
  a function of its state and the call; it gives no result for a call whose behaviour is undefined, such as
  one on a stream that is not open. A request is the receive buffer, in which only the received bytes are stored.
  Output to the log of the server is left out, and taken not to change \<open>errno\<close>.
\<close>

section \<open>Calls\<close>

datatype file_call =
    C_open "u8 list" int nat | C_close int | C_read int nat | C_write int "u8 list" | C_lseek int int int
  | C_fcntl int int nat | C_ioctl int nat obj | C_unlink "u8 list" | C_getdents64 int nat
  | C_stat "u8 list" | C_lstat "u8 list" | C_fstat int | C_getcwd nat | C_readlink "u8 list" nat | C_system "u8 list"
  | C_access "u8 list" int | C_dup2 int int | C_mkfifo "u8 list" nat | C_chmod "u8 list" nat | C_chdir "u8 list"
  | C_mkdir "u8 list" nat | C_rmdir "u8 list" | C_pipe | C_rename "u8 list" "u8 list" | C_remove "u8 list"
  | C_mkstemp "u8 list" | C_writev int "u8 list list"

text \<open>Streams are addresses.\<close>

datatype stdio_call =
    C_fopen "u8 list" "u8 list" | C_fclose nat | C_fread nat nat nat | C_fwrite "u8 list" nat nat nat
  | C_freopen "u8 list" "u8 list" nat | C_fputs "u8 list" nat | C_fgets int nat | C_feof nat | C_getc nat | C_ferror nat
  | C_getc_unlocked nat | C_pclose nat | C_tmpfile | C_clearerr nat | C_popen "u8 list" "u8 list" | C_ungetc int nat
  | C_fseeko nat int int | C_ftello nat | C_fseek nat int int | C_fflush nat | C_getwc nat | C_putwc int nat
  | C_putc int nat | C_ungetwc nat nat | C_fdopen int "u8 list" | C_fileno nat | C_setvbuf nat
  | C_fscanf nat "u8 list" | C_putchar int

datatype sock_call =
    C_getaddrinfo "u8 list option" "u8 list option" "addrinfo list" | C_gethostbyaddr "u8 list" nat int
  | C_gethostbyname "u8 list" | C_poll obj nat int
  | C_select int "obj option" "obj option" "obj option" "obj option" | C_getpeername int nat | C_gethostname nat
  | C_getsockname int nat | C_getsockopt int int int nat | C_accept int "nat option" | C_accept4 int "nat option" int
  | C_bind int "u8 list" | C_connect int "u8 list" | C_listen int int | C_recv int nat int | C_recvfrom int nat int nat
  | C_send int "u8 list" int | C_sendto int "u8 list" int "u8 list" | C_setsockopt int int int "u8 list"
  | C_shutdown int int | C_socket int int int | C_if_nameindex | C_gai_strerror int

datatype call = File file_call | Stdio stdio_call | Sock sock_call

text \<open>\<open>struct stat\<close>, as far as the server copies it.\<close>

record stat =
  st_dev :: int
  st_ino :: int
  st_nlink :: int
  st_mode :: int
  st_uid :: int
  st_gid :: int
  st_rdev :: int
  st_size :: int
  st_blksize :: int
  st_blocks :: int
  st_atim :: "int \<times> int"
  st_mtim :: "int \<times> int"
  st_ctim :: "int \<times> int"

text \<open>
  The outcome of a call: its value (an address for a function that returns a pointer), the value it
  stores in \<open>errno\<close> if it does, the bytes it stores through its pointer arguments in their order, the length
  it stores through a pointer to a length, and the objects that it returns.
\<close>

record sysres =
  sr_ret :: int
  sr_err :: "int option"
  sr_outs :: "u8 list list"
  sr_len :: "nat option"
  sr_host :: "hostent option"
  sr_ai :: "addrinfo list option"
  sr_names :: "(nat \<times> u8 list) list option"
  sr_str :: "u8 list option"
  sr_stat :: "stat option"

definition out :: "nat \<Rightarrow> sysres \<Rightarrow> u8 list" where
  "out k res = (if k < length (sr_outs res) then sr_outs res ! k else [])"

type_synonym 'w os = "'w \<Rightarrow> call \<Rightarrow> (sysres \<times> 'w) option"

record 'w host =
  h_errno :: int
  h_world :: 'w

definition sysc :: "'w os \<Rightarrow> call \<Rightarrow> 'w host \<Rightarrow> (sysres \<times> 'w host) option" where
  "sysc sys c s = do {
     (res, w) \<leftarrow> sys (h_world s) c;
     Some (res, s\<lparr>h_world := w, h_errno := (case sr_err res of None \<Rightarrow> h_errno s | Some e \<Rightarrow> e)\<rparr>) }"

section \<open>Replies\<close>

record reply =
  rp_id :: nat
  rp_status :: int
  rp_params :: obj

text \<open>
  \<open>re_tx\<close> is what \<open>rpmsg_send\<close> returns for a message, \<open>re_fp\<close> the stream of the output file; the status
  numbers are those of the OpenAMP headers. \<open>re_malloc k n\<close> tells whether the \<open>k\<close>th allocation, of \<open>n\<close> bytes, succeeds.
\<close>

record rpc_env =
  re_tx :: "reply \<Rightarrow> int"
  re_fp :: nat
  re_ok :: int
  re_invalid_id :: int
  re_malloc :: "nat \<Rightarrow> nat \<Rightarrow> bool"

text \<open>What a handler returns: its value, the reply it sent, and the state of the system.\<close>

type_synonym 'w handled = "(int \<times> reply option \<times> 'w host) option"
type_synonym 'w handler = "rpc_env \<Rightarrow> 'w os \<Rightarrow> obj \<Rightarrow> 'w host \<Rightarrow> 'w handled"

definition rpc_server_send :: "rpc_env \<Rightarrow> nat \<Rightarrow> int \<Rightarrow> obj \<Rightarrow> nat \<Rightarrow> (int \<times> reply option) option" where
  "rpc_server_send env rpc_id status request_param param_size =
     (if param_size > PROXY_MAX_BUF_LEN then Some (- EINVAL, None)
      else do {
        params \<leftarrow> mem_read request_param 0 param_size;
        let msg = \<lparr>rp_id = rpc_id mod 2 ^ 32, rp_status = status, rp_params = params\<rparr>;
        Some (re_tx env msg, Some msg) })"

definition set_rsp_base :: "nat \<Rightarrow> obj \<Rightarrow> 'w host \<Rightarrow> (obj \<times> 'w host) option" where
  "set_rsp_base trace_id base s = do {
     base \<leftarrow> put_fld rpc_resp_base ''trace_id'' (int trace_id) base;
     base \<leftarrow> put_fld rpc_resp_base ''errnum'' (h_errno s) base;
     Some (base, s\<lparr>h_errno := 0\<rparr>) }"

text \<open>The last statements of a handler: a positive result of sending is made 0.\<close>

definition respond :: "rpc_env \<Rightarrow> nat \<Rightarrow> obj \<Rightarrow> nat \<Rightarrow> 'w host \<Rightarrow> 'w handled" where
  "respond env rpc_id resp payload_size s = do {
     (ret, rp) \<leftarrow> rpc_server_send env rpc_id (re_ok env) resp payload_size;
     Some (if ret > 0 then 0 else ret, rp, s) }"

text \<open>
  The common shape of a handler after it has read its arguments: one call, its value stored in a
  member of the response, the base, and the whole response sent.
\<close>

definition forward ::
  "rpc_env \<Rightarrow> 'w os \<Rightarrow> nat \<Rightarrow> layout \<Rightarrow> layout \<Rightarrow> string \<Rightarrow> obj \<Rightarrow> obj \<Rightarrow> call \<Rightarrow> 'w host \<Rightarrow> 'w handled" where
  "forward env sys rpc_id RQ RS f resp req c s = do {
     (res, s) \<leftarrow> sysc sys c s;
     resp \<leftarrow> put_fld RS f (sr_ret res) resp;
     trace_id \<leftarrow> get_fld RQ ''trace_id'' req;
     (resp, s) \<leftarrow> set_rsp_base trace_id resp s;
     respond env rpc_id resp (sizeof RS) s }"

text \<open>Members of the C type \<open>int\<close> and \<open>long\<close>.\<close>

definition get_int :: "layout \<Rightarrow> string \<Rightarrow> obj \<Rightarrow> int option" where
  "get_int L f m = map_option int32 (get_fld L f m)"

definition get_long :: "layout \<Rightarrow> string \<Rightarrow> obj \<Rightarrow> int option" where
  "get_long L f m = map_option (\<lambda>n. if n < 2 ^ 63 then int n else int n - 2 ^ 64) (get_fld L f m)"

text \<open>\<open>if (n > 0) memcpy(dst.f2, src.f1, n)\<close>.\<close>

definition copy_fld :: "layout \<Rightarrow> string \<Rightarrow> nat \<Rightarrow> obj \<Rightarrow> layout \<Rightarrow> string \<Rightarrow> obj \<Rightarrow> obj option" where
  "copy_fld L1 f1 n src L2 f2 dst =
     (if n = 0 then Some dst else do { bs \<leftarrow> get_obj L1 f1 n src; put_obj L2 f2 bs dst })"

text \<open>
  What a call stores in the request: bytes through a pointer to a member, if that pointer was passed, and a
  length through a pointer to its member.
\<close>

definition req_store :: "bool \<Rightarrow> layout \<Rightarrow> string \<Rightarrow> u8 list \<Rightarrow> obj \<Rightarrow> obj option" where
  "req_store passed RQ f bs req = (if passed then put_bytes RQ f 0 bs req else Some req)"

definition req_len :: "bool \<Rightarrow> layout \<Rightarrow> string \<Rightarrow> sysres \<Rightarrow> obj \<Rightarrow> obj option" where
  "req_len passed RQ f res req =
     (case sr_len res of Some l \<Rightarrow> if passed then put_fld RQ f (int l) req else Some req | None \<Rightarrow> Some req)"

text \<open>The documented result of the calls that fill a buffer: no more than was stored.\<close>

definition counted :: "call \<Rightarrow> bool" where
  "counted c = (case c of
       File (C_read fd n) \<Rightarrow> True | File (C_readlink p n) \<Rightarrow> True | File (C_getdents64 fd n) \<Rightarrow> True
     | Stdio (C_fread sz n f) \<Rightarrow> True
     | Sock (C_recv fd n fl) \<Rightarrow> True | Sock (C_recvfrom fd n fl l) \<Rightarrow> True
     | _ \<Rightarrow> False)"

definition os_counts :: "'w os \<Rightarrow> bool" where
  "os_counts sys \<longleftrightarrow> (\<forall>w c res w'. sys w c = Some (res, w') \<longrightarrow> counted c \<longrightarrow> sr_ret res \<le> int (length (out 0 res)))"

section \<open>Lemmas on responses\<close>

named_theorems answering \<open>rules that show that a handler answers its request\<close>

text \<open>A response whose base is set: the trace number of the request and some error number.\<close>

definition based :: "nat \<Rightarrow> obj \<Rightarrow> bool" where
  "based trace resp \<longleftrightarrow> ld resp 0 4 = Some (le_bytes 4 trace) \<and> (\<exists>e. ld resp 4 4 = Some (le_bytes 4 e))"

definition trace_of :: "obj \<Rightarrow> nat option" where
  "trace_of req = map_option le_nat (ld req 8 4)"

text \<open>The reply to a request: the number of its call, its trace number, and at most \<open>n\<close> bytes.\<close>

definition replied :: "rpc_env \<Rightarrow> nat \<Rightarrow> nat \<Rightarrow> nat \<Rightarrow> reply \<Rightarrow> bool" where
  "replied env fid trace n p \<longleftrightarrow>
     rp_id p = fid \<and> rp_status p = re_ok env \<and> based trace (rp_params p) \<and> length (rp_params p) \<le> n"

definition answers :: "rpc_env \<Rightarrow> nat \<Rightarrow> nat \<Rightarrow> obj \<Rightarrow> 'w handled \<Rightarrow> bool" where
  "answers env fid n req m \<longleftrightarrow>
     (\<forall>r rp s. m = Some (r, rp, s) \<longrightarrow> (\<exists>p trace. trace_of req = Some trace \<and> rp = Some p \<and> replied env fid trace n p))"

lemma answers_bind [answering]: "(\<And>a. x = Some a \<Longrightarrow> answers env fid n req (f a)) \<Longrightarrow> answers env fid n req (x \<bind> f)"
  by (cases x) (simp_all add: answers_def)

lemma answers_None [answering]: "answers env fid n req None"
  by (simp add: answers_def)

lemma answers_if [answering]:
  "(b \<Longrightarrow> answers env fid n req x) \<Longrightarrow> (\<not> b \<Longrightarrow> answers env fid n req y) \<Longrightarrow> answers env fid n req (if b then x else y)"
  by simp

lemma answers_else: "\<not> b \<Longrightarrow> answers env fid n req y \<Longrightarrow> answers env fid n req (if b then x else y)"
  by simp

lemma answers_prod [answering]:
  "(\<And>a b. p = (a, b) \<Longrightarrow> answers env fid n req (f a b)) \<Longrightarrow> answers env fid n req (case p of (a, b) \<Rightarrow> f a b)"
  by (cases p) simp

lemma answers_Let [answering]: "(\<And>a. a = x \<Longrightarrow> answers env fid n req (f a)) \<Longrightarrow> answers env fid n req (Let x f)"
  by simp

lemma member_at_base:
  assumes "take 2 L = rpc_resp_base"
  shows "member_at L f = (if f = ''trace_id'' then Some (0, 4) else if f = ''errnum'' then Some (4, 4)
    else map_of (offsets 8 (drop 2 L)) f)"
proof -
  have "L = rpc_resp_base @ drop 2 L" using assms append_take_drop_id [of 2 L] by simp
  then have "member_at L f = map_of (offsets 0 (rpc_resp_base @ drop 2 L)) f" by (simp add: member_at_def)
  then show ?thesis by (simp add: rpc_resp_base_def pad_to_def)
qed

text \<open>The layouts that a response can have: the base, then members with a positive alignment.\<close>

definition resp_layout :: "layout \<Rightarrow> bool" where
  "resp_layout L \<longleftrightarrow> take 2 L = rpc_resp_base \<and> (\<forall>(f, n, a) \<in> set L. 0 < a)"

lemma member_behind_base:
  assumes "resp_layout L" "member_at L f = Some (i, n)" "f \<noteq> ''trace_id''" "f \<noteq> ''errnum''"
  shows "8 \<le> i"
proof -
  have m: "(f, i, n) \<in> set (offsets 8 (drop 2 L))"
    using assms member_at_base [of L f] by (simp add: resp_layout_def map_of_SomeD)
  have "\<forall>(f, n, a) \<in> set (drop 2 L). 0 < a" using assms(1) set_drop_subset [of 2 L] by (auto simp: resp_layout_def)
  from offsets_bounds [OF this m] show ?thesis by simp
qed

lemma based_write:
  assumes "mem_write resp i bs = Some resp'" "8 \<le> i" "based trace resp"
  shows "based trace resp'"
  using assms mem_read_write_other [OF assms(1)] by (simp add: based_def ld_def)

lemma based_put:
  assumes "resp_layout L" "f \<noteq> ''trace_id''" "f \<noteq> ''errnum''" "based trace resp"
  shows "put_fld L f v resp = Some resp' \<Longrightarrow> based trace resp'"
    and "put_bytes L f k bs resp = Some resp' \<Longrightarrow> based trace resp'"
    and "put_obj L f xs resp = Some resp' \<Longrightarrow> based trace resp'"
  using assms member_behind_base [OF assms(1) _ assms(2,3)]
  by (auto simp: put_fld_def put_bytes_def put_obj_def bind_eq_Some_conv intro: based_write dest: trans_le_add1)

lemma set_rsp_base_based:
  assumes "set_rsp_base trace resp s = Some (resp', s')" "trace < 2 ^ 32"
  shows "based trace resp' \<and> length resp' = length resp \<and> h_errno s' = 0 \<and> h_world s' = h_world s"
proof -
  have m: "member_at rpc_resp_base ''trace_id'' = Some (0, 4)" "member_at rpc_resp_base ''errnum'' = Some (4, 4)"
    by (simp_all add: member_at_def rpc_resp_base_def pad_to_def)
  obtain r1 where r1: "store resp 0 (le_bytes 4 trace) = Some r1"
      "store r1 4 (le_bytes 4 (nat (h_errno s mod 2 ^ 32))) = Some resp'" "s' = s\<lparr>h_errno := 0\<rparr>"
    using assms by (auto simp: set_rsp_base_def put_fld_def m bind_eq_Some_conv)
  have "ld r1 0 4 = Some (le_bytes 4 trace)" using ld_st_same [OF r1(1)] by simp
  then have "ld resp' 0 4 = Some (le_bytes 4 trace)" using ld_st_other [OF r1(2), of 0 4] by simp
  moreover have "ld resp' 4 4 = Some (le_bytes 4 (nat (h_errno s mod 2 ^ 32)))" using ld_st_same [OF r1(2)] by simp
  ultimately show ?thesis using r1 by (auto simp: based_def mem_write_length)
qed

lemma answers_respond:
  assumes "based trace resp" "trace_of req = Some trace" "8 \<le> payload" "payload \<le> PROXY_MAX_BUF_LEN"
    and "length resp \<le> n" "fid < 2 ^ 32"
  shows "answers env fid n req (respond env fid resp payload s)"
proof -
  have "based trace (take payload resp)" if "payload \<le> length resp"
    using assms(1,3) that by (simp add: based_def ld_def mem_read_def min_def take_drop)
  then show ?thesis
    using assms by (auto simp: answers_def respond_def rpc_server_send_def mem_read_def replied_def Let_def bind_eq_Some_conv split: if_splits)
qed

lemma copy_fld_based:
  assumes "resp_layout L2" "f2 \<noteq> ''trace_id''" "f2 \<noteq> ''errnum''" "based trace resp"
    and "copy_fld L1 f1 n src L2 f2 resp = Some resp'"
  shows "based trace resp'"
  using assms based_put(3) [OF assms(1-4)] by (auto simp: copy_fld_def bind_eq_Some_conv split: if_splits)

lemma copy_fld_length: "copy_fld L1 f1 n src L2 f2 resp = Some resp' \<Longrightarrow> length resp' = length resp"
  by (auto simp: copy_fld_def bind_eq_Some_conv put_length split: if_splits)

lemmas resp_length = put_length copy_fld_length

text \<open>The requests with a trace number have it behind the number of the call.\<close>

definition req_layout :: "layout \<Rightarrow> bool" where
  "req_layout L \<longleftrightarrow> take 2 L = [c_long ''func_id'', c_int ''trace_id''] \<and> (\<forall>(f, n, a) \<in> set L. 0 < a)"

lemma get_trace:
  assumes "req_layout RQ"
  shows "get_fld RQ ''trace_id'' req = trace_of req"
proof -
  have "RQ = [c_long ''func_id'', c_int ''trace_id''] @ drop 2 RQ"
    using assms append_take_drop_id [of 2 RQ] by (simp add: req_layout_def)
  then have "member_at RQ ''trace_id'' = map_of (offsets 0 ([c_long ''func_id'', c_int ''trace_id''] @ drop 2 RQ)) ''trace_id''"
    by (simp add: member_at_def)
  then have "member_at RQ ''trace_id'' = Some (8, 4)" by (simp add: pad_to_def)
  then show ?thesis by (simp add: get_fld_def trace_of_def map_conv_bind_option comp_def)
qed

lemma trace_lt: "trace_of req = Some trace \<Longrightarrow> trace < 2 ^ 32"
  using le_nat_bound [of "the (ld req 8 4)"] by (auto simp: trace_of_def ld_def mem_read_def bind_eq_Some_conv split: if_splits)

text \<open>A response of \<open>n\<close> bytes with its base set.\<close>

definition rsp :: "nat \<Rightarrow> nat \<Rightarrow> obj \<Rightarrow> bool" where
  "rsp trace n resp \<longleftrightarrow> based trace resp \<and> length resp = n"

lemma answers_bind2:
  "(\<And>a b. x = Some (a, b) \<Longrightarrow> answers env fid n req (f a b)) \<Longrightarrow> answers env fid n req (x \<bind> (\<lambda>(a, b). f a b))"
  by (intro answers_bind answers_prod) simp

lemma answers_bind3:
  "(\<And>a b c. x = Some (a, b, c) \<Longrightarrow> answers env fid n req (f a b c)) \<Longrightarrow> answers env fid n req (x \<bind> (\<lambda>(a, b, c). f a b c))"
  by (intro answers_bind2 answers_prod) simp

lemma answers_set_base:
  assumes "\<And>trace resp' s'. trace_of req = Some trace \<Longrightarrow> rsp trace (length resp) resp' \<Longrightarrow> h_errno s' = 0 \<Longrightarrow>
      answers env fid n req (f resp' s')"
    and "req_layout RQ" "trace_of req' = trace_of req"
  shows "answers env fid n req (get_fld RQ ''trace_id'' req' \<bind> (\<lambda>t. set_rsp_base t resp s \<bind> (\<lambda>(resp, s). f resp s)))"
  unfolding get_trace [OF assms(2)] assms(3)
proof (rule answers_bind, rule answers_bind2)
  fix t resp' s' assume t: "trace_of req = Some t" "set_rsp_base t resp s = Some (resp', s')"
  show "answers env fid n req (f resp' s')"
    using set_rsp_base_based [OF t(2) trace_lt [OF t(1)]] by (intro assms(1) [OF t(1)]) (simp_all add: rsp_def)
qed

lemma rsp_put:
  assumes "rsp trace m resp" "resp_layout L" "f \<noteq> ''trace_id''" "f \<noteq> ''errnum''"
  shows "put_fld L f v resp = Some resp' \<Longrightarrow> rsp trace m resp'" "put_bytes L f k bs resp = Some resp' \<Longrightarrow> rsp trace m resp'"
    "put_obj L f xs resp = Some resp' \<Longrightarrow> rsp trace m resp'" "copy_fld L1 f1 c src L f resp = Some resp' \<Longrightarrow> rsp trace m resp'"
proof -
  have b: "based trace resp" "length resp = m" using assms(1) by (simp_all add: rsp_def)
  note p = based_put [OF assms(2-4) b(1)] copy_fld_based [OF assms(2-4) b(1)]
  show "put_fld L f v resp = Some resp' \<Longrightarrow> rsp trace m resp'" using p(1) put_length(1) b(2) unfolding rsp_def by blast
  show "put_bytes L f k bs resp = Some resp' \<Longrightarrow> rsp trace m resp'" using p(2) put_length(2) b(2) unfolding rsp_def by blast
  show "put_obj L f xs resp = Some resp' \<Longrightarrow> rsp trace m resp'" using p(3) put_length(3) b(2) unfolding rsp_def by blast
  show "copy_fld L1 f1 c src L f resp = Some resp' \<Longrightarrow> rsp trace m resp'" using p(4) copy_fld_length b(2) unfolding rsp_def by blast
qed

lemma answers_put:
  assumes "rsp trace m resp" "\<And>resp'. rsp trace m resp' \<Longrightarrow> answers env fid n req (g resp')"
    and "resp_layout L" "f \<noteq> ''trace_id''" "f \<noteq> ''errnum''"
  shows "answers env fid n req (put_fld L f v resp \<bind> g)" "answers env fid n req (put_bytes L f k bs resp \<bind> g)"
    "answers env fid n req (put_obj L f xs resp \<bind> g)"
  by (intro answers_bind assms(2), erule rsp_put [OF assms(1,3-5)])+

lemma answers_send:
  assumes "rsp trace m resp" "trace_of req = Some trace" "8 \<le> payload" "payload \<le> PROXY_MAX_BUF_LEN" "m \<le> n" "fid < 2 ^ 32"
  shows "answers env fid n req (respond env fid resp payload s)"
  using assms answers_respond by (auto simp: rsp_def)

text \<open>What a handler stores in its request leaves the trace number as it was.\<close>

lemma trace_write: "mem_write req i bs = Some req' \<Longrightarrow> 12 \<le> i \<Longrightarrow> trace_of req' = trace_of req"
  by (simp add: trace_of_def ld_def mem_read_write_other)

lemma trace_put:
  assumes "req_layout L" "f \<noteq> ''func_id''" "f \<noteq> ''trace_id''"
  shows "put_fld L f v m = Some m' \<Longrightarrow> trace_of m' = trace_of m"
    and "put_bytes L f k bs m = Some m' \<Longrightarrow> trace_of m' = trace_of m"
proof -
  have L: "L = [c_long ''func_id'', c_int ''trace_id''] @ drop 2 L"
    using assms(1) append_take_drop_id [of 2 L] by (simp add: req_layout_def)
  have at: "12 \<le> i" if "member_at L f = Some (i, n)" for i n
  proof -
    have "(f, i, n) \<in> set (offsets 0 ([c_long ''func_id'', c_int ''trace_id''] @ drop 2 L))" using member_at_in [OF that] L by simp
    then have "(f, i, n) \<in> set (offsets 12 (drop 2 L))" using assms(2,3) by (simp add: pad_to_def)
    moreover have "\<forall>(f, n, a) \<in> set (drop 2 L). 0 < a" using assms(1) set_drop_subset [of 2 L] by (auto simp: req_layout_def)
    ultimately show ?thesis using offsets_bounds [of "drop 2 L" f i n 12] by simp
  qed
  show "put_fld L f v m = Some m' \<Longrightarrow> trace_of m' = trace_of m"
    using at by (auto simp: put_fld_def bind_eq_Some_conv intro: trace_write)
  show "put_bytes L f k bs m = Some m' \<Longrightarrow> trace_of m' = trace_of m"
    using at by (auto simp: put_bytes_def bind_eq_Some_conv intro: trace_write dest: trans_le_add1)
qed

lemma answers_req:
  assumes "\<And>m'. trace_of m' = trace_of m \<Longrightarrow> answers env fid n req (g m')"
    and "req_layout L" "f \<noteq> ''func_id''" "f \<noteq> ''trace_id''"
  shows "answers env fid n req (req_store b L f bs m \<bind> g)" "answers env fid n req (req_len b L f res m \<bind> g)"
  using trace_put [OF assms(2-4)]
  by (auto intro!: answers_bind assms(1) simp: req_store_def req_len_def split: if_splits option.splits)

lemma copy_fits:
  "copy_fld L1 f1 c src L2 f2 m = Some m' \<Longrightarrow> member_at L2 f2 = Some (i, k) \<Longrightarrow> c = 0 \<or> i + c \<le> length m"
  by (auto simp: copy_fld_def get_obj_def put_obj_def mem_read_def mem_write_def bind_eq_Some_conv split: if_splits)

lemma answers_copy:
  assumes "rsp trace m resp" "\<And>resp'. rsp trace m resp' \<Longrightarrow> c \<le> m - i \<Longrightarrow> answers env fid n req (g resp')"
    and "resp_layout L" "f \<noteq> ''trace_id''" "f \<noteq> ''errnum''" "member_at L f = Some (i, k)"
  shows "answers env fid n req (copy_fld L1 f1 c src L f resp \<bind> g)"
proof (rule answers_bind, rule assms(2))
  fix r assume r: "copy_fld L1 f1 c src L f resp = Some r"
  have b: "based trace resp" "length resp = m" using assms(1) by (simp_all add: rsp_def)
  show "rsp trace m r" using copy_fld_based [OF assms(3-5) b(1) r] copy_fld_length [OF r] b by (simp add: rsp_def)
  show "c \<le> m - i" using copy_fits [OF r assms(6)] b by auto
qed

lemma put_bytes_fits:
  "put_bytes L f k bs m = Some m' \<Longrightarrow> member_at L f = Some (i, n) \<Longrightarrow> i + k + length bs \<le> length m"
  by (auto simp: put_bytes_def mem_write_def split: if_splits)

lemma os_countsD:
  "sysc sys c s = Some (res, s') \<Longrightarrow> os_counts sys \<Longrightarrow> counted c \<Longrightarrow> sr_ret res \<le> int (length (out 0 res))"
  by (fastforce simp: sysc_def os_counts_def bind_eq_Some_conv)

lemma answers_len:
  "(\<And>m'. put_fld L f v m = Some m' \<Longrightarrow> length m' = length m \<Longrightarrow> answers env fid n req (g m')) \<Longrightarrow> answers env fid n req (put_fld L f v m \<bind> g)"
  "(\<And>m'. put_bytes L f k bs m = Some m' \<Longrightarrow> length m' = length m \<Longrightarrow> answers env fid n req (g m')) \<Longrightarrow>
    answers env fid n req (put_bytes L f k bs m \<bind> g)"
  by (auto intro!: answers_bind dest: put_length)

text \<open>A call that fills the response, and whose result is the number of bytes.\<close>

lemma answers_fill:
  assumes "\<And>res s' m'. length m' = length m \<Longrightarrow> i + nat (sr_ret res) \<le> length m \<Longrightarrow> answers env fid n req (g res s' m')"
    and "os_counts sys" "counted c" "member_at L f = Some (i, k)"
  shows "answers env fid n req (sysc sys c s \<bind> (\<lambda>(res, s). put_bytes L f 0 (out 0 res) m \<bind> (\<lambda>m. g res s m)))"
proof (rule answers_bind2, rule answers_bind)
  fix res s' m' assume a: "sysc sys c s = Some (res, s')" "put_bytes L f 0 (out 0 res) m = Some m'"
  have "i + length (out 0 res) \<le> length m" using put_bytes_fits [OF a(2) assms(4)] by simp
  moreover have "nat (sr_ret res) \<le> length (out 0 res)" using os_countsD [OF a(1) assms(2,3)] by simp
  ultimately show "answers env fid n req (g res s' m')" using put_length(2) [OF a(2)] by (intro assms(1)) simp_all
qed

text \<open>The order matters: the special rules before those for any bind.\<close>

lemmas answers_rules = answers_set_base answers_req answers_len answers_bind3 answers_bind2 answers_bind answers_if answers_Let
lemmas answers_based = answers_put answers_copy answers_send

text \<open>The layouts of the requests and responses, as rewrite rules: the base, the sizes and the places of the buffers.\<close>

lemma req_layouts [simp]:
  "req_layout rpc_fcommon_req" "req_layout rpc_open_req" "req_layout rpc_read_req" "req_layout rpc_write_req"
  "req_layout rpc_close_req" "req_layout rpc_ioctl_req" "req_layout rpc_lseek_req" "req_layout rpc_fcntl_req"
  "req_layout rpc_unlink_req" "req_layout rpc_gethostbyaddr_req" "req_layout rpc_gethostbyname_req"
  "req_layout rpc_getaddrinfo_req" "req_layout rpc_getpeername_req" "req_layout rpc_accept_req"
  "req_layout rpc_bind_req" "req_layout rpc_listen_req" "req_layout rpc_recv_req" "req_layout rpc_recvfrom_req"
  "req_layout rpc_send_req" "req_layout rpc_sendto_req" "req_layout rpc_setsockopt_req" "req_layout rpc_shutdown_req"
  "req_layout rpc_socket_req" "req_layout rpc_poll_req" "req_layout rpc_select_req" "req_layout rpc_gethostname_req"
  "req_layout rpc_getsockopt_req" "req_layout rpc_getdents64_req" "req_layout rpc_fopen_req" "req_layout rpc_fread_req"
  "req_layout rpc_fwrite_req" "req_layout rpc_freopen_req" "req_layout rpc_fputs_req" "req_layout rpc_fgets_req"
  "req_layout rpc_tmpfile_req" "req_layout rpc_popen_req" "req_layout rpc_ungetc_req" "req_layout rpc_fseeko_req"
  "req_layout rpc_rename_req" "req_layout rpc_remove_req" "req_layout rpc_mkstemp_req" "req_layout rpc_putwc_req"
  "req_layout rpc_ungetwc_req" "req_layout rpc_stat_req" "req_layout rpc_getcwd_req" "req_layout rpc_fdopen_req"
  "req_layout rpc_fstat_req" "req_layout rpc_setvbuf_req" "req_layout rpc_readlink_req" "req_layout rpc_access_req"
  "req_layout rpc_dup2_req" "req_layout rpc_chmod_req" "req_layout rpc_mkdir_req" "req_layout rpc_pipe_req"
  "req_layout rpc_fscanfx_req" "req_layout rpc_if_nameindex_req" "req_layout rpc_putchar_req"
  "req_layout rpc_gai_strerror_req" "req_layout rpc_accept4_req" "req_layout rpc_writev_req"
  by (simp_all add: req_layout_def layouts)

lemma resp_layouts [simp]:
  "resp_layout rpc_common_resp" "resp_layout rpc_fcommon_resp" "resp_layout rpc_csret_resp" "resp_layout rpc_read_resp"
  "resp_layout rpc_ioctl_resp" "resp_layout rpc_lseek_resp" "resp_layout rpc_gethostbyaddr_resp"
  "resp_layout rpc_getaddrinfo_resp" "resp_layout rpc_getpeername_resp" "resp_layout rpc_accept_resp"
  "resp_layout rpc_recv_resp" "resp_layout rpc_recvfrom_resp" "resp_layout rpc_poll_resp" "resp_layout rpc_select_resp"
  "resp_layout rpc_gethostname_resp" "resp_layout rpc_getsockopt_resp" "resp_layout rpc_getdents64_resp"
  "resp_layout rpc_fread_resp" "resp_layout rpc_fwrite_resp" "resp_layout rpc_fgets_resp" "resp_layout rpc_ftello_resp"
  "resp_layout rpc_getwc_resp" "resp_layout rpc_stat_resp" "resp_layout rpc_getcwd_resp"
  "resp_layout rpc_readlink_resp" "resp_layout rpc_pipe_resp" "resp_layout rpc_fscanfx_resp"
  "resp_layout rpc_if_nameindex_resp" "resp_layout rpc_putchar_resp" "resp_layout rpc_gai_strerror_resp"
  "resp_layout rpc_accept4_resp" "resp_layout rpc_writev_resp"
  by (simp_all add: resp_layout_def layouts)

lemma resp_sizes [simp]:
  "sizeof rpc_common_resp = 12" "sizeof rpc_fcommon_resp = 16" "sizeof rpc_csret_resp = 16"
  "sizeof rpc_read_resp = 448" "sizeof rpc_ioctl_resp = 456" "sizeof rpc_lseek_resp = 16"
  "sizeof rpc_gethostbyaddr_resp = 448" "sizeof rpc_getaddrinfo_resp = 456" "sizeof rpc_getpeername_resp = 448"
  "sizeof rpc_accept_resp = 448" "sizeof rpc_recv_resp = 448" "sizeof rpc_recvfrom_resp = 456"
  "sizeof rpc_poll_resp = 268" "sizeof rpc_select_resp = 416" "sizeof rpc_gethostname_resp = 448"
  "sizeof rpc_getsockopt_resp = 448" "sizeof rpc_getdents64_resp = 456" "sizeof rpc_fread_resp = 448"
  "sizeof rpc_fwrite_resp = 16" "sizeof rpc_fgets_resp = 444" "sizeof rpc_ftello_resp = 16"
  "sizeof rpc_getwc_resp = 12" "sizeof rpc_stat_resp = 136" "sizeof rpc_getcwd_resp = 1036"
  "sizeof rpc_readlink_resp = 448" "sizeof rpc_pipe_resp = 24" "sizeof rpc_fscanfx_resp = 24"
  "sizeof rpc_if_nameindex_resp = 1784" "sizeof rpc_putchar_resp = 12" "sizeof rpc_gai_strerror_resp = 444"
  "sizeof rpc_accept4_resp = 448" "sizeof rpc_writev_resp = 16"
  by (simp_all add: layouts sizeof_def pad_to_def numeral_2_eq_2 [symmetric])

lemma resp_members [simp]:
  "member_at rpc_read_resp ''buf'' = Some (16, 432)" "member_at rpc_readlink_resp ''buf'' = Some (16, 432)"
  "member_at rpc_getdents64_resp ''buf'' = Some (20, 432)" "member_at rpc_fread_resp ''buf'' = Some (16, 432)"
  "member_at rpc_recv_resp ''buf'' = Some (16, 432)" "member_at rpc_recvfrom_resp ''buf'' = Some (152, 304)"
  "member_at rpc_recvfrom_resp ''addr'' = Some (24, 128)" "member_at rpc_ioctl_resp ''buf'' = Some (24, 432)"
  "member_at rpc_getpeername_resp ''addr_buf'' = Some (16, 432)" "member_at rpc_accept_resp ''buf'' = Some (16, 432)"
  "member_at rpc_accept4_resp ''buf'' = Some (16, 432)" "member_at rpc_poll_resp ''fds'' = Some (12, 256)"
  "member_at rpc_select_resp ''readfds'' = Some (8, 128)" "member_at rpc_select_resp ''writefds'' = Some (136, 128)"
  "member_at rpc_select_resp ''exceptfds'' = Some (264, 128)" "member_at rpc_select_resp ''timeout'' = Some (392, 16)"
  "member_at rpc_gethostname_resp ''name'' = Some (16, 432)"
  "member_at rpc_common_resp ''ret'' = Some (8, 4)" "member_at rpc_csret_resp ''ret'' = Some (8, 8)"
  "member_at rpc_fcommon_resp ''fhandle'' = Some (8, 8)" "member_at rpc_lseek_resp ''ret'' = Some (8, 8)"
  "member_at rpc_fwrite_resp ''ret'' = Some (8, 8)" "member_at rpc_ftello_resp ''ret'' = Some (8, 8)"
  "member_at rpc_getwc_resp ''ret'' = Some (8, 4)" "member_at rpc_putchar_resp ''ret'' = Some (8, 4)"
  "member_at rpc_writev_resp ''ret'' = Some (8, 8)"
  by (simp_all add: layouts member_at_def sizeof_def pad_to_def numeral_2_eq_2 [symmetric])

lemma elem_sizes [simp]: "sizeof sockaddr = 16" "sizeof pollfd = 8" "sizeof rpc_iovbuf = 72" "sizeof t_nameindex = 44"
  by (simp_all add: layouts sizeof_def pad_to_def numeral_2_eq_2 [symmetric])

lemma answers_forward [answering]:
  assumes "req_layout RQ" "resp_layout RS" "length resp = sizeof RS" "8 \<le> sizeof RS" "sizeof RS \<le> n" "n \<le> PROXY_MAX_BUF_LEN" "fid < 2 ^ 32"
  shows "answers env fid n req (forward env sys fid RQ RS f resp req c s)"
  unfolding forward_def
  by (rule answers_set_base answers_bind2 answers_bind | erule answers_send)+ (use assms in \<open>auto dest!: resp_length\<close>)

section \<open>Calls that are passed on\<close>

definition errno_after :: "sysres \<Rightarrow> int \<Rightarrow> int" where
  "errno_after res e = (case sr_err res of None \<Rightarrow> e | Some e' \<Rightarrow> e')"

lemma set_rsp_base_writes:
  assumes "8 \<le> length resp" "trace < 2 ^ 32"
  obtains r where "set_rsp_base trace resp s = Some (r, s\<lparr>h_errno := 0\<rparr>)" "length r = length resp"
    "ld r 0 4 = Some (le_bytes 4 trace)" "ld r 4 4 = Some (le_bytes 4 (nat (h_errno s mod 2 ^ 32)))"
    "\<And>j k. 8 \<le> j \<Longrightarrow> ld r j k = ld resp j k"
proof -
  have m: "member_at rpc_resp_base ''trace_id'' = Some (0, 4)" "member_at rpc_resp_base ''errnum'' = Some (4, 4)"
    by (simp_all add: member_at_def rpc_resp_base_def pad_to_def)
  let ?t = "le_bytes 4 trace" and ?e = "le_bytes 4 (nat (h_errno s mod 2 ^ 32))"
  obtain r1 where r1: "store resp 0 ?t = Some r1" using assms(1) by (simp add: mem_write_def)
  obtain r2 where r2: "store r1 4 ?e = Some r2" using assms(1) mem_write_length [OF r1] by (simp add: mem_write_def)
  have "set_rsp_base trace resp s = Some (r2, s\<lparr>h_errno := 0\<rparr>)"
    using r1 r2 assms(2) by (simp add: set_rsp_base_def put_fld_def m)
  moreover have "length r2 = length resp" using mem_write_length [OF r1] mem_write_length [OF r2] by simp
  moreover have "ld r2 0 4 = Some ?t" using ld_st_same [OF r1] ld_st_other [OF r2, of 0 4] by simp
  moreover have "ld r2 4 4 = Some ?e" using ld_st_same [OF r2] by simp
  moreover have "ld r2 j k = ld resp j k" if "8 \<le> j" for j k
    using ld_st_other [OF r1, of j k] ld_st_other [OF r2, of j k] that by simp
  ultimately show thesis by (rule that)
qed

lemma forward_None: "req_layout RQ \<Longrightarrow> trace_of req = None \<Longrightarrow> forward env sys fid RQ RS f resp req c s = None"
  by (simp add: forward_def get_trace) (simp add: bind_eq_None_conv case_prod_unfold)

text \<open>What the client finds in the reply: the trace number, the error number and the result of the call.\<close>

definition carries :: "layout \<Rightarrow> string \<Rightarrow> nat \<Rightarrow> int \<Rightarrow> int \<Rightarrow> reply \<Rightarrow> bool" where
  "carries L f trace errnum ret p \<longleftrightarrow>
     get_fld L ''trace_id'' (rp_params p) = Some trace
     \<and> get_fld L ''errnum'' (rp_params p) = Some (nat (errnum mod 2 ^ 32))
     \<and> (\<exists>i n. member_at L f = Some (i, n) \<and> get_fld L f (rp_params p) = Some (nat (ret mod 2 ^ (8 * n))))"

lemma forward_Some:
  assumes "req_layout RQ" "resp_layout RS" "length resp = sizeof RS" "sizeof RS \<le> PROXY_MAX_BUF_LEN" "8 \<le> sizeof RS"
    and "member_at RS f = Some (i, n)" "i + n \<le> sizeof RS" "f \<noteq> ''trace_id''" "f \<noteq> ''errnum''" "fid < 2 ^ 32"
    and "trace_of req = Some trace" "sys (h_world s) c = Some (res, w)"
  shows "\<exists>r p. forward env sys fid RQ RS f resp req c s = Some (r, Some p, \<lparr>h_errno = 0, h_world = w\<rparr>)
    \<and> rp_id p = fid \<and> rp_status p = re_ok env \<and> carries RS f trace (errno_after res (h_errno s)) (sr_ret res) p"
proof -
  let ?b = "le_bytes n (nat (sr_ret res mod 2 ^ (8 * n)))"
  let ?s = "s\<lparr>h_world := w, h_errno := errno_after res (h_errno s)\<rparr>"
  have i: "8 \<le> i" by (rule member_behind_base [OF assms(2,6,8,9)])
  obtain r1 where r1: "put_fld RS f (sr_ret res) resp = Some r1" "store resp i ?b = Some r1"
    using assms(3,6,7) by (simp add: put_fld_def mem_write_def)
  have l1: "length r1 = sizeof RS" using put_length(1) [OF r1(1)] assms(3) by simp
  obtain r where r: "set_rsp_base trace r1 ?s = Some (r, ?s\<lparr>h_errno := 0\<rparr>)" "length r = length r1"
      "ld r 0 4 = Some (le_bytes 4 trace)" "ld r 4 4 = Some (le_bytes 4 (nat (h_errno ?s mod 2 ^ 32)))" "\<And>j k. 8 \<le> j \<Longrightarrow> ld r j k = ld r1 j k"
    using set_rsp_base_writes [of r1 trace ?s] l1 assms(5) trace_lt [OF assms(11)] by auto
  define p where "p = \<lparr>rp_id = fid, rp_status = re_ok env, rp_params = r\<rparr>"
  have "rpc_server_send env fid (re_ok env) r (sizeof RS) = Some (re_tx env p, Some p)"
    using r(2) l1 assms(4,10) by (simp add: rpc_server_send_def mem_read_def p_def Let_def)
  then have f: "forward env sys fid RQ RS f resp req c s = Some (if re_tx env p > 0 then 0 else re_tx env p, Some p, \<lparr>h_errno = 0, h_world = w\<rparr>)"
    using r(1) r1(1) assms(11,12)
    by (simp add: forward_def sysc_def get_trace [OF assms(1)] respond_def errno_after_def)
  have mb: "member_at RS ''trace_id'' = Some (0, 4)" "member_at RS ''errnum'' = Some (4, 4)"
    using member_at_base [of RS] assms(2) by (simp_all add: resp_layout_def)
  have "ld r i n = Some ?b" using r(5) [OF i] ld_st_same [OF r1(2)] by simp
  moreover have "nat (sr_ret res mod 2 ^ (8 * n)) < 256 ^ n"
    by (simp add: nat_less_iff power_mult [symmetric] flip: of_nat_less_iff) (simp add: power_mult)
  ultimately have "get_fld RS f r = Some (nat (sr_ret res mod 2 ^ (8 * n)))" using assms(6) by (simp add: get_fld_def le_nat_bytes)
  moreover have "get_fld RS ''trace_id'' r = Some trace" using r(3) trace_lt [OF assms(11)] by (simp add: get_fld_def mb le_nat_bytes)
  moreover have "get_fld RS ''errnum'' r = Some (nat (errno_after res (h_errno s) mod 2 ^ 32))"
    using r(4) by (simp add: get_fld_def mb le_nat_bytes nat_less_iff)
  ultimately have "carries RS f trace (errno_after res (h_errno s)) (sr_ret res) p"
    using assms(6) by (simp add: carries_def p_def)
  then show ?thesis using f by (simp add: p_def)
qed


text \<open>
  A handler that, after reading its arguments, only passes one call on: what it reads does not depend on the
  system, so the call is determined by the request.
\<close>

definition passes_on :: "rpc_env \<Rightarrow> nat \<Rightarrow> layout \<Rightarrow> string \<Rightarrow> obj \<Rightarrow> ('w os \<Rightarrow> 'w host \<Rightarrow> 'w handled) \<Rightarrow> bool" where
  "passes_on env fid RS f req m \<longleftrightarrow>
     (\<forall>sys s. m sys s = None)
     \<or> (\<exists>RQ resp c. req_layout RQ \<and> length resp = sizeof RS \<and> (\<forall>sys s. m sys s = forward env sys fid RQ RS f resp req c s))"

named_theorems passing \<open>rules that show that a handler passes its call on\<close>

lemma passes_on_bind [passing]:
  "(\<And>a. x = Some a \<Longrightarrow> passes_on env fid RS f req (\<lambda>sys s. g a sys s)) \<Longrightarrow> passes_on env fid RS f req (\<lambda>sys s. x \<bind> (\<lambda>a. g a sys s))"
  by (cases x) (simp_all add: passes_on_def)

lemma passes_on_Let [passing]:
  "passes_on env fid RS f req (\<lambda>sys s. g x sys s) \<Longrightarrow> passes_on env fid RS f req (\<lambda>sys s. Let x (\<lambda>a. g a sys s))"
  by simp

lemma passes_on_if [passing]:
  "(b \<Longrightarrow> passes_on env fid RS f req (\<lambda>sys s. x sys s)) \<Longrightarrow> (\<not> b \<Longrightarrow> passes_on env fid RS f req (\<lambda>sys s. y sys s)) \<Longrightarrow>
   passes_on env fid RS f req (\<lambda>sys s. if b then x sys s else y sys s)"
  by (cases b) simp_all

lemma passes_on_None [passing]: "passes_on env fid RS f req (\<lambda>sys s. None)"
  by (simp add: passes_on_def)

lemma passes_on_forward [passing]:
  "req_layout RQ \<Longrightarrow> length resp = sizeof RS \<Longrightarrow> passes_on env fid RS f req (\<lambda>sys s. forward env sys fid RQ RS f resp req c s)"
  unfolding passes_on_def by blast

end
