(* ===== verification/Rpc_Files.thy ===== *)
theory Rpc_Files
  imports Rpc_Server
begin

text \<open>
  The handlers of the RPC server for files, directories and processes
  (\<open>services/rpc/rpc_backend.c\<close>). The request and the instance are never null when the callback of the
  endpoint calls a handler, so the tests for that are left out.
\<close>

section \<open>Descriptors\<close>

definition rpmsg_handle_open :: "'w handler" where
  "rpmsg_handle_open env sys req s = do {
     buf \<leftarrow> get_str rpc_open_req ''buf'' req; flags \<leftarrow> get_int rpc_open_req ''flags'' req;
     mode \<leftarrow> get_fld rpc_open_req ''mode'' req;
     forward env sys OPEN_ID rpc_open_req rpc_open_resp ''ret'' (uninit rpc_open_resp) req (File (C_open buf flags mode)) s }"

definition rpmsg_handle_close :: "'w handler" where
  "rpmsg_handle_close env sys req s = do {
     fd \<leftarrow> get_int rpc_close_req ''fd'' req;
     forward env sys CLOSE_ID rpc_close_req rpc_close_resp ''ret'' (uninit rpc_close_resp) req (File (C_close fd)) s }"

text \<open>The count of the client is not compared with the size of the response.\<close>

definition rpmsg_handle_read :: "'w handler" where
  "rpmsg_handle_read env sys req s = do {
     fd \<leftarrow> get_int rpc_read_req ''fd'' req; count \<leftarrow> get_fld rpc_read_req ''count'' req;
     (res, s) \<leftarrow> sysc sys (File (C_read fd (if fd = 0 then MAX_STRING_LEN else count))) s;
     resp \<leftarrow> put_bytes rpc_read_resp ''buf'' 0 (out 0 res) (uninit rpc_read_resp);
     resp \<leftarrow> put_fld rpc_read_resp ''ret'' (sr_ret res) resp;
     trace_id \<leftarrow> get_fld rpc_read_req ''trace_id'' req;
     (resp, s) \<leftarrow> set_rsp_base trace_id resp s;
     respond env READ_ID resp (sizeof rpc_read_resp - MAX_STRING_LEN + nat (sr_ret res)) s }"

definition rpmsg_handle_write :: "'w handler" where
  "rpmsg_handle_write env sys req s = do {
     fd \<leftarrow> get_int rpc_write_req ''fd'' req; count \<leftarrow> get_fld rpc_write_req ''count'' req;
     buf \<leftarrow> get_bytes rpc_write_req ''buf'' 0 count req;
     forward env sys WRITE_ID rpc_write_req rpc_write_resp ''ret'' (uninit rpc_write_resp) req (File (C_write fd buf)) s }"

definition rpmsg_handle_lseek :: "'w handler" where
  "rpmsg_handle_lseek env sys req s = do {
     fd \<leftarrow> get_int rpc_lseek_req ''fd'' req; offset \<leftarrow> get_long rpc_lseek_req ''offset'' req;
     whence \<leftarrow> get_int rpc_lseek_req ''whence'' req;
     forward env sys LSEEK_ID rpc_lseek_req rpc_lseek_resp ''ret'' (uninit rpc_lseek_resp) req (File (C_lseek fd offset whence)) s }"

definition rpmsg_handle_fcntl :: "'w handler" where
  "rpmsg_handle_fcntl env sys req s = do {
     fd \<leftarrow> get_int rpc_fcntl_req ''fd'' req; cmd \<leftarrow> get_int rpc_fcntl_req ''cmd'' req; arg \<leftarrow> get_fld rpc_fcntl_req ''arg'' req;
     forward env sys FCNTL_ID rpc_fcntl_req rpc_fcntl_resp ''ret'' (uninit rpc_fcntl_resp) req (File (C_fcntl fd cmd arg)) s }"

text \<open>The call reads and rewrites the buffer of the request, of which the length given by the client is copied back.\<close>

definition rpmsg_handle_ioctl :: "'w handler" where
  "rpmsg_handle_ioctl env sys req s = do {
     fd \<leftarrow> get_int rpc_ioctl_req ''fd'' req; request \<leftarrow> get_fld rpc_ioctl_req ''request'' req;
     (i, _) \<leftarrow> member_at rpc_ioctl_req ''buf'';
     (res, s) \<leftarrow> sysc sys (File (C_ioctl fd request (drop i req))) s;
     req \<leftarrow> req_store True rpc_ioctl_req ''buf'' (out 0 res) req;
     resp \<leftarrow> put_fld rpc_ioctl_resp ''ret'' (sr_ret res) (uninit rpc_ioctl_resp);
     len \<leftarrow> get_fld rpc_ioctl_req ''len'' req;
     resp \<leftarrow> put_fld rpc_ioctl_resp ''len'' (int len) resp;
     trace_id \<leftarrow> get_fld rpc_ioctl_req ''trace_id'' req;
     (resp, s) \<leftarrow> set_rsp_base trace_id resp s;
     resp \<leftarrow> copy_fld rpc_ioctl_req ''buf'' len req rpc_ioctl_resp ''buf'' resp;
     respond env IOCTL_ID resp (sizeof rpc_ioctl_resp - MAX_STRING_LEN + len) s }"

text \<open>The reply carries the number of \<open>ioctl\<close>.\<close>

definition rpmsg_handle_unlink :: "'w handler" where
  "rpmsg_handle_unlink env sys req s = do {
     buf \<leftarrow> get_str rpc_unlink_req ''buf'' req;
     forward env sys IOCTL_ID rpc_unlink_req rpc_unlink_resp ''ret'' (uninit rpc_unlink_resp) req (File (C_unlink buf)) s }"

text \<open>
  \<open>SEEK_SET\<close> is 0 and \<open>SEEK_CUR\<close> 1. A negative count is a large unsigned number in the comparison with
  the size of the buffer. The position is read after the error number has been stored and reset.
\<close>

definition getdents_fill :: "'w os \<Rightarrow> int \<Rightarrow> nat \<Rightarrow> int \<Rightarrow> 'w host \<Rightarrow> (obj \<times> nat \<times> 'w host) option" where
  "getdents_fill sys fd buflen off s =
     (let payload_size = sizeof rpc_getdents64_resp - MAX_STRING_LEN in
      if off < 0 then do {
        resp \<leftarrow> put_fld rpc_getdents64_resp ''ret'' (- 1) (uninit rpc_getdents64_resp);
        Some (resp, payload_size, s) }
      else do {
        (res, s) \<leftarrow> sysc sys (File (C_getdents64 fd buflen)) s;
        resp \<leftarrow> put_bytes rpc_getdents64_resp ''buf'' 0 (out 0 res) (uninit rpc_getdents64_resp);
        resp \<leftarrow> put_fld rpc_getdents64_resp ''ret'' (sr_ret res) resp;
        Some (resp, payload_size + nat (sr_ret res), s) })"

definition rpmsg_handle_getdents64 :: "'w handler" where
  "rpmsg_handle_getdents64 env sys req s = do {
     count \<leftarrow> get_int rpc_getdents64_req ''count'' req; pos \<leftarrow> get_long rpc_getdents64_req ''pos'' req;
     fd \<leftarrow> get_int rpc_getdents64_req ''fd'' req;
     let buflen = (if 0 \<le> count \<and> count < int MAX_STRING_LEN then nat count else MAX_STRING_LEN);
     (off, s) \<leftarrow> (if pos \<noteq> - 1 then do { (res, s) \<leftarrow> sysc sys (File (C_lseek fd pos 0)) s; Some (sr_ret res, s) } else Some (0, s));
     (resp, payload_size, s) \<leftarrow> getdents_fill sys fd buflen off s;
     trace_id \<leftarrow> get_fld rpc_getdents64_req ''trace_id'' req;
     (resp, s) \<leftarrow> set_rsp_base trace_id resp s;
     (res, s) \<leftarrow> sysc sys (File (C_lseek fd 0 1)) s;
     resp \<leftarrow> put_fld rpc_getdents64_resp ''pos'' (sr_ret res) resp;
     respond env GETDENTS64_ID resp payload_size s }"

definition rpmsg_handle_dup2 :: "'w handler" where
  "rpmsg_handle_dup2 env sys req s = do {
     oldfd \<leftarrow> get_int rpc_dup2_req ''oldfd'' req; newfd \<leftarrow> get_int rpc_dup2_req ''newfd'' req;
     forward env sys DUP2_ID rpc_dup2_req rpc_dup2_resp ''ret'' (uninit rpc_dup2_resp) req (File (C_dup2 oldfd newfd)) s }"

definition rpmsg_handle_pipe :: "'w handler" where
  "rpmsg_handle_pipe env sys req s = do {
     (res, s) \<leftarrow> sysc sys (File C_pipe) s;
     resp \<leftarrow> put_bytes rpc_pipe_resp ''fd'' 0 (out 0 res) (uninit rpc_pipe_resp);
     resp \<leftarrow> put_fld rpc_pipe_resp ''ret'' (sr_ret res) resp;
     trace_id \<leftarrow> get_fld rpc_pipe_req ''trace_id'' req;
     (resp, s) \<leftarrow> set_rsp_base trace_id resp s;
     respond env PIPE_ID resp (sizeof rpc_pipe_resp) s }"

text \<open>
  The vector: each buffer is copied to a block of \<open>MAX_IOV_SIZE\<close> bytes; a longer one, or a failed
  allocation, has no result. An array of variable length must not be empty.
\<close>

fun iov_gather :: "(nat \<Rightarrow> nat \<Rightarrow> bool) \<Rightarrow> nat \<Rightarrow> nat \<Rightarrow> obj \<Rightarrow> u8 list list option" where
  "iov_gather malloc_ok 0 i req = Some []"
| "iov_gather malloc_ok (Suc n) i req = do {
     (l, k) \<leftarrow> member_at rpc_iovbuf ''len''; (v, _) \<leftarrow> member_at rpc_iovbuf ''iov'';
     len \<leftarrow> get_bytes rpc_writev_req ''buf'' (i * sizeof rpc_iovbuf + l) k req;
     iov \<leftarrow> get_bytes rpc_writev_req ''buf'' (i * sizeof rpc_iovbuf + v) (le_nat len) req;
     if \<not> malloc_ok i MAX_IOV_SIZE \<or> le_nat len > MAX_IOV_SIZE then None
     else map_option (Cons iov) (iov_gather malloc_ok n (i + 1) req) }"

definition rpmsg_handle_writev :: "'w handler" where
  "rpmsg_handle_writev env sys req s = do {
     iovcnt \<leftarrow> get_int rpc_writev_req ''iovcnt'' req;
     if iovcnt \<le> 0 then None else do {
     iov \<leftarrow> iov_gather (re_malloc env) (nat iovcnt) 0 req;
     fd \<leftarrow> get_int rpc_writev_req ''fd'' req;
     forward env sys WRITEV_ID rpc_writev_req rpc_writev_resp ''ret'' (uninit rpc_writev_resp) req (File (C_writev fd iov)) s } }"

section \<open>Paths\<close>

definition set_stat_buff :: "obj \<Rightarrow> stat \<Rightarrow> obj option" where
  "set_stat_buff resp st = put_flds rpc_stat_resp
     [(''st_dev'', st_dev st), (''st_ino'', st_ino st), (''st_nlink'', st_nlink st), (''st_mode'', st_mode st),
      (''st_uid'', st_uid st), (''st_gid'', st_gid st), (''st_rdev'', st_rdev st), (''st_size'', st_size st),
      (''st_blksize'', st_blksize st), (''st_blocks'', st_blocks st),
      (''st_atime_sec'', fst (st_atim st)), (''st_atime_nsec'', snd (st_atim st)),
      (''st_mtime_sec'', fst (st_mtim st)), (''st_mtime_nsec'', snd (st_mtim st)),
      (''st_ctime_sec'', fst (st_ctim st)), (''st_ctime_nsec'', snd (st_ctim st))] resp"

definition zero_stat :: stat where
  "zero_stat = \<lparr>st_dev = 0, st_ino = 0, st_nlink = 0, st_mode = 0, st_uid = 0, st_gid = 0, st_rdev = 0, st_size = 0,
     st_blksize = 0, st_blocks = 0, st_atim = (0, 0), st_mtim = (0, 0), st_ctim = (0, 0)\<rparr>"

text \<open>The three \<open>stat\<close> calls: the buffer is zero unless the call stores in it.\<close>

definition forward_stat :: "rpc_env \<Rightarrow> 'w os \<Rightarrow> nat \<Rightarrow> layout \<Rightarrow> obj \<Rightarrow> file_call \<Rightarrow> 'w host \<Rightarrow> 'w handled" where
  "forward_stat env sys rpc_id RQ req c s = do {
     (res, s) \<leftarrow> sysc sys (File c) s;
     let statbuff = (case sr_stat res of None \<Rightarrow> zero_stat | Some st \<Rightarrow> st);
     resp \<leftarrow> put_fld rpc_stat_resp ''ret'' (sr_ret res) (uninit rpc_stat_resp);
     resp \<leftarrow> set_stat_buff resp statbuff;
     trace_id \<leftarrow> get_fld RQ ''trace_id'' req;
     (resp, s) \<leftarrow> set_rsp_base trace_id resp s;
     respond env rpc_id resp (sizeof rpc_stat_resp) s }"

definition rpmsg_handle_stat :: "'w handler" where
  "rpmsg_handle_stat env sys req s = do {
     path \<leftarrow> get_str rpc_stat_req ''path'' req; forward_stat env sys STAT_ID rpc_stat_req req (C_stat path) s }"

definition rpmsg_handle_lstat :: "'w handler" where
  "rpmsg_handle_lstat env sys req s = do {
     path \<leftarrow> get_str rpc_stat_req ''path'' req; forward_stat env sys LSTAT_ID rpc_stat_req req (C_lstat path) s }"

definition rpmsg_handle_fstat :: "'w handler" where
  "rpmsg_handle_fstat env sys req s = do {
     fd \<leftarrow> get_int rpc_fstat_req ''fd'' req; forward_stat env sys FSTAT_ID rpc_fstat_req req (C_fstat fd) s }"

text \<open>A size above that of the buffer ends the handler without a reply.\<close>

definition rpmsg_handle_getcwd :: "'w handler" where
  "rpmsg_handle_getcwd env sys req s = do {
     size \<leftarrow> get_fld rpc_getcwd_req ''size'' req;
     if size > MAX_PATH_LEN then Some (- EINVAL, None, s)
     else do {
       (res, s) \<leftarrow> sysc sys (File (C_getcwd size)) s;
       resp \<leftarrow> put_bytes rpc_getcwd_resp ''buf'' 0 (out 0 res) (uninit rpc_getcwd_resp);
       resp \<leftarrow> put_fld rpc_getcwd_resp ''isNull'' (if sr_ret res \<noteq> 0 then 0 else 1) resp;
       trace_id \<leftarrow> get_fld rpc_getcwd_req ''trace_id'' req;
       (resp, s) \<leftarrow> set_rsp_base trace_id resp s;
       respond env GETCWD_ID resp (sizeof rpc_getcwd_resp - MAX_PATH_LEN + size) s } }"

definition rpmsg_handle_readlink :: "'w handler" where
  "rpmsg_handle_readlink env sys req s = do {
     pathname \<leftarrow> get_str rpc_readlink_req ''pathname'' req; bufsiz \<leftarrow> get_fld rpc_readlink_req ''bufsiz'' req;
     (res, s) \<leftarrow> sysc sys (File (C_readlink pathname (min MAX_STRING_LEN bufsiz))) s;
     resp \<leftarrow> put_bytes rpc_readlink_resp ''buf'' 0 (out 0 res) (uninit rpc_readlink_resp);
     resp \<leftarrow> put_fld rpc_readlink_resp ''ret'' (sr_ret res) resp;
     trace_id \<leftarrow> get_fld rpc_readlink_req ''trace_id'' req;
     (resp, s) \<leftarrow> set_rsp_base trace_id resp s;
     respond env READLINK_ID resp (sizeof rpc_readlink_resp - MAX_STRING_LEN + nat (sr_ret res)) s }"

definition rpmsg_handle_system :: "'w handler" where
  "rpmsg_handle_system env sys req s = do {
     buf \<leftarrow> get_str rpc_system_req ''buf'' req;
     forward env sys SYSTEM_ID rpc_system_req rpc_system_resp ''ret'' (uninit rpc_system_resp) req (File (C_system buf)) s }"

definition rpmsg_handle_access :: "'w handler" where
  "rpmsg_handle_access env sys req s = do {
     pathname \<leftarrow> get_str rpc_access_req ''pathname'' req; mode \<leftarrow> get_int rpc_access_req ''mode'' req;
     forward env sys ACCESS_ID rpc_access_req rpc_access_resp ''ret'' (uninit rpc_access_resp) req (File (C_access pathname mode)) s }"

definition rpmsg_handle_mkfifo :: "'w handler" where
  "rpmsg_handle_mkfifo env sys req s = do {
     pathname \<leftarrow> get_str rpc_mkfifo_req ''pathname'' req; mode \<leftarrow> get_fld rpc_mkfifo_req ''mode'' req;
     forward env sys MKFIFO_ID rpc_mkfifo_req rpc_mkfifo_resp ''ret'' (uninit rpc_mkfifo_resp) req (File (C_mkfifo pathname mode)) s }"

definition rpmsg_handle_chmod :: "'w handler" where
  "rpmsg_handle_chmod env sys req s = do {
     pathname \<leftarrow> get_str rpc_chmod_req ''pathname'' req; mode \<leftarrow> get_fld rpc_chmod_req ''mode'' req;
     forward env sys CHMOD_ID rpc_chmod_req rpc_chmod_resp ''ret'' (uninit rpc_chmod_resp) req (File (C_chmod pathname mode)) s }"

definition rpmsg_handle_chdir :: "'w handler" where
  "rpmsg_handle_chdir env sys req s = do {
     buf \<leftarrow> get_str rpc_chdir_req ''buf'' req;
     forward env sys CHDIR_ID rpc_chdir_req rpc_chdir_resp ''ret'' (uninit rpc_chdir_resp) req (File (C_chdir buf)) s }"

definition rpmsg_handle_mkdir :: "'w handler" where
  "rpmsg_handle_mkdir env sys req s = do {
     pathname \<leftarrow> get_str rpc_mkdir_req ''pathname'' req; mode \<leftarrow> get_fld rpc_mkdir_req ''mode'' req;
     forward env sys MKDIR_ID rpc_mkdir_req rpc_mkdir_resp ''ret'' (uninit rpc_mkdir_resp) req (File (C_mkdir pathname mode)) s }"

definition rpmsg_handle_rmdir :: "'w handler" where
  "rpmsg_handle_rmdir env sys req s = do {
     buf \<leftarrow> get_str rpc_rmdir_req ''buf'' req;
     forward env sys RMDIR_ID rpc_rmdir_req rpc_rmdir_resp ''ret'' (uninit rpc_rmdir_resp) req (File (C_rmdir buf)) s }"

definition rpmsg_handle_rename :: "'w handler" where
  "rpmsg_handle_rename env sys req s = do {
     old \<leftarrow> get_str rpc_rename_req ''old'' req; new \<leftarrow> get_str rpc_rename_req ''new'' req;
     forward env sys RENAME_ID rpc_rename_req rpc_common_resp ''ret'' (zeroed rpc_common_resp) req (File (C_rename old new)) s }"

definition rpmsg_handle_remove :: "'w handler" where
  "rpmsg_handle_remove env sys req s = do {
     path \<leftarrow> get_str rpc_remove_req ''path'' req;
     forward env sys REMOVE_ID rpc_remove_req rpc_common_resp ''ret'' (zeroed rpc_common_resp) req (File (C_remove path)) s }"

text \<open>The name that the call writes into the request is not sent back.\<close>

definition rpmsg_handle_mkstemp :: "'w handler" where
  "rpmsg_handle_mkstemp env sys req s = do {
     tmp \<leftarrow> get_str rpc_mkstemp_req ''tmp'' req;
     forward env sys MKSTMP_ID rpc_mkstemp_req rpc_common_resp ''ret'' (zeroed rpc_common_resp) req (File (C_mkstemp tmp)) s }"

section \<open>Every handler answers\<close>

lemma file_answers:
  "answers env OPEN_ID (sizeof rpc_open_resp) req (rpmsg_handle_open env sys req s)"
  "answers env CLOSE_ID (sizeof rpc_close_resp) req (rpmsg_handle_close env sys req s)"
  "answers env WRITE_ID (sizeof rpc_write_resp) req (rpmsg_handle_write env sys req s)"
  "answers env LSEEK_ID (sizeof rpc_lseek_resp) req (rpmsg_handle_lseek env sys req s)"
  "answers env FCNTL_ID (sizeof rpc_fcntl_resp) req (rpmsg_handle_fcntl env sys req s)"
  "answers env IOCTL_ID (sizeof rpc_unlink_resp) req (rpmsg_handle_unlink env sys req s)"
  "answers env DUP2_ID (sizeof rpc_dup2_resp) req (rpmsg_handle_dup2 env sys req s)"
  "answers env WRITEV_ID (sizeof rpc_writev_resp) req (rpmsg_handle_writev env sys req s)"
  unfolding rpmsg_handle_open_def rpmsg_handle_close_def rpmsg_handle_write_def rpmsg_handle_lseek_def rpmsg_handle_fcntl_def
    rpmsg_handle_unlink_def rpmsg_handle_dup2_def rpmsg_handle_writev_def
  by (intro answering; simp)+

lemma path_answers:
  "answers env SYSTEM_ID (sizeof rpc_system_resp) req (rpmsg_handle_system env sys req s)"
  "answers env ACCESS_ID (sizeof rpc_access_resp) req (rpmsg_handle_access env sys req s)"
  "answers env MKFIFO_ID (sizeof rpc_mkfifo_resp) req (rpmsg_handle_mkfifo env sys req s)"
  "answers env CHMOD_ID (sizeof rpc_chmod_resp) req (rpmsg_handle_chmod env sys req s)"
  "answers env CHDIR_ID (sizeof rpc_chdir_resp) req (rpmsg_handle_chdir env sys req s)"
  "answers env MKDIR_ID (sizeof rpc_mkdir_resp) req (rpmsg_handle_mkdir env sys req s)"
  "answers env RMDIR_ID (sizeof rpc_rmdir_resp) req (rpmsg_handle_rmdir env sys req s)"
  "answers env RENAME_ID (sizeof rpc_common_resp) req (rpmsg_handle_rename env sys req s)"
  "answers env REMOVE_ID (sizeof rpc_common_resp) req (rpmsg_handle_remove env sys req s)"
  "answers env MKSTMP_ID (sizeof rpc_common_resp) req (rpmsg_handle_mkstemp env sys req s)"
  unfolding rpmsg_handle_system_def rpmsg_handle_access_def rpmsg_handle_mkfifo_def rpmsg_handle_chmod_def rpmsg_handle_chdir_def
    rpmsg_handle_mkdir_def rpmsg_handle_rmdir_def rpmsg_handle_rename_def rpmsg_handle_remove_def rpmsg_handle_mkstemp_def
  by (intro answering; simp)+

lemma fill_answers:
  assumes "os_counts sys"
  shows "answers env READ_ID (sizeof rpc_read_resp) req (rpmsg_handle_read env sys req s)"
    and "answers env READLINK_ID (sizeof rpc_readlink_resp) req (rpmsg_handle_readlink env sys req s)"
  unfolding rpmsg_handle_read_def rpmsg_handle_readlink_def
  by (((erule answers_based | rule answers_fill answers_rules)+; simp add: assms counted_def)+)

lemma pipe_ioctl_answers:
  "answers env PIPE_ID (sizeof rpc_pipe_resp) req (rpmsg_handle_pipe env sys req s)"
  "answers env IOCTL_ID (sizeof rpc_ioctl_resp) req (rpmsg_handle_ioctl env sys req s)"
  unfolding rpmsg_handle_pipe_def rpmsg_handle_ioctl_def
  by (((erule answers_based | rule answers_rules)+; simp)+)

lemma set_stat_buff_length: "set_stat_buff resp st = Some resp' \<Longrightarrow> length resp' = length resp"
  unfolding set_stat_buff_def by (rule put_flds_length)

lemma forward_stat_answers:
  assumes "req_layout RQ" "fid < 2 ^ 32"
  shows "answers env fid (sizeof rpc_stat_resp) req (forward_stat env sys fid RQ req c s)"
  unfolding forward_stat_def
  by (erule answers_based | rule answers_rules)+ (use assms in \<open>auto dest!: set_stat_buff_length\<close>)

lemma stat_answers:
  "answers env STAT_ID (sizeof rpc_stat_resp) req (rpmsg_handle_stat env sys req s)"
  "answers env LSTAT_ID (sizeof rpc_stat_resp) req (rpmsg_handle_lstat env sys req s)"
  "answers env FSTAT_ID (sizeof rpc_fstat_resp) req (rpmsg_handle_fstat env sys req s)"
  unfolding rpmsg_handle_stat_def rpmsg_handle_lstat_def rpmsg_handle_fstat_def
  by ((intro answers_bind forward_stat_answers; simp)+)

lemma getcwd_answers:
  assumes "get_fld rpc_getcwd_req ''size'' req = Some sz"
  shows "answers env GETCWD_ID (sizeof rpc_getcwd_resp) req (rpmsg_handle_getcwd env sys req s) \<or>
    sz > MAX_PATH_LEN \<and> rpmsg_handle_getcwd env sys req s = Some (- EINVAL, None, s)"
proof (cases "sz > MAX_PATH_LEN")
  case False
  have "answers env GETCWD_ID (sizeof rpc_getcwd_resp) req (rpmsg_handle_getcwd env sys req s)"
    unfolding rpmsg_handle_getcwd_def assms bind.bind_lunit
    by (rule answers_else [OF False], ((erule answers_based | rule answers_rules)+; use False in \<open>simp\<close>)+)
  then show ?thesis ..
qed (simp add: rpmsg_handle_getcwd_def assms)


lemma getdents_fill_fits:
  assumes "getdents_fill sys fd buflen off s = Some (resp, payload, s')" "os_counts sys"
  shows "length resp = 456 \<and> 24 \<le> payload \<and> payload \<le> 460"
proof (cases "off < 0")
  case True
  then show ?thesis using assms by (auto simp: getdents_fill_def bind_eq_Some_conv dest: put_length)
next
  case False
  have m: "member_at rpc_getdents64_resp ''buf'' = Some (20, 432)" "sizeof rpc_getdents64_resp = 456" by (simp_all)
  obtain res s1 r1 where c: "sysc sys (File (C_getdents64 fd buflen)) s = Some (res, s1)"
      "put_bytes rpc_getdents64_resp ''buf'' 0 (out 0 res) (uninit rpc_getdents64_resp) = Some r1"
      "put_fld rpc_getdents64_resp ''ret'' (sr_ret res) r1 = Some resp" "payload = 24 + nat (sr_ret res)"
    using assms(1) False by (auto simp: getdents_fill_def bind_eq_Some_conv m)
  have "20 + length (out 0 res) \<le> 456" using put_bytes_fits [OF c(2) m(1)] by (simp add: m)
  moreover have "sr_ret res \<le> int (length (out 0 res))" using os_countsD [OF c(1) assms(2)] by (simp add: counted_def)
  ultimately show ?thesis using c put_length(1) [OF c(3)] put_length(2) [OF c(2)] by (simp add: m)
qed

lemma getdents64_answers:
  assumes "os_counts sys"
  shows "answers env GETDENTS64_ID (sizeof rpc_getdents64_resp) req (rpmsg_handle_getdents64 env sys req s)"
  unfolding rpmsg_handle_getdents64_def
  by (erule answers_based | rule answers_rules)+
    (use assms in \<open>auto dest!: getdents_fill_fits\<close>)

section \<open>Where the handlers go wrong\<close>

text \<open>A count above the size of the response lets the call store behind it.\<close>

lemma read_count_overruns:
  assumes "get_int rpc_read_req ''fd'' req = Some fd" "fd \<noteq> 0" "get_fld rpc_read_req ''count'' req = Some count"
    and "sys (h_world s) (File (C_read fd count)) = Some (res, w)" "length (out 0 res) > MAX_STRING_LEN"
  shows "rpmsg_handle_read env sys req s = None"
  using assms by (simp add: rpmsg_handle_read_def sysc_def put_bytes_def mem_write_def)

lemma unlink_answers_ioctl: "rpmsg_handle_unlink env sys req s = Some (r, Some p, s') \<Longrightarrow> rp_id p = IOCTL_ID"
  by (auto simp: rpmsg_handle_unlink_def forward_def respond_def rpc_server_send_def Let_def bind_eq_Some_conv split: if_splits)

text \<open>A buffer of a vector may have twice the size of the block that it is copied to.\<close>

lemma writev_long_overruns:
  assumes "get_int rpc_writev_req ''iovcnt'' req = Some iovcnt" "0 < iovcnt"
    and "member_at rpc_iovbuf ''len'' = Some (i, n)" "get_bytes rpc_writev_req ''buf'' i n req = Some l" "le_nat l > MAX_IOV_SIZE"
  shows "rpmsg_handle_writev env sys req s = None"
proof -
  obtain m where m: "nat iovcnt = Suc m" using assms(2) by (cases "nat iovcnt") auto
  have "iov_gather (re_malloc env) (Suc m) 0 req = None" using assms(3-5) by (simp add: bind_eq_None_conv case_prod_unfold)
  then show ?thesis using assms(1,2) by (simp add: rpmsg_handle_writev_def m)
qed

end
