(* ===== verification/Rpc_Stdio.thy ===== *)
theory Rpc_Stdio
  imports Rpc_Server
begin

text \<open>
  The handlers of the RPC server for streams (\<open>services/rpc/rpc_backend.c\<close>). The handle of a stream is
  the address of the \<open>FILE\<close> object of the server; the handles 1, 2 and 3 stand for the output file.
\<close>

section \<open>Handles\<close>

definition handle2file :: "nat \<Rightarrow> nat \<Rightarrow> nat" where
  "handle2file fp fhandle = (if fhandle = 2 \<or> fhandle = 1 \<or> fhandle = 3 then fp else fhandle)"

definition is_pty_fd :: "nat \<Rightarrow> bool" where
  "is_pty_fd fhandle \<longleftrightarrow> fhandle = 2 \<or> fhandle = 1 \<or> fhandle = 3"

section \<open>Output\<close>

text \<open>
  The translation loop of \<open>rpc_write\<close> in its buffer of \<open>2 * len + 1\<close> bytes: \<open>k\<close> is the place of the next byte
  (\<open>i + j\<close> in the code).
\<close>

fun crlf_loop :: "u8 list \<Rightarrow> nat \<Rightarrow> obj \<Rightarrow> (nat \<times> obj) option" where
  "crlf_loop [] k msg = Some (k, msg)"
| "crlf_loop (b # bs) k msg = do {
     (k, msg) \<leftarrow> (if b = 10 then do { msg \<leftarrow> store msg k [13]; Some (k + 1, msg) } else Some (k, msg));
     msg \<leftarrow> store msg k [b];
     crlf_loop bs (k + 1) msg }"

definition rpc_write :: "rpc_env \<Rightarrow> 'w os \<Rightarrow> u8 list \<Rightarrow> 'w host \<Rightarrow> (int \<times> 'w host) option" where
  "rpc_write env sys data s = do {
     (len, msg) \<leftarrow> crlf_loop data 0 (replicate (2 * length data + 1) None);
     msg \<leftarrow> store msg len [0];
     line \<leftarrow> ld msg 0 len;
     (res, s) \<leftarrow> sysc sys (Stdio (C_fwrite line 1 len (re_fp env))) s;
     (_, s) \<leftarrow> sysc sys (Stdio (C_fflush (re_fp env))) s;
     Some (if sr_ret res < 0 then sr_ret res else 0, s) }"

text \<open>\<open>MIN(sizeof(buf), len)\<close> of an \<open>int\<close>: a negative length is a large unsigned number.\<close>

definition min_len :: "int \<Rightarrow> nat" where
  "min_len len = (if 0 \<le> len \<and> len < int MAX_STRING_LEN then nat len else MAX_STRING_LEN)"

definition rpmsg_handle_printf :: "'w handler" where
  "rpmsg_handle_printf env sys req s = do {
     len \<leftarrow> get_int rpc_printf_req ''len'' req;
     buf \<leftarrow> get_bytes rpc_printf_req ''buf'' 0 (min_len len) req;
     (ret, s) \<leftarrow> rpc_write env sys buf s;
     Some (if ret > 0 then 0 else ret, None, s) }"

text \<open>For other streams the length is passed on as an unsigned number.\<close>

definition rpmsg_handle_fprintf :: "'w handler" where
  "rpmsg_handle_fprintf env sys req s = do {
     fhandle \<leftarrow> get_fld rpc_fprintf_req ''fhandle'' req; len \<leftarrow> get_int rpc_fprintf_req ''len'' req;
     (ret, s) \<leftarrow>
       (if is_pty_fd fhandle then do {
          buf \<leftarrow> get_bytes rpc_fprintf_req ''buf'' 0 (min_len len) req;
          rpc_write env sys buf s }
        else do {
          buf \<leftarrow> get_bytes rpc_fprintf_req ''buf'' 0 (nat (len mod 2 ^ 64)) req;
          (res, s) \<leftarrow> sysc sys (Stdio (C_fwrite buf 1 (nat (len mod 2 ^ 64)) fhandle)) s;
          Some (sr_ret res, s) });
     Some (if ret > 0 then 0 else ret, None, s) }"

section \<open>Opening and closing\<close>

definition rpmsg_handle_fopen :: "'w handler" where
  "rpmsg_handle_fopen env sys req s = do {
     filename \<leftarrow> get_str rpc_fopen_req ''filename'' req; mode \<leftarrow> get_str rpc_fopen_req ''mode'' req;
     forward env sys FOPEN_ID rpc_fopen_req rpc_fcommon_resp ''fhandle'' (zeroed rpc_fcommon_resp) req
       (Stdio (C_fopen filename mode)) s }"

definition rpmsg_handle_fclose :: "'w handler" where
  "rpmsg_handle_fclose env sys req s = do {
     fhandle \<leftarrow> get_fld rpc_fclose_req ''fhandle'' req; let f = handle2file (re_fp env) fhandle;
     forward env sys FCLOSE_ID rpc_fclose_req rpc_common_resp ''ret'' (zeroed rpc_common_resp) req
       (Stdio (C_fclose f)) s }"

definition rpmsg_handle_freopen :: "'w handler" where
  "rpmsg_handle_freopen env sys req s = do {
     filename \<leftarrow> get_str rpc_freopen_req ''filename'' req; mode \<leftarrow> get_str rpc_freopen_req ''mode'' req;
     fhandle \<leftarrow> get_fld rpc_freopen_req ''fhandle'' req; let f = handle2file (re_fp env) fhandle;
     forward env sys FREOPEN_ID rpc_freopen_req rpc_fcommon_resp ''fhandle'' (zeroed rpc_fcommon_resp) req
       (Stdio (C_freopen filename mode f)) s }"

definition rpmsg_handle_tmpfile :: "'w handler" where
  "rpmsg_handle_tmpfile env sys req s = do {
     forward env sys TMPFILE_ID rpc_tmpfile_req rpc_fcommon_resp ''fhandle'' (zeroed rpc_fcommon_resp) req
       (Stdio C_tmpfile) s }"

definition rpmsg_handle_popen :: "'w handler" where
  "rpmsg_handle_popen env sys req s = do {
     cmd \<leftarrow> get_str rpc_popen_req ''cmd'' req; mode \<leftarrow> get_str rpc_popen_req ''mode'' req;
     forward env sys POPEN_ID rpc_popen_req rpc_fcommon_resp ''fhandle'' (zeroed rpc_fcommon_resp) req
       (Stdio (C_popen cmd mode)) s }"

definition rpmsg_handle_pclose :: "'w handler" where
  "rpmsg_handle_pclose env sys req s = do {
     fhandle \<leftarrow> get_fld rpc_pclose_req ''fhandle'' req; let f = handle2file (re_fp env) fhandle;
     forward env sys PCLOSE_ID rpc_pclose_req rpc_common_resp ''ret'' (zeroed rpc_common_resp) req
       (Stdio (C_pclose f)) s }"

definition rpmsg_handle_fdopen :: "'w handler" where
  "rpmsg_handle_fdopen env sys req s = do {
     fd \<leftarrow> get_int rpc_fdopen_req ''fd'' req; mode \<leftarrow> get_str rpc_fdopen_req ''mode'' req;
     forward env sys FDOPEN_ID rpc_fdopen_req rpc_fdopen_resp ''fhandle'' (uninit rpc_fdopen_resp) req
       (Stdio (C_fdopen fd mode)) s }"

text \<open>These two take the handle for an address, without the translation of the handles 1, 2 and 3.\<close>

definition rpmsg_handle_fileno :: "'w handler" where
  "rpmsg_handle_fileno env sys req s = do {
     fhandle \<leftarrow> get_fld rpc_fileno_req ''fhandle'' req;
     forward env sys FILENO_ID rpc_fileno_req rpc_fileno_resp ''ret'' (uninit rpc_fileno_resp) req
       (Stdio (C_fileno fhandle)) s }"

definition rpmsg_handle_setvbuf :: "'w handler" where
  "rpmsg_handle_setvbuf env sys req s = do {
     fhandle \<leftarrow> get_fld rpc_setvbuf_req ''fhandle'' req;
     forward env sys SETVBUF_ID rpc_setvbuf_req rpc_setvbuf_resp ''ret'' (uninit rpc_setvbuf_resp) req
       (Stdio (C_setvbuf fhandle)) s }"

section \<open>Reading and writing\<close>

text \<open>The number of items read, not of bytes, is added to the length of the reply.\<close>

definition rpmsg_handle_fread :: "'w handler" where
  "rpmsg_handle_fread env sys req s = do {
     size \<leftarrow> get_fld rpc_fread_req ''size'' req; count \<leftarrow> get_fld rpc_fread_req ''count'' req;
     fhandle \<leftarrow> get_fld rpc_fread_req ''fhandle'' req; let f = handle2file (re_fp env) fhandle;
     (res, s) \<leftarrow> sysc sys (Stdio (C_fread size count f)) s;
     resp \<leftarrow> put_bytes rpc_fread_resp ''buf'' 0 (out 0 res) (zeroed rpc_fread_resp);
     resp \<leftarrow> put_fld rpc_fread_resp ''ret'' (sr_ret res) resp;
     trace_id \<leftarrow> get_fld rpc_fread_req ''trace_id'' req;
     (resp, s) \<leftarrow> set_rsp_base trace_id resp s;
     respond env FREAD_ID resp (sizeof rpc_fread_resp - MAX_STRING_LEN + nat (sr_ret res)) s }"

definition rpmsg_handle_fwrite :: "'w handler" where
  "rpmsg_handle_fwrite env sys req s = do {
     size \<leftarrow> get_fld rpc_fwrite_req ''size'' req; count \<leftarrow> get_fld rpc_fwrite_req ''count'' req;
     fhandle \<leftarrow> get_fld rpc_fwrite_req ''fhandle'' req; let f = handle2file (re_fp env) fhandle;
     buf \<leftarrow> get_bytes rpc_fwrite_req ''buf'' 0 (size * count) req;
     forward env sys FWRITE_ID rpc_fwrite_req rpc_fwrite_resp ''ret'' (zeroed rpc_fwrite_resp) req
       (Stdio (C_fwrite buf size count f)) s }"

definition rpmsg_handle_fputs :: "'w handler" where
  "rpmsg_handle_fputs env sys req s = do {
     str \<leftarrow> get_str rpc_fputs_req ''str'' req;
     fhandle \<leftarrow> get_fld rpc_fputs_req ''fhandle'' req; let f = handle2file (re_fp env) fhandle;
     forward env sys FPUTS_ID rpc_fputs_req rpc_common_resp ''ret'' (zeroed rpc_common_resp) req
       (Stdio (C_fputs str f)) s }"

definition rpmsg_handle_fgets :: "'w handler" where
  "rpmsg_handle_fgets env sys req s = do {
     size \<leftarrow> get_int rpc_fgets_req ''size'' req;
     fhandle \<leftarrow> get_fld rpc_fgets_req ''fhandle'' req; let f = handle2file (re_fp env) fhandle;
     (res, s) \<leftarrow> sysc sys (Stdio (C_fgets size f)) s;
     resp \<leftarrow> put_bytes rpc_fgets_resp ''str'' 0 (out 0 res) (zeroed rpc_fgets_resp);
     resp \<leftarrow> put_fld rpc_fgets_resp ''isEof'' (if sr_ret res = 0 then 1 else 0) resp;
     trace_id \<leftarrow> get_fld rpc_fgets_req ''trace_id'' req;
     (resp, s) \<leftarrow> set_rsp_base trace_id resp s;
     respond env FGETS_ID resp (sizeof rpc_fgets_resp) s }"

definition rpmsg_handle_feof :: "'w handler" where
  "rpmsg_handle_feof env sys req s = do {
     fhandle \<leftarrow> get_fld rpc_feof_req ''fhandle'' req; let f = handle2file (re_fp env) fhandle;
     forward env sys FEOF_ID rpc_feof_req rpc_common_resp ''ret'' (zeroed rpc_common_resp) req
       (Stdio (C_feof f)) s }"

definition rpmsg_handle_getc :: "'w handler" where
  "rpmsg_handle_getc env sys req s = do {
     fhandle \<leftarrow> get_fld rpc_getc_req ''fhandle'' req; let f = handle2file (re_fp env) fhandle;
     forward env sys GETC_ID rpc_getc_req rpc_common_resp ''ret'' (zeroed rpc_common_resp) req
       (Stdio (C_getc f)) s }"

definition rpmsg_handle_ferror :: "'w handler" where
  "rpmsg_handle_ferror env sys req s = do {
     fhandle \<leftarrow> get_fld rpc_ferror_req ''fhandle'' req; let f = handle2file (re_fp env) fhandle;
     forward env sys FERROR_ID rpc_ferror_req rpc_common_resp ''ret'' (zeroed rpc_common_resp) req
       (Stdio (C_ferror f)) s }"

definition rpmsg_handle_getc_unlocked :: "'w handler" where
  "rpmsg_handle_getc_unlocked env sys req s = do {
     fhandle \<leftarrow> get_fld rpc_getc_unlocked_req ''fhandle'' req; let f = handle2file (re_fp env) fhandle;
     forward env sys GETC_UNLOCK_ID rpc_getc_unlocked_req rpc_common_resp ''ret'' (zeroed rpc_common_resp) req
       (Stdio (C_getc_unlocked f)) s }"

definition rpmsg_handle_clearerr :: "'w handler" where
  "rpmsg_handle_clearerr env sys req s = do {
     fhandle \<leftarrow> get_fld rpc_clearerr_req ''fhandle'' req; let f = handle2file (re_fp env) fhandle;
     (_, s) \<leftarrow> sysc sys (Stdio (C_clearerr f)) s;
     Some (0, None, s) }"

definition rpmsg_handle_ungetc :: "'w handler" where
  "rpmsg_handle_ungetc env sys req s = do {
     c \<leftarrow> get_int rpc_ungetc_req ''c'' req;
     fhandle \<leftarrow> get_fld rpc_ungetc_req ''fhandle'' req; let f = handle2file (re_fp env) fhandle;
     forward env sys UNGETC_ID rpc_ungetc_req rpc_common_resp ''ret'' (zeroed rpc_common_resp) req
       (Stdio (C_ungetc c f)) s }"

definition rpmsg_handle_fseeko :: "'w handler" where
  "rpmsg_handle_fseeko env sys req s = do {
     offset \<leftarrow> get_long rpc_fseeko_req ''offset'' req; whence \<leftarrow> get_int rpc_fseeko_req ''whence'' req;
     fhandle \<leftarrow> get_fld rpc_fseeko_req ''fhandle'' req; let f = handle2file (re_fp env) fhandle;
     forward env sys FSEEKO_ID rpc_fseeko_req rpc_common_resp ''ret'' (zeroed rpc_common_resp) req
       (Stdio (C_fseeko f offset whence)) s }"

definition rpmsg_handle_ftello :: "'w handler" where
  "rpmsg_handle_ftello env sys req s = do {
     fhandle \<leftarrow> get_fld rpc_ftello_req ''fhandle'' req; let f = handle2file (re_fp env) fhandle;
     forward env sys FTELLO_ID rpc_ftello_req rpc_ftello_resp ''ret'' (zeroed rpc_ftello_resp) req
       (Stdio (C_ftello f)) s }"

definition rpmsg_handle_fseek :: "'w handler" where
  "rpmsg_handle_fseek env sys req s = do {
     offset \<leftarrow> get_long rpc_fseeko_req ''offset'' req; whence \<leftarrow> get_int rpc_fseeko_req ''whence'' req;
     fhandle \<leftarrow> get_fld rpc_fseeko_req ''fhandle'' req; let f = handle2file (re_fp env) fhandle;
     forward env sys FSEEK_ID rpc_fseeko_req rpc_common_resp ''ret'' (zeroed rpc_common_resp) req
       (Stdio (C_fseek f offset whence)) s }"

definition rpmsg_handle_ftell :: "'w handler" where
  "rpmsg_handle_ftell env sys req s = do {
     fhandle \<leftarrow> get_fld rpc_ftello_req ''fhandle'' req; let f = handle2file (re_fp env) fhandle;
     forward env sys FTELL_ID rpc_ftello_req rpc_ftello_resp ''ret'' (zeroed rpc_ftello_resp) req
       (Stdio (C_ftello f)) s }"

definition rpmsg_handle_fflush :: "'w handler" where
  "rpmsg_handle_fflush env sys req s = do {
     fhandle \<leftarrow> get_fld rpc_fflush_req ''fhandle'' req; let f = handle2file (re_fp env) fhandle;
     forward env sys FFLUSH_ID rpc_fflush_req rpc_fflush_resp ''ret'' (uninit rpc_fflush_resp) req
       (Stdio (C_fflush f)) s }"

definition rpmsg_handle_getwc :: "'w handler" where
  "rpmsg_handle_getwc env sys req s = do {
     fhandle \<leftarrow> get_fld rpc_getwc_req ''fhandle'' req; let f = handle2file (re_fp env) fhandle;
     forward env sys GETWC_ID rpc_getwc_req rpc_getwc_resp ''ret'' (uninit rpc_getwc_resp) req
       (Stdio (C_getwc f)) s }"

definition rpmsg_handle_putwc :: "'w handler" where
  "rpmsg_handle_putwc env sys req s = do {
     wc \<leftarrow> get_int rpc_putwc_req ''wc'' req;
     fhandle \<leftarrow> get_fld rpc_putwc_req ''fhandle'' req; let f = handle2file (re_fp env) fhandle;
     forward env sys PUTWC_ID rpc_putwc_req rpc_putwc_resp ''ret'' (uninit rpc_putwc_resp) req
       (Stdio (C_putwc wc f)) s }"

definition rpmsg_handle_putc :: "'w handler" where
  "rpmsg_handle_putc env sys req s = do {
     c \<leftarrow> get_int rpc_putc_req ''c'' req;
     fhandle \<leftarrow> get_fld rpc_putc_req ''fhandle'' req; let f = handle2file (re_fp env) fhandle;
     forward env sys PUTC_ID rpc_putc_req rpc_putc_resp ''ret'' (uninit rpc_putc_resp) req
       (Stdio (C_putc c f)) s }"

text \<open>The reply carries the initial value 0 of the variable \<open>ret\<close>, not the result of the call.\<close>

definition rpmsg_handle_ungetwc :: "'w handler" where
  "rpmsg_handle_ungetwc env sys req s = do {
     wc \<leftarrow> get_fld rpc_ungetwc_req ''wc'' req;
     fhandle \<leftarrow> get_fld rpc_ungetwc_req ''fhandle'' req; let f = handle2file (re_fp env) fhandle;
     (res, s) \<leftarrow> sysc sys (Stdio (C_ungetwc wc f)) s;
     resp \<leftarrow> put_fld rpc_ungetwc_resp ''ret'' 0 (uninit rpc_ungetwc_resp);
     trace_id \<leftarrow> get_fld rpc_ungetwc_req ''trace_id'' req;
     (resp, s) \<leftarrow> set_rsp_base trace_id resp s;
     respond env UNGETWC_ID resp (sizeof rpc_ungetwc_resp) s }"

text \<open>The format is that of the client; whatever it stores goes to the one variable of the response.\<close>

definition rpmsg_handle_fscanfx :: "'w handler" where
  "rpmsg_handle_fscanfx env sys req s = do {
     fmt \<leftarrow> get_str rpc_fscanfx_req ''fmt'' req;
     fhandle \<leftarrow> get_fld rpc_fscanfx_req ''fhandle'' req; let f = handle2file (re_fp env) fhandle;
     (res, s) \<leftarrow> sysc sys (Stdio (C_fscanf f fmt)) s;
     resp \<leftarrow> put_bytes rpc_fscanfx_resp ''data'' 0 (out 0 res) (zeroed rpc_fscanfx_resp);
     resp \<leftarrow> put_fld rpc_fscanfx_resp ''ret'' (sr_ret res) resp;
     trace_id \<leftarrow> get_fld rpc_fscanfx_req ''trace_id'' req;
     (resp, s) \<leftarrow> set_rsp_base trace_id resp s;
     respond env FSCANFX_ID resp (sizeof rpc_fscanfx_resp) s }"

definition rpmsg_handle_putchar :: "'w handler" where
  "rpmsg_handle_putchar env sys req s = do {
     ch \<leftarrow> get_int rpc_putchar_req ''ch'' req;
     forward env sys PUTCHAR_ID rpc_putchar_req rpc_putchar_resp ''ret'' (uninit rpc_putchar_resp) req
       (Stdio (C_putchar ch)) s }"

section \<open>Every handler answers\<close>

lemma stream_answers:
  "answers env FOPEN_ID (sizeof rpc_fcommon_resp) req (rpmsg_handle_fopen env sys req s)"
  "answers env FCLOSE_ID (sizeof rpc_common_resp) req (rpmsg_handle_fclose env sys req s)"
  "answers env FREOPEN_ID (sizeof rpc_fcommon_resp) req (rpmsg_handle_freopen env sys req s)"
  "answers env TMPFILE_ID (sizeof rpc_fcommon_resp) req (rpmsg_handle_tmpfile env sys req s)"
  "answers env POPEN_ID (sizeof rpc_fcommon_resp) req (rpmsg_handle_popen env sys req s)"
  "answers env PCLOSE_ID (sizeof rpc_common_resp) req (rpmsg_handle_pclose env sys req s)"
  "answers env FDOPEN_ID (sizeof rpc_fdopen_resp) req (rpmsg_handle_fdopen env sys req s)"
  "answers env FILENO_ID (sizeof rpc_fileno_resp) req (rpmsg_handle_fileno env sys req s)"
  "answers env SETVBUF_ID (sizeof rpc_setvbuf_resp) req (rpmsg_handle_setvbuf env sys req s)"
  unfolding rpmsg_handle_fopen_def rpmsg_handle_fclose_def rpmsg_handle_freopen_def rpmsg_handle_tmpfile_def 
    rpmsg_handle_popen_def rpmsg_handle_pclose_def rpmsg_handle_fdopen_def rpmsg_handle_fileno_def 
    rpmsg_handle_setvbuf_def
  by (intro answering; simp)+

lemma stdio_answers:
  "answers env FWRITE_ID (sizeof rpc_fwrite_resp) req (rpmsg_handle_fwrite env sys req s)"
  "answers env FPUTS_ID (sizeof rpc_common_resp) req (rpmsg_handle_fputs env sys req s)"
  "answers env FEOF_ID (sizeof rpc_common_resp) req (rpmsg_handle_feof env sys req s)"
  "answers env GETC_ID (sizeof rpc_common_resp) req (rpmsg_handle_getc env sys req s)"
  "answers env FERROR_ID (sizeof rpc_common_resp) req (rpmsg_handle_ferror env sys req s)"
  "answers env GETC_UNLOCK_ID (sizeof rpc_common_resp) req (rpmsg_handle_getc_unlocked env sys req s)"
  "answers env UNGETC_ID (sizeof rpc_common_resp) req (rpmsg_handle_ungetc env sys req s)"
  "answers env FSEEKO_ID (sizeof rpc_common_resp) req (rpmsg_handle_fseeko env sys req s)"
  "answers env FTELLO_ID (sizeof rpc_ftello_resp) req (rpmsg_handle_ftello env sys req s)"
  "answers env FSEEK_ID (sizeof rpc_common_resp) req (rpmsg_handle_fseek env sys req s)"
  "answers env FTELL_ID (sizeof rpc_ftello_resp) req (rpmsg_handle_ftell env sys req s)"
  "answers env FFLUSH_ID (sizeof rpc_fflush_resp) req (rpmsg_handle_fflush env sys req s)"
  "answers env GETWC_ID (sizeof rpc_getwc_resp) req (rpmsg_handle_getwc env sys req s)"
  "answers env PUTWC_ID (sizeof rpc_putwc_resp) req (rpmsg_handle_putwc env sys req s)"
  "answers env PUTC_ID (sizeof rpc_putc_resp) req (rpmsg_handle_putc env sys req s)"
  "answers env PUTCHAR_ID (sizeof rpc_putchar_resp) req (rpmsg_handle_putchar env sys req s)"
  unfolding rpmsg_handle_fwrite_def rpmsg_handle_fputs_def rpmsg_handle_feof_def rpmsg_handle_getc_def 
    rpmsg_handle_ferror_def rpmsg_handle_getc_unlocked_def rpmsg_handle_ungetc_def rpmsg_handle_fseeko_def 
    rpmsg_handle_ftello_def rpmsg_handle_fseek_def rpmsg_handle_ftell_def rpmsg_handle_fflush_def 
    rpmsg_handle_getwc_def rpmsg_handle_putwc_def rpmsg_handle_putc_def rpmsg_handle_putchar_def
  by (intro answering; simp)+

lemma fread_answers:
  assumes "os_counts sys"
  shows "answers env FREAD_ID (sizeof rpc_fread_resp) req (rpmsg_handle_fread env sys req s)"
  unfolding rpmsg_handle_fread_def
  by (((erule answers_based | rule answers_fill answers_rules)+; simp add: assms counted_def)+)

lemma scan_answers:
  "answers env FGETS_ID (sizeof rpc_fgets_resp) req (rpmsg_handle_fgets env sys req s)"
  "answers env UNGETWC_ID (sizeof rpc_ungetwc_resp) req (rpmsg_handle_ungetwc env sys req s)"
  "answers env FSCANFX_ID (sizeof rpc_fscanfx_resp) req (rpmsg_handle_fscanfx env sys req s)"
  unfolding rpmsg_handle_fgets_def rpmsg_handle_ungetwc_def rpmsg_handle_fscanfx_def
  by (((erule answers_based | rule answers_rules)+; simp)+)

section \<open>Line ends\<close>

text \<open>The text that a terminal gets: the reference for the loop.\<close>

definition crlf :: "u8 list \<Rightarrow> u8 list" where
  "crlf bs = concat (map (\<lambda>b. if b = 10 then [13, 10] else [b]) bs)"

lemma store_next: "rest \<noteq> [] \<Longrightarrow> store (map Some pre @ rest) (length pre) [b] = Some (map Some (pre @ [b]) @ tl rest)"
  by (cases rest) (simp_all add: mem_write_def)

lemma crlf_loop_spec:
  "2 * length bs \<le> length rest \<Longrightarrow>
   \<exists>rest'. crlf_loop bs (length pre) (map Some pre @ rest) = Some (length (pre @ crlf bs), map Some (pre @ crlf bs) @ rest')
     \<and> length rest' + length (crlf bs) = length rest"
proof (induction bs arbitrary: pre rest)
  case (Cons b bs)
  let ?l = "if b = 10 then [13, 10] else [b]"
  obtain x y rest1 where r: "rest = x # y # rest1" using Cons.prems by (cases rest; cases "tl rest") auto
  have step: "crlf_loop (b # bs) (length pre) (map Some pre @ rest) = crlf_loop bs (length (pre @ ?l)) (map Some (pre @ ?l) @ drop (length ?l) rest)"
    using store_next [of rest pre b] store_next [of rest pre 13] store_next [of "tl rest" "pre @ [13]" b] by (cases "b = 10") (simp_all add: r)
  have "2 * length bs \<le> length (drop (length ?l) rest)" using Cons.prems by auto
  from Cons.IH [OF this, of "pre @ ?l"] show ?case unfolding step by (auto simp: crlf_def r)
qed (simp add: crlf_def)

lemma ld_prefix: "ld (map Some bs @ m) 0 (length bs) = Some bs"
  by (auto simp: ld_def mem_read_def comp_def)

text \<open>
  C30: Output to the terminal of the server is written with one call, with every line feed turned into a carriage
  return and a line feed; the loop that copies and translates stays inside its buffer of twice the length and
  one byte, for every text. The result is that of the write, when it is negative.
\<close>

theorem rpc_write_lines:
  "rpc_write env sys data s = do {
     (res, s) \<leftarrow> sysc sys (Stdio (C_fwrite (crlf data) 1 (length (crlf data)) (re_fp env))) s;
     (_, s) \<leftarrow> sysc sys (Stdio (C_fflush (re_fp env))) s;
     Some (if sr_ret res < 0 then sr_ret res else 0, s) }"
proof -
  have "length (crlf data) \<le> 2 * length data" by (induction data) (auto simp: crlf_def)
  moreover obtain rest where r: "crlf_loop data 0 (replicate (2 * length data + 1) None) = Some (length (crlf data), map Some (crlf data) @ rest)"
      "length rest + length (crlf data) = 2 * length data + 1"
    using crlf_loop_spec [of data "replicate (2 * length data + 1) None" "[]"] by auto
  ultimately have "rest \<noteq> []" by auto
  from store_next [OF this, of "crlf data" 0] show ?thesis
    unfolding rpc_write_def r(1) by (simp add: ld_prefix)
qed

section \<open>Where the handlers go wrong\<close>

text \<open>The reply to \<open>ungetwc\<close> does not depend on the result of the call.\<close>

lemma ungetwc_answers_zero:
  "rpmsg_handle_ungetwc env (\<lambda>w c. map_option (\<lambda>(res, w). (res\<lparr>sr_ret := v\<rparr>, w)) (sys w c)) req s = rpmsg_handle_ungetwc env sys req s"
proof -
  have "map_option (\<lambda>(res, s). s) (sysc (\<lambda>w c. map_option (\<lambda>(res, w). (res\<lparr>sr_ret := v\<rparr>, w)) (sys w c)) c s) = map_option (\<lambda>(res, s). s) (sysc sys c s)" for c
    by (cases "sys (h_world s) c") (auto simp: sysc_def)
  then show ?thesis unfolding rpmsg_handle_ungetwc_def
    by (cases "get_fld rpc_ungetwc_req ''wc'' req"; cases "get_fld rpc_ungetwc_req ''fhandle'' req") 
       (auto simp: Let_def sysc_def bind_eq_None_conv split: Option.bind_splits option.splits)
qed

text \<open>A client that closes one of its standard streams closes the output stream of the server.\<close>

lemma fclose_stdout_closes_fp:
  assumes "get_fld rpc_fclose_req ''fhandle'' req = Some fhandle" "is_pty_fd fhandle"
  shows "rpmsg_handle_fclose env sys req s =
    forward env sys FCLOSE_ID rpc_fclose_req rpc_common_resp ''ret'' (zeroed rpc_common_resp) req (Stdio (C_fclose (re_fp env))) s"
proof -
  have "handle2file (re_fp env) fhandle = re_fp env" using assms(2) by (simp add: handle2file_def is_pty_fd_def)
  then show ?thesis using assms(1) by (simp add: rpmsg_handle_fclose_def)
qed

end
