(* ===== verification/Rpc_Sockets.thy ===== *)
theory Rpc_Sockets
  imports Rpc_Server
begin

text \<open>
  The handlers of the RPC server for sockets and the name services
  (\<open>services/rpc/rpc_backend.c\<close>).
\<close>

section \<open>Names and addresses\<close>

definition rpmsg_handle_freeaddrinfo :: "'w handler" where
  "rpmsg_handle_freeaddrinfo env sys req s = Some (0, None, s)"

text \<open>A string of the request at an index that the client gives; the index is signed.\<close>

definition str_at :: "int \<Rightarrow> obj \<Rightarrow> u8 list option" where
  "str_at idx req = do {
     (i, _) \<leftarrow> member_at rpc_getaddrinfo_req ''buf'';
     if int i + idx < 0 then None else ld_str req (nat (int i + idx)) }"

text \<open>The stored bytes of the request from its buffer on, which the decoder of the hints reads.\<close>

definition hint_bytes :: "obj \<Rightarrow> u8 list option" where
  "hint_bytes req = do {
     (i, _) \<leftarrow> member_at rpc_getaddrinfo_req ''buf'';
     Some (map the (takeWhile (\<lambda>b. b \<noteq> None) (drop i req))) }"

text \<open>The part behind the label \<open>response\<close>.\<close>

definition getaddrinfo_response :: "rpc_env \<Rightarrow> obj \<Rightarrow> int \<Rightarrow> obj \<Rightarrow> nat \<Rightarrow> 'w host \<Rightarrow> 'w handled" where
  "getaddrinfo_response env req ret resp payload_size s = do {
     resp \<leftarrow> put_fld rpc_getaddrinfo_resp ''ret'' ret resp;
     trace_id \<leftarrow> get_fld rpc_getaddrinfo_req ''trace_id'' req;
     (resp, s) \<leftarrow> set_rsp_base trace_id resp s;
     respond env GETADDRINFO_ID resp payload_size s }"

text \<open>The members \<open>cnt\<close> and \<open>buflen\<close> and the buffer, when the call has succeeded; with the number of bytes sent.\<close>

definition getaddrinfo_result :: "addrinfo list option \<Rightarrow> obj \<Rightarrow> (obj \<times> nat) option" where
  "getaddrinfo_result res resp =
     (let base = sizeof rpc_getaddrinfo_resp - MAX_SBUF_LEN in
      case res of
        Some ai \<Rightarrow>
          (case encode_addrlist ai (int MAX_SBUF_LEN) of
             Ret (cnt, buflen, enc) \<Rightarrow> do {
               resp \<leftarrow> put_bytes rpc_getaddrinfo_resp ''buf'' 0 enc resp;
               resp \<leftarrow> put_fld rpc_getaddrinfo_resp ''cnt'' cnt resp;
               resp \<leftarrow> put_fld rpc_getaddrinfo_resp ''buflen'' buflen resp;
               Some (resp, base + nat buflen) }
           | Fault \<Rightarrow> None | Spinning \<Rightarrow> None)
      | None \<Rightarrow> do {
          resp \<leftarrow> put_fld rpc_getaddrinfo_resp ''cnt'' 0 resp;
          resp \<leftarrow> put_fld rpc_getaddrinfo_resp ''buflen'' 0 resp;
          Some (resp, base) })"

definition rpmsg_handle_getaddrinfo :: "'w handler" where
  "rpmsg_handle_getaddrinfo env sys req s = do {
     node \<leftarrow> get_int rpc_getaddrinfo_req ''node'' req; service \<leftarrow> get_int rpc_getaddrinfo_req ''service'' req;
     buflen \<leftarrow> get_int rpc_getaddrinfo_req ''buflen'' req;
     if node \<ge> buflen \<or> service \<ge> buflen then Some (- EINVAL, None, s)
     else do {
       hints_cnt \<leftarrow> get_int rpc_getaddrinfo_req ''hints_cnt'' req;
       buf \<leftarrow> hint_bytes req;
       let resp = uninit rpc_getaddrinfo_resp;
       (ret, hints) \<leftarrow>
         (if hints_cnt > 0 then
            (case decode_addrlist (re_malloc env 0) buf hints_cnt (int MAX_SBUF_LEN) of
               Ret r \<Rightarrow> Some r | Fault \<Rightarrow> None | Spinning \<Rightarrow> None)
          else Some (0, []));
       if ret < 0 then getaddrinfo_response env req ret resp (sizeof rpc_getaddrinfo_resp) s
       else do {
         nodename \<leftarrow> (if service > node then map_option Some (str_at node req) else Some None);
         servname \<leftarrow> (if buflen > service then map_option Some (str_at service req) else Some None);
         (res, s) \<leftarrow> sysc sys (Sock (C_getaddrinfo nodename servname hints)) s;
         if sr_ret res < 0 then getaddrinfo_response env req (sr_ret res) resp (sizeof rpc_getaddrinfo_resp) s
         else do {
           (resp, payload_size) \<leftarrow> getaddrinfo_result (sr_ai res) resp;
           getaddrinfo_response env req (sr_ret res) resp payload_size s } } } }"

text \<open>The member \<open>len\<close> is the result of the encoder; \<open>h_errnum\<close> is never set.\<close>

definition put_host :: "hostent option \<Rightarrow> obj \<Rightarrow> (obj \<times> nat) option" where
  "put_host ht resp =
     (let base = sizeof rpc_gethostbyaddr_resp - MAX_SBUF_LEN in
      case ht of
        None \<Rightarrow> do { resp \<leftarrow> put_fld rpc_gethostbyaddr_resp ''len'' 0 resp; Some (resp, base) }
      | Some ht \<Rightarrow>
          (case encode_hostent ht MAX_SBUF_LEN of
             Ret (n, enc) \<Rightarrow> do {
               resp \<leftarrow> put_bytes rpc_gethostbyaddr_resp ''buf'' 0 enc resp;
               resp \<leftarrow> put_fld rpc_gethostbyaddr_resp ''len'' n resp;
               Some (resp, base + nat n) }
           | Fault \<Rightarrow> None | Spinning \<Rightarrow> None))"

definition respond_host :: "rpc_env \<Rightarrow> nat \<Rightarrow> layout \<Rightarrow> obj \<Rightarrow> sysres \<Rightarrow> 'w host \<Rightarrow> 'w handled" where
  "respond_host env rpc_id RQ req res s = do {
     trace_id \<leftarrow> get_fld RQ ''trace_id'' req;
     (resp, s) \<leftarrow> set_rsp_base trace_id (uninit rpc_gethostbyaddr_resp) s;
     (resp, payload_size) \<leftarrow> put_host (sr_host res) resp;
     respond env rpc_id resp payload_size s }"

definition rpmsg_handle_gethostbyaddr :: "'w handler" where
  "rpmsg_handle_gethostbyaddr env sys req s = do {
     len \<leftarrow> get_fld rpc_gethostbyaddr_req ''len'' req; type \<leftarrow> get_int rpc_gethostbyaddr_req ''type'' req;
     buf \<leftarrow> get_bytes rpc_gethostbyaddr_req ''buf'' 0 len req;
     (res, s) \<leftarrow> sysc sys (Sock (C_gethostbyaddr buf len type)) s;
     respond_host env GETHOSTBYADDR_ID rpc_gethostbyaddr_req req res s }"

definition rpmsg_handle_gethostbyname :: "'w handler" where
  "rpmsg_handle_gethostbyname env sys req s = do {
     buf \<leftarrow> get_str rpc_gethostbyname_req ''buf'' req;
     (res, s) \<leftarrow> sysc sys (Sock (C_gethostbyname buf)) s;
     respond_host env GETHOSTBYNAME_ID rpc_gethostbyname_req req res s }"

definition rpmsg_handle_gethostname :: "'w handler" where
  "rpmsg_handle_gethostname env sys req s = do {
     len \<leftarrow> get_fld rpc_gethostname_req ''len'' req;
     (res, s) \<leftarrow> sysc sys (Sock (C_gethostname (if len > MAX_STRING_LEN then MAX_STRING_LEN else len))) s;
     resp \<leftarrow> put_bytes rpc_gethostname_resp ''name'' 0 (out 0 res) (uninit rpc_gethostname_resp);
     n \<leftarrow> (if sr_ret res = 0 then map_option (\<lambda>name. length name + 1) (get_str rpc_gethostname_resp ''name'' resp) else Some 0);
     resp \<leftarrow> put_fld rpc_gethostname_resp ''len'' (int n) resp;
     resp \<leftarrow> put_fld rpc_gethostname_resp ''ret'' (sr_ret res) resp;
     trace_id \<leftarrow> get_fld rpc_gethostname_req ''trace_id'' req;
     (resp, s) \<leftarrow> set_rsp_base trace_id resp s;
     respond env GETHOSTNAME_ID resp (sizeof rpc_gethostname_resp - MAX_STRING_LEN + n) s }"

text \<open>The loop over the interfaces; \<open>cnt\<close> counts them. The member \<open>ret\<close> of the response is never set.\<close>

fun put_names :: "nat \<Rightarrow> (nat \<times> u8 list) list \<Rightarrow> obj \<Rightarrow> (nat \<times> obj) option" where
  "put_names cnt [] resp = Some (cnt, resp)"
| "put_names cnt ((index, name) # ps) resp = do {
     (i, n) \<leftarrow> member_at t_nameindex ''if_index''; (j, _) \<leftarrow> member_at t_nameindex ''if_name'';
     resp \<leftarrow> put_bytes rpc_if_nameindex_resp ''if_index'' (cnt * sizeof t_nameindex + i) (le_bytes n index) resp;
     resp \<leftarrow> put_bytes rpc_if_nameindex_resp ''if_index'' (cnt * sizeof t_nameindex + j) (name @ [0]) resp;
     put_names (cnt + 1) ps resp }"

definition rpmsg_handle_ifnameindex :: "'w handler" where
  "rpmsg_handle_ifnameindex env sys req s = do {
     (res, s) \<leftarrow> sysc sys (Sock C_if_nameindex) s;
     (cnt, resp) \<leftarrow> put_names 0 (case sr_names res of None \<Rightarrow> [] | Some ps \<Rightarrow> ps) (uninit rpc_if_nameindex_resp);
     resp \<leftarrow> put_fld rpc_if_nameindex_resp ''cnt'' (int cnt) resp;
     trace_id \<leftarrow> get_fld rpc_if_nameindex_req ''trace_id'' req;
     (resp, s) \<leftarrow> set_rsp_base trace_id resp s;
     respond env IFNAMEINDEX_ID resp (sizeof rpc_if_nameindex_resp) s }"

definition rpmsg_handle_gaistrerror :: "'w handler" where
  "rpmsg_handle_gaistrerror env sys req s = do {
     error \<leftarrow> get_int rpc_gai_strerror_req ''error'' req;
     (res, s) \<leftarrow> sysc sys (Sock (C_gai_strerror error)) s;
     resp \<leftarrow>
       (case sr_str res of
          Some str \<Rightarrow> do {
            resp \<leftarrow> put_bytes rpc_gai_strerror_resp ''buf'' 0 (str @ [0]) (uninit rpc_gai_strerror_resp);
            put_fld rpc_gai_strerror_resp ''isNull'' 0 resp }
        | None \<Rightarrow> put_fld rpc_gai_strerror_resp ''isNull'' 1 (uninit rpc_gai_strerror_resp));
     trace_id \<leftarrow> get_fld rpc_gai_strerror_req ''trace_id'' req;
     (resp, s) \<leftarrow> set_rsp_base trace_id resp s;
     respond env GAISTRERROR_ID resp (sizeof rpc_gai_strerror_resp) s }"

section \<open>Socket addresses\<close>

text \<open>The rest of \<open>getpeername\<close> and \<open>getsockname\<close>.\<close>

definition respond_name :: "rpc_env \<Rightarrow> nat \<Rightarrow> obj \<Rightarrow> sysres \<Rightarrow> 'w host \<Rightarrow> 'w handled" where
  "respond_name env rpc_id req res s = do {
     req \<leftarrow> req_store True rpc_getpeername_req ''addr_buf'' (out 0 res) req;
     req \<leftarrow> req_len True rpc_getpeername_req ''addrlen'' res req;
     resp \<leftarrow> put_fld rpc_getpeername_resp ''ret'' (sr_ret res) (uninit rpc_getpeername_resp);
     trace_id \<leftarrow> get_fld rpc_getpeername_req ''trace_id'' req;
     (resp, s) \<leftarrow> set_rsp_base trace_id resp s;
     addrlen \<leftarrow> get_fld rpc_getpeername_req ''addrlen'' req;
     resp \<leftarrow> copy_fld rpc_getpeername_req ''addr_buf'' addrlen req rpc_getpeername_resp ''addr_buf'' resp;
     resp \<leftarrow> put_fld rpc_getpeername_resp ''addrlen'' (int addrlen) resp;
     respond env rpc_id resp (sizeof rpc_getpeername_resp - MAX_SBUF_LEN + addrlen) s }"

definition rpmsg_handle_getpeername :: "'w handler" where
  "rpmsg_handle_getpeername env sys req s = do {
     sockfd \<leftarrow> get_int rpc_getpeername_req ''sockfd'' req; addrlen \<leftarrow> get_fld rpc_getpeername_req ''addrlen'' req;
     (res, s) \<leftarrow> sysc sys (Sock (C_getpeername sockfd addrlen)) s;
     respond_name env GETPEERNAME_ID req res s }"

definition rpmsg_handle_getsockname :: "'w handler" where
  "rpmsg_handle_getsockname env sys req s = do {
     sockfd \<leftarrow> get_int rpc_getsockname_req ''sockfd'' req; addrlen \<leftarrow> get_fld rpc_getsockname_req ''addrlen'' req;
     (res, s) \<leftarrow> sysc sys (Sock (C_getsockname sockfd addrlen)) s;
     respond_name env GETSOCKNAME_ID req res s }"

text \<open>The size of the member \<open>addrlen\<close>, not that of the buffer, is taken off the length of the reply.\<close>

definition rpmsg_handle_accept :: "'w handler" where
  "rpmsg_handle_accept env sys req s = do {
     sockfd \<leftarrow> get_int rpc_accept_req ''sockfd'' req; addrlen \<leftarrow> get_fld rpc_accept_req ''addrlen'' req;
     (res, s) \<leftarrow> sysc sys (Sock (C_accept sockfd (if addrlen > 0 then Some addrlen else None))) s;
     req \<leftarrow> req_store (addrlen > 0) rpc_accept_req ''addr_buf'' (out 0 res) req;
     req \<leftarrow> req_len (addrlen > 0) rpc_accept_req ''addrlen'' res req;
     resp \<leftarrow> put_fld rpc_accept_resp ''ret'' (sr_ret res) (uninit rpc_accept_resp);
     trace_id \<leftarrow> get_fld rpc_accept_req ''trace_id'' req;
     (resp, s) \<leftarrow> set_rsp_base trace_id resp s;
     addrlen \<leftarrow> get_fld rpc_accept_req ''addrlen'' req;
     resp \<leftarrow> put_fld rpc_accept_resp ''addrlen'' (int addrlen) resp;
     resp \<leftarrow> copy_fld rpc_accept_req ''addr_buf'' addrlen req rpc_accept_resp ''buf'' resp;
     respond env ACCEPT_ID resp (sizeof rpc_accept_resp - 4 + addrlen) s }"

definition rpmsg_handle_accept4 :: "'w handler" where
  "rpmsg_handle_accept4 env sys req s = do {
     sockfd \<leftarrow> get_int rpc_accept4_req ''sockfd'' req; flags \<leftarrow> get_int rpc_accept4_req ''flags'' req;
     addrlen \<leftarrow> get_fld rpc_accept4_req ''addrlen'' req;
     (res, s) \<leftarrow> sysc sys (Sock (C_accept4 sockfd (if addrlen > 0 then Some addrlen else None) flags)) s;
     req \<leftarrow> req_store (addrlen > 0) rpc_accept4_req ''addr_buf'' (out 0 res) req;
     req \<leftarrow> req_len (addrlen > 0) rpc_accept4_req ''addrlen'' res req;
     resp \<leftarrow> put_fld rpc_accept4_resp ''ret'' (sr_ret res) (uninit rpc_accept4_resp);
     trace_id \<leftarrow> get_fld rpc_accept4_req ''trace_id'' req;
     (resp, s) \<leftarrow> set_rsp_base trace_id resp s;
     addrlen \<leftarrow> get_fld rpc_accept4_req ''addrlen'' req;
     resp \<leftarrow> put_fld rpc_accept4_resp ''addrlen'' (int addrlen) resp;
     resp \<leftarrow> copy_fld rpc_accept4_req ''addr_buf'' addrlen req rpc_accept4_resp ''buf'' resp;
     respond env ACCEPT4_ID resp (sizeof rpc_accept4_resp - 4 + addrlen) s }"

definition rpmsg_handle_bind :: "'w handler" where
  "rpmsg_handle_bind env sys req s = do {
     sockfd \<leftarrow> get_int rpc_bind_req ''sockfd'' req; addrlen \<leftarrow> get_fld rpc_bind_req ''addrlen'' req;
     addr \<leftarrow> get_bytes rpc_bind_req ''addr_buf'' 0 addrlen req;
     forward env sys BIND_ID rpc_bind_req rpc_bind_resp ''ret'' (uninit rpc_bind_resp) req (Sock (C_bind sockfd addr)) s }"

definition rpmsg_handle_connect :: "'w handler" where
  "rpmsg_handle_connect env sys req s = do {
     sockfd \<leftarrow> get_int rpc_connect_req ''sockfd'' req; addrlen \<leftarrow> get_fld rpc_connect_req ''addrlen'' req;
     addr \<leftarrow> get_bytes rpc_connect_req ''addr_buf'' 0 addrlen req;
     forward env sys CONNECT_ID rpc_connect_req rpc_connect_resp ''ret'' (uninit rpc_connect_resp) req (Sock (C_connect sockfd addr)) s }"

section \<open>Transfer and control\<close>

definition rpmsg_handle_listen :: "'w handler" where
  "rpmsg_handle_listen env sys req s = do {
     sockfd \<leftarrow> get_int rpc_listen_req ''sockfd'' req; backlog \<leftarrow> get_int rpc_listen_req ''backlog'' req;
     forward env sys LISTEN_ID rpc_listen_req rpc_listen_resp ''ret'' (uninit rpc_listen_resp) req (Sock (C_listen sockfd backlog)) s }"

text \<open>The length given by the client is not compared with the size of the response.\<close>

definition rpmsg_handle_recv :: "'w handler" where
  "rpmsg_handle_recv env sys req s = do {
     fd \<leftarrow> get_int rpc_recv_req ''fd'' req; len \<leftarrow> get_fld rpc_recv_req ''len'' req; flags \<leftarrow> get_int rpc_recv_req ''flags'' req;
     (res, s) \<leftarrow> sysc sys (Sock (C_recv fd len flags)) s;
     resp \<leftarrow> put_bytes rpc_recv_resp ''buf'' 0 (out 0 res) (uninit rpc_recv_resp);
     resp \<leftarrow> put_fld rpc_recv_resp ''ret'' (sr_ret res) resp;
     trace_id \<leftarrow> get_fld rpc_recv_req ''trace_id'' req;
     (resp, s) \<leftarrow> set_rsp_base trace_id resp s;
     respond env RECV_ID resp (sizeof rpc_recv_resp - MAX_SBUF_LEN + nat (sr_ret res)) s }"

abbreviation sizeof_recvfrom_addr :: nat where "sizeof_recvfrom_addr \<equiv> MAX_SADDR_SIZE * sizeof sockaddr"
abbreviation sizeof_recvfrom_buf :: nat where "sizeof_recvfrom_buf \<equiv> MAX_SBUF_LEN - sizeof_recvfrom_addr"

text \<open>The address in the response, up to the label \<open>response\<close>; with the number of bytes to send.\<close>

definition recvfrom_addr :: "nat \<Rightarrow> obj \<Rightarrow> int \<Rightarrow> obj \<Rightarrow> (obj \<times> nat) option" where
  "recvfrom_addr addrlen req sret resp =
     (let payload_size = sizeof rpc_recvfrom_resp - sizeof_recvfrom_buf in
      if addrlen > sizeof_recvfrom_addr then do {
        resp \<leftarrow> put_fld rpc_recvfrom_resp ''ret'' (- RPC_EOVERLONG) resp;
        Some (resp, payload_size) }
      else do {
        resp \<leftarrow> copy_fld rpc_recvfrom_req ''buf'' addrlen req rpc_recvfrom_resp ''addr'' resp;
        Some (resp, payload_size + nat sret) })"

definition rpmsg_handle_recvfrom :: "'w handler" where
  "rpmsg_handle_recvfrom env sys req s = do {
     fd \<leftarrow> get_int rpc_recvfrom_req ''fd'' req; len \<leftarrow> get_fld rpc_recvfrom_req ''len'' req;
     flags \<leftarrow> get_int rpc_recvfrom_req ''flags'' req; addrlen \<leftarrow> get_fld rpc_recvfrom_req ''addrlen'' req;
     (res, s) \<leftarrow> sysc sys (Sock (C_recvfrom fd (min sizeof_recvfrom_buf len) flags addrlen)) s;
     resp \<leftarrow> put_bytes rpc_recvfrom_resp ''buf'' 0 (out 0 res) (uninit rpc_recvfrom_resp);
     req \<leftarrow> req_store True rpc_recvfrom_req ''buf'' (out 1 res) req;
     req \<leftarrow> req_len True rpc_recvfrom_req ''addrlen'' res req;
     resp \<leftarrow> put_fld rpc_recvfrom_resp ''ret'' (sr_ret res) resp;
     trace_id \<leftarrow> get_fld rpc_recvfrom_req ''trace_id'' req;
     (resp, s) \<leftarrow> set_rsp_base trace_id resp s;
     addrlen \<leftarrow> get_fld rpc_recvfrom_req ''addrlen'' req;
     resp \<leftarrow> put_fld rpc_recvfrom_resp ''addrlen'' (int addrlen) resp;
     (resp, payload_size) \<leftarrow> recvfrom_addr addrlen req (sr_ret res) resp;
     respond env RECVFROM_ID resp payload_size s }"

definition rpmsg_handle_send :: "'w handler" where
  "rpmsg_handle_send env sys req s = do {
     fd \<leftarrow> get_int rpc_send_req ''fd'' req; len \<leftarrow> get_fld rpc_send_req ''len'' req; flags \<leftarrow> get_int rpc_send_req ''flags'' req;
     buf \<leftarrow> get_bytes rpc_send_req ''buf'' 0 len req;
     forward env sys SEND_ID rpc_send_req rpc_send_resp ''ret'' (uninit rpc_send_resp) req (Sock (C_send fd buf flags)) s }"

text \<open>The address comes first in the buffer, then the data.\<close>

definition rpmsg_handle_sendto :: "'w handler" where
  "rpmsg_handle_sendto env sys req s = do {
     fd \<leftarrow> get_int rpc_sendto_req ''fd'' req; len \<leftarrow> get_fld rpc_sendto_req ''len'' req; flags \<leftarrow> get_int rpc_sendto_req ''flags'' req;
     addrlen \<leftarrow> get_fld rpc_sendto_req ''addrlen'' req;
     addr \<leftarrow> get_bytes rpc_sendto_req ''buf'' 0 addrlen req;
     buf \<leftarrow> get_bytes rpc_sendto_req ''buf'' addrlen len req;
     forward env sys SENDTO_ID rpc_sendto_req rpc_sendto_resp ''ret'' (uninit rpc_sendto_resp) req (Sock (C_sendto fd buf flags addr)) s }"

definition rpmsg_handle_setsockopt :: "'w handler" where
  "rpmsg_handle_setsockopt env sys req s = do {
     fd \<leftarrow> get_int rpc_setsockopt_req ''fd'' req; level \<leftarrow> get_int rpc_setsockopt_req ''level'' req;
     optname \<leftarrow> get_int rpc_setsockopt_req ''optname'' req; optlen \<leftarrow> get_fld rpc_setsockopt_req ''optlen'' req;
     optval \<leftarrow> get_bytes rpc_setsockopt_req ''optval'' 0 optlen req;
     forward env sys SETSOCKOPT_ID rpc_setsockopt_req rpc_setsockopt_resp ''ret'' (uninit rpc_setsockopt_resp) req
       (Sock (C_setsockopt fd level optname optval)) s }"

definition rpmsg_handle_getsockopt :: "'w handler" where
  "rpmsg_handle_getsockopt env sys req s = do {
     sockfd \<leftarrow> get_int rpc_getsockopt_req ''sockfd'' req; level \<leftarrow> get_int rpc_getsockopt_req ''level'' req;
     optname \<leftarrow> get_int rpc_getsockopt_req ''optname'' req; optlen \<leftarrow> get_fld rpc_getsockopt_req ''optlen'' req;
     (res, s) \<leftarrow> sysc sys (Sock (C_getsockopt sockfd level optname optlen)) s;
     resp \<leftarrow> put_bytes rpc_getsockopt_resp ''optval'' 0 (out 0 res) (uninit rpc_getsockopt_resp);
     req \<leftarrow> req_len True rpc_getsockopt_req ''optlen'' res req;
     optlen \<leftarrow> get_fld rpc_getsockopt_req ''optlen'' req;
     let payload_size = sizeof rpc_getsockopt_resp - MAX_STRING_LEN;
     let overlong = optlen > MAX_STRING_LEN;
     resp \<leftarrow> put_fld rpc_getsockopt_resp ''ret'' (if overlong then - RPC_EOVERLONG else sr_ret res) resp;
     resp \<leftarrow> put_fld rpc_getsockopt_resp ''optlen'' (int optlen) resp;
     trace_id \<leftarrow> get_fld rpc_getsockopt_req ''trace_id'' req;
     (resp, s) \<leftarrow> set_rsp_base trace_id resp s;
     respond env GETSOCKOPT_ID resp (if overlong then payload_size else payload_size + optlen) s }"

definition rpmsg_handle_shutdown :: "'w handler" where
  "rpmsg_handle_shutdown env sys req s = do {
     fd \<leftarrow> get_int rpc_shutdown_req ''fd'' req; how \<leftarrow> get_int rpc_shutdown_req ''how'' req;
     forward env sys SHUTDOWN_ID rpc_shutdown_req rpc_shutdown_resp ''ret'' (uninit rpc_shutdown_resp) req (Sock (C_shutdown fd how)) s }"

definition rpmsg_handle_socket :: "'w handler" where
  "rpmsg_handle_socket env sys req s = do {
     domain \<leftarrow> get_int rpc_socket_req ''domain'' req; type \<leftarrow> get_int rpc_socket_req ''type'' req;
     protocol \<leftarrow> get_int rpc_socket_req ''protocol'' req;
     forward env sys SOCKET_ID rpc_socket_req rpc_socket_resp ''ret'' (uninit rpc_socket_resp) req (Sock (C_socket domain type protocol)) s }"

text \<open>The number of descriptors is not compared with that of the response.\<close>

definition rpmsg_handle_poll :: "'w handler" where
  "rpmsg_handle_poll env sys req s = do {
     nfds \<leftarrow> get_fld rpc_poll_req ''nfds'' req; timeout \<leftarrow> get_int rpc_poll_req ''timeout'' req;
     (i, _) \<leftarrow> member_at rpc_poll_req ''fds'';
     (res, s) \<leftarrow> sysc sys (Sock (C_poll (drop i req) nfds timeout)) s;
     req \<leftarrow> req_store True rpc_poll_req ''fds'' (out 0 res) req;
     resp \<leftarrow> put_fld rpc_poll_resp ''ret'' (sr_ret res) (uninit rpc_poll_resp);
     trace_id \<leftarrow> get_fld rpc_poll_req ''trace_id'' req;
     (resp, s) \<leftarrow> set_rsp_base trace_id resp s;
     nfds \<leftarrow> get_fld rpc_poll_req ''nfds'' req;
     resp \<leftarrow> copy_fld rpc_poll_req ''fds'' ((sizeof pollfd * nfds) mod 2 ^ 64) req rpc_poll_resp ''fds'' resp;
     respond env POLL_ID resp (sizeof rpc_poll_resp) s }"

text \<open>The sets and the time are passed only when the client says so; they are rewritten in the request and copied back.\<close>

definition rpmsg_handle_select :: "'w handler" where
  "rpmsg_handle_select env sys req s = do {
     nfds \<leftarrow> get_int rpc_select_req ''nfds'' req;
     hasr \<leftarrow> get_fld rpc_select_req ''is_readfds_not_null'' req; hasw \<leftarrow> get_fld rpc_select_req ''is_writefds_not_null'' req;
     hase \<leftarrow> get_fld rpc_select_req ''is_exceptfds_not_null'' req; hast \<leftarrow> get_fld rpc_select_req ''is_timeout_not_null'' req;
     readfds \<leftarrow> get_obj rpc_select_req ''readfds'' 128 req; writefds \<leftarrow> get_obj rpc_select_req ''writefds'' 128 req;
     exceptfds \<leftarrow> get_obj rpc_select_req ''exceptfds'' 128 req; timeout \<leftarrow> get_obj rpc_select_req ''timeout'' 16 req;
     let ptr = (\<lambda>flag x. if flag \<noteq> 0 then Some x else None);
     (res, s) \<leftarrow> sysc sys (Sock (C_select nfds (ptr hasr readfds) (ptr hasw writefds) (ptr hase exceptfds) (ptr hast timeout))) s;
     req \<leftarrow> req_store (hasr \<noteq> 0) rpc_select_req ''readfds'' (out 0 res) req;
     req \<leftarrow> req_store (hasw \<noteq> 0) rpc_select_req ''writefds'' (out 1 res) req;
     req \<leftarrow> req_store (hase \<noteq> 0) rpc_select_req ''exceptfds'' (out 2 res) req;
     req \<leftarrow> req_store (hast \<noteq> 0) rpc_select_req ''timeout'' (out 3 res) req;
     resp \<leftarrow> put_fld rpc_select_resp ''ret'' (sr_ret res) (uninit rpc_select_resp);
     trace_id \<leftarrow> get_fld rpc_select_req ''trace_id'' req;
     (resp, s) \<leftarrow> set_rsp_base trace_id resp s;
     resp \<leftarrow> copy_fld rpc_select_req ''readfds'' 128 req rpc_select_resp ''readfds'' resp;
     resp \<leftarrow> copy_fld rpc_select_req ''writefds'' 128 req rpc_select_resp ''writefds'' resp;
     resp \<leftarrow> copy_fld rpc_select_req ''exceptfds'' 128 req rpc_select_resp ''exceptfds'' resp;
     resp \<leftarrow> copy_fld rpc_select_req ''timeout'' 16 req rpc_select_resp ''timeout'' resp;
     respond env SELECT_ID resp (sizeof rpc_select_resp) s }"

section \<open>Every handler answers\<close>

lemma socket_answers:
  "answers env BIND_ID (sizeof rpc_bind_resp) req (rpmsg_handle_bind env sys req s)"
  "answers env CONNECT_ID (sizeof rpc_connect_resp) req (rpmsg_handle_connect env sys req s)"
  "answers env LISTEN_ID (sizeof rpc_listen_resp) req (rpmsg_handle_listen env sys req s)"
  "answers env SEND_ID (sizeof rpc_send_resp) req (rpmsg_handle_send env sys req s)"
  "answers env SENDTO_ID (sizeof rpc_sendto_resp) req (rpmsg_handle_sendto env sys req s)"
  "answers env SETSOCKOPT_ID (sizeof rpc_setsockopt_resp) req (rpmsg_handle_setsockopt env sys req s)"
  "answers env SHUTDOWN_ID (sizeof rpc_shutdown_resp) req (rpmsg_handle_shutdown env sys req s)"
  "answers env SOCKET_ID (sizeof rpc_socket_resp) req (rpmsg_handle_socket env sys req s)"
  unfolding rpmsg_handle_bind_def rpmsg_handle_connect_def rpmsg_handle_listen_def rpmsg_handle_send_def 
    rpmsg_handle_sendto_def rpmsg_handle_setsockopt_def rpmsg_handle_shutdown_def rpmsg_handle_socket_def
  by (intro answering; simp)+

lemma recv_answers:
  assumes "os_counts sys"
  shows "answers env RECV_ID (sizeof rpc_recv_resp) req (rpmsg_handle_recv env sys req s)"
  unfolding rpmsg_handle_recv_def
  by (erule answers_based | rule answers_fill answers_rules)+ (simp_all add: assms counted_def)

lemma recvfrom_addr_rsp:
  assumes "recvfrom_addr addrlen req sret resp = Some (resp', payload)" "rsp trace m resp"
  shows "rsp trace m resp' \<and> 152 \<le> payload \<and> payload \<le> 152 + nat sret"
proof -
  have L: "resp_layout rpc_recvfrom_resp" "sizeof rpc_recvfrom_resp - sizeof_recvfrom_buf = 152" by (simp_all)
  note r = rsp_put(1) [OF assms(2) L(1), of "''ret''"] rsp_put(4) [OF assms(2) L(1), of "''addr''"]
  show ?thesis
    using assms(1) unfolding recvfrom_addr_def L by (auto simp: bind_eq_Some_conv split: if_splits intro: r)
qed

lemma recvfrom_answers:
  assumes "os_counts sys"
  shows "answers env RECVFROM_ID (sizeof rpc_recvfrom_resp) req (rpmsg_handle_recvfrom env sys req s)"
proof -
  have m: "member_at rpc_recvfrom_resp ''buf'' = Some (152, 304)" "sizeof rpc_recvfrom_resp = 456" by (simp_all)
  show ?thesis
    unfolding rpmsg_handle_recvfrom_def
    apply (erule answers_based | rule answers_fill [OF _ assms _ m(1)] answers_rules)+
    apply (drule (1) recvfrom_addr_rsp, elim conjE, erule answers_send)
    apply (simp_all add: counted_def)
    done
qed

lemma name_answers:
  "answers env GETPEERNAME_ID (sizeof rpc_getpeername_resp) req (rpmsg_handle_getpeername env sys req s)"
  "answers env GETSOCKNAME_ID (sizeof rpc_getsockname_resp) req (rpmsg_handle_getsockname env sys req s)"
  unfolding rpmsg_handle_getpeername_def rpmsg_handle_getsockname_def respond_name_def
  by (((erule answers_based | rule answers_rules)+; simp)+)

lemma accept_answers:
  "answers env ACCEPT_ID (sizeof rpc_accept_resp) req (rpmsg_handle_accept env sys req s)"
  "answers env ACCEPT4_ID (sizeof rpc_accept4_resp) req (rpmsg_handle_accept4 env sys req s)"
  unfolding rpmsg_handle_accept_def rpmsg_handle_accept4_def
  by (((erule answers_based | rule answers_rules)+; simp)+)

lemma wait_answers:
  "answers env POLL_ID (sizeof rpc_poll_resp) req (rpmsg_handle_poll env sys req s)"
  "answers env GETSOCKOPT_ID (sizeof rpc_getsockopt_resp) req (rpmsg_handle_getsockopt env sys req s)"
  unfolding rpmsg_handle_poll_def rpmsg_handle_getsockopt_def
  by (((erule answers_based | rule answers_rules)+; simp)+)

lemma select_answers: "answers env SELECT_ID (sizeof rpc_select_resp) req (rpmsg_handle_select env sys req s)"
  unfolding rpmsg_handle_select_def
  by (erule answers_based | rule answers_rules)+ (simp_all)

lemma encode_hostent_fits:
  assumes "encode_hostent ht buflen = Ret (n, enc)" "sizeof_ihostent \<le> buflen"
  shows "n \<le> int buflen"
  using assms put_all_length
  by (auto simp: encode_hostent_def Let_def split: if_splits option.splits)

lemma put_host_rsp:
  assumes "put_host ht resp = Some (resp', payload)" "rsp trace m resp"
  shows "rsp trace m resp' \<and> 16 \<le> payload \<and> payload \<le> 448"
proof -
  have L: "resp_layout rpc_gethostbyaddr_resp" "sizeof rpc_gethostbyaddr_resp - MAX_SBUF_LEN = 16" by (simp_all)
  consider "put_fld rpc_gethostbyaddr_resp ''len'' 0 resp = Some resp'" "payload = 16"
    | h n enc r where "encode_hostent h 432 = Ret (n, enc)" "put_bytes rpc_gethostbyaddr_resp ''buf'' 0 enc resp = Some r"
      "put_fld rpc_gethostbyaddr_resp ''len'' n r = Some resp'" "payload = 16 + nat n"
    using assms(1) unfolding put_host_def L by (auto simp: bind_eq_Some_conv split: option.splits outcome.splits)
  then show ?thesis
  proof cases
    case 1
    then show ?thesis using rsp_put(1) [OF assms(2) L(1) _ _ 1(1)] by simp
  next
    case 2
    have "rsp trace m r" using rsp_put(2) [OF assms(2) L(1) _ _ 2(2)] by simp
    from rsp_put(1) [OF this L(1) _ _ 2(3)] have "rsp trace m resp'" by simp
    then show ?thesis using encode_hostent_fits [OF 2(1)] 2(4) by simp
  qed
qed

lemma respond_host_answers:
  assumes "req_layout RQ" "fid < 2 ^ 32"
  shows "answers env fid (sizeof rpc_gethostbyaddr_resp) req (respond_host env fid RQ req res s)"
  unfolding respond_host_def
  by (rule answers_rules)+ (drule (1) put_host_rsp, elim conjE, erule answers_send, use assms in \<open>simp_all\<close>)

lemma host_answers:
  "answers env GETHOSTBYADDR_ID (sizeof rpc_gethostbyaddr_resp) req (rpmsg_handle_gethostbyaddr env sys req s)"
  "answers env GETHOSTBYNAME_ID (sizeof rpc_gethostbyname_resp) req (rpmsg_handle_gethostbyname env sys req s)"
  unfolding rpmsg_handle_gethostbyaddr_def rpmsg_handle_gethostbyname_def
  by ((intro answers_bind answers_prod respond_host_answers; simp)+)

lemma put_names_length: "put_names cnt ps resp = Some (cnt', resp') \<Longrightarrow> length resp' = length resp"
  by (induction cnt ps resp rule: put_names.induct) (auto simp: bind_eq_Some_conv put_length)

lemma ifnameindex_answers:
  "answers env IFNAMEINDEX_ID (sizeof rpc_if_nameindex_resp) req (rpmsg_handle_ifnameindex env sys req s)"
  unfolding rpmsg_handle_ifnameindex_def
  by (erule answers_based | rule answers_rules)+ (auto dest!: put_names_length)

lemma gaistrerror_answers:
  "answers env GAISTRERROR_ID (sizeof rpc_gai_strerror_resp) req (rpmsg_handle_gaistrerror env sys req s)"
  unfolding rpmsg_handle_gaistrerror_def
  by (erule answers_based | rule answers_rules)+
    (auto simp: bind_eq_Some_conv split: option.splits dest!: put_length)

lemma gethostname_answers:
  "answers env GETHOSTNAME_ID (sizeof rpc_gethostname_resp) req (rpmsg_handle_gethostname env sys req s)"
  unfolding rpmsg_handle_gethostname_def
  by (erule answers_based | rule answers_rules)+ (auto dest!: get_str_fits split: if_splits)

lemma encode_addrlist_fits: "encode_addrlist ais buflen = Ret (cnt, len, enc) \<Longrightarrow> nat len \<le> nat buflen"
  by (auto simp: encode_addrlist_def Let_def split: if_splits)

lemma getaddrinfo_result_fits:
  assumes "getaddrinfo_result ai resp = Some (resp', payload)"
  shows "length resp' = length resp \<and> 24 \<le> payload \<and> payload \<le> 456"
  using assms unfolding getaddrinfo_result_def
  by (auto simp: bind_eq_Some_conv put_length split: option.splits outcome.splits dest!: encode_addrlist_fits)

lemma getaddrinfo_response_answers:
  "length resp = 456 \<Longrightarrow> 24 \<le> payload \<Longrightarrow> payload \<le> 456 \<Longrightarrow>
   answers env GETADDRINFO_ID 456 req (getaddrinfo_response env req ret resp payload s)"
  unfolding getaddrinfo_response_def
  by (erule answers_based | rule answers_rules)+ simp_all

lemma getaddrinfo_answers:
  assumes "get_int rpc_getaddrinfo_req ''node'' req = Some node" "get_int rpc_getaddrinfo_req ''service'' req = Some service"
    and "get_int rpc_getaddrinfo_req ''buflen'' req = Some buflen"
  shows "answers env GETADDRINFO_ID (sizeof rpc_getaddrinfo_resp) req (rpmsg_handle_getaddrinfo env sys req s) \<or>
    (node \<ge> buflen \<or> service \<ge> buflen) \<and> rpmsg_handle_getaddrinfo env sys req s = Some (- EINVAL, None, s)"
proof (cases "node \<ge> buflen \<or> service \<ge> buflen")
  case False
  have "answers env GETADDRINFO_ID (sizeof rpc_getaddrinfo_resp) req (rpmsg_handle_getaddrinfo env sys req s)"
    unfolding rpmsg_handle_getaddrinfo_def assms bind.bind_lunit resp_sizes
    apply (rule answers_else [OF False])
    apply (rule answers_bind2 answers_bind answers_if answers_Let getaddrinfo_response_answers | simp; fail)+
    apply (auto dest!: getaddrinfo_result_fits)
    done
  then show ?thesis ..
qed (simp add: rpmsg_handle_getaddrinfo_def assms)

end
