(* ===== verification/Rpc_Backend.thy ===== *)
theory Rpc_Backend
  imports Rpc_Files Rpc_Stdio Rpc_Sockets Rpc_Queue
begin

text \<open>
  The RPC server (\<open>services/rpc/rpc_backend.c\<close>): the table of services and the callback of the
  endpoint, in the build that serves a request at once and in the one that hands it to worker threads.
\<close>

section \<open>Dispatch\<close>

definition service_table :: "(nat \<times> 'w handler) list" where
  "service_table =
     [(OPEN_ID, rpmsg_handle_open), (READ_ID, rpmsg_handle_read), (WRITE_ID, rpmsg_handle_write),
      (CLOSE_ID, rpmsg_handle_close), (LSEEK_ID, rpmsg_handle_lseek), (FCNTL_ID, rpmsg_handle_fcntl),
      (IOCTL_ID, rpmsg_handle_ioctl), (UNLINK_ID, rpmsg_handle_unlink), (GETDENTS64_ID, rpmsg_handle_getdents64),
      (FREEADDRINFO_ID, rpmsg_handle_freeaddrinfo), (GETADDRINFO_ID, rpmsg_handle_getaddrinfo),
      (GETHOSTBYADDR_ID, rpmsg_handle_gethostbyaddr), (GETHOSTBYNAME_ID, rpmsg_handle_gethostbyname),
      (POLL_ID, rpmsg_handle_poll), (GETPEERNAME_ID, rpmsg_handle_getpeername),
      (GETHOSTNAME_ID, rpmsg_handle_gethostname), (GETSOCKNAME_ID, rpmsg_handle_getsockname),
      (GETSOCKOPT_ID, rpmsg_handle_getsockopt), (SELECT_ID, rpmsg_handle_select), (ACCEPT_ID, rpmsg_handle_accept),
      (BIND_ID, rpmsg_handle_bind), (CONNECT_ID, rpmsg_handle_connect), (LISTEN_ID, rpmsg_handle_listen),
      (RECV_ID, rpmsg_handle_recv), (RECVFROM_ID, rpmsg_handle_recvfrom), (SEND_ID, rpmsg_handle_send),
      (SENDTO_ID, rpmsg_handle_sendto), (SETSOCKOPT_ID, rpmsg_handle_setsockopt),
      (SHUTDOWN_ID, rpmsg_handle_shutdown), (SOCKET_ID, rpmsg_handle_socket), (FOPEN_ID, rpmsg_handle_fopen),
      (FCLOSE_ID, rpmsg_handle_fclose), (FREAD_ID, rpmsg_handle_fread), (FWRITE_ID, rpmsg_handle_fwrite),
      (FREOPEN_ID, rpmsg_handle_freopen), (FPUTS_ID, rpmsg_handle_fputs), (FGETS_ID, rpmsg_handle_fgets),
      (FEOF_ID, rpmsg_handle_feof), (FPRINTF_ID, rpmsg_handle_fprintf), (GETC_ID, rpmsg_handle_getc),
      (FERROR_ID, rpmsg_handle_ferror), (GETC_UNLOCK_ID, rpmsg_handle_getc_unlocked),
      (PCLOSE_ID, rpmsg_handle_pclose), (TMPFILE_ID, rpmsg_handle_tmpfile), (CLEARERR_ID, rpmsg_handle_clearerr),
      (POPEN_ID, rpmsg_handle_popen), (UNGETC_ID, rpmsg_handle_ungetc), (FSEEKO_ID, rpmsg_handle_fseeko),
      (FTELLO_ID, rpmsg_handle_ftello), (FSEEK_ID, rpmsg_handle_fseek), (FTELL_ID, rpmsg_handle_ftell),
      (RENAME_ID, rpmsg_handle_rename), (REMOVE_ID, rpmsg_handle_remove), (MKSTMP_ID, rpmsg_handle_mkstemp),
      (STAT_ID, rpmsg_handle_stat), (LSTAT_ID, rpmsg_handle_lstat), (GETCWD_ID, rpmsg_handle_getcwd),
      (PRINTF_ID, rpmsg_handle_printf), (FFLUSH_ID, rpmsg_handle_fflush), (GETWC_ID, rpmsg_handle_getwc),
      (PUTWC_ID, rpmsg_handle_putwc), (PUTC_ID, rpmsg_handle_putc), (UNGETWC_ID, rpmsg_handle_ungetwc),
      (FSTAT_ID, rpmsg_handle_fstat), (FDOPEN_ID, rpmsg_handle_fdopen), (FILENO_ID, rpmsg_handle_fileno),
      (SETVBUF_ID, rpmsg_handle_setvbuf), (SYSTEM_ID, rpmsg_handle_system), (READLINK_ID, rpmsg_handle_readlink),
      (ACCESS_ID, rpmsg_handle_access), (DUP2_ID, rpmsg_handle_dup2), (MKFIFO_ID, rpmsg_handle_mkfifo),
      (CHMOD_ID, rpmsg_handle_chmod), (CHDIR_ID, rpmsg_handle_chdir), (MKDIR_ID, rpmsg_handle_mkdir),
      (RMDIR_ID, rpmsg_handle_rmdir), (PIPE_ID, rpmsg_handle_pipe), (FSCANFX_ID, rpmsg_handle_fscanfx),
      (IFNAMEINDEX_ID, rpmsg_handle_ifnameindex), (PUTCHAR_ID, rpmsg_handle_putchar),
      (GAISTRERROR_ID, rpmsg_handle_gaistrerror), (ACCEPT4_ID, rpmsg_handle_accept4),
      (WRITEV_ID, rpmsg_handle_writev)]"

fun find_service :: "(nat \<times> 'w handler) list \<Rightarrow> nat \<Rightarrow> 'w handler option" where
  "find_service [] fid = None"
| "find_service ((i, h) # services) fid = (if i = fid then Some h else find_service services fid)"

text \<open>
  The number of the call is an \<open>unsigned long\<close> at the start of the message; the table and the answers
  have 32-bit numbers. Its eight bytes are read before the length is looked at.
\<close>

definition call_id :: "u8 list \<Rightarrow> nat option" where
  "call_id data = (if 8 \<le> length data then Some (le_nat (take 8 data)) else None)"

text \<open>The buffer on the stack, with the received bytes at its start.\<close>

definition recv_buf :: "u8 list \<Rightarrow> obj" where
  "recv_buf data = map Some data @ replicate (RPC_BUFFER_SIZE - length data) None"

text \<open>Errors are answered without parameters; the result of a handler is only logged.\<close>

definition rpmsg_rpc_server_cb :: "rpc_env \<Rightarrow> 'w os \<Rightarrow> u8 list \<Rightarrow> 'w host \<Rightarrow> 'w handled" where
  "rpmsg_rpc_server_cb env sys data s = do {
     fid \<leftarrow> call_id data;
     if length data > RPC_BUFFER_SIZE then do {
       (_, rp) \<leftarrow> rpc_server_send env fid RPC_EOVERLONG [] 0;
       Some (- EINVAL, rp, s) }
     else
       case find_service service_table (fid mod 2 ^ 32) of
         Some cb_function \<Rightarrow> do {
           (_, rp, s) \<leftarrow> cb_function env sys (recv_buf data) s;
           Some (0, rp, s) }
       | None \<Rightarrow> do {
           (_, rp) \<leftarrow> rpc_server_send env fid (re_invalid_id env) [] 0;
           Some (0, rp, s) } }"

text \<open>
  The callback with \<open>MULTI_WORKERS\<close>: the request is copied to a block of its own size and queued; the result
  without memory is the number \<open>RPMSG_ERR_NO_MEM\<close> of OpenAMP. The instance is the service table.
\<close>

definition rpmsg_rpc_server_cb_workers ::
  "rpc_env \<Rightarrow> int \<Rightarrow> bool \<Rightarrow> bool \<Rightarrow> nat \<Rightarrow> u8 list \<Rightarrow> ('w handler, (nat \<times> 'w handler) list) req_t rpc_queue
   \<Rightarrow> (int \<times> reply option \<times> ('w handler, (nat \<times> 'w handler) list) req_t rpc_queue) option" where
  "rpmsg_rpc_server_cb_workers env no_mem buf_ok req_ok ept data rx_q = do {
     fid \<leftarrow> call_id data;
     if length data > RPC_BUFFER_SIZE then do {
       (_, rp) \<leftarrow> rpc_server_send env fid RPC_EOVERLONG [] 0;
       Some (- EINVAL, rp, rx_q) }
     else if \<not> buf_ok then do {
       (_, rp) \<leftarrow> rpc_server_send env fid RPC_ENOMEM [] 0;
       Some (no_mem, rp, rx_q) }
     else
       case find_service service_table (fid mod 2 ^ 32) of
         Some cb_function \<Rightarrow>
           Some (0, None, enqueue_req rx_q (build_req req_ok data (Some cb_function) service_table ept))
       | None \<Rightarrow> do {
           (_, rp) \<leftarrow> rpc_server_send env fid (re_invalid_id env) [] 0;
           Some (0, rp, rx_q) } }"

section \<open>The responses of the protocol\<close>

text \<open>The response structure of each call that has one.\<close>

definition responses :: "(nat \<times> layout) list" where
  "responses =
     [(OPEN_ID, rpc_open_resp), (READ_ID, rpc_read_resp), (WRITE_ID, rpc_write_resp), (CLOSE_ID, rpc_close_resp),
      (LSEEK_ID, rpc_lseek_resp), (FCNTL_ID, rpc_fcntl_resp), (IOCTL_ID, rpc_ioctl_resp),
      (UNLINK_ID, rpc_unlink_resp), (GETDENTS64_ID, rpc_getdents64_resp), (GETADDRINFO_ID, rpc_getaddrinfo_resp),
      (GETHOSTBYADDR_ID, rpc_gethostbyaddr_resp), (GETHOSTBYNAME_ID, rpc_gethostbyname_resp),
      (POLL_ID, rpc_poll_resp), (GETPEERNAME_ID, rpc_getpeername_resp), (GETHOSTNAME_ID, rpc_gethostname_resp),
      (GETSOCKNAME_ID, rpc_getsockname_resp), (GETSOCKOPT_ID, rpc_getsockopt_resp), (SELECT_ID, rpc_select_resp),
      (ACCEPT_ID, rpc_accept_resp), (BIND_ID, rpc_bind_resp), (CONNECT_ID, rpc_connect_resp),
      (LISTEN_ID, rpc_listen_resp), (RECV_ID, rpc_recv_resp), (RECVFROM_ID, rpc_recvfrom_resp),
      (SEND_ID, rpc_send_resp), (SENDTO_ID, rpc_sendto_resp), (SETSOCKOPT_ID, rpc_setsockopt_resp),
      (SHUTDOWN_ID, rpc_shutdown_resp), (SOCKET_ID, rpc_socket_resp), (FOPEN_ID, rpc_fcommon_resp),
      (FCLOSE_ID, rpc_common_resp), (FREAD_ID, rpc_fread_resp), (FWRITE_ID, rpc_fwrite_resp),
      (FREOPEN_ID, rpc_fcommon_resp), (FPUTS_ID, rpc_common_resp), (FGETS_ID, rpc_fgets_resp),
      (FEOF_ID, rpc_common_resp), (GETC_ID, rpc_common_resp), (FERROR_ID, rpc_common_resp),
      (GETC_UNLOCK_ID, rpc_common_resp), (PCLOSE_ID, rpc_common_resp), (TMPFILE_ID, rpc_fcommon_resp),
      (POPEN_ID, rpc_fcommon_resp), (UNGETC_ID, rpc_common_resp), (FSEEKO_ID, rpc_common_resp),
      (FTELLO_ID, rpc_ftello_resp), (FSEEK_ID, rpc_common_resp), (FTELL_ID, rpc_ftello_resp),
      (RENAME_ID, rpc_common_resp), (REMOVE_ID, rpc_common_resp), (MKSTMP_ID, rpc_common_resp),
      (STAT_ID, rpc_stat_resp), (LSTAT_ID, rpc_stat_resp), (GETCWD_ID, rpc_getcwd_resp),
      (FFLUSH_ID, rpc_fflush_resp), (GETWC_ID, rpc_getwc_resp), (PUTWC_ID, rpc_putwc_resp), (PUTC_ID, rpc_putc_resp),
      (UNGETWC_ID, rpc_ungetwc_resp), (FSTAT_ID, rpc_fstat_resp), (FDOPEN_ID, rpc_fdopen_resp),
      (FILENO_ID, rpc_fileno_resp), (SETVBUF_ID, rpc_setvbuf_resp), (SYSTEM_ID, rpc_system_resp),
      (READLINK_ID, rpc_readlink_resp), (ACCESS_ID, rpc_access_resp), (DUP2_ID, rpc_dup2_resp),
      (MKFIFO_ID, rpc_mkfifo_resp), (CHMOD_ID, rpc_chmod_resp), (CHDIR_ID, rpc_chdir_resp),
      (MKDIR_ID, rpc_mkdir_resp), (RMDIR_ID, rpc_rmdir_resp), (PIPE_ID, rpc_pipe_resp),
      (FSCANFX_ID, rpc_fscanfx_resp), (IFNAMEINDEX_ID, rpc_if_nameindex_resp), (PUTCHAR_ID, rpc_putchar_resp),
      (GAISTRERROR_ID, rpc_gai_strerror_resp), (ACCEPT4_ID, rpc_accept4_resp), (WRITEV_ID, rpc_writev_resp)]"

definition resp_of :: "nat \<Rightarrow> layout option" where
  "resp_of fid = map_of responses fid"

text \<open>The calls that are passed on unchanged, with the member that carries the result.\<close>

definition forwarded :: "(nat \<times> layout \<times> string) list" where
  "forwarded =
     [(OPEN_ID, rpc_open_resp, ''ret''), (WRITE_ID, rpc_write_resp, ''ret''), (CLOSE_ID, rpc_close_resp, ''ret''),
      (LSEEK_ID, rpc_lseek_resp, ''ret''), (FCNTL_ID, rpc_fcntl_resp, ''ret''), (BIND_ID, rpc_bind_resp, ''ret''),
      (CONNECT_ID, rpc_connect_resp, ''ret''), (LISTEN_ID, rpc_listen_resp, ''ret''),
      (SEND_ID, rpc_send_resp, ''ret''), (SENDTO_ID, rpc_sendto_resp, ''ret''),
      (SETSOCKOPT_ID, rpc_setsockopt_resp, ''ret''), (SHUTDOWN_ID, rpc_shutdown_resp, ''ret''),
      (SOCKET_ID, rpc_socket_resp, ''ret''), (FOPEN_ID, rpc_fcommon_resp, ''fhandle''),
      (FCLOSE_ID, rpc_common_resp, ''ret''), (FWRITE_ID, rpc_fwrite_resp, ''ret''),
      (FREOPEN_ID, rpc_fcommon_resp, ''fhandle''), (FPUTS_ID, rpc_common_resp, ''ret''),
      (FEOF_ID, rpc_common_resp, ''ret''), (GETC_ID, rpc_common_resp, ''ret''),
      (FERROR_ID, rpc_common_resp, ''ret''), (GETC_UNLOCK_ID, rpc_common_resp, ''ret''),
      (PCLOSE_ID, rpc_common_resp, ''ret''), (TMPFILE_ID, rpc_fcommon_resp, ''fhandle''),
      (POPEN_ID, rpc_fcommon_resp, ''fhandle''), (UNGETC_ID, rpc_common_resp, ''ret''),
      (FSEEKO_ID, rpc_common_resp, ''ret''), (FTELLO_ID, rpc_ftello_resp, ''ret''),
      (FSEEK_ID, rpc_common_resp, ''ret''), (FTELL_ID, rpc_ftello_resp, ''ret''),
      (RENAME_ID, rpc_common_resp, ''ret''), (REMOVE_ID, rpc_common_resp, ''ret''),
      (MKSTMP_ID, rpc_common_resp, ''ret''), (FFLUSH_ID, rpc_fflush_resp, ''ret''),
      (GETWC_ID, rpc_getwc_resp, ''ret''), (PUTWC_ID, rpc_putwc_resp, ''ret''), (PUTC_ID, rpc_putc_resp, ''ret''),
      (FDOPEN_ID, rpc_fdopen_resp, ''fhandle''), (FILENO_ID, rpc_fileno_resp, ''ret''),
      (SYSTEM_ID, rpc_system_resp, ''ret''), (ACCESS_ID, rpc_access_resp, ''ret''),
      (DUP2_ID, rpc_dup2_resp, ''ret''), (MKFIFO_ID, rpc_mkfifo_resp, ''ret''), (CHMOD_ID, rpc_chmod_resp, ''ret''),
      (CHDIR_ID, rpc_chdir_resp, ''ret''), (MKDIR_ID, rpc_mkdir_resp, ''ret''), (RMDIR_ID, rpc_rmdir_resp, ''ret''),
      (PUTCHAR_ID, rpc_putchar_resp, ''ret''), (WRITEV_ID, rpc_writev_resp, ''ret'')]"

section \<open>Every service answers\<close>

text \<open>
  A handler for a call: its reply has the number and the trace number of the request and fits in the
  response structure. The reply to \<open>unlink\<close> has the number of \<open>ioctl\<close>; \<open>getcwd\<close> and \<open>getaddrinfo\<close> may refuse a request
  without a reply.
\<close>

definition answer_id :: "nat \<Rightarrow> nat" where
  "answer_id fid = (if fid = UNLINK_ID then IOCTL_ID else fid)"

definition serves :: "nat \<Rightarrow> 'w handler \<Rightarrow> bool" where
  "serves fid h \<longleftrightarrow> (\<forall>env sys req s r rp s'. os_counts sys \<longrightarrow> h env sys req s = Some (r, rp, s') \<longrightarrow>
     (case resp_of fid of
        None \<Rightarrow> rp = None
      | Some L \<Rightarrow>
          (\<exists>p trace. rp = Some p \<and> trace_of req = Some trace \<and> replied env (answer_id fid) trace (sizeof L) p)
          \<or> (fid = GETCWD_ID \<or> fid = GETADDRINFO_ID) \<and> r = - EINVAL \<and> rp = None \<and> s' = s))"

lemma serves_answers:
  assumes "resp_of fid = Some L" "\<And>env sys req s. os_counts sys \<Longrightarrow> answers env (answer_id fid) (sizeof L) req (h env sys req s)"
  shows "serves fid h"
  using assms by (fastforce simp: serves_def answers_def)

lemma find_service_in: "find_service services fid = Some h \<Longrightarrow> (fid, h) \<in> set services"
  by (induction services fid rule: find_service.induct) (auto split: if_splits)

lemma serves_answersI:
  assumes "resp_of fid = Some L" "fid \<noteq> UNLINK_ID" "\<And>env sys req s. os_counts sys \<Longrightarrow> answers env fid (sizeof L) req (h env sys req s)"
  shows "serves fid h"
  by (rule serves_answers [OF assms(1)]) (simp add: answer_id_def assms(2,3) split del: if_split)

lemma serves_or_refuses:
  assumes "resp_of fid = Some L" "fid = GETCWD_ID \<or> fid = GETADDRINFO_ID"
    and "\<And>env sys req s. answers env fid (sizeof L) req (h env sys req s) \<or> h env sys req s = Some (- EINVAL, None, s) \<or> h env sys req s = None"
  shows "serves fid h"
  unfolding serves_def assms(1) option.case
proof (intro allI impI)
  fix env sys req s r rp s' assume h: "h env sys req s = Some (r, rp, s')"
  have f: "answer_id fid = fid" using assms(2) by (auto simp: answer_id_def)
  show "(\<exists>p trace. rp = Some p \<and> trace_of req = Some trace \<and> replied env (answer_id fid) trace (sizeof L) p)
      \<or> (fid = GETCWD_ID \<or> fid = GETADDRINFO_ID) \<and> r = - EINVAL \<and> rp = None \<and> s' = s"
    using assms(3) [of env req sys s] h assms(2) unfolding f answers_def by auto
qed

lemma serves_getcwd: "serves GETCWD_ID rpmsg_handle_getcwd"
proof (rule serves_or_refuses)
  show "resp_of GETCWD_ID = Some rpc_getcwd_resp" by (simp add: resp_of_def responses_def)
  show "answers env GETCWD_ID (sizeof rpc_getcwd_resp) req (rpmsg_handle_getcwd env sys req s)
      \<or> rpmsg_handle_getcwd env sys req s = Some (- EINVAL, None, s) \<or> rpmsg_handle_getcwd env sys req s = None" for env req s and sys :: "'a os"
  proof (cases "get_fld rpc_getcwd_req ''size'' req")
    case None
    then show ?thesis by (simp add: rpmsg_handle_getcwd_def)
  next
    case (Some sz)
    then show ?thesis using getcwd_answers [of req sz env sys s] by blast
  qed
qed simp

lemma serves_getaddrinfo: "serves GETADDRINFO_ID rpmsg_handle_getaddrinfo"
proof (rule serves_or_refuses)
  show "resp_of GETADDRINFO_ID = Some rpc_getaddrinfo_resp" by (simp add: resp_of_def responses_def)
  show "answers env GETADDRINFO_ID (sizeof rpc_getaddrinfo_resp) req (rpmsg_handle_getaddrinfo env sys req s)
      \<or> rpmsg_handle_getaddrinfo env sys req s = Some (- EINVAL, None, s) \<or> rpmsg_handle_getaddrinfo env sys req s = None"
    for env req s and sys :: "'a os"
  proof (cases "rpmsg_handle_getaddrinfo env sys req s")
    case (Some x)
    then obtain a b c where "get_int rpc_getaddrinfo_req ''node'' req = Some a" "get_int rpc_getaddrinfo_req ''service'' req = Some b"
        "get_int rpc_getaddrinfo_req ''buflen'' req = Some c"
      unfolding rpmsg_handle_getaddrinfo_def bind_eq_Some_conv by blast
    then show ?thesis using getaddrinfo_answers [of req a b c env sys s] by blast
  qed simp
qed simp

lemma serves_silent:
  "serves FREEADDRINFO_ID rpmsg_handle_freeaddrinfo" "serves PRINTF_ID rpmsg_handle_printf" "serves FPRINTF_ID rpmsg_handle_fprintf"
  "serves CLEARERR_ID rpmsg_handle_clearerr"
  by (auto simp: serves_def resp_of_def responses_def rpmsg_handle_freeaddrinfo_def rpmsg_handle_printf_def rpmsg_handle_fprintf_def
      rpmsg_handle_clearerr_def bind_eq_Some_conv)

lemma serves_unlink: "serves UNLINK_ID rpmsg_handle_unlink"
  by (rule serves_answers [of _ rpc_unlink_resp], simp add: resp_of_def responses_def)
    (unfold answer_id_def if_True simp_thms, rule file_answers)

lemmas all_answers = file_answers path_answers fill_answers pipe_ioctl_answers stat_answers getdents64_answers
  stream_answers stdio_answers fread_answers scan_answers
  socket_answers recv_answers recvfrom_answers name_answers accept_answers wait_answers select_answers host_answers
  ifnameindex_answers gaistrerror_answers gethostname_answers

lemma table_serves: "\<forall>(i, h) \<in> set service_table. serves i h"
  unfolding service_table_def list.set ball_simps split
  by (intro conjI serves_getcwd serves_getaddrinfo serves_silent serves_unlink TrueI;
    rule serves_answersI, (simp add: resp_of_def responses_def; fail), (simp; fail), (rule all_answers | erule all_answers))

section \<open>Calls that are passed on\<close>

lemma table_passes_on:
  assumes "(fid, L, f) \<in> set forwarded"
  shows "\<exists>h. find_service service_table fid = Some h \<and> passes_on env fid L f req (\<lambda>sys s. h env sys req s)"
  using assms unfolding forwarded_def
  apply (simp only: list.set insert_iff prod.inject empty_iff)
  apply (elim disjE conjE FalseE; hypsubst; rule exI, rule conjI, (simp add: service_table_def; fail))
  apply (unfold
    rpmsg_handle_open_def rpmsg_handle_write_def rpmsg_handle_close_def rpmsg_handle_lseek_def rpmsg_handle_fcntl_def
    rpmsg_handle_bind_def rpmsg_handle_connect_def rpmsg_handle_listen_def rpmsg_handle_send_def
    rpmsg_handle_sendto_def rpmsg_handle_setsockopt_def rpmsg_handle_shutdown_def rpmsg_handle_socket_def
    rpmsg_handle_fopen_def rpmsg_handle_fclose_def rpmsg_handle_fwrite_def rpmsg_handle_freopen_def
    rpmsg_handle_fputs_def rpmsg_handle_feof_def rpmsg_handle_getc_def rpmsg_handle_ferror_def
    rpmsg_handle_getc_unlocked_def rpmsg_handle_pclose_def rpmsg_handle_tmpfile_def rpmsg_handle_popen_def
    rpmsg_handle_ungetc_def rpmsg_handle_fseeko_def rpmsg_handle_ftello_def rpmsg_handle_fseek_def
    rpmsg_handle_ftell_def rpmsg_handle_rename_def rpmsg_handle_remove_def rpmsg_handle_mkstemp_def
    rpmsg_handle_fflush_def rpmsg_handle_getwc_def rpmsg_handle_putwc_def rpmsg_handle_putc_def
    rpmsg_handle_fdopen_def rpmsg_handle_fileno_def rpmsg_handle_system_def rpmsg_handle_access_def
    rpmsg_handle_dup2_def rpmsg_handle_mkfifo_def rpmsg_handle_chmod_def rpmsg_handle_chdir_def
    rpmsg_handle_mkdir_def rpmsg_handle_rmdir_def rpmsg_handle_putchar_def rpmsg_handle_writev_def)
  by (intro passing; simp)+

section \<open>Where the dispatch goes wrong\<close>

text \<open>A message without a whole number is read past its end.\<close>

lemma rpc_short_message_faults: "length data < 8 \<Longrightarrow> rpmsg_rpc_server_cb env sys data s = None"
  by (simp add: rpmsg_rpc_server_cb_def call_id_def)

text \<open>The number of \<open>setvbuf\<close> is that of \<open>fileno\<close>, which comes first in the table.\<close>

lemma setvbuf_unreachable: "find_service service_table SETVBUF_ID = Some rpmsg_handle_fileno"
  by (simp add: service_table_def)

end
