(* ===== verification/Rpc_Calls.thy ===== *)
theory Rpc_Calls
  imports Rpc_Backend
begin

text \<open>
  The remote calls end to end. A client OS lays the arguments of a call out in the request
  structure for it; the request travels as bytes, the server finds the handler in its table, makes the call on the host and
  sends the response. The client is not part of the sources: \<open>marshal\<close> states what the request structures of
  \<open>services/rpc/rpc_internal_model.h\<close> mean.
\<close>

section \<open>Requests\<close>

datatype arg = Signed int | Unsigned nat | Text "u8 list" | Raw "u8 list"

fun arg_bytes :: "nat \<Rightarrow> arg \<Rightarrow> u8 list" where
  "arg_bytes n (Signed v) = le_bytes n (nat (v mod 2 ^ (8 * n)))"
| "arg_bytes n (Unsigned k) = le_bytes n k"
| "arg_bytes n (Text s) = s @ [0]"
| "arg_bytes n (Raw bs) = bs"

text \<open>An argument fits in a member of \<open>n\<close> bytes.\<close>

fun arg_fits :: "nat \<Rightarrow> arg \<Rightarrow> bool" where
  "arg_fits n (Signed v) \<longleftrightarrow> - (2 ^ (8 * n - 1)) \<le> v \<and> v < 2 ^ (8 * n - 1)"
| "arg_fits n (Unsigned k) \<longleftrightarrow> k < 2 ^ (8 * n)"
| "arg_fits n (Text s) \<longleftrightarrow> c_string s \<and> length s < n"
| "arg_fits n (Raw bs) \<longleftrightarrow> length bs \<le> n"

fun pack_args :: "layout \<Rightarrow> (string \<times> arg) list \<Rightarrow> obj \<Rightarrow> obj option" where
  "pack_args L [] m = Some m"
| "pack_args L ((f, a) # fas) m = do {
     (i, n) \<leftarrow> member_at L f;
     if arg_fits n a then do { m \<leftarrow> store m i (arg_bytes n a); pack_args L fas m } else None }"

text \<open>A member of an object that has the value of an argument.\<close>

definition holds :: "obj \<Rightarrow> layout \<Rightarrow> string \<Rightarrow> arg \<Rightarrow> bool" where
  "holds m L f a \<longleftrightarrow> (case member_at L f of
       None \<Rightarrow> False
     | Some (i, n) \<Rightarrow> arg_fits n a \<and> ld m i (length (arg_bytes n a)) = Some (arg_bytes n a))"

lemma arg_bytes_length: "arg_fits n a \<Longrightarrow> length (arg_bytes n a) \<le> n"
  by (cases a) auto

lemma pack_args_length: "pack_args L fas m = Some m' \<Longrightarrow> length m' = length m"
  by (induction L fas m rule: pack_args.induct) (auto simp: bind_eq_Some_conv mem_write_length split: if_splits)

lemma store_stored: "store m i bs = Some m' \<Longrightarrow> None \<notin> set m \<Longrightarrow> None \<notin> set m'"
  by (auto simp: mem_write_def split: if_splits dest: in_set_takeD in_set_dropD)

lemma pack_args_stored: "pack_args L fas m = Some m' \<Longrightarrow> None \<notin> set m \<Longrightarrow> None \<notin> set m'"
  by (induction L fas m rule: pack_args.induct) (fastforce simp: bind_eq_Some_conv dest: store_stored split: if_splits)+

lemma pack_args_keeps:
  assumes "pack_args L fas m = Some m'" "wf_layout L" "f \<notin> fst ` set fas" "holds m L f a"
  shows "holds m' L f a"
  using assms
proof (induction L fas m rule: pack_args.induct)
  case (2 L g b fas m)
  obtain i n m1 where g: "member_at L g = Some (i, n)" "arg_fits n b" "store m i (arg_bytes n b) = Some m1" "pack_args L fas m1 = Some m'"
    using "2.prems"(1) by (auto simp: bind_eq_Some_conv split: if_splits)
  obtain j k where f: "member_at L f = Some (j, k)" "arg_fits k a" "ld m j (length (arg_bytes k a)) = Some (arg_bytes k a)"
    using "2.prems"(4) by (auto simp: holds_def split: option.splits)
  have "i + n \<le> j \<or> j + k \<le> i" using "2.prems"(2,3) f(1) g(1) by (intro member_disjoint) auto
  then have "j + length (arg_bytes k a) \<le> i \<or> i + length (arg_bytes n b) \<le> j"
    using arg_bytes_length [OF f(2)] arg_bytes_length [OF g(2)] by linarith
  then have "holds m1 L f a" using ld_st_other [OF g(3)] f by (simp add: holds_def)
  then show ?case using "2.IH" [OF g(1) refl g(2,3,4)] "2.prems" by auto
qed simp

lemma pack_args_holds:
  "pack_args L fas m = Some m' \<Longrightarrow> wf_layout L \<Longrightarrow> distinct (map fst fas) \<Longrightarrow> \<forall>(f, a) \<in> set fas. holds m' L f a"
proof (induction L fas m rule: pack_args.induct)
  case (2 L g b fas m)
  obtain i n m1 where g: "member_at L g = Some (i, n)" "arg_fits n b" "store m i (arg_bytes n b) = Some m1" "pack_args L fas m1 = Some m'"
    using "2.prems"(1) by (auto simp: bind_eq_Some_conv split: if_splits)
  have "holds m1 L g b" using ld_st_same [OF g(3)] g(1,2) by (simp add: holds_def)
  then have "holds m' L g b" using "2.prems"(2,3) by (intro pack_args_keeps [OF g(4)]) auto
  then show ?case using "2.IH" [OF g(1) refl g(2,3,4)] "2.prems" by auto
qed simp

section \<open>Reading a request\<close>

lemma ld_append: "ld m i n = Some bs \<Longrightarrow> ld (m @ m') i n = Some bs"
  by (auto simp: ld_def mem_read_def bind_eq_Some_conv split: if_splits)

lemma holds_append: "holds m L f a \<Longrightarrow> holds (m @ m') L f a"
  by (auto simp: holds_def ld_append split: option.splits)

lemma stored_bytes: "None \<notin> set m \<Longrightarrow> map Some (map the m) = m"
  by (induction m) auto

lemma le_nat_signed: "- (2 ^ (8 * n - 1)) \<le> v \<Longrightarrow> v < 2 ^ (8 * n - 1) \<Longrightarrow> 0 < n \<Longrightarrow>
    int (le_nat (le_bytes n (nat (v mod 2 ^ (8 * n))))) = (if 0 \<le> v then v else v + 2 ^ (8 * n))"
proof -
  assume v: "- (2 ^ (8 * n - 1)) \<le> v" "v < 2 ^ (8 * n - 1)" "0 < n"
  have p: "(2 :: int) ^ (8 * n) = 2 * 2 ^ (8 * n - 1)" using v(3) by (metis One_nat_def Suc_pred mult_pos_pos power_Suc zero_less_numeral)
  have "nat (v mod 2 ^ (8 * n)) < 256 ^ n"
    by (simp add: nat_less_iff power_mult [symmetric] flip: of_nat_less_iff) (simp add: power_mult)
  then have "int (le_nat (le_bytes n (nat (v mod 2 ^ (8 * n))))) = v mod 2 ^ (8 * n)" by (simp add: le_nat_bytes)
  also have "\<dots> = (if 0 \<le> v then v else v + 2 ^ (8 * n))"
  proof (cases "0 \<le> v")
    case True
    then show ?thesis using v p by (simp add: mod_pos_pos_trivial)
  next
    case False
    have "v mod 2 ^ (8 * n) = (v + 2 ^ (8 * n)) mod 2 ^ (8 * n)" by simp
    also have "\<dots> = v + 2 ^ (8 * n)" using False v p by (intro mod_pos_pos_trivial) auto
    finally show ?thesis using False by simp
  qed
  finally show ?thesis .
qed

lemma get_signed_holds:
  assumes "holds m L f (Signed v)" "member_at L f = Some (i, n)" "0 < n"
  obtains k where "get_fld L f m = Some k" "int k = (if 0 \<le> v then v else v + 2 ^ (8 * n))" "- (2 ^ (8 * n - 1)) \<le> v" "v < 2 ^ (8 * n - 1)"
proof
  have h: "- (2 ^ (8 * n - 1)) \<le> v" "v < 2 ^ (8 * n - 1)" "ld m i n = Some (le_bytes n (nat (v mod 2 ^ (8 * n))))"
    using assms(1,2) by (simp_all add: holds_def)
  show "get_fld L f m = Some (le_nat (le_bytes n (nat (v mod 2 ^ (8 * n)))))" using assms(2) h(3) by (simp add: get_fld_def)
  show "int (le_nat (le_bytes n (nat (v mod 2 ^ (8 * n))))) = (if 0 \<le> v then v else v + 2 ^ (8 * n))"
    by (rule le_nat_signed [OF h(1,2) assms(3)])
qed (use assms(1,2) in \<open>simp_all add: holds_def\<close>)

lemma get_int_holds: "holds m L f (Signed v) \<Longrightarrow> member_at L f = Some (i, 4) \<Longrightarrow> get_int L f m = Some v"
  by (erule get_signed_holds) (auto simp: get_int_def int32_def split: if_splits)

lemma get_long_holds: "holds m L f (Signed v) \<Longrightarrow> member_at L f = Some (i, 8) \<Longrightarrow> get_long L f m = Some v"
  by (erule get_signed_holds) (auto simp: get_long_def split: if_splits)

lemma get_fld_holds: "holds m L f (Unsigned k) \<Longrightarrow> get_fld L f m = Some k"
  by (auto simp: holds_def get_fld_def le_nat_bytes power_mult split: option.splits)

lemma str_of_text: "c_string s \<Longrightarrow> str_of (map Some s @ Some 0 # m) = Some s"
  by (induction s) (auto simp: c_string_def)

lemma get_str_holds:
  assumes "holds m L f (Text s)"
  shows "get_str L f m = Some s"
proof -
  obtain i n where i: "member_at L f = Some (i, n)" "c_string s" "ld m i (length s + 1) = Some (s @ [0])"
    using assms by (auto simp: holds_def split: option.splits)
  have r: "i + (length s + 1) \<le> length m" "None \<notin> set (take (length s + 1) (drop i m))" "map the (take (length s + 1) (drop i m)) = s @ [0]"
    using i(3) by (auto simp: ld_def mem_read_def bind_eq_Some_conv split: if_splits)
  have "take (length s + 1) (drop i m) = map Some s @ [Some 0]" using r(3) stored_bytes [OF r(2)] by (metis list.simps(8,9) map_append)
  then have "drop i m = map Some s @ Some 0 # drop (length s + 1) (drop i m)"
    using append_take_drop_id [of "length s + 1" "drop i m"] by simp
  then show ?thesis using i(1) str_of_text [OF i(2)] by (simp add: get_str_def ld_str_def)
qed

lemma ld_part: "ld m i l = Some bs \<Longrightarrow> k + n \<le> l \<Longrightarrow> ld m (i + k) n = Some (take n (drop k bs))"
proof -
  assume a: "ld m i l = Some bs" "k + n \<le> l"
  then have b: "i + l \<le> length m" "None \<notin> set (take l (drop i m))" "bs = map the (take l (drop i m))"
    by (auto simp: ld_def mem_read_def bind_eq_Some_conv split: if_splits)
  have t: "take n (drop (i + k) m) = take n (drop k (take l (drop i m)))" using a(2) by (simp add: drop_take add.commute)
  then have "None \<notin> set (take n (drop (i + k) m))" using b(2) by (metis in_set_dropD in_set_takeD)
  then show ?thesis using a(2) b(1) unfolding b(3) by (simp add: ld_def mem_read_def t take_map drop_map)
qed

lemma get_bytes_holds: "holds m L f (Raw bs) \<Longrightarrow> k + n \<le> length bs \<Longrightarrow> get_bytes L f k n m = Some (take n (drop k bs))"
  by (auto simp: holds_def get_bytes_def ld_part split: option.splits)

section \<open>Marshalling\<close>

text \<open>
  The number of a call, its request structure, and what the members behind the trace number hold. The
  streams 1, 2 and 3 of the client are not addresses on the host, so a call on them is not among these.
\<close>

definition marshal_file :: "file_call \<Rightarrow> (nat \<times> layout \<times> (string \<times> arg) list) option" where
  "marshal_file c = (case c of
       C_open buf flags mode \<Rightarrow> Some (OPEN_ID, rpc_open_req, [(''flags'', Signed flags), (''mode'', Unsigned mode), (''buf'', Text buf)])
     | C_close fd \<Rightarrow> Some (CLOSE_ID, rpc_close_req, [(''fd'', Signed fd)])
     | C_write fd bs \<Rightarrow> Some (WRITE_ID, rpc_write_req, [(''fd'', Signed fd), (''count'', Unsigned (length bs)), (''buf'', Raw bs)])
     | C_lseek fd offset whence \<Rightarrow> Some (LSEEK_ID, rpc_lseek_req, [(''fd'', Signed fd), (''offset'', Signed offset), (''whence'', Signed whence)])
     | C_fcntl fd cmd arg \<Rightarrow> Some (FCNTL_ID, rpc_fcntl_req, [(''fd'', Signed fd), (''cmd'', Signed cmd), (''arg'', Unsigned arg)])
     | C_system buf \<Rightarrow> Some (SYSTEM_ID, rpc_system_req, [(''buf'', Text buf)])
     | C_access path mode \<Rightarrow> Some (ACCESS_ID, rpc_access_req, [(''mode'', Signed mode), (''pathname'', Text path)])
     | C_dup2 oldfd newfd \<Rightarrow> Some (DUP2_ID, rpc_dup2_req, [(''oldfd'', Signed oldfd), (''newfd'', Signed newfd)])
     | C_mkfifo path mode \<Rightarrow> Some (MKFIFO_ID, rpc_mkfifo_req, [(''mode'', Unsigned mode), (''pathname'', Text path)])
     | C_chmod path mode \<Rightarrow> Some (CHMOD_ID, rpc_chmod_req, [(''mode'', Unsigned mode), (''pathname'', Text path)])
     | C_chdir path \<Rightarrow> Some (CHDIR_ID, rpc_chdir_req, [(''buf'', Text path)])
     | C_mkdir path mode \<Rightarrow> Some (MKDIR_ID, rpc_mkdir_req, [(''mode'', Unsigned mode), (''pathname'', Text path)])
     | C_rmdir path \<Rightarrow> Some (RMDIR_ID, rpc_rmdir_req, [(''buf'', Text path)])
     | C_rename old new \<Rightarrow> Some (RENAME_ID, rpc_rename_req, [(''old'', Text old), (''new'', Text new)])
     | C_remove path \<Rightarrow> Some (REMOVE_ID, rpc_remove_req, [(''path'', Text path)])
     | C_mkstemp tmp \<Rightarrow> Some (MKSTMP_ID, rpc_mkstemp_req, [(''tmp'', Text tmp)])
     | _ \<Rightarrow> None)"

definition marshal_stdio :: "stdio_call \<Rightarrow> (nat \<times> layout \<times> (string \<times> arg) list) option" where
  "marshal_stdio c = (case c of
       C_fopen filename mode \<Rightarrow> Some (FOPEN_ID, rpc_fopen_req, [(''filename'', Text filename), (''mode'', Text mode)])
     | C_fclose f \<Rightarrow> if is_pty_fd f then None else
         Some (FCLOSE_ID, rpc_fclose_req, [(''fhandle'', Unsigned f)])
     | C_fwrite bs sz cnt f \<Rightarrow> if is_pty_fd f \<or> length bs \<noteq> sz * cnt then None else
         Some (FWRITE_ID, rpc_fwrite_req, [(''size'', Unsigned sz), (''count'', Unsigned cnt), (''fhandle'', Unsigned f), (''buf'', Raw bs)])
     | C_freopen filename mode f \<Rightarrow> if is_pty_fd f then None else
         Some (FREOPEN_ID, rpc_freopen_req, [(''filename'', Text filename), (''mode'', Text mode), (''fhandle'', Unsigned f)])
     | C_fputs str f \<Rightarrow> if is_pty_fd f then None else
         Some (FPUTS_ID, rpc_fputs_req, [(''fhandle'', Unsigned f), (''str'', Text str)])
     | C_feof f \<Rightarrow> if is_pty_fd f then None else
         Some (FEOF_ID, rpc_feof_req, [(''fhandle'', Unsigned f)])
     | C_getc f \<Rightarrow> if is_pty_fd f then None else
         Some (GETC_ID, rpc_getc_req, [(''fhandle'', Unsigned f)])
     | C_ferror f \<Rightarrow> if is_pty_fd f then None else
         Some (FERROR_ID, rpc_ferror_req, [(''fhandle'', Unsigned f)])
     | C_getc_unlocked f \<Rightarrow> if is_pty_fd f then None else
         Some (GETC_UNLOCK_ID, rpc_getc_unlocked_req, [(''fhandle'', Unsigned f)])
     | C_pclose f \<Rightarrow> if is_pty_fd f then None else
         Some (PCLOSE_ID, rpc_pclose_req, [(''fhandle'', Unsigned f)])
     | C_tmpfile \<Rightarrow> Some (TMPFILE_ID, rpc_tmpfile_req, [])
     | C_popen cmd mode \<Rightarrow> Some (POPEN_ID, rpc_popen_req, [(''cmd'', Text cmd), (''mode'', Text mode)])
     | C_ungetc ch f \<Rightarrow> if is_pty_fd f then None else
         Some (UNGETC_ID, rpc_ungetc_req, [(''c'', Signed ch), (''fhandle'', Unsigned f)])
     | C_fseeko f offset whence \<Rightarrow> if is_pty_fd f then None else
         Some (FSEEKO_ID, rpc_fseeko_req, [(''fhandle'', Unsigned f), (''offset'', Signed offset), (''whence'', Signed whence)])
     | C_ftello f \<Rightarrow> if is_pty_fd f then None else
         Some (FTELLO_ID, rpc_ftello_req, [(''fhandle'', Unsigned f)])
     | C_fseek f offset whence \<Rightarrow> if is_pty_fd f then None else
         Some (FSEEK_ID, rpc_fseeko_req, [(''fhandle'', Unsigned f), (''offset'', Signed offset), (''whence'', Signed whence)])
     | C_fflush f \<Rightarrow> if is_pty_fd f then None else
         Some (FFLUSH_ID, rpc_fflush_req, [(''fhandle'', Unsigned f)])
     | C_getwc f \<Rightarrow> if is_pty_fd f then None else
         Some (GETWC_ID, rpc_getwc_req, [(''fhandle'', Unsigned f)])
     | C_putwc wc f \<Rightarrow> if is_pty_fd f then None else
         Some (PUTWC_ID, rpc_putwc_req, [(''wc'', Signed wc), (''fhandle'', Unsigned f)])
     | C_putc ch f \<Rightarrow> if is_pty_fd f then None else
         Some (PUTC_ID, rpc_putc_req, [(''c'', Signed ch), (''fhandle'', Unsigned f)])
     | C_fdopen fd mode \<Rightarrow> Some (FDOPEN_ID, rpc_fdopen_req, [(''fd'', Signed fd), (''mode'', Text mode)])
     | C_fileno f \<Rightarrow> Some (FILENO_ID, rpc_fileno_req, [(''fhandle'', Unsigned f)])
     | C_putchar ch \<Rightarrow> Some (PUTCHAR_ID, rpc_putchar_req, [(''ch'', Signed ch)])
     | _ \<Rightarrow> None)"

definition marshal_sock :: "sock_call \<Rightarrow> (nat \<times> layout \<times> (string \<times> arg) list) option" where
  "marshal_sock c = (case c of
       C_bind fd addr \<Rightarrow> Some (BIND_ID, rpc_bind_req, [(''sockfd'', Signed fd), (''addrlen'', Unsigned (length addr)), (''addr_buf'', Raw addr)])
     | C_connect fd addr \<Rightarrow>
         Some (CONNECT_ID, rpc_connect_req, [(''sockfd'', Signed fd), (''addrlen'', Unsigned (length addr)), (''addr_buf'', Raw addr)])
     | C_listen fd backlog \<Rightarrow> Some (LISTEN_ID, rpc_listen_req, [(''sockfd'', Signed fd), (''backlog'', Signed backlog)])
     | C_send fd bs flags \<Rightarrow>
         Some (SEND_ID, rpc_send_req, [(''fd'', Signed fd), (''len'', Unsigned (length bs)), (''flags'', Signed flags), (''buf'', Raw bs)])
     | C_sendto fd bs flags addr \<Rightarrow>
         Some (SENDTO_ID, rpc_sendto_req, [(''fd'', Signed fd), (''len'', Unsigned (length bs)), (''flags'', Signed flags), (''addrlen'', Unsigned (length addr)), (''buf'', Raw (addr @ bs))])
     | C_setsockopt fd level optname v \<Rightarrow>
         Some (SETSOCKOPT_ID, rpc_setsockopt_req, [(''fd'', Signed fd), (''level'', Signed level), (''optname'', Signed optname), (''optlen'', Unsigned (length v)), (''optval'', Raw v)])
     | C_shutdown fd how \<Rightarrow> Some (SHUTDOWN_ID, rpc_shutdown_req, [(''fd'', Signed fd), (''how'', Signed how)])
     | C_socket domain kind protocol \<Rightarrow>
         Some (SOCKET_ID, rpc_socket_req, [(''domain'', Signed domain), (''type'', Signed kind), (''protocol'', Signed protocol)])
     | _ \<Rightarrow> None)"

definition marshal :: "call \<Rightarrow> (nat \<times> layout \<times> (string \<times> arg) list) option" where
  "marshal c = (case c of File f \<Rightarrow> marshal_file f | Stdio f \<Rightarrow> marshal_stdio f | Sock f \<Rightarrow> marshal_sock f)"

definition client_msg :: "nat \<Rightarrow> call \<Rightarrow> u8 list option" where
  "client_msg trace c = do {
     (fid, L, fas) \<leftarrow> marshal c;
     m \<leftarrow> pack_args L ((''func_id'', Unsigned fid) # (''trace_id'', Unsigned trace) # fas) (zeroed L);
     Some (map the m) }"

section \<open>The call of a request\<close>

lemma req_members:
  "member_at rpc_access_req ''mode'' = Some (12, 4)" "member_at rpc_bind_req ''sockfd'' = Some (12, 4)"
  "member_at rpc_close_req ''fd'' = Some (12, 4)" "member_at rpc_dup2_req ''newfd'' = Some (16, 4)"
  "member_at rpc_dup2_req ''oldfd'' = Some (12, 4)" "member_at rpc_fcntl_req ''cmd'' = Some (16, 4)"
  "member_at rpc_fcntl_req ''fd'' = Some (12, 4)" "member_at rpc_fdopen_req ''fd'' = Some (12, 4)"
  "member_at rpc_fseeko_req ''offset'' = Some (24, 8)" "member_at rpc_fseeko_req ''whence'' = Some (32, 4)"
  "member_at rpc_listen_req ''backlog'' = Some (16, 4)" "member_at rpc_listen_req ''sockfd'' = Some (12, 4)"
  "member_at rpc_lseek_req ''fd'' = Some (12, 4)" "member_at rpc_lseek_req ''offset'' = Some (16, 8)"
  "member_at rpc_lseek_req ''whence'' = Some (24, 4)" "member_at rpc_open_req ''flags'' = Some (12, 4)"
  "member_at rpc_putchar_req ''ch'' = Some (12, 4)" "member_at rpc_putwc_req ''wc'' = Some (12, 4)"
  "member_at rpc_send_req ''fd'' = Some (12, 4)" "member_at rpc_send_req ''flags'' = Some (24, 4)"
  "member_at rpc_sendto_req ''fd'' = Some (12, 4)" "member_at rpc_sendto_req ''flags'' = Some (24, 4)"
  "member_at rpc_setsockopt_req ''fd'' = Some (12, 4)" "member_at rpc_setsockopt_req ''level'' = Some (16, 4)"
  "member_at rpc_setsockopt_req ''optname'' = Some (20, 4)" "member_at rpc_shutdown_req ''fd'' = Some (12, 4)"
  "member_at rpc_shutdown_req ''how'' = Some (16, 4)" "member_at rpc_socket_req ''domain'' = Some (12, 4)"
  "member_at rpc_socket_req ''protocol'' = Some (20, 4)" "member_at rpc_socket_req ''type'' = Some (16, 4)"
  "member_at rpc_ungetc_req ''c'' = Some (12, 4)" "member_at rpc_write_req ''fd'' = Some (12, 4)"
  by (simp_all add: layouts member_at_def pad_to_def)

lemma served:
  "find_service service_table OPEN_ID = Some rpmsg_handle_open" "find_service service_table CLOSE_ID = Some rpmsg_handle_close"
  "find_service service_table WRITE_ID = Some rpmsg_handle_write" "find_service service_table LSEEK_ID = Some rpmsg_handle_lseek"
  "find_service service_table FCNTL_ID = Some rpmsg_handle_fcntl" "find_service service_table SYSTEM_ID = Some rpmsg_handle_system"
  "find_service service_table ACCESS_ID = Some rpmsg_handle_access" "find_service service_table DUP2_ID = Some rpmsg_handle_dup2"
  "find_service service_table MKFIFO_ID = Some rpmsg_handle_mkfifo" "find_service service_table CHMOD_ID = Some rpmsg_handle_chmod"
  "find_service service_table CHDIR_ID = Some rpmsg_handle_chdir" "find_service service_table MKDIR_ID = Some rpmsg_handle_mkdir"
  "find_service service_table RMDIR_ID = Some rpmsg_handle_rmdir" "find_service service_table RENAME_ID = Some rpmsg_handle_rename"
  "find_service service_table REMOVE_ID = Some rpmsg_handle_remove" "find_service service_table MKSTMP_ID = Some rpmsg_handle_mkstemp"
  "find_service service_table FOPEN_ID = Some rpmsg_handle_fopen" "find_service service_table FCLOSE_ID = Some rpmsg_handle_fclose"
  "find_service service_table FWRITE_ID = Some rpmsg_handle_fwrite" "find_service service_table FREOPEN_ID = Some rpmsg_handle_freopen"
  "find_service service_table FPUTS_ID = Some rpmsg_handle_fputs" "find_service service_table FEOF_ID = Some rpmsg_handle_feof"
  "find_service service_table GETC_ID = Some rpmsg_handle_getc" "find_service service_table FERROR_ID = Some rpmsg_handle_ferror"
  "find_service service_table GETC_UNLOCK_ID = Some rpmsg_handle_getc_unlocked" "find_service service_table PCLOSE_ID = Some rpmsg_handle_pclose"
  "find_service service_table TMPFILE_ID = Some rpmsg_handle_tmpfile" "find_service service_table POPEN_ID = Some rpmsg_handle_popen"
  "find_service service_table UNGETC_ID = Some rpmsg_handle_ungetc" "find_service service_table FSEEKO_ID = Some rpmsg_handle_fseeko"
  "find_service service_table FTELLO_ID = Some rpmsg_handle_ftello" "find_service service_table FSEEK_ID = Some rpmsg_handle_fseek"
  "find_service service_table FFLUSH_ID = Some rpmsg_handle_fflush" "find_service service_table GETWC_ID = Some rpmsg_handle_getwc"
  "find_service service_table PUTWC_ID = Some rpmsg_handle_putwc" "find_service service_table PUTC_ID = Some rpmsg_handle_putc"
  "find_service service_table FDOPEN_ID = Some rpmsg_handle_fdopen" "find_service service_table FILENO_ID = Some rpmsg_handle_fileno"
  "find_service service_table PUTCHAR_ID = Some rpmsg_handle_putchar" "find_service service_table BIND_ID = Some rpmsg_handle_bind"
  "find_service service_table CONNECT_ID = Some rpmsg_handle_connect" "find_service service_table LISTEN_ID = Some rpmsg_handle_listen"
  "find_service service_table SEND_ID = Some rpmsg_handle_send" "find_service service_table SENDTO_ID = Some rpmsg_handle_sendto"
  "find_service service_table SETSOCKOPT_ID = Some rpmsg_handle_setsockopt" "find_service service_table SHUTDOWN_ID = Some rpmsg_handle_shutdown"
  "find_service service_table SOCKET_ID = Some rpmsg_handle_socket"
  by (simp_all add: service_table_def)

lemma forwarded_at:
  "map_of forwarded OPEN_ID = Some (rpc_open_resp, ''ret'')" "map_of forwarded CLOSE_ID = Some (rpc_close_resp, ''ret'')"
  "map_of forwarded WRITE_ID = Some (rpc_write_resp, ''ret'')" "map_of forwarded LSEEK_ID = Some (rpc_lseek_resp, ''ret'')"
  "map_of forwarded FCNTL_ID = Some (rpc_fcntl_resp, ''ret'')" "map_of forwarded SYSTEM_ID = Some (rpc_system_resp, ''ret'')"
  "map_of forwarded ACCESS_ID = Some (rpc_access_resp, ''ret'')" "map_of forwarded DUP2_ID = Some (rpc_dup2_resp, ''ret'')"
  "map_of forwarded MKFIFO_ID = Some (rpc_mkfifo_resp, ''ret'')" "map_of forwarded CHMOD_ID = Some (rpc_chmod_resp, ''ret'')"
  "map_of forwarded CHDIR_ID = Some (rpc_chdir_resp, ''ret'')" "map_of forwarded MKDIR_ID = Some (rpc_mkdir_resp, ''ret'')"
  "map_of forwarded RMDIR_ID = Some (rpc_rmdir_resp, ''ret'')" "map_of forwarded RENAME_ID = Some (rpc_common_resp, ''ret'')"
  "map_of forwarded REMOVE_ID = Some (rpc_common_resp, ''ret'')" "map_of forwarded MKSTMP_ID = Some (rpc_common_resp, ''ret'')"
  "map_of forwarded FOPEN_ID = Some (rpc_fcommon_resp, ''fhandle'')" "map_of forwarded FCLOSE_ID = Some (rpc_common_resp, ''ret'')"
  "map_of forwarded FWRITE_ID = Some (rpc_fwrite_resp, ''ret'')" "map_of forwarded FREOPEN_ID = Some (rpc_fcommon_resp, ''fhandle'')"
  "map_of forwarded FPUTS_ID = Some (rpc_common_resp, ''ret'')" "map_of forwarded FEOF_ID = Some (rpc_common_resp, ''ret'')"
  "map_of forwarded GETC_ID = Some (rpc_common_resp, ''ret'')" "map_of forwarded FERROR_ID = Some (rpc_common_resp, ''ret'')"
  "map_of forwarded GETC_UNLOCK_ID = Some (rpc_common_resp, ''ret'')" "map_of forwarded PCLOSE_ID = Some (rpc_common_resp, ''ret'')"
  "map_of forwarded TMPFILE_ID = Some (rpc_fcommon_resp, ''fhandle'')" "map_of forwarded POPEN_ID = Some (rpc_fcommon_resp, ''fhandle'')"
  "map_of forwarded UNGETC_ID = Some (rpc_common_resp, ''ret'')" "map_of forwarded FSEEKO_ID = Some (rpc_common_resp, ''ret'')"
  "map_of forwarded FTELLO_ID = Some (rpc_ftello_resp, ''ret'')" "map_of forwarded FSEEK_ID = Some (rpc_common_resp, ''ret'')"
  "map_of forwarded FFLUSH_ID = Some (rpc_fflush_resp, ''ret'')" "map_of forwarded GETWC_ID = Some (rpc_getwc_resp, ''ret'')"
  "map_of forwarded PUTWC_ID = Some (rpc_putwc_resp, ''ret'')" "map_of forwarded PUTC_ID = Some (rpc_putc_resp, ''ret'')"
  "map_of forwarded FDOPEN_ID = Some (rpc_fdopen_resp, ''fhandle'')" "map_of forwarded FILENO_ID = Some (rpc_fileno_resp, ''ret'')"
  "map_of forwarded PUTCHAR_ID = Some (rpc_putchar_resp, ''ret'')" "map_of forwarded BIND_ID = Some (rpc_bind_resp, ''ret'')"
  "map_of forwarded CONNECT_ID = Some (rpc_connect_resp, ''ret'')" "map_of forwarded LISTEN_ID = Some (rpc_listen_resp, ''ret'')"
  "map_of forwarded SEND_ID = Some (rpc_send_resp, ''ret'')" "map_of forwarded SENDTO_ID = Some (rpc_sendto_resp, ''ret'')"
  "map_of forwarded SETSOCKOPT_ID = Some (rpc_setsockopt_resp, ''ret'')" "map_of forwarded SHUTDOWN_ID = Some (rpc_shutdown_resp, ''ret'')"
  "map_of forwarded SOCKET_ID = Some (rpc_socket_resp, ''ret'')"
  by (simp_all add: forwarded_def)

lemmas file_handlers =
  rpmsg_handle_open_def rpmsg_handle_close_def rpmsg_handle_write_def rpmsg_handle_lseek_def rpmsg_handle_fcntl_def
  rpmsg_handle_system_def rpmsg_handle_access_def rpmsg_handle_dup2_def rpmsg_handle_mkfifo_def rpmsg_handle_chmod_def
  rpmsg_handle_chdir_def rpmsg_handle_mkdir_def rpmsg_handle_rmdir_def rpmsg_handle_rename_def rpmsg_handle_remove_def
  rpmsg_handle_mkstemp_def

lemmas stdio_handlers =
  rpmsg_handle_fopen_def rpmsg_handle_fclose_def rpmsg_handle_fwrite_def rpmsg_handle_freopen_def rpmsg_handle_fputs_def
  rpmsg_handle_feof_def rpmsg_handle_getc_def rpmsg_handle_ferror_def rpmsg_handle_getc_unlocked_def rpmsg_handle_pclose_def
  rpmsg_handle_tmpfile_def rpmsg_handle_popen_def rpmsg_handle_ungetc_def rpmsg_handle_fseeko_def rpmsg_handle_ftello_def
  rpmsg_handle_fseek_def rpmsg_handle_fflush_def rpmsg_handle_getwc_def rpmsg_handle_putwc_def rpmsg_handle_putc_def
  rpmsg_handle_fdopen_def rpmsg_handle_fileno_def rpmsg_handle_putchar_def

lemmas sock_handlers =
  rpmsg_handle_bind_def rpmsg_handle_connect_def rpmsg_handle_listen_def rpmsg_handle_send_def rpmsg_handle_sendto_def
  rpmsg_handle_setsockopt_def rpmsg_handle_shutdown_def rpmsg_handle_socket_def

lemmas reads = get_int_holds get_long_holds get_fld_holds get_str_holds get_bytes_holds [where k = 0]

text \<open>The handler for a call makes that call when the request holds its arguments.\<close>

definition runs :: "nat \<Rightarrow> layout \<Rightarrow> obj \<Rightarrow> call \<Rightarrow> 'w handler \<Rightarrow> layout \<Rightarrow> string \<Rightarrow> bool" where
  "runs fid L req c h RS f \<longleftrightarrow> (\<forall>env sys s. h env sys req s = forward env sys fid L RS f (uninit RS) req c s
     \<or> h env sys req s = forward env sys fid L RS f (zeroed RS) req c s)"

definition handled :: "nat \<Rightarrow> layout \<Rightarrow> obj \<Rightarrow> call \<Rightarrow> 'w itself \<Rightarrow> bool" where
  "handled fid L req c T \<longleftrightarrow> (case (find_service (service_table :: (nat \<times> 'w handler) list) fid, map_of forwarded fid) of
       (Some h, Some (RS, f)) \<Rightarrow> runs fid L req c h RS f
     | _ \<Rightarrow> False)"

lemma handled_file:
  assumes "marshal_file c = Some (fid, L, fas)" "\<forall>(f, a) \<in> set fas. holds req L f a"
  shows "handled fid L req (File c) TYPE('w)"
proof -
  note d = marshal_file_def handled_def runs_def served forwarded_at req_members reads
  show ?thesis using assms by (cases c) (auto simp: d file_handlers simp del: One_nat_def)
qed

lemma handled_sock:
  assumes "marshal_sock c = Some (fid, L, fas)" "\<forall>(f, a) \<in> set fas. holds req L f a"
  shows "handled fid L req (Sock c) TYPE('w)"
proof -
  note d = marshal_sock_def handled_def runs_def served forwarded_at req_members reads
  show ?thesis using assms by (cases c) (auto simp: d sock_handlers get_bytes_holds)
qed

lemma handle2file_address: "\<not> is_pty_fd f \<Longrightarrow> handle2file fp f = f"
  by (simp add: is_pty_fd_def handle2file_def)

lemma handled_stdio:
  assumes "marshal_stdio c = Some (fid, L, fas)" "\<forall>(f, a) \<in> set fas. holds req L f a"
  shows "handled fid L req (Stdio c) TYPE('w)"
proof -
  note d = marshal_stdio_def handled_def runs_def served forwarded_at req_members reads handle2file_address
  show ?thesis using assms by (cases c) (auto simp: d stdio_handlers split: if_splits)
qed

lemma marshal_handled:
  "marshal c = Some (fid, L, fas) \<Longrightarrow> \<forall>(f, a) \<in> set fas. holds req L f a \<Longrightarrow> handled fid L req c TYPE('w)"
  by (cases c) (auto simp: marshal_def intro: handled_file handled_stdio handled_sock)

text \<open>The request structures: the number of the call and the trace number first, and small enough for the receive buffer.\<close>

definition sent_requests :: "layout list" where
  "sent_requests =
     [rpc_open_req, rpc_close_req, rpc_write_req, rpc_lseek_req, rpc_fcntl_req, rpc_unlink_req,
      rpc_access_req, rpc_dup2_req, rpc_chmod_req, rpc_mkdir_req, rpc_rename_req, rpc_remove_req,
      rpc_mkstemp_req, rpc_fopen_req, rpc_fcommon_req, rpc_fwrite_req, rpc_freopen_req, rpc_fputs_req,
      rpc_tmpfile_req, rpc_popen_req, rpc_ungetc_req, rpc_fseeko_req, rpc_putwc_req, rpc_fdopen_req,
      rpc_putchar_req, rpc_bind_req, rpc_listen_req, rpc_send_req, rpc_sendto_req, rpc_setsockopt_req,
      rpc_shutdown_req, rpc_socket_req]"

lemma sent_requests_fit: "list_all (\<lambda>L. wf_layout L \<and> sizeof L \<le> RPC_BUFFER_SIZE \<and> member_at L ''func_id'' = Some (0, 8)) sent_requests"
  by code_simp

definition marshal_shape :: "nat \<Rightarrow> layout \<Rightarrow> (string \<times> arg) list \<Rightarrow> bool" where
  "marshal_shape fid L fas \<longleftrightarrow>
     L \<in> set sent_requests \<and> req_layout L \<and> distinct (''func_id'' # ''trace_id'' # map fst fas) \<and> fid < 2 ^ 32"

lemma marshal_shapes: "marshal c = Some (fid, L, fas) \<Longrightarrow> marshal_shape fid L fas"
proof (cases c)
  case (File f)
  assume "marshal c = Some (fid, L, fas)"
  then show ?thesis unfolding File marshal_def call.case
    by (cases f) (auto simp: marshal_file_def marshal_shape_def sent_requests_def)
next
  case (Stdio f)
  assume "marshal c = Some (fid, L, fas)"
  then show ?thesis unfolding Stdio marshal_def call.case
    by (cases f) (auto simp: marshal_stdio_def marshal_shape_def sent_requests_def split: if_splits)
next
  case (Sock f)
  assume "marshal c = Some (fid, L, fas)"
  then show ?thesis unfolding Sock marshal_def call.case
    by (cases f) (auto simp: marshal_sock_def marshal_shape_def sent_requests_def)
qed

text \<open>The message in a buffer, with anything behind it.\<close>

lemma client_msg_request:
  assumes "client_msg trace c = Some data" "marshal c = Some (fid, L, fas)"
  shows "length data \<le> RPC_BUFFER_SIZE" "call_id data = Some fid" "trace_of (map Some data @ pad) = Some trace"
    "\<forall>(f, a) \<in> set fas. holds (map Some data @ pad) L f a"
proof -
  have sh: "wf_layout L" "sizeof L \<le> RPC_BUFFER_SIZE" "member_at L ''func_id'' = Some (0, 8)" "req_layout L"
      "distinct (''func_id'' # ''trace_id'' # map fst fas)" "fid < 2 ^ 32"
    using marshal_shapes [OF assms(2)] sent_requests_fit by (auto simp: marshal_shape_def list_all_iff)
  obtain m where m: "pack_args L ((''func_id'', Unsigned fid) # (''trace_id'', Unsigned trace) # fas) (zeroed L) = Some m" "data = map the m"
    using assms by (auto simp: client_msg_def bind_eq_Some_conv)
  have l: "length data = sizeof L" using pack_args_length [OF m(1)] m(2) by simp
  have "None \<notin> set m" using pack_args_stored [OF m(1)] by (simp add: zeroed_def)
  then have d: "map Some data = m" unfolding m(2) by (rule stored_bytes)
  have h: "holds (map Some data @ pad) L f a" if "(f, a) \<in> set ((''func_id'', Unsigned fid) # (''trace_id'', Unsigned trace) # fas)" for f a pad
    using pack_args_holds [OF m(1) sh(1)] sh(5) that holds_append unfolding d by fastforce
  show "length data \<le> RPC_BUFFER_SIZE" using l sh(2) by simp
  show "trace_of (map Some data @ pad) = Some trace"
    using get_fld_holds [OF h [of "''trace_id''" "Unsigned trace"]] get_trace [OF sh(4)] by simp
  show "\<forall>(f, a) \<in> set fas. holds (map Some data @ pad) L f a" using h by auto
  have e: "8 \<le> length data" using member_inside [OF sh(1,3)] l by simp
  then have "ld (map Some data) 0 8 = Some (take 8 data)" by (auto simp: ld_def mem_read_def take_map comp_def)
  moreover have "get_fld L ''func_id'' (map Some data @ []) = Some fid" by (rule get_fld_holds [OF h]) simp
  ultimately show "call_id data = Some fid" using e sh(3) by (simp add: call_id_def get_fld_def)
qed

lemma client_call_handled:
  assumes "client_msg trace c = Some data"
  obtains fid L fas RS f and h :: "'w handler" where "marshal c = Some (fid, L, fas)" "map_of forwarded fid = Some (RS, f)" "req_layout L"
    "fid mod 2 ^ 32 = fid" "find_service service_table fid = Some h"
    "\<forall>env sys s pad. \<exists>resp. length resp = sizeof RS
       \<and> h env sys (map Some data @ pad) s = forward env sys fid L RS f resp (map Some data @ pad) c s"
proof -
  obtain fid L fas where m: "marshal c = Some (fid, L, fas)" using assms by (auto simp: client_msg_def bind_eq_Some_conv)
  have sh: "req_layout L" "fid < 2 ^ 32" using marshal_shapes [OF m] by (simp_all add: marshal_shape_def)
  have hd: "handled fid L (map Some data @ pad) c TYPE('w)" for pad
    using marshal_handled [OF m client_msg_request(4) [OF assms m]] .
  obtain h RS f where h: "find_service (service_table :: (nat \<times> 'w handler) list) fid = Some h" "map_of forwarded fid = Some (RS, f)"
    using hd [of "[]"] by (auto simp: handled_def split: option.splits)
  have "\<exists>resp. length resp = sizeof RS \<and> h env sys (map Some data @ pad) s = forward env sys fid L RS f resp (map Some data @ pad) c s"
    for env pad s and sys :: "'w os"
    using hd [of pad] h by (simp add: handled_def runs_def) (metis length_uninit)
  then show ?thesis by (intro that [OF m h(2) sh(1) mod_less [OF sh(2)] h(1)] allI)
qed

section \<open>Dispatch\<close>

lemma find_service_None: "find_service services fid = None \<longleftrightarrow> fid \<notin> set (map fst services)"
  by (induction services fid rule: find_service.induct) auto

lemma responses_served: "resp_of fid = Some L \<Longrightarrow> \<exists>h. find_service (service_table :: (nat \<times> 'w handler) list) fid = Some h"
proof -
  assume "resp_of fid = Some L"
  then have r: "fid \<in> set (map fst responses)" unfolding resp_of_def by (metis domI dom_map_of_conv_image_fst image_set)
  have "set (map fst responses) \<subseteq> set (map fst (service_table :: (nat \<times> 'w handler) list))"
    unfolding responses_def service_table_def by simp
  then have "find_service (service_table :: (nat \<times> 'w handler) list) fid \<noteq> None" using r unfolding find_service_None by blast
  then show ?thesis by simp
qed

lemma forwarded_members:
  "list_all (\<lambda>(fid, L, f). fid < 2 ^ 32 \<and> resp_layout L \<and> 8 \<le> sizeof L \<and> sizeof L \<le> PROXY_MAX_BUF_LEN \<and> f \<noteq> ''trace_id'' \<and> f \<noteq> ''errnum''
     \<and> (case member_at L f of None \<Rightarrow> False | Some (i, n) \<Rightarrow> i + n \<le> sizeof L)) forwarded"
  by (simp add: forwarded_def)

lemma server_cb_found:
  assumes "call_id data = Some fid" "length data \<le> RPC_BUFFER_SIZE" "find_service service_table (fid mod 2 ^ 32) = Some h"
  shows "rpmsg_rpc_server_cb env sys data s = map_option (\<lambda>(r, rp, s). (0, rp, s)) (h env sys (recv_buf data) s)"
  using assms by (cases "h env sys (recv_buf data) s") (auto simp: rpmsg_rpc_server_cb_def)

lemma forward_forwarded:
  assumes "(fid, RS, f) \<in> set forwarded" "req_layout RQ" "length resp = sizeof RS" "trace_of req = Some trace"
  shows "case sys (h_world s) c of
      None \<Rightarrow> forward env sys fid RQ RS f resp req c s = None
    | Some (res, w) \<Rightarrow> \<exists>x p. forward env sys fid RQ RS f resp req c s = Some (x, Some p, \<lparr>h_errno = 0, h_world = w\<rparr>)
        \<and> rp_id p = fid \<and> rp_status p = re_ok env \<and> carries RS f trace (errno_after res (h_errno s)) (sr_ret res) p"
proof (cases "sys (h_world s) c")
  case None
  then show ?thesis by (simp add: forward_def sysc_def)
next
  case (Some rw)
  obtain res w where rw: "rw = (res, w)" by (cases rw)
  obtain i n where m: "fid < 2 ^ 32" "resp_layout RS" "8 \<le> sizeof RS" "sizeof RS \<le> PROXY_MAX_BUF_LEN" "f \<noteq> ''trace_id''" "f \<noteq> ''errnum''"
      "member_at RS f = Some (i, n)" "i + n \<le> sizeof RS"
    using bspec [OF forwarded_members [unfolded list_all_iff] assms(1)] unfolding split by (auto split: option.splits)
  show ?thesis unfolding Some rw option.case prod.case
    by (rule forward_Some [OF assms(2) m(2) assms(3) m(4,3,7,8,5,6,1) assms(4), where sys = sys and s = s and c = c, OF Some [unfolded rw]])
qed

lemma client_call_served:
  fixes sys :: "'w os"
  assumes "client_msg trace c = Some data"
  obtains fid L fas RS f resp where "marshal c = Some (fid, L, fas)" "map_of forwarded fid = Some (RS, f)" "req_layout L"
    "length resp = sizeof RS" "trace_of (recv_buf data) = Some trace"
    "rpmsg_rpc_server_cb env sys data s = map_option (\<lambda>(r, rp, s). (0, rp, s)) (forward env sys fid L RS f resp (recv_buf data) c s)"
proof -
  obtain fid L fas RS f and h :: "'w handler" where h: "marshal c = Some (fid, L, fas)" "map_of forwarded fid = Some (RS, f)" "req_layout L"
      "fid mod 2 ^ 32 = fid" "find_service service_table fid = Some h"
      "\<forall>env sys s pad. \<exists>resp. length resp = sizeof RS
         \<and> h env sys (map Some data @ pad) s = forward env sys fid L RS f resp (map Some data @ pad) c s"
    by (rule client_call_handled [OF assms])
  note r = client_msg_request [OF assms h(1)]
  have "find_service (service_table :: (nat \<times> 'w handler) list) (fid mod 2 ^ 32) = Some h" unfolding h(4) by (rule h(5))
  note cb = server_cb_found [OF r(2,1) this]
  obtain resp where resp: "length resp = sizeof RS" "h env sys (recv_buf data) s = forward env sys fid L RS f resp (recv_buf data) c s"
    using h(6) [rule_format, of env sys "replicate (RPC_BUFFER_SIZE - length data) None" s] unfolding recv_buf_def by blast
  show ?thesis using that [OF h(1-3) resp(1) r(3) [of "replicate (RPC_BUFFER_SIZE - length data) None", folded recv_buf_def]]
    unfolding cb resp(2) by blast
qed

section \<open>Workers\<close>

text \<open>
  With \<open>MULTI_WORKERS\<close> the callback queues the request, in a block of exactly its length, and a worker thread runs
  the handler on what it has taken from the queue.
\<close>

definition worker_serve :: "rpc_env \<Rightarrow> 'w os \<Rightarrow> ('w handler, 'i) req_t \<Rightarrow> 'w host \<Rightarrow> (reply option \<times> 'w host) option" where
  "worker_serve env sys req s =
     (case rq_service req of
        None \<Rightarrow> Some (None, s)
      | Some cb_function \<Rightarrow> do { (_, rp, s) \<leftarrow> cb_function env sys (map Some (rq_data req)) s; Some (rp, s) })"

lemma workers_cb_found:
  assumes "call_id data = Some fid" "length data \<le> RPC_BUFFER_SIZE" "find_service service_table (fid mod 2 ^ 32) = Some h"
    and "rq_wf q" "rq_count q + 1 < rq_size q"
  shows "\<exists>q'. rpmsg_rpc_server_cb_workers env no_mem True True ept data q = Some (0, None, q') \<and> rq_wf q'
    \<and> rq_contents q' = rq_contents q @ [Some \<lparr>rq_data = data, rq_service = Some h, rq_inst = service_table, rq_priv = ept\<rparr>]"
proof -
  let ?r = "\<lparr>rq_data = data, rq_service = Some h, rq_inst = service_table, rq_priv = ept\<rparr>"
  obtain err sig q' where e: "enqueue q (Some ?r) = (err, sig, q')" by (metis prod_cases3)
  have "rq_wf q' \<and> rq_contents q' = rq_contents q @ [Some ?r]" using enqueue_ok [OF assms(4) e] assms(5) by simp
  moreover have "rpmsg_rpc_server_cb_workers env no_mem True True ept data q = Some (0, None, q')"
    using assms(1-3) e by (simp add: rpmsg_rpc_server_cb_workers_def enqueue_req_def build_req_def not_less)
  ultimately show ?thesis by blast
qed

section \<open>Properties\<close>

text \<open>
  C3: A call that a client OS makes is made on the host, once and with the same arguments. The client lays the
  arguments out in the request; the server decodes them, makes exactly that call, and answers with the number and the
  trace number of the request, the value that the call returned and the error number that it left. This holds for 47 calls on files,
  streams and sockets, for every host and every state of it; when the call itself has no defined behaviour, neither has the server.
\<close>

theorem rpc_runs_call:
  fixes sys :: "'w os"
  assumes "client_msg trace c = Some data"
  shows "\<exists>fid L fas RS f. marshal c = Some (fid, L, fas) \<and> map_of forwarded fid = Some (RS, f)
    \<and> (case sys (h_world s) c of
         None \<Rightarrow> rpmsg_rpc_server_cb env sys data s = None
       | Some (res, w) \<Rightarrow> \<exists>p. rpmsg_rpc_server_cb env sys data s = Some (0, Some p, \<lparr>h_errno = 0, h_world = w\<rparr>)
           \<and> rp_id p = fid \<and> rp_status p = re_ok env \<and> carries RS f trace (errno_after res (h_errno s)) (sr_ret res) p)"
proof -
  obtain fid L fas RS f resp where m: "marshal c = Some (fid, L, fas)" "map_of forwarded fid = Some (RS, f)"
      "req_layout L" "length resp = sizeof RS" "trace_of (recv_buf data) = Some trace"
      "rpmsg_rpc_server_cb env sys data s = map_option (\<lambda>(r, rp, s). (0, rp, s)) (forward env sys fid L RS f resp (recv_buf data) c s)"
    by (rule client_call_served [OF assms])
  show ?thesis
    using m(1,2) forward_forwarded [OF map_of_SomeD [OF m(2)] m(3-5), where sys = sys and s = s and c = c and env = env] unfolding m(6) by (auto split: option.splits)
qed

definition demo_res :: "int \<Rightarrow> int option \<Rightarrow> sysres" where
  "demo_res ret err = \<lparr>sr_ret = ret, sr_err = err, sr_outs = [], sr_len = None, sr_host = None, sr_ai = None, sr_names = None,
     sr_str = None, sr_stat = None\<rparr>"

definition demo_rpc_env :: rpc_env where
  "demo_rpc_env = \<lparr>re_tx = (\<lambda>p. int (length (rp_params p))), re_fp = 4096, re_ok = 0, re_invalid_id = 1, re_malloc = (\<lambda>k n. True)\<rparr>"

text \<open>A host on which only the descriptor 5 can be closed; closing it fails with \<open>EIO\<close>.\<close>

definition demo_os :: "nat os" where
  "demo_os w c = (if c = File (C_close 5) then Some (demo_res (- 1) (Some 5), w + 1) else None)"

definition demo_close :: "u8 list" where
  "demo_close = le_bytes 8 CLOSE_ID @ le_bytes 4 77 @ le_bytes 4 5"

lemma demo_close_msg: "client_msg 77 (File (C_close 5)) = Some demo_close"
  by (simp add: client_msg_def marshal_def marshal_file_def rpc_close_req_def member_at_def pad_to_def zeroed_def sizeof_def
      mem_write_def demo_close_def comp_def)

lemma demo_close_served:
  "\<exists>p. rpmsg_rpc_server_cb demo_rpc_env demo_os demo_close \<lparr>h_errno = 0, h_world = 0\<rparr> = Some (0, Some p, \<lparr>h_errno = 0, h_world = 1\<rparr>)"
proof -
  obtain fid L fas RS f resp where m: "map_of forwarded fid = Some (RS, f)"
      "req_layout L" "length resp = sizeof RS" "trace_of (recv_buf demo_close) = Some 77"
      "rpmsg_rpc_server_cb demo_rpc_env demo_os demo_close \<lparr>h_errno = 0, h_world = 0\<rparr> = map_option (\<lambda>(r, rp, s). (0, rp, s))
         (forward demo_rpc_env demo_os fid L RS f resp (recv_buf demo_close) (File (C_close 5)) \<lparr>h_errno = 0, h_world = 0\<rparr>)"
    by (rule client_call_served [OF demo_close_msg])
  show ?thesis unfolding m(5)
    using forward_forwarded [OF map_of_SomeD [OF m(1)] m(2-4), where sys = demo_os and s = "\<lparr>h_errno = 0, h_world = 0\<rparr>" and c = "File (C_close 5)" and env = demo_rpc_env]
    by (auto simp: demo_os_def)
qed

lemma demo_close_id: "call_id demo_close = Some CLOSE_ID" "length demo_close = 16"
  by (simp_all add: call_id_def demo_close_def le_nat_bytes)

theorem rpc_runs_call_witness:
  "\<exists>p. rpmsg_rpc_server_cb demo_rpc_env demo_os demo_close \<lparr>h_errno = 0, h_world = 0\<rparr> = Some (0, Some p, \<lparr>h_errno = 0, h_world = 1\<rparr>)
     \<and> rp_id p = CLOSE_ID \<and> carries rpc_close_resp ''ret'' 77 5 (- 1) p"
  using rpc_runs_call [OF demo_close_msg, where sys = demo_os and s = "\<lparr>h_errno = 0, h_world = 0\<rparr>" and env = demo_rpc_env]
  by (auto simp: demo_os_def demo_res_def errno_after_def marshal_def marshal_file_def forwarded_at)



text \<open>
  C27: A request that is too long for the receive buffer is answered with \<open>RPC_EOVERLONG\<close>, and one with a number that
  is not in the table of services with the status for an invalid number; both replies have the low 32 bits of the number and
  no parameters, and nothing is called on the host. The two numbers of the table that are equal have one handler, the first.
\<close>

theorem rpc_bad_request:
  fixes sys :: "'w os"
  assumes "call_id data = Some fid"
  shows "(length data > RPC_BUFFER_SIZE \<longrightarrow> rpmsg_rpc_server_cb env sys data s =
      Some (- EINVAL, Some \<lparr>rp_id = fid mod 2 ^ 32, rp_status = RPC_EOVERLONG, rp_params = []\<rparr>, s))
    \<and> (length data \<le> RPC_BUFFER_SIZE \<and> fid mod 2 ^ 32 \<notin> fst ` set (service_table :: (nat \<times> 'w handler) list) \<longrightarrow>
      rpmsg_rpc_server_cb env sys data s = Some (0, Some \<lparr>rp_id = fid mod 2 ^ 32, rp_status = re_invalid_id env, rp_params = []\<rparr>, s))"
proof -
  have "find_service (service_table :: (nat \<times> 'w handler) list) (fid mod 2 ^ 32) = None \<longleftrightarrow>
      fid mod 2 ^ 32 \<notin> fst ` set (service_table :: (nat \<times> 'w handler) list)"
    unfolding find_service_None set_map ..
  then show ?thesis using assms by (auto simp: rpmsg_rpc_server_cb_def rpc_server_send_def mem_read_def Let_def)
qed

theorem rpc_bad_request_witness:
  "rpmsg_rpc_server_cb demo_rpc_env demo_os (le_bytes 8 43) \<lparr>h_errno = 0, h_world = 0\<rparr> =
      Some (0, Some \<lparr>rp_id = 43, rp_status = 1, rp_params = []\<rparr>, \<lparr>h_errno = 0, h_world = 0\<rparr>)
   \<and> rpmsg_rpc_server_cb demo_rpc_env demo_os (le_bytes 8 2 @ replicate 2041 0) \<lparr>h_errno = 0, h_world = 0\<rparr> =
      Some (- EINVAL, Some \<lparr>rp_id = 2, rp_status = RPC_EOVERLONG, rp_params = []\<rparr>, \<lparr>h_errno = 0, h_world = 0\<rparr>)"
proof -
  have c: "call_id (le_bytes 8 43) = Some 43" "call_id (le_bytes 8 2 @ replicate 2041 0) = Some 2"
    by (simp_all add: call_id_def le_nat_bytes)
  have "43 \<notin> fst ` set (service_table :: (nat \<times> nat handler) list)" by (simp add: service_table_def)
  then show ?thesis
    using rpc_bad_request [OF c(1), of demo_rpc_env demo_os] rpc_bad_request [OF c(2), of demo_rpc_env demo_os]
    by (simp add: demo_rpc_env_def)
qed




text \<open>
  C29: The workers serve a call as the callback alone would: with room in the queue the request is
  appended to it, and the worker that takes it makes exactly the call of the client on the host and sends the reply with its value,
  error number and trace number, although the request then lies in a block without any byte behind it.
\<close>

theorem rpc_workers_run_call:
  fixes sys :: "'w os" and q :: "('w handler, (nat \<times> 'w handler) list) req_t rpc_queue"
  assumes "client_msg trace c = Some data" "rq_wf q" "rq_count q + 1 < rq_size q"
  shows "\<exists>fid L fas RS f q' r. marshal c = Some (fid, L, fas) \<and> map_of forwarded fid = Some (RS, f)
    \<and> rpmsg_rpc_server_cb_workers env no_mem True True ept data q = Some (0, None, q') \<and> rq_contents q' = rq_contents q @ [Some r]
    \<and> (case sys (h_world s) c of
         None \<Rightarrow> worker_serve env sys r s = None
       | Some (res, w) \<Rightarrow> \<exists>p. worker_serve env sys r s = Some (Some p, \<lparr>h_errno = 0, h_world = w\<rparr>)
           \<and> rp_id p = fid \<and> rp_status p = re_ok env \<and> carries RS f trace (errno_after res (h_errno s)) (sr_ret res) p)"
proof -
  obtain fid L fas RS f and h :: "'w handler" where h: "marshal c = Some (fid, L, fas)" "map_of forwarded fid = Some (RS, f)" "req_layout L"
      "fid mod 2 ^ 32 = fid" "find_service service_table fid = Some h"
      "\<forall>env sys s pad. \<exists>resp. length resp = sizeof RS
         \<and> h env sys (map Some data @ pad) s = forward env sys fid L RS f resp (map Some data @ pad) c s"
    by (rule client_call_handled [OF assms(1)])
  note r = client_msg_request [OF assms(1) h(1)]
  let ?r = "\<lparr>rq_data = data, rq_service = Some h, rq_inst = service_table, rq_priv = ept\<rparr> :: ('w handler, (nat \<times> 'w handler) list) req_t"
  have "find_service (service_table :: (nat \<times> 'w handler) list) (fid mod 2 ^ 32) = Some h" unfolding h(4) by (rule h(5))
  then obtain q' where q: "rpmsg_rpc_server_cb_workers env no_mem True True ept data q = Some (0, None, q')" "rq_contents q' = rq_contents q @ [Some ?r]"
    using workers_cb_found [OF r(2,1) _ assms(2,3)] by blast
  obtain resp where resp: "length resp = sizeof RS" "h env sys (map Some data) s = forward env sys fid L RS f resp (map Some data) c s"
    using h(6) [rule_format, of env sys "[]" s] by auto
  have "case sys (h_world s) c of
         None \<Rightarrow> worker_serve env sys ?r s = None
       | Some (res, w) \<Rightarrow> \<exists>p. worker_serve env sys ?r s = Some (Some p, \<lparr>h_errno = 0, h_world = w\<rparr>)
           \<and> rp_id p = fid \<and> rp_status p = re_ok env \<and> carries RS f trace (errno_after res (h_errno s)) (sr_ret res) p"
    using forward_forwarded [OF map_of_SomeD [OF h(2)] h(3) resp(1) r(3) [of "[]", unfolded append_Nil2],
        where sys = sys and s = s and c = c and env = env]
    by (auto simp: worker_serve_def resp(2) split: option.splits)
  then show ?thesis using h(1,2) q by blast
qed

definition demo_rpc_queue :: "(nat handler, (nat \<times> nat handler) list) req_t rpc_queue" where
  "demo_rpc_queue = \<lparr>rq_q = [None, None, None], rq_head = 0, rq_tail = 0, rq_size = 3\<rparr>"

theorem rpc_workers_run_call_witness:
  "\<exists>q' r p. rpmsg_rpc_server_cb_workers demo_rpc_env 0 True True 7 demo_close demo_rpc_queue = Some (0, None, q') \<and> rq_contents q' = [Some r]
     \<and> worker_serve demo_rpc_env demo_os r \<lparr>h_errno = 0, h_world = 0\<rparr> = Some (Some p, \<lparr>h_errno = 0, h_world = 1\<rparr>)
     \<and> rp_id p = CLOSE_ID \<and> carries rpc_close_resp ''ret'' 77 5 (- 1) p"
proof -
  have w: "rq_wf demo_rpc_queue" "rq_count demo_rpc_queue + 1 < rq_size demo_rpc_queue" "rq_contents demo_rpc_queue = []"
    by (simp_all add: demo_rpc_queue_def rq_wf_def rq_count_def rq_contents_def)
  show ?thesis
    using rpc_workers_run_call [OF demo_close_msg w(1,2), where sys = demo_os and s = "\<lparr>h_errno = 0, h_world = 0\<rparr>" and env = demo_rpc_env
        and no_mem = 0 and ept = 7] w(3)
    by (auto simp: demo_os_def demo_res_def errno_after_def marshal_def marshal_file_def forwarded_at)
qed

end
