(* ===== verification/Rpc_Service.thy ===== *)
theory Rpc_Service
  imports Service_Contract Rpc_Backend
begin

text \<open>
  The life of the RPC service (\<open>services/rpc/rpmsg_rpc.c\<close> and the set-up and tear-down in
  \<open>rpc_backend.c\<close>). The log descriptor, the output stream and the table of the server are variables of the
  process, shared by all clients; an endpoint is created for every client that announces the name of the service.
\<close>

section \<open>State\<close>

abbreviation RPMSG_RPC_EPT_NAME :: string where "RPMSG_RPC_EPT_NAME \<equiv> ''rpmsg-rpc''"
abbreviation STDOUT_FILENO :: int where "STDOUT_FILENO \<equiv> 1"

text \<open>
  \<open>sw_fds\<close> and \<open>sw_files\<close> are the descriptors and streams that this code has opened and not closed;
  \<open>sw_blocks\<close> the allocated endpoints and \<open>sw_epts\<close> those registered with the rpmsg device. \<open>sw_fault\<close> records
  that a stream was closed that was not open.
\<close>

record 'w rpc_svc_world =
  sw_lfd :: int
  sw_fp :: "nat option"
  sw_services :: "(nat \<times> 'w handler) list"
  sw_fds :: "int list"
  sw_files :: "nat list"
  sw_blocks :: "nat list"
  sw_epts :: "nat list"
  sw_next :: nat
  sw_sent :: "(nat \<times> string) list"
  sw_fault :: bool

record rpc_svc_env =
  sv_open :: int
  sv_fopen :: "nat option"
  sv_malloc :: bool
  sv_create_ept :: int

section \<open>Operations\<close>

definition rpmsg_init_rpc_server :: "(nat \<times> 'w handler) list option \<Rightarrow> 'w rpc_svc_world \<Rightarrow> int \<times> 'w rpc_svc_world" where
  "rpmsg_init_rpc_server services w =
     (case services of
        None \<Rightarrow> (- 1, w)
      | Some table \<Rightarrow> if length table = 0 then (- 1, w) else (0, w\<lparr>sw_services := table\<rparr>))"

definition rpmsg_rpc_service_init :: "rpc_svc_env \<Rightarrow> 'w rpc_svc_world \<Rightarrow> int \<times> 'w rpc_svc_world" where
  "rpmsg_rpc_service_init env w =
     (let w = (if sv_open env < 0 then w\<lparr>sw_lfd := STDOUT_FILENO\<rparr> else w\<lparr>sw_lfd := sv_open env, sw_fds := sv_open env # sw_fds w\<rparr>);
          w = w\<lparr>sw_fp := sv_fopen env\<rparr> in
      case sv_fopen env of
        None \<Rightarrow> (- ENOMEM, if sw_lfd w \<noteq> STDOUT_FILENO then w\<lparr>sw_fds := remove1 (sw_lfd w) (sw_fds w)\<rparr> else w)
      | Some f \<Rightarrow> rpmsg_init_rpc_server (Some service_table) (w\<lparr>sw_files := f # sw_files w\<rparr>))"

text \<open>The variables keep their values.\<close>

definition rpmsg_rpc_service_terminate :: "'w rpc_svc_world \<Rightarrow> 'w rpc_svc_world" where
  "rpmsg_rpc_service_terminate w =
     (let w = (case sw_fp w of
                 None \<Rightarrow> w
               | Some f \<Rightarrow> w\<lparr>sw_files := remove1 f (sw_files w), sw_fault := (sw_fault w \<or> f \<notin> set (sw_files w))\<rparr>) in
      if sw_lfd w \<noteq> STDOUT_FILENO then w\<lparr>sw_fds := remove1 (sw_lfd w) (sw_fds w)\<rparr> else w)"

text \<open>The block of an endpoint that is unbound is not freed.\<close>

definition rpmsg_rpc_unbind :: "nat \<Rightarrow> 'w rpc_svc_world \<Rightarrow> 'w rpc_svc_world" where
  "rpmsg_rpc_unbind h w = w\<lparr>sw_epts := remove1 h (sw_epts w)\<rparr>"

definition rpc_service_init :: "rpc_svc_env \<Rightarrow> 'w rpc_svc_world \<Rightarrow> 'w rpc_svc_world" where
  "rpc_service_init env w =
     (if \<not> sv_malloc env then w
      else
        let h = sw_next w; w = w\<lparr>sw_next := h + 1, sw_blocks := h # sw_blocks w\<rparr> in
        if sv_create_ept env \<noteq> 0 then w\<lparr>sw_blocks := remove1 h (sw_blocks w)\<rparr>
        else w\<lparr>sw_epts := h # sw_epts w, sw_sent := sw_sent w @ [(h, ''first message from rpc_service!'')]\<rparr>)"

definition rpc_name_match :: "string \<Rightarrow> bool" where
  "rpc_name_match name \<longleftrightarrow> cstr name = RPMSG_RPC_EPT_NAME"

definition remove_rpc_service :: "'w rpc_svc_world \<Rightarrow> 'w rpc_svc_world" where
  "remove_rpc_service w = rpmsg_rpc_service_terminate w"

definition rpmsg_rpc_service :: "('w rpc_svc_world \<Rightarrow> rpc_svc_env) \<Rightarrow> 'w rpc_svc_world mica_service" where
  "rpmsg_rpc_service env = \<lparr>ms_name = RPMSG_RPC_EPT_NAME, ms_init = None, ms_remove = Some remove_rpc_service,
     ms_rpmsg_ns_match = Some (\<lambda>name addr dest. rpc_name_match name),
     ms_rpmsg_ns_bind_cb = Some (\<lambda>name addr dest w. rpc_service_init (env w) w), ms_get_match_device = None\<rparr>"

text \<open>The result of the set-up is not looked at.\<close>

definition create_rpmsg_rpc_service ::
  "('w rpc_svc_world \<Rightarrow> rpmsg_endpoint list) \<Rightarrow> bool \<Rightarrow> ('w rpc_svc_world \<Rightarrow> rpc_svc_env) \<Rightarrow> 'w rpc_svc_world svc_state
   \<Rightarrow> int \<times> 'w rpc_svc_world svc_state" where
  "create_rpmsg_rpc_service endpoints malloc_ok env st =
     (let (_, w) = rpmsg_rpc_service_init (env (ss_world st)) (ss_world st) in
      mica_register_service endpoints malloc_ok (st\<lparr>ss_world := w\<rparr>) (rpmsg_rpc_service env))"

section \<open>Invariant\<close>

text \<open>Every endpoint lies in an allocated block of its own, and the table of the server is empty or complete.\<close>

definition rpc_svc_inv :: "'w rpc_svc_world \<Rightarrow> bool" where
  "rpc_svc_inv w \<longleftrightarrow> distinct (sw_epts w) \<and> set (sw_epts w) \<subseteq> set (sw_blocks w) \<and> distinct (sw_blocks w)
     \<and> (\<forall>h \<in> set (sw_blocks w). h < sw_next w) \<and> sw_services w \<in> {[], service_table}"

lemma rpc_service_init_inv: "rpc_svc_inv w \<Longrightarrow> rpc_svc_inv (rpc_service_init env w)"
  by (auto simp: rpc_service_init_def rpc_svc_inv_def Let_def less_Suc_eq)

lemma terminate_inv: "rpc_svc_inv w \<Longrightarrow> rpc_svc_inv (rpmsg_rpc_service_terminate w)"
  by (simp add: rpmsg_rpc_service_terminate_def rpc_svc_inv_def Let_def split: option.splits)

lemma rpmsg_rpc_unbind_inv: "rpc_svc_inv w \<Longrightarrow> rpc_svc_inv (rpmsg_rpc_unbind h w)"
  using set_remove1_subset [of h "sw_epts w"] by (auto simp: rpmsg_rpc_unbind_def rpc_svc_inv_def)

lemma rpmsg_rpc_service_init_inv: "rpc_svc_inv w \<Longrightarrow> rpc_svc_inv (snd (rpmsg_rpc_service_init env w))"
  by (auto simp: rpmsg_rpc_service_init_def rpmsg_init_rpc_server_def rpc_svc_inv_def Let_def split: option.splits)

interpretation rpcs: service_contract "range rpmsg_rpc_service" rpc_svc_inv
proof unfold_locales
  fix svc :: "'a rpc_svc_world mica_service" and f and w :: "'a rpc_svc_world"
  assume "svc \<in> range rpmsg_rpc_service"
  then obtain env where e: "svc = rpmsg_rpc_service env" by blast
  assume i: "rpc_svc_inv w"
  show "ms_init svc = Some f \<Longrightarrow> rpc_svc_inv (f w)" by (simp add: e rpmsg_rpc_service_def)
  show "ms_remove svc = Some f \<Longrightarrow> rpc_svc_inv (f w)"
    using terminate_inv [OF i] by (auto simp: e rpmsg_rpc_service_def remove_rpc_service_def)
  show "ms_rpmsg_ns_bind_cb svc = Some b \<Longrightarrow> rpc_svc_inv (b name addr dest w)" for b name addr dest
    using rpc_service_init_inv [OF i] by (auto simp: e rpmsg_rpc_service_def)
qed

text \<open>So every endpoint that the rpmsg device calls is an allocated one, after any use of the registry.\<close>

lemma rpc_endpoints_live:
  assumes "rpc_svc_inv (ss_world st)" "mc_services (ss_client st) = []" "\<forall>ev \<in> set evs. registered_from (range rpmsg_rpc_service) ev"
  shows "rpc_svc_inv (ss_world (registry_run endpoints mem_ok evs st))"
proof -
  have "rpcs.client_inv st" using assms(1,2) by (simp add: rpcs.client_inv_def)
  then have "rpcs.client_inv (registry_run endpoints mem_ok evs st)" by (rule rpcs.registry_keeps) (use assms(3) in blast)
  then show ?thesis by (simp add: rpcs.client_inv_def)
qed

section \<open>Properties\<close>

text \<open>The service is set up: its stream and its log are open, and nothing else.\<close>

definition rpc_svc_open :: "'w rpc_svc_world \<Rightarrow> bool" where
  "rpc_svc_open w \<longleftrightarrow> (case sw_fp w of None \<Rightarrow> False | Some f \<Rightarrow> sw_files w = [f])
     \<and> sw_fds w = (if sw_lfd w = STDOUT_FILENO then [] else [sw_lfd w]) \<and> \<not> sw_fault w \<and> sw_services w = service_table"

lemma rpc_service_init_open: "rpc_svc_open (rpc_service_init env w) = rpc_svc_open w"
  by (cases "sw_fp w") (simp_all add: rpc_service_init_def rpc_svc_open_def Let_def)

lemma service_init_opens:
  assumes "sw_files w = []" "sw_fds w = []" "\<not> sw_fault w" "sv_fopen env = Some f" "sv_open env \<noteq> STDOUT_FILENO"
  shows "fst (rpmsg_rpc_service_init env w) = 0 \<and> rpc_svc_open (snd (rpmsg_rpc_service_init env w))"
proof -
  have "service_table \<noteq> []" by (simp add: service_table_def)
  then show ?thesis using assms by (simp add: rpmsg_rpc_service_init_def rpmsg_init_rpc_server_def rpc_svc_open_def Let_def)
qed

lemma terminate_closes:
  "rpc_svc_open w \<Longrightarrow> sw_files (rpmsg_rpc_service_terminate w) = [] \<and> sw_fds (rpmsg_rpc_service_terminate w) = []
     \<and> \<not> sw_fault (rpmsg_rpc_service_terminate w)"
  by (auto simp: rpmsg_rpc_service_terminate_def rpc_svc_open_def Let_def split: option.splits)

text \<open>The client has this service only, and it is set up.\<close>

definition rpc_client :: "'w rpc_svc_world svc_state \<Rightarrow> bool" where
  "rpc_client st \<longleftrightarrow> (\<exists>env. mc_services (ss_client st) = [rpmsg_rpc_service env]) \<and> rpc_svc_open (ss_world st)"

lemma create_rpc_client:
  assumes "sw_files (ss_world st) = []" "sw_fds (ss_world st) = []" "\<not> sw_fault (ss_world st)" "mc_services (ss_client st) = []"
    and "sv_fopen (env (ss_world st)) = Some f" "sv_open (env (ss_world st)) \<noteq> STDOUT_FILENO"
    and "create_rpmsg_rpc_service endpoints True env st = (0, st')"
  shows "rpc_client st'"
proof -
  obtain r w where w: "rpmsg_rpc_service_init (env (ss_world st)) (ss_world st) = (r, w)" by (cases "rpmsg_rpc_service_init (env (ss_world st)) (ss_world st)")
  have op: "rpc_svc_open w" using service_init_opens [OF assms(1-3,5,6)] w by simp
  let ?st = "st\<lparr>ss_world := w\<rparr>" and ?match = "\<lambda>name (addr :: u32) (dest :: u32). rpc_name_match name"
    and ?bind = "\<lambda>(name :: string) (addr :: u32) (dest :: u32) w. rpc_service_init (env w) w"
  obtain rs st1 where b: "bind_pending endpoints ?match ?bind (ss_remote_ept_list ?st) ?st = (rs, st1)"
    by (cases "bind_pending endpoints ?match ?bind (ss_remote_ept_list ?st) ?st")
  have "rpc_svc_open (ss_world st1)" by (rule bind_pending_world [OF b]) (simp_all add: op rpc_service_init_open)
  moreover have "mc_services (ss_client st1) = []" using bind_pending_eq [OF b] assms(4) by simp
  ultimately show ?thesis
    using assms(7) b w by (auto simp: create_rpmsg_rpc_service_def mica_register_service_def rpmsg_rpc_service_def rpc_client_def split: if_splits)
qed

lemma announce_rpc_client: "rpc_client st \<Longrightarrow> rpc_client (mica_ns_bind_cb endpoints mem_ok st name dest)"
  by (auto simp: rpc_client_def mica_ns_bind_cb_def rpmsg_rpc_service_def rpc_service_init_open Let_def client_rsc_update_simps)

lemma announces_rpc_client:
  "rpc_client st \<Longrightarrow> list_all (\<lambda>ev. case ev of Ev_announce name dest \<Rightarrow> True | _ \<Rightarrow> False) evs \<Longrightarrow> rpc_client (registry_run endpoints mem_ok evs st)"
  by (induction evs arbitrary: st) (auto simp: announce_rpc_client split: registry_event.splits)

text \<open>
  C31: A client that gets the RPC service and loses it again leaves nothing open: when the service was created on a
  clean state with its output file, then after any announcements of names and the removal of the services of the
  client the stream and the log are closed, each once, and no service is left.
\<close>

theorem rpc_service_releases:
  assumes "sw_files (ss_world st) = []" "sw_fds (ss_world st) = []" "\<not> sw_fault (ss_world st)" "mc_services (ss_client st) = []"
    and "sv_fopen (env (ss_world st)) = Some f" "sv_open (env (ss_world st)) \<noteq> STDOUT_FILENO"
    and "create_rpmsg_rpc_service endpoints True env st = (0, st')"
    and "list_all (\<lambda>ev. case ev of Ev_announce name dest \<Rightarrow> True | _ \<Rightarrow> False) evs"
  shows "let st'' = mica_unregister_all_services (registry_run endpoints mem_ok evs st') in
    mc_services (ss_client st'') = [] \<and> sw_files (ss_world st'') = [] \<and> sw_fds (ss_world st'') = [] \<and> \<not> sw_fault (ss_world st'')"
proof -
  have "rpc_client (registry_run endpoints mem_ok evs st')"
    by (rule announces_rpc_client [OF create_rpc_client [OF assms(1-7)] assms(8)])
  then show ?thesis
    using terminate_closes [of "ss_world (registry_run endpoints mem_ok evs st')"] by (auto simp: rpc_client_def mica_unregister_all_services_def rpmsg_rpc_service_def remove_rpc_service_def Let_def)
qed

definition demo_rpc_svc :: "nat rpc_svc_world svc_state" where
  "demo_rpc_svc = \<lparr>ss_client = \<lparr>mc_debug = False, mc_gdb_server_thread = False, mc_path = ''fw.elf'',
       mc_ped_cfg = [], mc_cpu_id = 3, mc_ped = BARE_METAL,
       mc_rproc = \<lparr>rp_state = RPROC_RUNNING, rp_rsc_table = None, rp_rsc_len = 0, rp_bitmap = 0, rp_bootaddr = 0, rp_mems = []\<rparr>,
       mc_phys_shmem_start = 0, mc_shmem_size = 0, mc_virt_shmem_start = 0, mc_virt_shmem_end = 0,
       mc_unused_shmem_start = 0, mc_vdev_shpool = None, mc_rdev = None, mc_rbuf_dev = None, mc_services = []\<rparr>,
     ss_remote_ept_list = [],
     ss_world = \<lparr>sw_lfd = 0, sw_fp = None, sw_services = [], sw_fds = [], sw_files = [], sw_blocks = [], sw_epts = [], sw_next = 0,
       sw_sent = [], sw_fault = False\<rparr>\<rparr>"

definition demo_rpc_sv :: rpc_svc_env where
  "demo_rpc_sv = \<lparr>sv_open = 5, sv_fopen = Some 4096, sv_malloc = True, sv_create_ept = 0\<rparr>"

theorem rpc_service_releases_witness:
  "\<exists>st'. create_rpmsg_rpc_service (\<lambda>w. []) True (\<lambda>w. demo_rpc_sv) demo_rpc_svc = (0, st') \<and> sw_files (ss_world st') = [4096]
     \<and> sw_epts (ss_world (mica_ns_bind_cb (\<lambda>w. []) (\<lambda>r. True) st' ''rpmsg-rpc'' 7)) = [0]
     \<and> sw_files (ss_world (mica_unregister_all_services (mica_ns_bind_cb (\<lambda>w. []) (\<lambda>r. True) st' ''rpmsg-rpc'' 7))) = []"
proof -
  define st' where "st' = snd (create_rpmsg_rpc_service (\<lambda>w. []) True (\<lambda>w. demo_rpc_sv) demo_rpc_svc)"
  have t: "service_table \<noteq> ([] :: (nat \<times> nat handler) list)" by (simp add: service_table_def)
  have c: "create_rpmsg_rpc_service (\<lambda>w. []) True (\<lambda>w. demo_rpc_sv) demo_rpc_svc = (0, st')"
      "sw_files (ss_world st') = [4096]" "sw_epts (ss_world (mica_ns_bind_cb (\<lambda>w. []) (\<lambda>r. True) st' ''rpmsg-rpc'' 7)) = [0]"
    using t by (simp_all add: st'_def create_rpmsg_rpc_service_def rpmsg_rpc_service_init_def rpmsg_init_rpc_server_def mica_register_service_def
        rpmsg_rpc_service_def demo_rpc_sv_def demo_rpc_svc_def mica_ns_bind_cb_def rpc_name_match_def cstr_def rpc_service_init_def Let_def)
  show ?thesis
    using rpc_service_releases [OF _ _ _ _ _ _ c(1), of 4096 "[Ev_announce ''rpmsg-rpc'' 7]" "\<lambda>r. True"] c
    by (auto simp: demo_rpc_svc_def demo_rpc_sv_def Let_def)
qed

text \<open>The variables of the process are shared: a second removal closes the stream again.\<close>

lemma rpc_double_close: "rpc_svc_open w \<Longrightarrow> sw_fault (rpmsg_rpc_service_terminate (rpmsg_rpc_service_terminate w))"
  by (auto simp: rpmsg_rpc_service_terminate_def rpc_svc_open_def Let_def split: option.splits)

text \<open>A second set-up forgets the stream and the log of the first.\<close>

lemma rpc_second_init_leaks:
  assumes "rpc_svc_open w" "sw_fp w = Some f" "sv_fopen env = Some g" "f \<noteq> g"
  shows "f \<in> set (sw_files (rpmsg_rpc_service_terminate (snd (rpmsg_rpc_service_init env w))))"
  using assms by (auto simp: rpmsg_rpc_service_terminate_def rpmsg_rpc_service_init_def rpmsg_init_rpc_server_def rpc_svc_open_def Let_def)

text \<open>Without the output file the service is registered all the same, with an empty table.\<close>

lemma rpc_registered_without_table:
  assumes "sv_fopen (env (ss_world st)) = None" "create_rpmsg_rpc_service endpoints True env st = (0, st')" "sw_services (ss_world st) = []"
    and "ss_remote_ept_list st = []"
  shows "sw_services (ss_world st') = [] \<and> mc_services (ss_client st') \<noteq> []"
  using assms by (auto simp: create_rpmsg_rpc_service_def mica_register_service_def rpmsg_rpc_service_def rpmsg_rpc_service_init_def Let_def
      split: if_splits prod.splits)

end
