(* ===== verification/Spec2Isabelle.thy ===== *)
theory Spec2Isabelle
  imports Ring_Buffer Ring_Spsc Shm_Pool Rsc_Table Rpmsg_Service Rpc_Queue Mcs_Km Mica_Lifecycle Baremetal Jailhouse
    Rpmsg_Pty Rpmsg_Umt Socket_Listener Micactl Mica_Debug Micad_Main Rpc_Calls Rpc_Service
begin

text \<open>
  Verification of the mcs repository (mixed-criticality support of openEuler): the mica daemon with its
  services, the library under it, the command line tool and the mcs kernel module. Linux runs on some
  processors of a machine and a client OS on others; both share memory and interrupts. All paths below are under \<open>src/\<close>.

  \<^bold>\<open>The parts and how they work together.\<close> The tool (\<open>mica/micactl/mica.py\<close>) sends packed requests to the sockets of
  the daemon (\<open>mica/micad/main.c\<close>, \<open>socket_listener.c\<close>). The daemon creates a client and drives its life cycle
  through the library (\<open>library/mica/mica.c\<close>, \<open>remoteproc/remoteproc_core.c\<close>) on one of two pedestals
  (\<open>baremetal_rproc.c\<close> over the kernel module \<open>mcs_km/mcs_km.c\<close>, or \<open>jailhouse_rproc.c\<close>). A running client has a rpmsg device
  (\<open>rpmsg_device/rpmsg_vdev.c\<close>) in shared memory from a pool (\<open>memory/shm_pool.c\<close>) and, when it is debugged, a pair of ring buffers
  (\<open>rbuf_device\<close>). Services register with the client (\<open>rpmsg_device/rpmsg_service.c\<close>) and are bound to the
  endpoint names that the client OS announces: terminals (\<open>services/pty\<close>), user messages (\<open>services/umt\<close>
  with \<open>library/user_msg\<close>), remote calls (\<open>services/rpc\<close>) and the gdb proxy (\<open>services/debug\<close>).

  \<^bold>\<open>Conventions.\<close> \<open>Mcs_Prelude\<close> has the integer types of the C sources as words, the errno numbers, bounds-checked access to
  memory regions and the type \<open>outcome\<close>: a result, \<open>Fault\<close> for an access or a release that C leaves undefined, \<open>Spinning\<close> for a loop
  or a wait that goes on. The accesses of \<open>Ring_Buffer\<close> and the handlers of the RPC server use the option type instead, with \<open>None\<close> for undefined
  behaviour. What lies outside the sources is a parameter: OpenAMP, libmetal, the kernel, system calls and allocation are fields of an
  environment record or functions; what a theorem needs of them is among its assumptions. State is passed explicitly; where
  threads, processes or processors run together they are steps of an inductive relation, and a theorem on its reachable states covers every interleaving.

  \<^bold>\<open>Ring buffers and queues.\<close> \<open>Ring_Buffer\<close> (\<open>rbuf_device/ring_buffer.c\<close>) has a kfifo with free running 32-bit indices and shows through the
  locale \<open>fifo_lts\<close> that it is a bounded FIFO. This needs that the ring length divides \<open>2 ^ 32\<close> or that the indices have not
  wrapped; the capacity that \<open>ring_buffer_pair_init\<close> sets is the area less 16 bytes, which in general does not divide it, so that for such a ring the
  theorems cover the first \<open>2 ^ 32\<close> bytes. \<open>Ring_Spsc\<close> takes the steps of a put and a get apart, for a writer and a reader on two
  processors. \<open>Rpc_Queue\<close> (\<open>services/rpc/rpc_workers.c\<close>) interprets the same locale with the queue of requests, and shows
  that five workers together serve no request twice and lose none.

  \<^bold>\<open>Library.\<close> \<open>Mica_Client\<close> and \<open>Mica_State\<close> have the shared data. \<open>Shm_Pool\<close> (\<open>memory/shm_pool.c\<close>): regions are disjoint and inside the
  pool. \<open>Rsc_Table\<close> (\<open>remoteproc/mica_rsc_table.c\<close>): up to 64 bound endpoints are restored from the resource table as they were
  recorded, those with remote address 0 excepted. \<open>Rpmsg_Service\<close> (\<open>rpmsg_device/rpmsg_service.c\<close>): in every order of registrations and announcements no endpoint that
  a service wants is left waiting; the listing keeps to its buffer. \<open>Rpmsg_Vdev\<close> (\<open>rpmsg_vdev.c\<close>): where vrings and buffers are placed, and that the
  creation of the device is all or nothing. \<open>Rbuf_Dev\<close> (\<open>rbuf_dev.c\<close>): the ring device, whose failed creation leaves a dangling
  pointer (\<open>create_rbuf_device_dangles\<close>). \<open>Mica_Lifecycle\<close> (\<open>mica.c\<close>, \<open>remoteproc_core.c\<close>): create, start, stop, remove and status; for a debugged client the result
  of a start does not depend on the rpmsg device. \<open>Baremetal\<close> and \<open>Jailhouse\<close>: the operations of the two pedestals, what they release and how their
  waits end. \<open>User_Msg\<close> (\<open>library/user_msg\<close>): a process that returns with an answer has the answer to its own message.

  \<^bold>\<open>Kernel module, daemon and tool.\<close> \<open>Mcs_Km\<close>: loading and unloading, which ranges are mapped, polling, starting a processor.
  \<open>Socket_Listener\<close>: in every state reached after a successful registration the listeners own exactly the open descriptors and socket
  files. \<open>Micactl\<close>: the request that the tool packs is the one the daemon reads, and from the tool to the
  daemon a creation does what the answer says. \<open>Micad_Main\<close>: a daemon that registered its listener leaves nothing behind.

  \<^bold>\<open>Services.\<close> \<open>Service_Contract\<close> is the interface between the registry and a service: callbacks that keep an invariant keep it through any use of
  the registry. It is interpreted for \<open>Rpmsg_Pty\<close> (\<open>tty\<close>; as long as the slave side of a terminal can be opened), \<open>Rpmsg_Umt\<close> (\<open>umt\<close>),
  \<open>Rpc_Service\<close> (\<open>rpcs\<close>) and \<open>Mica_Debug\<close> (\<open>dbgs\<close>). \<open>Mica_Debug\<close> also has the proxy and the threads between gdb and the client OS: no byte is
  lost, repeated or reordered, within the bound on ring traffic above.

  \<^bold>\<open>Remote calls.\<close> \<open>C_Format\<close> has printf conversions and integer encodings; \<open>C_Struct\<close> has C objects as bytes, indeterminate when never stored,
  and structure layouts with computed offsets. \<open>Rpc_Layout\<close> has the structures and numbers of \<open>rpc_internal_model.h\<close>, \<open>Rpc_Codec\<close> the encodings of
  \<open>rpc_helper.c\<close> with their round trips. \<open>Rpc_Server\<close> has what the handlers of \<open>rpc_backend.c\<close> share, with the host as a function of its
  state and a call, and two collections of rules: \<open>answering\<close>, that a handler answers its request, and \<open>passing\<close>, that it passes its call on.
  \<open>Rpc_Files\<close>, \<open>Rpc_Stdio\<close> and \<open>Rpc_Sockets\<close> have the 83 handlers, \<open>Rpc_Backend\<close> the table and the callback in both build variants.
  \<open>Rpc_Calls\<close> adds a client that lays out the arguments of 47 calls: the server makes the same call and replies with its value, error number and
  trace number, at once or through a worker when the queue has room and memory is available. For arbitrary bytes a reply has the size
  and number of its response structure, if the host stores as many bytes as it reports; \<open>getcwd\<close> and \<open>getaddrinfo\<close> can refuse without a reply.
  A request on which a handler reads what was not received, or the host has undefined behaviour, has no result, and these theorems say nothing more of it.

  \<^bold>\<open>Bounds.\<close> Loops that wait for another party or for input take the list of what each turn observes and give \<open>Spinning\<close> when it is used
  up; a theorem that such a loop ends says which observation ends it. There is no other fuel: all other loops are total functions. Buffer
  sizes and limits are those of the sources.

  \<^bold>\<open>Not modelled.\<close> Log output, which is taken not to change \<open>errno\<close>. In \<open>rpc_internal_model.h\<close>, the structures \<open>rpc_*_outp\<close> and those of
  \<open>ncpyread\<close>, \<open>ncpywrite\<close> and \<open>flockfile\<close>, which no handler uses. What the handlers free at their end when built with \<open>MULTI_WORKERS\<close>. Weak memory: the
  accesses of a processor take effect in the order of the program. Contents of the shared memory pool outside the rings. The test variant of the ring device. Argument
  parsing, completion and fixed output of the tool. Demonstrations and tests (\<open>test\<close>), scripts and packaging (\<open>tools\<close>, \<open>scripts\<close>,
  \<open>mica/micad/init\<close>, \<open>setup.py\<close>) and client images (\<open>rtos\<close>), which are not code of the running system.
\<close>

end
